(* ===== verification/Prelude.thy ===== *)
theory Prelude
  imports Main "HOL-Library.Multiset" "HOL-Library.Sublist" "HOL-Library.List_Lexorder" "HOL-Library.Char_ord"
begin

text \<open>
  Shared vocabulary of the development: the collections of facts the component
  proofs use, and generic lemmas on lists keyed by a field (the task list of the
  store is such a list, keyed by \<open>id\<close> and ordered by \<open>order_index\<close>), on stable
  sorting by a key (JavaScript's \<open>Array.prototype.sort\<close> with a comparator, stable
  since ES2019, is \<open>sort_key\<close>) and on association lists (the rows of the
  IndexedDB table).
\<close>

named_theorems store_defs "definitions of the store operations, unfolded to evaluate a concrete run"
named_theorems keyed_simps "rewrite rules for lists of records addressed by a key field"

text \<open>Text outside ASCII is written as its UTF-8 bytes.\<close>

definition utf8 :: "nat list \<Rightarrow> string" where
  "utf8 bs = map char_of bs"

section \<open>Lists of records addressed by a key\<close>

text \<open>
  \<open>xs.map(t => t.id === k ? g(t) : t)\<close>: every element with key \<open>k\<close> is
  replaced, the others are kept.
\<close>

definition map_where :: "('a \<Rightarrow> 'k) \<Rightarrow> 'k \<Rightarrow> ('a \<Rightarrow> 'a) \<Rightarrow> 'a list \<Rightarrow> 'a list" where
  "map_where key k g xs = map (\<lambda>t. if key t = k then g t else t) xs"

text \<open>\<open>xs.find(t => t.id === k)\<close>, \<open>undefined\<close> being \<open>None\<close>.\<close>

definition find_key :: "('a \<Rightarrow> 'k) \<Rightarrow> 'k \<Rightarrow> 'a list \<Rightarrow> 'a option" where
  "find_key key k xs = find (\<lambda>t. key t = k) xs"

lemma map_where_Nil [simp, keyed_simps]: "map_where key k g [] = []"
  by (simp add: map_where_def)

lemma map_where_Cons [simp, keyed_simps]:
  "map_where key k g (x # xs) = (if key x = k then g x else x) # map_where key k g xs"
  by (simp add: map_where_def)

lemma find_key_Nil [simp, keyed_simps]: "find_key key k [] = None"
  by (simp add: find_key_def)

lemma find_key_Cons [simp, keyed_simps]:
  "find_key key k (x # xs) = (if key x = k then Some x else find_key key k xs)"
  by (simp add: find_key_def)

lemma length_map_where [simp]: "length (map_where key k g xs) = length xs"
  by (simp add: map_where_def)

lemma map_where_absent [simp]: "k \<notin> key ` set xs \<Longrightarrow> map_where key k g xs = xs"
  by (induction xs) auto

lemma find_key_None_iff: "find_key key k xs = None \<longleftrightarrow> k \<notin> key ` set xs"
  by (induction xs) auto

lemma find_key_Some: "find_key key k xs = Some t \<Longrightarrow> t \<in> set xs \<and> key t = k"
  by (induction xs) (auto split: if_splits)

lemma find_key_distinct:
  "distinct (map key xs) \<Longrightarrow> t \<in> set xs \<Longrightarrow> find_key key (key t) xs = Some t"
  by (induction xs) auto

text \<open>Replacing the element found under its key by that very element changes nothing.\<close>

lemma map_where_restore:
  assumes "distinct (map key xs)" and "t \<in> set xs" and "key (g t) = key t"
  shows "map_where key (key t) (\<lambda>_. t) (map_where key (key t) g xs) = xs"
  using assms by (induction xs) auto

lemma map_map_where_key:
  "(\<And>t. key (g t) = key t) \<Longrightarrow> map key (map_where key k g xs) = map key xs"
  by (induction xs) auto

lemma find_key_map_where:
  "(\<And>x. key (g x) = key x) \<Longrightarrow>
     find_key key k (map_where key k g xs) = map_option g (find_key key k xs)"
  by (induction xs) auto

lemma find_key_map_where_const:
  "key t = k \<Longrightarrow>
     find_key key k (map_where key k (\<lambda>_. t) xs) = map_option (\<lambda>_. t) (find_key key k xs)"
  by (induction xs) auto

lemma filter_key_absent [simp]:
  "k \<notin> key ` set xs \<Longrightarrow> filter (\<lambda>t. key t \<noteq> k) xs = xs"
  by (induction xs) auto

lemma those_map_Some [simp]: "those (map Some xs) = Some xs"
  by (induction xs) auto

lemma those_map_Some_comp [simp]: "those (map (Some \<circ> f) xs) = Some (map f xs)"
  by (induction xs) auto

lemma those_None_iff: "those xs = None \<longleftrightarrow> None \<in> set xs"
  by (induction xs) (auto split: option.splits)

section \<open>Stable sorting by a key\<close>

text \<open>
  A list sorted by an injective key is the only sorted arrangement of its elements,
  so sorting any permutation of it by that key gives it back. This is what makes the
  \<open>.sort((a, b) => a.order_index - b.order_index)\<close> of the undo branches a
  restoration, and what fails when the keys collide or the list was not sorted.
\<close>

lemma sort_key_restores:
  assumes sorted: "sorted (map f xs)" and dist: "distinct (map f xs)"
    and perm: "mset ys = mset xs"
  shows "sort_key f ys = xs"
proof -
  have set_eq: "set (sort_key f ys) = set xs"
    using perm by (metis mset_eq_setD set_sort)
  have m: "mset (map f (sort_key f ys)) = mset (map f xs)"
    using perm by simp
  have "distinct (map f (sort_key f ys))"
    using mset_eq_imp_distinct_iff [OF m] dist by blast
  moreover have "inj_on f (set (sort_key f ys) \<union> set xs)"
    using dist set_eq by (simp add: distinct_map)
  ultimately show ?thesis
    using sorted set_eq dist by (intro map_sorted_distinct_set_unique) (simp_all add: sorted_sort_key)
qed

lemma sorted_distinct_map_filter:
  "sorted (map f xs) \<Longrightarrow> sorted (map f (filter P xs))"
  "distinct (map f xs) \<Longrightarrow> distinct (map f (filter P xs))"
  by (induction xs) auto

section \<open>Association lists with distinct keys\<close>

lemma mset_filter_split:
  "mset xs = mset (filter P xs) + mset (filter (\<lambda>x. \<not> P x) xs)"
  by (induction xs) simp_all

lemma distinct_map_filter_split:
  "distinct (map f xs) \<Longrightarrow> x \<in> set xs \<Longrightarrow> mset xs = mset (x # filter (\<lambda>t. f t \<noteq> f x) xs)"
proof (induction xs)
  case Nil
  then show ?case by simp
next
  case (Cons y ys)
  show ?case
  proof (cases "y = x")
    case True
    with Cons.prems have "f x \<notin> f ` set ys" by simp
    with True show ?thesis by simp
  next
    case False
    with Cons.prems have "x \<in> set ys" and "f y \<noteq> f x" by auto
    with Cons show ?thesis by simp
  qed
qed


lemma length_filter_mono:
  "(\<And>x. P x \<Longrightarrow> Q x) \<Longrightarrow> length (filter P xs) \<le> length (filter Q xs)"
  by (induction xs) auto


text \<open>The largest key, and the last element of a list sorted by a key.\<close>

lemma fold_max_ge_init: "(a::'a::linorder) \<le> fold max xs a"
  by (induction xs arbitrary: a) (auto intro: order_trans [OF max.cobounded2])

lemma fold_max_ge: "x \<in> set xs \<Longrightarrow> x \<le> fold max xs (a::'a::linorder)"
  by (induction xs arbitrary: a) (auto intro: order_trans [OF max.cobounded1 fold_max_ge_init])

lemma sorted_le_last: "sorted (map f ys) \<Longrightarrow> y \<in> set ys \<Longrightarrow> f y \<le> f (last ys)"
proof (induction ys)
  case Nil
  then show ?case by simp
next
  case (Cons a ys)
  show ?case
  proof (cases "ys = []")
    case True
    then show ?thesis using Cons.prems by simp
  next
    case False
    then have "f a \<le> f (last ys)" using Cons.prems(1) by simp
    then show ?thesis using Cons False by auto
  qed
qed

lemma last_sort_key_max:
  assumes t: "t \<in> set xs" and gt: "\<forall>y \<in> set xs. y \<noteq> t \<longrightarrow> f y < f t"
  shows "last (sort_key f xs) = t"
proof (rule ccontr)
  let ?ys = "sort_key f xs"
  assume ne: "last ?ys \<noteq> t"
  have "?ys \<noteq> []" using t by (metis empty_iff list.set(1) set_sort)
  then have "last ?ys \<in> set xs" using last_in_set by fastforce
  then have "f (last ?ys) < f t" using gt ne by blast
  moreover have "f t \<le> f (last ?ys)" using sorted_le_last [of f ?ys t] t by (simp add: sorted_sort_key)
  ultimately show False by simp
qed

end
