(* ===== verification/Types.thy ===== *)
theory Types
  imports Prelude
begin

text \<open>
  The data model of \<open>src/src/types/index.ts\<close>: the task and its notes, the
  priority and filter enumerations, the \<open>Partial<Task>\<close> patches that
  \<open>updateTask\<close> and the Dexie \<open>update\<close> merge into a task, the input of
  \<open>addTask\<close> (\<open>Omit<Task, 'id' | 'created_at' | 'updated_at' | 'order_index'>\<close>),
  and the undo records.

  TypeScript's optional fields (\<open>description?: string\<close>) are \<open>option\<close>s. A patch
  (\<open>Partial<Task>\<close>) is merged with object spread, \<open>{...task, ...patch}\<close>: a
  key absent from the patch keeps the task's value, a key present overrides it, and a
  key present with value \<open>undefined\<close> clears an optional field. So a patch field of
  an optional task field has three states, \<open>None\<close> (absent), \<open>Some None\<close>
  (present, undefined) and \<open>Some (Some v)\<close>.

  A task object keeps such a key: after \<open>{...task, due_date: undefined}\<close> the key
  \<open>due_date\<close> is present and reads \<open>undefined\<close>, while a task loaded without a due
  date has no such key.  Reading the field cannot tell the two apart, but copying the
  object into a Dexie \<open>update\<close> can: a key holding \<open>undefined\<close> deletes the stored
  field, an absent key leaves it.  So a task records, beside its fields, the set
  \<open>undef_keys\<close> of optional keys it holds with the value \<open>undefined\<close> (each such
  field is \<open>None\<close>).
\<close>

datatype priority = Low | Medium | High

datatype task_filter = All | Active | Completed

datatype opt_key = K_description | K_due_date | K_completed_at

record task_note =
  note_id :: string
  content :: string
  note_created_at :: string

record task =
  task_id :: string
  title :: string
  description :: "string option"
  priority :: priority
  due_date :: "string option"
  created_at :: string
  updated_at :: string
  completed_at :: "string option"
  task_notes :: "task_note list"
  order_index :: int
  tags :: "string list"
  is_completed :: bool
  undef_keys :: "opt_key set"

record task_patch =
  p_id :: "string option"
  p_title :: "string option"
  p_description :: "string option option"
  p_priority :: "priority option"
  p_due_date :: "string option option"
  p_created_at :: "string option"
  p_updated_at :: "string option"
  p_completed_at :: "string option option"
  p_notes :: "task_note list option"
  p_order_index :: "int option"
  p_tags :: "string list option"
  p_is_completed :: "bool option"

definition empty_patch :: task_patch where
  "empty_patch = \<lparr>p_id = None, p_title = None, p_description = None, p_priority = None,
     p_due_date = None, p_created_at = None, p_updated_at = None, p_completed_at = None,
     p_notes = None, p_order_index = None, p_tags = None, p_is_completed = None\<rparr>"

text \<open>The optional keys after copying the keys of a patch over an object: a key the
  patch sets to a value no longer holds \<open>undefined\<close>; a key the patch holds as
  \<open>undefined\<close> is kept as such by object spread (\<open>keep\<close>) and deleted by Dexie's
  \<open>update\<close>.\<close>

definition spread_keys :: "bool \<Rightarrow> task_patch \<Rightarrow> opt_key set \<Rightarrow> opt_key set" where
  "spread_keys keep p ks =
     (let f = (\<lambda>k. case k of K_description \<Rightarrow> p_description p | K_due_date \<Rightarrow> p_due_date p
                          | K_completed_at \<Rightarrow> p_completed_at p)
      in Set.filter (\<lambda>k. f k = None) ks
         \<union> (if keep then set (filter (\<lambda>k. f k = Some None) [K_description, K_due_date, K_completed_at])
            else {}))"

text \<open>\<open>{...t, ...p}\<close>: the object spread of a patch over a task.\<close>

definition merge_patch :: "task \<Rightarrow> task_patch \<Rightarrow> task" where
  "merge_patch t p =
     \<lparr>task_id = case_option (task_id t) id (p_id p),
      title = case_option (title t) id (p_title p),
      description = case_option (description t) id (p_description p),
      priority = case_option (priority t) id (p_priority p),
      due_date = case_option (due_date t) id (p_due_date p),
      created_at = case_option (created_at t) id (p_created_at p),
      updated_at = case_option (updated_at t) id (p_updated_at p),
      completed_at = case_option (completed_at t) id (p_completed_at p),
      task_notes = case_option (task_notes t) id (p_notes p),
      order_index = case_option (order_index t) id (p_order_index p),
      tags = case_option (tags t) id (p_tags p),
      is_completed = case_option (is_completed t) id (p_is_completed p),
      undef_keys = spread_keys True p (undef_keys t)\<rparr>"

text \<open>
  The argument of \<open>addTask\<close>. The store fills in \<open>is_completed\<close>, \<open>notes\<close>
  and \<open>tags\<close> with \<open>??\<close> when the caller leaves them out, so they are options here.
\<close>

record task_input =
  in_title :: string
  in_description :: "string option"
  in_priority :: priority
  in_due_date :: "string option"
  in_completed_at :: "string option"
  in_notes :: "task_note list option"
  in_tags :: "string list option"
  in_is_completed :: "bool option"

subsection \<open>Undo records\<close>

datatype undo_action_type =
  Add_task | Update_task | Delete_task | Toggle_complete | Reorder_tasks | Clear_completed

text \<open>
  \<open>undoData\<close> is an open bag in the source (\<open>[key: string]: any\<close>) with four
  optional keys; which of them an entry carries is not tied to its \<open>type\<close> by the
  type system, only by the code that builds it.
\<close>

record undo_data =
  ud_tasks :: "task list option"
  ud_taskId :: "string option"
  ud_originalTask :: "task option"
  ud_originalTasks :: "task list option"

definition no_undo_data :: undo_data where
  "no_undo_data = \<lparr>ud_tasks = None, ud_taskId = None, ud_originalTask = None,
     ud_originalTasks = None\<rparr>"

text \<open>
  The human-readable \<open>description\<close> of an entry, a template string of the source
  (the Chinese message templates of \<open>taskStore.ts\<close>, such as the one for an added task with the title interpolated), kept as the template's name and its
  interpolated values.
\<close>

datatype undo_desc =
  Desc_add string | Desc_update string | Desc_delete string
  | Desc_toggle bool string | Desc_reorder | Desc_clear nat

record undo_action =
  action_id :: string
  action_type :: undo_action_type
  action_timestamp :: string
  action_description :: undo_desc
  undoData :: undo_data

subsection \<open>Facts about patches\<close>

text \<open>A key holds \<open>undefined\<close> after the copy when the patch does not have it and
  it held \<open>undefined\<close> before, or the patch holds it as \<open>undefined\<close> and the copy
  keeps such keys.\<close>

lemma spread_keys_iff:
  "k \<in> spread_keys keep p ks \<longleftrightarrow>
     (case (case k of K_description \<Rightarrow> p_description p | K_due_date \<Rightarrow> p_due_date p
            | K_completed_at \<Rightarrow> p_completed_at p) of
        None \<Rightarrow> k \<in> ks | Some None \<Rightarrow> keep | Some (Some _) \<Rightarrow> False)"
  by (cases k) (auto simp: spread_keys_def Let_def split: option.splits)

lemma spread_keys_empty [simp]: "spread_keys keep empty_patch ks = ks"
  by (auto simp: set_eq_iff spread_keys_iff empty_patch_def split: opt_key.splits)

text \<open>The keys after a write that sets \<open>completed_at\<close> to a value and leaves the
  other optional keys alone (the toggle that completes a task).\<close>

lemma spread_keys_completed [simp]:
  "p_description p = None \<Longrightarrow> p_due_date p = None \<Longrightarrow> p_completed_at p = Some (Some c) \<Longrightarrow>
   spread_keys keep p ks = ks - {K_completed_at}"
  by (auto simp: set_eq_iff spread_keys_iff split: opt_key.splits)

lemma merge_empty_patch [simp]: "merge_patch t empty_patch = t"
  unfolding merge_patch_def spread_keys_empty by (simp add: empty_patch_def)

lemma task_id_merge_patch [simp]:
  "p_id p = None \<Longrightarrow> task_id (merge_patch t p) = task_id t"
  by (simp add: merge_patch_def)

lemma order_index_merge_patch [simp]:
  "p_order_index p = None \<Longrightarrow> order_index (merge_patch t p) = order_index t"
  by (simp add: merge_patch_def)

text \<open>Each field of a merged task, read off the patch.\<close>

lemma merge_patch_sel [simp]:
  "title (merge_patch t p) = case_option (title t) id (p_title p)"
  "description (merge_patch t p) = case_option (description t) id (p_description p)"
  "priority (merge_patch t p) = case_option (priority t) id (p_priority p)"
  "due_date (merge_patch t p) = case_option (due_date t) id (p_due_date p)"
  "created_at (merge_patch t p) = case_option (created_at t) id (p_created_at p)"
  "updated_at (merge_patch t p) = case_option (updated_at t) id (p_updated_at p)"
  "completed_at (merge_patch t p) = case_option (completed_at t) id (p_completed_at p)"
  "task_notes (merge_patch t p) = case_option (task_notes t) id (p_notes p)"
  "tags (merge_patch t p) = case_option (tags t) id (p_tags p)"
  "is_completed (merge_patch t p) = case_option (is_completed t) id (p_is_completed p)"
  by (simp_all add: merge_patch_def)

lemmas patch_defs = merge_patch_def empty_patch_def no_undo_data_def

end
