(* ===== verification/Table.thy ===== *)
theory Table
  imports Types "HOL-Library.AList"
begin

text \<open>
  The persistent store: the \<open>tasks\<close> table of the Dexie database declared in
  \<open>src/src/services/database/db.ts\<close> (primary key \<open>id\<close>, index
  \<open>order_index\<close>). Dexie and IndexedDB are libraries the sources only call; their
  behaviour is taken from the spec's description of the persistent store (section 6)
  and from Dexie's documented semantics:
  \<^item> \<open>add\<close> stores a new row and fails with a constraint error when the key exists;
  \<^item> \<open>update(key, changes)\<close> merges the changes into the row with that key and
    does nothing when there is none; a change whose value is \<open>undefined\<close> deletes
    the property from the row (\<open>dexie_merge\<close>), where object spread would keep it;
  \<^item> \<open>delete(key)\<close> removes the row, and does nothing when there is none;
  \<^item> \<open>orderBy('order_index').toArray()\<close> lists the rows by \<open>order_index\<close>, rows
    with equal index by primary key;
  \<^item> any single write may fail (quota, a closed database); which ones fail is the
    parameter \<open>fails\<close>, a predicate on the key written.
  The table is an association list from the key to the row. A \<open>Promise.all\<close> of
  writes issues all of them: each one that succeeds is applied, and the whole rejects
  with the first failure (\<open>run_all\<close>).
\<close>

type_synonym task_table = "(string \<times> task) list"

datatype db_error = ConstraintError | StorageFailure | InvalidKey

type_synonym db_write = "task_table \<Rightarrow> db_error + task_table"

definition tbl_add :: "(string \<Rightarrow> bool) \<Rightarrow> task \<Rightarrow> db_write" where
  "tbl_add fails t rows =
     (if fails (task_id t) then Inl StorageFailure
      else if map_of rows (task_id t) \<noteq> None then Inl ConstraintError
      else Inr (rows @ [(task_id t, t)]))"

definition dexie_merge :: "task \<Rightarrow> task_patch \<Rightarrow> task" where
  "dexie_merge t p = (merge_patch t p)\<lparr>undef_keys := spread_keys False p (undef_keys t)\<rparr>"

declare dexie_merge_def [simp]

definition tbl_update :: "(string \<Rightarrow> bool) \<Rightarrow> string \<Rightarrow> task_patch \<Rightarrow> db_write" where
  "tbl_update fails k p rows =
     (if fails k then Inl StorageFailure
      else Inr (AList.map_entry k (\<lambda>t. dexie_merge t p) rows))"

definition tbl_delete :: "(string \<Rightarrow> bool) \<Rightarrow> string \<Rightarrow> db_write" where
  "tbl_delete fails k rows =
     (if fails k then Inl StorageFailure else Inr (AList.delete k rows))"

fun run_all :: "db_write list \<Rightarrow> task_table \<Rightarrow> db_error option \<times> task_table" where
  "run_all [] rows = (None, rows)"
| "run_all (w # ws) rows =
     (case w rows of
        Inl e \<Rightarrow> (case run_all ws rows of (_, rows') \<Rightarrow> (Some e, rows'))
      | Inr rows1 \<Rightarrow> run_all ws rows1)"

definition tbl_ordered :: "task_table \<Rightarrow> task list" where
  "tbl_ordered rows = sort_key order_index (sort_key task_id (map snd rows))"

text \<open>
  A well-formed table: keys are distinct and each row is stored under its own id.
  The view of the table as a map from ids to tasks is \<open>map_of\<close>; the in-memory task
  list of the store has the same view \<open>tasks_map\<close>.
\<close>

definition tbl_wf :: "task_table \<Rightarrow> bool" where
  "tbl_wf rows \<longleftrightarrow> distinct (map fst rows) \<and> list_all (\<lambda>(k, t). task_id t = k) rows"

definition tasks_map :: "task list \<Rightarrow> string \<Rightarrow> task option" where
  "tasks_map ts = map_of (map (\<lambda>t. (task_id t, t)) ts)"

subsection \<open>Single writes\<close>

lemma tbl_add_Inr:
  "tbl_add fails t rows = Inr rows' \<longleftrightarrow>
     \<not> fails (task_id t) \<and> map_of rows (task_id t) = None \<and> rows' = rows @ [(task_id t, t)]"
  by (auto simp: tbl_add_def)

lemma tbl_update_Inr:
  "tbl_update fails k p rows = Inr rows' \<longleftrightarrow>
     \<not> fails k \<and> rows' = AList.map_entry k (\<lambda>t. dexie_merge t p) rows"
  by (auto simp: tbl_update_def)

lemma tbl_delete_Inr:
  "tbl_delete fails k rows = Inr rows' \<longleftrightarrow> \<not> fails k \<and> rows' = AList.delete k rows"
  by (auto simp: tbl_delete_def)

lemma map_of_tbl_add:
  "tbl_add fails t rows = Inr rows' \<Longrightarrow> map_of rows' = (map_of rows)(task_id t \<mapsto> t)"
  by (auto simp: tbl_add_Inr map_add_def fun_eq_iff split: option.splits)

lemma map_of_tbl_update:
  "tbl_update fails k p rows = Inr rows' \<Longrightarrow>
     map_of rows' = (\<lambda>x. if x = k then map_option (\<lambda>t. dexie_merge t p) (map_of rows x) else map_of rows x)"
  by (auto simp: tbl_update_Inr map_of_map_entry fun_eq_iff split: option.splits)

lemma map_of_tbl_delete:
  "tbl_delete fails k rows = Inr rows' \<Longrightarrow> map_of rows' = (map_of rows)(k := None)"
  by (auto simp: tbl_delete_Inr delete_conv')

lemma tbl_failing_write:
  "fails k \<Longrightarrow> tbl_update fails k p rows = Inl StorageFailure
     \<and> tbl_delete fails k rows = Inl StorageFailure"
  by (simp add: tbl_update_def tbl_delete_def)

lemma map_of_delete_append:
  "map_of rows k = None \<Longrightarrow> map_of (AList.delete k (rows @ [(k, t)])) = map_of rows"
  by (auto simp: delete_conv' fun_eq_iff map_add_def split: option.splits)

subsection \<open>Batches\<close>

text \<open>A batch whose writes all succeed succeeds, whatever the table.\<close>

lemma run_all_ok:
  "(\<And>w r. w \<in> set ws \<Longrightarrow> \<exists>r'. w r = Inr r') \<Longrightarrow> fst (run_all ws rows) = None"
proof (induction ws arbitrary: rows)
  case Nil
  then show ?case by simp
next
  case (Cons w ws)
  then obtain r' where "w rows = Inr r'" by fastforce
  with Cons show ?case by simp
qed

text \<open>A batch with a failing write fails.\<close>

lemma run_all_fails:
  "w \<in> set ws \<Longrightarrow> (\<And>r. \<exists>e. w r = Inl e) \<Longrightarrow> fst (run_all ws rows) \<noteq> None"
proof (induction ws arbitrary: rows)
  case Nil
  then show ?case by simp
next
  case (Cons v ws)
  show ?case
  proof (cases "v = w")
    case True
    with Cons.prems obtain e where "v rows = Inl e" by blast
    then show ?thesis by (simp split: prod.splits)
  next
    case False
    with Cons have IH: "\<And>r. fst (run_all ws r) \<noteq> None" by simp
    show ?thesis
    proof (cases "v rows")
      case (Inl e)
      then show ?thesis by (simp split: prod.splits)
    next
      case (Inr r)
      then show ?thesis using IH [of r] by simp
    qed
  qed
qed

lemma run_all_append:
  "run_all (ws @ vs) rows =
     (case run_all ws rows of (e, rows1) \<Rightarrow>
        (case run_all vs rows1 of (e', rows2) \<Rightarrow> (if e = None then e' else e, rows2)))"
  by (induction ws arbitrary: rows) (auto split: sum.splits prod.splits)

lemma run_all_deletes:
  "run_all (map (\<lambda>t. tbl_delete f (task_id t)) cs) rows = (None, rows') \<Longrightarrow>
     map_of rows' k = (if k \<in> task_id ` set cs then None else map_of rows k)"
proof (induction cs arbitrary: rows)
  case Nil
  then show ?case by simp
next
  case (Cons c cs)
  then obtain r1 where r1: "tbl_delete f (task_id c) rows = Inr r1"
    and rest: "run_all (map (\<lambda>t. tbl_delete f (task_id t)) cs) r1 = (None, rows')"
    by (auto split: sum.splits prod.splits)
  from r1 have "map_of r1 = (map_of rows)(task_id c := None)"
    by (rule map_of_tbl_delete)
  with Cons.IH [OF rest] show ?case by auto
qed

lemma run_all_adds:
  assumes "distinct (map task_id cs)" "\<forall>t \<in> set cs. \<not> f (task_id t) \<and> map_of rows (task_id t) = None"
  shows "run_all (map (tbl_add f) cs) rows = (None, rows @ map (\<lambda>t. (task_id t, t)) cs)"
  using assms
proof (induction cs arbitrary: rows)
  case Nil
  then show ?case by simp
next
  case (Cons c cs)
  have "\<forall>t \<in> set cs. \<not> f (task_id t) \<and> map_of (rows @ [(task_id c, c)]) (task_id t) = None"
  proof
    fix t assume t: "t \<in> set cs"
    have "task_id c \<notin> set (map task_id cs)" using Cons.prems(1) by simp
    moreover have "task_id t \<in> set (map task_id cs)" using t by simp
    ultimately have "task_id t \<noteq> task_id c" by metis
    with t Cons.prems(2) show "\<not> f (task_id t) \<and> map_of (rows @ [(task_id c, c)]) (task_id t) = None"
      by (simp add: map_add_def)
  qed
  with Cons show ?case by (simp add: tbl_add_def)
qed

end
