(* ===== verification/Reorder.thy ===== *)
theory Reorder
  imports Types
begin

text \<open>
  The list surgery of \<open>reorderTasks\<close> (\<open>src/src/stores/taskStore.ts\<close>, lines
  278 to 288), apart from the store it runs in:
  \<^verbatim>\<open>
  const tasks = [...originalTasks];
  const [reorderedTask] = tasks.splice(startIndex, 1);
  tasks.splice(endIndex, 0, reorderedTask);
  const updatedTasks = tasks.map((task, index) =>
    ({ ...task, order_index: index, updated_at: getCurrentISOString() }));
  \<close>
  \<open>splice(i, 1)\<close> removes nothing when \<open>i\<close> is past the end, and the destructured
  \<open>reorderedTask\<close> is then \<open>undefined\<close>; \<open>splice(j, 0, x)\<close> inserts at
  \<open>min j length\<close>. The list after the two splices is therefore a list of
  \<open>option\<close>s, \<open>None\<close> standing for the \<open>undefined\<close> that an out-of-range
  start index inserts. Indices are drag-and-drop positions, never negative.
\<close>

definition del_at :: "nat \<Rightarrow> 'a list \<Rightarrow> 'a list" where
  "del_at i xs = take i xs @ drop (Suc i) xs"

definition ins_at :: "nat \<Rightarrow> 'a \<Rightarrow> 'a list \<Rightarrow> 'a list" where
  "ins_at j x xs = take j xs @ x # drop j xs"

definition splice_move :: "'a list \<Rightarrow> nat \<Rightarrow> nat \<Rightarrow> 'a option list" where
  "splice_move xs i j =
     (let ys = map Some xs;
          reordered = (if i < length ys then ys ! i else None)
      in ins_at j reordered (del_at i ys))"

text \<open>The move on the tasks themselves, when the start index is in range.\<close>

definition move :: "'a list \<Rightarrow> nat \<Rightarrow> nat \<Rightarrow> 'a list" where
  "move xs i j = ins_at j (xs ! i) (del_at i xs)"

definition renumber :: "string \<Rightarrow> task option list \<Rightarrow> task option list" where
  "renumber now xs =
     map (\<lambda>(k, ot). map_option (\<lambda>t. t\<lparr>order_index := int k, updated_at := now\<rparr>) ot)
       (enumerate 0 xs)"

text \<open>The same renumbering on a list without \<open>undefined\<close>.\<close>

definition renumber_list :: "string \<Rightarrow> task list \<Rightarrow> task list" where
  "renumber_list now ts =
     map (\<lambda>(k, t). t\<lparr>order_index := int k, updated_at := now\<rparr>) (enumerate 0 ts)"

subsection \<open>Splicing\<close>

lemma length_del_at [simp]: "i < length xs \<Longrightarrow> length (del_at i xs) = length xs - 1"
  by (simp add: del_at_def)

lemma length_ins_at [simp]: "length (ins_at j x xs) = Suc (length xs)"
  by (simp add: ins_at_def)

lemma del_at_out_of_range [simp]: "length xs \<le> i \<Longrightarrow> del_at i xs = xs"
  by (simp add: del_at_def)

lemma mset_del_at: "i < length xs \<Longrightarrow> mset xs = add_mset (xs ! i) (mset (del_at i xs))"
  by (simp add: del_at_def) (metis append_take_drop_id Cons_nth_drop_Suc mset.simps(2) mset_append
      add_mset_add_single union_assoc add.commute)

lemma mset_ins_at [simp]: "mset (ins_at j x xs) = add_mset x (mset xs)"
  by (simp add: ins_at_def) (metis append_take_drop_id mset_append union_mset_add_mset_right)

lemma map_del_at: "map f (del_at i xs) = del_at i (map f xs)"
  by (simp add: del_at_def take_map drop_map)

lemma map_ins_at: "map f (ins_at j x xs) = ins_at j (f x) (map f xs)"
  by (simp add: ins_at_def take_map drop_map)

lemma del_at_ins_at:
  "j \<le> length xs \<Longrightarrow> del_at j (ins_at j x xs) = xs"
  by (simp add: del_at_def ins_at_def)

lemma nth_ins_at: "j \<le> length xs \<Longrightarrow> ins_at j x xs ! j = x"
  by (simp add: ins_at_def nth_append)

lemma ins_at_del_at_same:
  "i < length xs \<Longrightarrow> ins_at i (xs ! i) (del_at i xs) = xs"
  by (simp add: ins_at_def del_at_def min_def id_take_nth_drop [symmetric])

lemma ins_at_clamp: "length xs \<le> j \<Longrightarrow> ins_at j x xs = xs @ [x]"
  by (simp add: ins_at_def)

lemma splice_move_in_range:
  "i < length xs \<Longrightarrow> splice_move xs i j = map Some (move xs i j)"
  by (simp add: splice_move_def move_def map_ins_at map_del_at)

lemma splice_move_out_of_range:
  "length xs \<le> i \<Longrightarrow> splice_move xs i j = ins_at j None (map Some xs)"
  by (simp add: splice_move_def)

subsection \<open>Renumbering\<close>

lemma length_renumber [simp]: "length (renumber now xs) = length xs"
  by (simp add: renumber_def)

lemma renumber_Some:
  "renumber now (map Some ts) = map Some (renumber_list now ts)"
  by (simp add: renumber_def renumber_list_def enumerate_eq_zip zip_map2 comp_def case_prod_beta)

lemma length_renumber_list [simp]: "length (renumber_list now ts) = length ts"
  by (simp add: renumber_list_def)

lemma map_order_index_renumber_list:
  "map order_index (renumber_list now ts) = map int [0..<length ts]"
proof -
  have "map order_index (renumber_list now ts) = map (\<lambda>x. int (fst x)) (enumerate 0 ts)"
    by (simp add: renumber_list_def split_def)
  also have "\<dots> = map int (map fst (enumerate 0 ts))"
    by (simp only: map_map comp_def)
  also have "\<dots> = map int [0..<length ts]"
    by (simp only: map_fst_enumerate) simp
  finally show ?thesis .
qed

lemma map_task_id_renumber_list: "map task_id (renumber_list now ts) = map task_id ts"
proof -
  have "map task_id (renumber_list now ts) = map (\<lambda>x. task_id (snd x)) (enumerate 0 ts)"
    by (simp add: renumber_list_def split_def)
  also have "\<dots> = map task_id (map snd (enumerate 0 ts))"
    by (simp only: map_map comp_def)
  finally show ?thesis by (simp only: map_snd_enumerate)
qed

lemma in_set_renumber_list:
  "u \<in> set (renumber_list now ts) \<Longrightarrow>
     \<exists>t k. t \<in> set ts \<and> u = t\<lparr>order_index := int k, updated_at := now\<rparr>"
  by (auto simp: renumber_list_def in_set_enumerate_eq) (metis nth_mem)

subsection \<open>The move\<close>

lemma mset_move: "i < length xs \<Longrightarrow> mset (move xs i j) = mset xs"
  by (simp add: move_def mset_del_at [of i xs])

lemma set_move: "i < length xs \<Longrightarrow> set (move xs i j) = set xs"
  by (metis mset_eq_setD mset_move)

lemma length_move [simp]: "i < length xs \<Longrightarrow> length (move xs i j) = length xs"
  by (simp add: move_def)

lemma map_move: "i < length xs \<Longrightarrow> map f (move xs i j) = move (map f xs) i j"
  by (simp add: move_def map_ins_at map_del_at)

lemma move_same: "i < length xs \<Longrightarrow> move xs i i = xs"
  unfolding move_def by (rule ins_at_del_at_same)

lemma None_in_renumber:
  assumes "None \<in> set xs" shows "None \<in> set (renumber clk xs)"
proof -
  obtain k where k: "k < length xs" "xs ! k = None"
    using assms by (auto simp: in_set_conv_nth)
  then have mem: "(k, None) \<in> set (enumerate 0 xs)"
    by (simp add: in_set_enumerate_eq)
  show ?thesis
    unfolding renumber_def set_map by (rule image_eqI [OF _ mem]) simp
qed

end
