(* ===== verification/TaskStore.thy ===== *)
theory TaskStore
  imports Table Reorder
begin

text \<open>
  The zustand store of \<open>src/src/stores/taskStore.ts\<close>: its state (\<open>TaskStore\<close>,
  lines 17 to 34, initial values lines 80 to 88), the bounded undo log
  (\<open>addUndoAction\<close>, lines 439 to 458) and the forward operations \<open>addTask\<close>,
  \<open>updateTask\<close>, \<open>deleteTask\<close>, \<open>toggleComplete\<close>, \<open>reorderTasks\<close>,
  \<open>clearCompleted\<close> and \<open>loadTasks\<close>, together with the setters.

  An operation is a function from the system state (the store and the Dexie table)
  to the state after it has run to completion. The operations are \<open>async\<close>, but the
  UI serialises them (spec, section 5), so each runs alone. What the run depends on
  besides the state is the environment \<open>env\<close>: the clock
  (\<open>getCurrentISOString()\<close>, one reading per operation), the two fresh identifiers
  an adding operation draws from \<open>generateId()\<close> (the task's and the undo entry's),
  and which storage writes fail. A \<open>throw\<close> inside the \<open>try\<close> block and a
  rejected storage promise both end in the \<open>catch\<close> block, which sets \<open>error\<close>
  and clears \<open>isLoading\<close>: that is \<open>fail_op\<close>. The error messages are the
  constructors of \<open>store_error\<close>.
\<close>

datatype store_error =
  Err_add | Err_update | Err_delete | Err_toggle | Err_reorder | Err_clear | Err_load | Err_undo

record task_store =
  tasks :: "task list"
  filter_state :: task_filter
  searchQuery :: string
  selectedTaskId :: "string option"
  isLoading :: bool
  error :: "store_error option"
  undoHistory :: "undo_action list"
  canUndo :: bool

record sys =
  store :: task_store
  db :: task_table

record env =
  now :: string
  new_id :: string
  new_action_id :: string
  fails :: "string \<Rightarrow> bool"
  read_fails :: bool

definition init_store :: task_store where
  "init_store = \<lparr>tasks = [], filter_state = All, searchQuery = [], selectedTaskId = None,
     isLoading = False, error = None, undoHistory = [], canUndo = False\<rparr>"

definition undo_limit :: nat where
  "undo_limit = 20"

subsection \<open>Setters\<close>

definition setTasks :: "task list \<Rightarrow> task_store \<Rightarrow> task_store" where
  "setTasks ts st = st\<lparr>tasks := ts\<rparr>"

definition setFilter :: "task_filter \<Rightarrow> task_store \<Rightarrow> task_store" where
  "setFilter f st = st\<lparr>filter_state := f\<rparr>"

definition setSearchQuery :: "string \<Rightarrow> task_store \<Rightarrow> task_store" where
  "setSearchQuery q st = st\<lparr>searchQuery := q\<rparr>"

definition setSelectedTask :: "string option \<Rightarrow> task_store \<Rightarrow> task_store" where
  "setSelectedTask k st = st\<lparr>selectedTaskId := k\<rparr>"

definition setLoading :: "bool \<Rightarrow> task_store \<Rightarrow> task_store" where
  "setLoading b st = st\<lparr>isLoading := b\<rparr>"

definition setError :: "store_error option \<Rightarrow> task_store \<Rightarrow> task_store" where
  "setError e st = st\<lparr>error := e\<rparr>"

definition clearUndoHistory :: "task_store \<Rightarrow> task_store" where
  "clearUndoHistory st = st\<lparr>undoHistory := [], canUndo := False\<rparr>"

subsection \<open>The undo log\<close>

definition addUndoAction ::
  "env \<Rightarrow> undo_action_type \<Rightarrow> undo_desc \<Rightarrow> undo_data \<Rightarrow> task_store \<Rightarrow> task_store" where
  "addUndoAction env ty d ud st =
     (let act = \<lparr>action_id = new_action_id env, action_type = ty,
                 action_timestamp = now env, action_description = d, undoData = ud\<rparr>;
          h = undoHistory st @ [act];
          h' = (if length h > undo_limit then tl h else h)
      in st\<lparr>undoHistory := h', canUndo := 0 < length h'\<rparr>)"

subsection \<open>Forward operations\<close>

text \<open>\<open>set({ isLoading: true, error: null })\<close> at the start of an operation.\<close>

definition start_op :: "task_store \<Rightarrow> task_store" where
  "start_op st = st\<lparr>isLoading := True, error := None\<rparr>"

text \<open>The \<open>catch\<close> block.\<close>

definition fail_op :: "store_error \<Rightarrow> task_store \<Rightarrow> task_store" where
  "fail_op e st = st\<lparr>error := Some e, isLoading := False\<rparr>"

text \<open>\<open>Math.max(...tasks.map(t => t.order_index), 0) + 1\<close> and the new task.  An
  optional field the input leaves out is an absent key (the only caller, \<open>QuickAdd\<close>,
  passes no key holding \<open>undefined\<close>), so the new task has no undefined keys.\<close>

definition new_task :: "env \<Rightarrow> task_input \<Rightarrow> task list \<Rightarrow> task" where
  "new_task env inp ts =
     \<lparr>task_id = new_id env, title = in_title inp, description = in_description inp,
      priority = in_priority inp, due_date = in_due_date inp,
      created_at = now env, updated_at = now env, completed_at = in_completed_at inp,
      task_notes = case_option [] id (in_notes inp),
      order_index = fold max (map order_index ts) 0 + 1,
      tags = case_option [] id (in_tags inp),
      is_completed = case_option False id (in_is_completed inp), undef_keys = {}\<rparr>"

definition addTask :: "env \<Rightarrow> task_input \<Rightarrow> sys \<Rightarrow> sys" where
  "addTask env inp s =
     (let st = start_op (store s); t = new_task env inp (tasks st) in
      case tbl_add (fails env) t (db s) of
        Inl _ \<Rightarrow> s\<lparr>store := fail_op Err_add st\<rparr>
      | Inr rows \<Rightarrow> s\<lparr>db := rows,
          store := addUndoAction env Add_task (Desc_add (title t))
                     (no_undo_data\<lparr>ud_taskId := Some (task_id t)\<rparr>)
                     (st\<lparr>tasks := t # tasks st, isLoading := False\<rparr>)\<rparr>)"

definition updateTask :: "env \<Rightarrow> string \<Rightarrow> task_patch \<Rightarrow> sys \<Rightarrow> sys" where
  "updateTask env k upd s =
     (let st = start_op (store s) in
      case find_key task_id k (tasks st) of
        None \<Rightarrow> s\<lparr>store := fail_op Err_update st\<rparr>
      | Some orig \<Rightarrow>
          (let u = upd\<lparr>p_updated_at := Some (now env)\<rparr> in
           case tbl_update (fails env) k u (db s) of
             Inl _ \<Rightarrow> s\<lparr>store := fail_op Err_update st\<rparr>
           | Inr rows \<Rightarrow> s\<lparr>db := rows,
               store := addUndoAction env Update_task (Desc_update (title orig))
                          (no_undo_data\<lparr>ud_originalTask := Some orig\<rparr>)
                          (st\<lparr>tasks := map_where task_id k (\<lambda>t. merge_patch t u) (tasks st),
                              isLoading := False\<rparr>)\<rparr>))"

definition deleteTask :: "env \<Rightarrow> string \<Rightarrow> sys \<Rightarrow> sys" where
  "deleteTask env k s =
     (let st = start_op (store s) in
      case find_key task_id k (tasks st) of
        None \<Rightarrow> s\<lparr>store := fail_op Err_delete st\<rparr>
      | Some orig \<Rightarrow>
          (case tbl_delete (fails env) k (db s) of
             Inl _ \<Rightarrow> s\<lparr>store := fail_op Err_delete st\<rparr>
           | Inr rows \<Rightarrow> s\<lparr>db := rows,
               store := addUndoAction env Delete_task (Desc_delete (title orig))
                          (no_undo_data\<lparr>ud_originalTask := Some orig\<rparr>)
                          (st\<lparr>tasks := filter (\<lambda>t. task_id t \<noteq> k) (tasks st),
                              selectedTaskId := (if selectedTaskId st = Some k then None
                                                 else selectedTaskId st),
                              isLoading := False\<rparr>)\<rparr>))"

definition toggle_patch :: "env \<Rightarrow> task \<Rightarrow> task_patch" where
  "toggle_patch env t =
     empty_patch\<lparr>p_is_completed := Some (\<not> is_completed t),
       p_completed_at := Some (if \<not> is_completed t then Some (now env) else None),
       p_updated_at := Some (now env)\<rparr>"

definition toggleComplete :: "env \<Rightarrow> string \<Rightarrow> sys \<Rightarrow> sys" where
  "toggleComplete env k s =
     (let st = start_op (store s) in
      case find_key task_id k (tasks st) of
        None \<Rightarrow> s\<lparr>store := st\<lparr>isLoading := False\<rparr>\<rparr>
      | Some t \<Rightarrow>
          (let u = toggle_patch env t in
           case tbl_update (fails env) k u (db s) of
             Inl _ \<Rightarrow> s\<lparr>store := fail_op Err_toggle st\<rparr>
           | Inr rows \<Rightarrow> s\<lparr>db := rows,
               store := addUndoAction env Toggle_complete
                          (Desc_toggle (\<not> is_completed t) (title t))
                          (no_undo_data\<lparr>ud_originalTask := Some t\<rparr>)
                          (st\<lparr>tasks := map_where task_id k (\<lambda>x. merge_patch x u) (tasks st),
                              isLoading := False\<rparr>)\<rparr>))"

text \<open>
  \<open>db.tasks.update(task.id, { order_index, updated_at })\<close> for one element of
  \<open>updatedTasks\<close>; the \<open>undefined\<close> element has no key and its update is rejected.
\<close>

definition reorder_write :: "env \<Rightarrow> task option \<Rightarrow> db_write" where
  "reorder_write env ot =
     (case ot of
        None \<Rightarrow> (\<lambda>_. Inl InvalidKey)
      | Some t \<Rightarrow> tbl_update (fails env) (task_id t)
          (empty_patch\<lparr>p_order_index := Some (order_index t), p_updated_at := Some (updated_at t)\<rparr>))"

definition reorderTasks :: "env \<Rightarrow> nat \<Rightarrow> nat \<Rightarrow> sys \<Rightarrow> sys" where
  "reorderTasks env i j s =
     (let st = start_op (store s); orig = tasks st;
          upd = renumber (now env) (splice_move orig i j)
      in case run_all (map (reorder_write env) upd) (db s) of
           (None, rows) \<Rightarrow>
             (case those upd of
                Some ts \<Rightarrow> s\<lparr>db := rows,
                  store := addUndoAction env Reorder_tasks Desc_reorder
                             (no_undo_data\<lparr>ud_originalTasks := Some orig\<rparr>)
                             (st\<lparr>tasks := ts, isLoading := False\<rparr>)\<rparr>
              | None \<Rightarrow> s\<lparr>db := rows, store := fail_op Err_reorder st\<rparr>)
         | (Some _, rows) \<Rightarrow> s\<lparr>db := rows, store := fail_op Err_reorder st\<rparr>)"

definition clearCompleted :: "env \<Rightarrow> sys \<Rightarrow> sys" where
  "clearCompleted env s =
     (let st = start_op (store s); completed = filter is_completed (tasks st) in
      if completed = [] then s\<lparr>store := st\<lparr>isLoading := False\<rparr>\<rparr>
      else (case run_all (map (\<lambda>t. tbl_delete (fails env) (task_id t)) completed) (db s) of
              (None, rows) \<Rightarrow> s\<lparr>db := rows,
                 store := addUndoAction env Clear_completed (Desc_clear (length completed))
                            (no_undo_data\<lparr>ud_tasks := Some completed\<rparr>)
                            (st\<lparr>tasks := filter (\<lambda>t. \<not> is_completed t) (tasks st),
                                isLoading := False\<rparr>)\<rparr>
            | (Some _, rows) \<Rightarrow> s\<lparr>db := rows, store := fail_op Err_clear st\<rparr>))"

definition loadTasks :: "env \<Rightarrow> sys \<Rightarrow> sys" where
  "loadTasks env s =
     (let st = start_op (store s) in
      if read_fails env then s\<lparr>store := fail_op Err_load st\<rparr>
      else s\<lparr>store := st\<lparr>tasks := tbl_ordered (db s), isLoading := False\<rparr>\<rparr>)"

text \<open>
  The call \<open>QuickAdd\<close> makes (\<open>src/src/components/QuickAdd.tsx\<close>, lines 87 to
  94) after checking that the trimmed title is not empty; and an environment in which
  no storage access fails, for concrete runs.
\<close>

definition quickAdd_input :: "string \<Rightarrow> priority \<Rightarrow> task_input" where
  "quickAdd_input ttl pr =
     \<lparr>in_title = ttl, in_description = Some [], in_priority = pr, in_due_date = None,
      in_completed_at = None, in_notes = Some [], in_tags = Some [], in_is_completed = Some False\<rparr>"

definition ok_env :: "string \<Rightarrow> string \<Rightarrow> env" where
  "ok_env i clock = \<lparr>now = clock, new_id = i, new_action_id = ''undo-'' @ i,
     fails = (\<lambda>_. False), read_fails = False\<rparr>"

definition empty_sys :: sys where
  "empty_sys = \<lparr>store = init_store, db = []\<rparr>"

text \<open>A task and a state whose table holds exactly the in-memory tasks, for concrete runs.\<close>

definition demo_task :: "string \<Rightarrow> int \<Rightarrow> bool \<Rightarrow> task" where
  "demo_task i k c =
     \<lparr>task_id = i, title = i, description = None, priority = Medium, due_date = None,
      created_at = ''t0'', updated_at = ''t0'', completed_at = (if c then Some ''t0'' else None),
      task_notes = [], order_index = k, tags = [], is_completed = c, undef_keys = {}\<rparr>"

definition demo_sys :: "task list \<Rightarrow> sys" where
  "demo_sys ts = \<lparr>store = init_store\<lparr>tasks := ts\<rparr>, db = map (\<lambda>t. (task_id t, t)) ts\<rparr>"

lemmas demo_defs = demo_task_def demo_sys_def init_store_def ok_env_def undo_limit_def

lemmas op_defs [store_defs] = addTask_def updateTask_def deleteTask_def toggleComplete_def
  reorderTasks_def clearCompleted_def loadTasks_def start_op_def fail_op_def

subsection \<open>The undo log\<close>

lemma addUndoAction_last:
  "last (undoHistory (addUndoAction env ty d ud st)) =
     \<lparr>action_id = new_action_id env, action_type = ty, action_timestamp = now env,
      action_description = d, undoData = ud\<rparr>"
  by (cases "undoHistory st") (simp_all add: addUndoAction_def Let_def undo_limit_def)

lemma addUndoAction_butlast:
  "length (undoHistory st) < undo_limit \<Longrightarrow>
     butlast (undoHistory (addUndoAction env ty d ud st)) = undoHistory st"
  by (simp add: addUndoAction_def Let_def)

lemma addUndoAction_nonempty [simp]: "undoHistory (addUndoAction env ty d ud st) \<noteq> []"
  by (cases "undoHistory st") (simp_all add: addUndoAction_def Let_def undo_limit_def)

lemma addUndoAction_fields [simp]:
  "tasks (addUndoAction env ty d ud st) = tasks st"
  "isLoading (addUndoAction env ty d ud st) = isLoading st"
  "error (addUndoAction env ty d ud st) = error st"
  "selectedTaskId (addUndoAction env ty d ud st) = selectedTaskId st"
  "filter_state (addUndoAction env ty d ud st) = filter_state st"
  "searchQuery (addUndoAction env ty d ud st) = searchQuery st"
  by (simp_all add: addUndoAction_def Let_def)

subsection \<open>Reordering\<close>

lemma reorder_write_ok:
  "\<not> fails env (task_id t) \<Longrightarrow> \<exists>r'. reorder_write env (Some t) r = Inr r'"
  by (simp add: reorder_write_def tbl_update_def)

lemma reorderTasks_ok:
  assumes i: "i < length (tasks (store s))"
    and ok: "\<And>t. t \<in> set (tasks (store s)) \<Longrightarrow> \<not> fails env (task_id t)"
  shows "\<exists>rows. reorderTasks env i j s = s\<lparr>db := rows,
     store := addUndoAction env Reorder_tasks Desc_reorder
       (no_undo_data\<lparr>ud_originalTasks := Some (tasks (store s))\<rparr>)
       ((start_op (store s))\<lparr>tasks := renumber_list (now env) (move (tasks (store s)) i j),
          isLoading := False\<rparr>)\<rparr>"
proof -
  let ?upd = "map Some (renumber_list (now env) (move (tasks (store s)) i j))"
  have "fst (run_all (map (reorder_write env) ?upd) (db s)) = None"
  proof (rule run_all_ok)
    fix w r assume "w \<in> set (map (reorder_write env) ?upd)"
    then obtain u where "u \<in> set (renumber_list (now env) (move (tasks (store s)) i j))"
      and w: "w = reorder_write env (Some u)" by auto
    then obtain t k where "t \<in> set (tasks (store s))"
      and "u = t\<lparr>order_index := int k, updated_at := now env\<rparr>"
      using set_move [OF i] by (metis in_set_renumber_list)
    then show "\<exists>r'. w r = Inr r'" using ok w by (simp add: reorder_write_ok)
  qed
  then obtain rows where r: "run_all (map (reorder_write env) ?upd) (db s) = (None, rows)"
    by (cases "run_all (map (reorder_write env) ?upd) (db s)") auto
  show ?thesis
    using i r by (intro exI [of _ rows]) (simp add: reorderTasks_def Let_def splice_move_in_range
        renumber_Some start_op_def)
qed

lemma reorderTasks_batch_fails:
  assumes bad: "length (tasks (store s)) \<le> i \<or> (\<exists>t \<in> set (tasks (store s)). fails env (task_id t))"
  shows "fst (run_all (map (reorder_write env) (renumber (now env) (splice_move (tasks (store s)) i j)))
     (db s)) \<noteq> None"
proof (cases "i < length (tasks (store s))")
  case True
  with bad obtain t where t: "t \<in> set (tasks (store s))" "fails env (task_id t)" by auto
  have "task_id t \<in> set (map task_id (renumber_list (now env) (move (tasks (store s)) i j)))"
    using t(1) True by (simp add: map_task_id_renumber_list set_move)
  then obtain u where u: "u \<in> set (renumber_list (now env) (move (tasks (store s)) i j))"
    "task_id u = task_id t" by auto
  show ?thesis
  proof (rule run_all_fails)
    show "reorder_write env (Some u) \<in> set (map (reorder_write env)
        (renumber (now env) (splice_move (tasks (store s)) i j)))"
      using True u(1) by (simp add: splice_move_in_range renumber_Some)
    show "\<And>r. \<exists>e. reorder_write env (Some u) r = Inl e"
      using t(2) u(2) by (simp add: reorder_write_def tbl_update_def)
  qed
next
  case False
  then have "None \<in> set (renumber (now env) (splice_move (tasks (store s)) i j))"
    by (intro None_in_renumber) (simp add: splice_move_out_of_range ins_at_def)
  then have "reorder_write env None \<in> set (map (reorder_write env)
      (renumber (now env) (splice_move (tasks (store s)) i j)))"
    by (simp only: set_map) (rule imageI)
  then show ?thesis
    by (rule run_all_fails) (simp add: reorder_write_def)
qed

text \<open>
  C6. A reorder whose start index is in range and whose writes all succeed moves the
  task at \<open>startIndex\<close> to \<open>endIndex\<close> (the other tasks keep their relative
  order) and renumbers the whole list \<open>0, 1, 2, \<dots>\<close> in its new order, so the
  order indices are distinct and ascending (spec, section 4.3 and property P1).
\<close>

theorem reorderTasks_renumbers:
  assumes i: "i < length (tasks (store s))"
    and ok: "\<forall>t \<in> set (tasks (store s)). \<not> fails env (task_id t)"
  shows "map task_id (tasks (store (reorderTasks env i j s))) = move (map task_id (tasks (store s))) i j
    \<and> map order_index (tasks (store (reorderTasks env i j s))) = map int [0..<length (tasks (store s))]"
proof -
  obtain rows where "reorderTasks env i j s = s\<lparr>db := rows,
     store := addUndoAction env Reorder_tasks Desc_reorder
       (no_undo_data\<lparr>ud_originalTasks := Some (tasks (store s))\<rparr>)
       ((start_op (store s))\<lparr>tasks := renumber_list (now env) (move (tasks (store s)) i j),
          isLoading := False\<rparr>)\<rparr>"
    using reorderTasks_ok [OF i] ok by blast
  then show ?thesis
    using i by (simp add: map_task_id_renumber_list map_order_index_renumber_list map_move
        start_op_def)
qed

theorem reorderTasks_renumbers_witness:
  "map task_id (tasks (store (reorderTasks (ok_env ''x'' ''t1'') 0 2
      (demo_sys [demo_task ''a'' 1 False, demo_task ''b'' 2 False, demo_task ''c'' 3 False]))))
     = [''b'', ''c'', ''a'']
   \<and> map order_index (tasks (store (reorderTasks (ok_env ''x'' ''t1'') 0 2
      (demo_sys [demo_task ''a'' 1 False, demo_task ''b'' 2 False, demo_task ''c'' 3 False]))))
     = [0, 1, 2]"
  using reorderTasks_renumbers [of 0 "demo_sys [demo_task ''a'' 1 False, demo_task ''b'' 2 False,
      demo_task ''c'' 3 False]" "ok_env ''x'' ''t1''" 2]
  by (simp add: demo_defs move_def del_at_def ins_at_def upt_rec)

text \<open>
  \<open>reorderTasks(i, i)\<close> is not a no-op in the store: it rewrites every task's
  \<open>order_index\<close> and \<open>updated_at\<close> and logs a \<open>reorder_tasks\<close> undo entry. The
  spec (section 4.3, step 5) asks for an immediate return; only the drag handlers of
  the components skip equal indices.
\<close>

theorem reorderTasks_same_index_logs:
  assumes i: "i < length (tasks (store s))"
    and ok: "\<forall>t \<in> set (tasks (store s)). \<not> fails env (task_id t)"
  shows "map task_id (tasks (store (reorderTasks env i i s))) = map task_id (tasks (store s))
    \<and> action_type (last (undoHistory (store (reorderTasks env i i s)))) = Reorder_tasks
    \<and> map order_index (tasks (store (reorderTasks env i i s))) = map int [0..<length (tasks (store s))]"
proof -
  obtain rows where "reorderTasks env i i s = s\<lparr>db := rows,
     store := addUndoAction env Reorder_tasks Desc_reorder
       (no_undo_data\<lparr>ud_originalTasks := Some (tasks (store s))\<rparr>)
       ((start_op (store s))\<lparr>tasks := renumber_list (now env) (move (tasks (store s)) i i),
          isLoading := False\<rparr>)\<rparr>"
    using reorderTasks_ok [OF i] ok by blast
  then show ?thesis
    using i by (simp add: map_task_id_renumber_list map_order_index_renumber_list move_same
        start_op_def addUndoAction_last)
qed

theorem reorderTasks_same_index_logs_witness:
  "action_type (last (undoHistory (store (reorderTasks (ok_env ''x'' ''t1'') 1 1
      (demo_sys [demo_task ''a'' 4 False, demo_task ''b'' 7 False]))))) = Reorder_tasks
   \<and> map order_index (tasks (store (reorderTasks (ok_env ''x'' ''t1'') 1 1
      (demo_sys [demo_task ''a'' 4 False, demo_task ''b'' 7 False])))) = [0, 1]"
  using reorderTasks_same_index_logs [of 1 "demo_sys [demo_task ''a'' 4 False, demo_task ''b'' 7 False]"
      "ok_env ''x'' ''t1''"]
  by (simp add: demo_defs upt_rec)

text \<open>
  C8. A reorder whose start index is past the end (the spliced-in \<open>undefined\<close> has
  no key) or one of whose writes fails leaves the in-memory list and the undo log as
  they were and reports the reorder error. The writes that did succeed stay in the
  table: there is no rollback of the batch.
\<close>

theorem reorderTasks_failure_keeps_memory:
  assumes bad: "length (tasks (store s)) \<le> i \<or> (\<exists>t \<in> set (tasks (store s)). fails env (task_id t))"
  shows "tasks (store (reorderTasks env i j s)) = tasks (store s)
    \<and> undoHistory (store (reorderTasks env i j s)) = undoHistory (store s)
    \<and> error (store (reorderTasks env i j s)) = Some Err_reorder"
proof -
  let ?r = "run_all (map (reorder_write env) (renumber (now env) (splice_move (tasks (store s)) i j))) (db s)"
  obtain e rows where r: "?r = (Some e, rows)"
    using reorderTasks_batch_fails [OF bad, where j = j] by (cases ?r) auto
  then show ?thesis
    by (simp add: reorderTasks_def Let_def start_op_def fail_op_def)
qed

theorem reorderTasks_failure_keeps_memory_witness:
  "tasks (store (reorderTasks (ok_env ''x'' ''t1'') 5 0 (demo_sys [demo_task ''a'' 1 False])))
     = [demo_task ''a'' 1 False]
   \<and> error (store (reorderTasks (ok_env ''x'' ''t1'') 5 0 (demo_sys [demo_task ''a'' 1 False])))
     = Some Err_reorder"
  using reorderTasks_failure_keeps_memory [of "demo_sys [demo_task ''a'' 1 False]" 5 "ok_env ''x'' ''t1''" 0]
  by (simp add: demo_defs)

subsection \<open>Clearing completed tasks\<close>

text \<open>
  \<open>clearCompleted\<close> with no completed task touches neither the task list, nor
  the table, nor the undo log: only \<open>isLoading\<close> and \<open>error\<close> are reset
  (spec, property P6).
\<close>

theorem clearCompleted_none_noop:
  assumes "\<forall>t \<in> set (tasks (store s)). \<not> is_completed t"
  shows "clearCompleted env s = s\<lparr>store := (store s)\<lparr>isLoading := False, error := None\<rparr>\<rparr>"
  using assms by (simp add: clearCompleted_def Let_def start_op_def filter_empty_conv)

theorem clearCompleted_none_noop_witness:
  "clearCompleted (ok_env ''x'' ''t1'') (demo_sys [demo_task ''a'' 1 False, demo_task ''b'' 2 False])
     = demo_sys [demo_task ''a'' 1 False, demo_task ''b'' 2 False]"
  using clearCompleted_none_noop [of "demo_sys [demo_task ''a'' 1 False, demo_task ''b'' 2 False]"
      "ok_env ''x'' ''t1''"]
  by (simp add: demo_defs)

end
