(* ===== verification/Undo.thy ===== *)
theory Undo
  imports TaskStore
begin

text \<open>
  \<open>undo\<close> of \<open>src/src/stores/taskStore.ts\<close> (lines 466 to 577): it reads the
  most recent entry of the log, applies the inverse its \<open>type\<close> selects, and pops
  the entry only if no storage write failed. Each inverse writes the table first and
  then the in-memory list:
  \<^item> \<open>add_task\<close> deletes the task whose id the entry carries;
  \<^item> \<open>delete_task\<close> re-adds the snapshot and re-sorts the list by \<open>order_index\<close>;
  \<^item> \<open>update_task\<close> writes every field of the snapshot but its id
    (\<open>const { id, ...updateData } = originalTask\<close>) and replaces the task in memory
    by the snapshot;
  \<^item> \<open>toggle_complete\<close> writes back \<open>is_completed\<close> alone, with a fresh
    \<open>updated_at\<close>;
  \<^item> \<open>reorder_tasks\<close> writes back each snapshot's \<open>order_index\<close> and sets the list
    to the snapshots sorted by \<open>order_index\<close>;
  \<^item> \<open>clear_completed\<close> re-adds every snapshot and re-sorts the list.
  An entry whose payload key is missing (or, for \<open>add_task\<close>, an empty id, which
  JavaScript treats as false) runs no branch: the entry is still popped and
  \<open>isLoading\<close> stays \<open>true\<close>.

  \<open>updateData\<close> has the keys of the snapshot (\<open>{...originalTask}\<close> minus \<open>id\<close>):
  an optional key the snapshot holds as \<open>undefined\<close> deletes the field of the row,
  an optional key the snapshot does not have leaves the row's field as it is
  (\<open>restore_patch\<close>).
\<close>

definition restore_patch :: "task \<Rightarrow> task_patch" where
  "restore_patch t =
     (let key = (\<lambda>k v. case v of Some x \<Rightarrow> Some (Some x)
                             | None \<Rightarrow> if k \<in> undef_keys t then Some None else None) in
     \<lparr>p_id = None, p_title = Some (title t), p_description = key K_description (description t),
      p_priority = Some (priority t), p_due_date = key K_due_date (due_date t),
      p_created_at = Some (created_at t), p_updated_at = Some (updated_at t),
      p_completed_at = key K_completed_at (completed_at t), p_notes = Some (task_notes t),
      p_order_index = Some (order_index t), p_tags = Some (tags t),
      p_is_completed = Some (is_completed t)\<rparr>)"

text \<open>
  One inverse, on a state whose store has been through \<open>start_op\<close>. The result is
  the first storage error, if any, and the state after the writes that happened; on an
  error the store is left as it was.
\<close>

definition set_tasks_done :: "task list \<Rightarrow> sys \<Rightarrow> task_table \<Rightarrow> sys" where
  "set_tasks_done ts s rows = s\<lparr>db := rows, store := (store s)\<lparr>tasks := ts, isLoading := False\<rparr>\<rparr>"

definition single_write :: "db_error + task_table \<Rightarrow> (task_table \<Rightarrow> sys) \<Rightarrow> sys \<Rightarrow> db_error option \<times> sys" where
  "single_write r k s = (case r of Inl e \<Rightarrow> (Some e, s) | Inr rows \<Rightarrow> (None, k rows))"

definition batch_write :: "db_error option \<times> task_table \<Rightarrow> (task_table \<Rightarrow> sys) \<Rightarrow> sys \<Rightarrow> db_error option \<times> sys" where
  "batch_write r k s = (case r of (Some e, rows) \<Rightarrow> (Some e, s\<lparr>db := rows\<rparr>) | (None, rows) \<Rightarrow> (None, k rows))"

definition undo_step :: "env \<Rightarrow> undo_action \<Rightarrow> sys \<Rightarrow> db_error option \<times> sys" where
  "undo_step env act s =
     (let ud = undoData act; ts = tasks (store s) in
      case action_type act of
        Add_task \<Rightarrow>
          (case ud_taskId ud of
             Some k \<Rightarrow> if k = [] then (None, s)
               else single_write (tbl_delete (fails env) k (db s))
                      (set_tasks_done (filter (\<lambda>t. task_id t \<noteq> k) ts) s) s
           | None \<Rightarrow> (None, s))
      | Delete_task \<Rightarrow>
          (case ud_originalTask ud of
             Some t \<Rightarrow> single_write (tbl_add (fails env) t (db s))
                        (set_tasks_done (sort_key order_index (t # ts)) s) s
           | None \<Rightarrow> (None, s))
      | Update_task \<Rightarrow>
          (case ud_originalTask ud of
             Some t \<Rightarrow> single_write (tbl_update (fails env) (task_id t) (restore_patch t) (db s))
                        (set_tasks_done (map_where task_id (task_id t) (\<lambda>_. t) ts) s) s
           | None \<Rightarrow> (None, s))
      | Toggle_complete \<Rightarrow>
          (case ud_originalTask ud of
             Some t \<Rightarrow> single_write
                 (tbl_update (fails env) (task_id t)
                    (empty_patch\<lparr>p_is_completed := Some (is_completed t),
                                 p_updated_at := Some (now env)\<rparr>) (db s))
                 (set_tasks_done (map_where task_id (task_id t)
                    (\<lambda>x. x\<lparr>is_completed := is_completed t, updated_at := now env\<rparr>) ts) s) s
           | None \<Rightarrow> (None, s))
      | Reorder_tasks \<Rightarrow>
          (case ud_originalTasks ud of
             Some os \<Rightarrow> batch_write
                 (run_all (map (\<lambda>t. tbl_update (fails env) (task_id t)
                    (empty_patch\<lparr>p_order_index := Some (order_index t)\<rparr>)) os) (db s))
                 (set_tasks_done (sort_key order_index os) s) s
           | None \<Rightarrow> (None, s))
      | Clear_completed \<Rightarrow>
          (case ud_tasks ud of
             Some cs \<Rightarrow> batch_write (run_all (map (tbl_add (fails env)) cs) (db s))
                 (set_tasks_done (sort_key order_index (ts @ cs)) s) s
           | None \<Rightarrow> (None, s)))"

definition pop_history :: "task_store \<Rightarrow> task_store" where
  "pop_history st = st\<lparr>undoHistory := butlast (undoHistory st),
     canUndo := 0 < length (butlast (undoHistory st))\<rparr>"

definition undo :: "env \<Rightarrow> sys \<Rightarrow> sys" where
  "undo env s =
     (if undoHistory (store s) = [] then s
      else (let lastAction = last (undoHistory (store s));
                s0 = s\<lparr>store := start_op (store s)\<rparr>
            in case undo_step env lastAction s0 of
                 (Some _, s1) \<Rightarrow> s1\<lparr>store := fail_op Err_undo (store s1)\<rparr>
               | (None, s1) \<Rightarrow> s1\<lparr>store := pop_history (store s1)\<rparr>))"

lemmas undo_defs [store_defs] = undo_def undo_step_def single_write_def batch_write_def
  set_tasks_done_def pop_history_def

section \<open>The inverse law\<close>

text \<open>
  C1. Undoing an \<open>addTask\<close> right after it succeeded removes exactly the added
  task: the in-memory list, the table (as a map from ids to rows) and the undo log are
  those from before the add, provided the log had room (fewer than 20 entries) and the
  fresh id was not in use.
\<close>

theorem undo_addTask_restores:
  assumes ok: "\<not> fails env (new_id env)" "map_of (db s) (new_id env) = None"
    and ok': "\<not> fails env' (new_id env)"
    and fresh: "new_id env \<noteq> []" "new_id env \<notin> task_id ` set (tasks (store s))"
    and room: "length (undoHistory (store s)) < undo_limit"
  shows "tasks (store (undo env' (addTask env inp s))) = tasks (store s)
    \<and> map_of (db (undo env' (addTask env inp s))) = map_of (db s)
    \<and> undoHistory (store (undo env' (addTask env inp s))) = undoHistory (store s)"
  using assms
  by (simp add: addTask_def undo_def undo_step_def tbl_add_def tbl_delete_def Let_def
      addUndoAction_last addUndoAction_butlast single_write_def set_tasks_done_def
      pop_history_def start_op_def map_of_delete_append new_task_def)

theorem undo_addTask_restores_witness:
  "tasks (store (undo (ok_env ''x'' ''t2'') (addTask (ok_env ''b'' ''t1'') (quickAdd_input ''B'' Low)
      (addTask (ok_env ''a'' ''t0'') (quickAdd_input ''A'' High) empty_sys))))
   = tasks (store (addTask (ok_env ''a'' ''t0'') (quickAdd_input ''A'' High) empty_sys))"
proof -
  let ?s = "addTask (ok_env ''a'' ''t0'') (quickAdd_input ''A'' High) empty_sys"
  have s: "?s = \<lparr>store = addUndoAction (ok_env ''a'' ''t0'') Add_task (Desc_add ''A'')
        (no_undo_data\<lparr>ud_taskId := Some ''a''\<rparr>)
        (start_op init_store\<lparr>tasks := [new_task (ok_env ''a'' ''t0'') (quickAdd_input ''A'' High) []],
           isLoading := False\<rparr>),
      db = [(''a'', new_task (ok_env ''a'' ''t0'') (quickAdd_input ''A'' High) [])]\<rparr>"
    by (simp add: addTask_def empty_sys_def init_store_def tbl_add_def ok_env_def new_task_def Let_def start_op_def
        quickAdd_input_def)
  have h1: "\<not> fails (ok_env ''b'' ''t1'') (new_id (ok_env ''b'' ''t1''))"
    and h2: "map_of (db ?s) (new_id (ok_env ''b'' ''t1'')) = None"
    and h3: "\<not> fails (ok_env ''x'' ''t2'') (new_id (ok_env ''b'' ''t1''))"
    and h4: "new_id (ok_env ''b'' ''t1'') \<noteq> []"
    and h5: "new_id (ok_env ''b'' ''t1'') \<notin> task_id ` set (tasks (store ?s))"
    and h6: "length (undoHistory (store ?s)) < undo_limit"
    by (simp_all only: s) (simp_all add: ok_env_def new_task_def addUndoAction_def
        init_store_def start_op_def undo_limit_def)
  from undo_addTask_restores [OF h1 h2 h3 h4 h5 h6, where inp = "quickAdd_input ''B'' Low"]
  show ?thesis by simp
qed

text \<open>
  C2. Undoing a successful \<open>deleteTask\<close> right after it puts the task back where it
  was, when the list was sorted by \<open>order_index\<close> without repeated indices (the
  re-insertion sorts the list); the table regains the deleted row as the snapshot.
\<close>

theorem undo_deleteTask_restores:
  assumes mem: "t \<in> set (tasks (store s))"
    and ok: "\<not> fails env (task_id t)" and ok': "\<not> fails env' (task_id t)"
    and ids: "distinct (map task_id (tasks (store s)))"
    and sorted: "sorted (map order_index (tasks (store s)))"
    and dist: "distinct (map order_index (tasks (store s)))"
    and room: "length (undoHistory (store s)) < undo_limit"
  shows "tasks (store (undo env' (deleteTask env (task_id t) s))) = tasks (store s)
    \<and> map_of (db (undo env' (deleteTask env (task_id t) s))) = (map_of (db s))(task_id t \<mapsto> t)
    \<and> undoHistory (store (undo env' (deleteTask env (task_id t) s))) = undoHistory (store s)"
proof -
  let ?ts = "tasks (store s)"
  have found: "find_key task_id (task_id t) ?ts = Some t"
    using ids mem by (rule find_key_distinct)
  have restore: "sort_key order_index (t # filter (\<lambda>x. task_id x \<noteq> task_id t) ?ts) = ?ts"
    using sorted dist distinct_map_filter_split [OF ids mem]
    by (intro sort_key_restores) simp_all
  show ?thesis
    using ok ok' room found restore
    by (simp add: deleteTask_def undo_def undo_step_def tbl_add_def tbl_delete_def Let_def
        addUndoAction_last addUndoAction_butlast single_write_def set_tasks_done_def
        pop_history_def start_op_def delete_conv' fun_eq_iff map_add_def split: option.splits)
qed

theorem undo_deleteTask_restores_witness:
  "tasks (store (undo (ok_env ''x'' ''t2'') (deleteTask (ok_env ''y'' ''t1'') ''b''
      (demo_sys [demo_task ''a'' 1 False, demo_task ''b'' 2 True, demo_task ''c'' 5 False]))))
   = [demo_task ''a'' 1 False, demo_task ''b'' 2 True, demo_task ''c'' 5 False]"
  using undo_deleteTask_restores [of "demo_task ''b'' 2 True"
      "demo_sys [demo_task ''a'' 1 False, demo_task ''b'' 2 True, demo_task ''c'' 5 False]"
      "ok_env ''y'' ''t1''" "ok_env ''x'' ''t2''"]
  by (simp add: demo_defs)

text \<open>
  C3. Undoing a \<open>toggleComplete\<close> that completed a task gives it back
  \<open>is_completed = false\<close> but leaves the \<open>completed_at\<close> the toggle set: the
  inverse writes \<open>is_completed\<close> and \<open>updated_at\<close> only. The restored task
  breaks the spec's completion consistency (\<open>is_completed\<close> exactly when
  \<open>completed_at\<close> is set, property P2) and its undo scenario.
\<close>

theorem undo_toggle_keeps_completed_at:
  assumes mem: "t \<in> set (tasks (store s))" and active: "\<not> is_completed t"
    and ok: "\<not> fails env (task_id t)" and ok': "\<not> fails env' (task_id t)"
    and ids: "distinct (map task_id (tasks (store s)))"
  shows "find_key task_id (task_id t) (tasks (store (undo env' (toggleComplete env (task_id t) s))))
     = Some (t\<lparr>completed_at := Some (now env), updated_at := now env',
               undef_keys := undef_keys t - {K_completed_at}\<rparr>)"
proof -
  have found: "find_key task_id (task_id t) (tasks (store s)) = Some t"
    using ids mem by (rule find_key_distinct)
  show ?thesis
    using ok ok' found active
    by (simp add: toggleComplete_def undo_def undo_step_def tbl_update_def Let_def
        addUndoAction_last single_write_def set_tasks_done_def toggle_patch_def
        pop_history_def start_op_def find_key_map_where merge_patch_def empty_patch_def)
qed

theorem undo_toggle_keeps_completed_at_witness:
  "find_key task_id ''a'' (tasks (store (undo (ok_env ''x'' ''t2'') (toggleComplete (ok_env ''y'' ''t1'') ''a''
      (demo_sys [demo_task ''a'' 1 False])))))
   = Some ((demo_task ''a'' 1 False)\<lparr>completed_at := Some ''t1'', updated_at := ''t2''\<rparr>)"
  using undo_toggle_keeps_completed_at [of "demo_task ''a'' 1 False" "demo_sys [demo_task ''a'' 1 False]"
      "ok_env ''y'' ''t1''" "ok_env ''x'' ''t2''"]
  by (simp add: demo_defs)

text \<open>
  C4. Undoing a successful \<open>updateTask\<close> (with a patch that does not rename the
  task) right after it gives back the in-memory list and the undo log from before.
\<close>

theorem undo_updateTask_restores_memory:
  assumes mem: "t \<in> set (tasks (store s))" and pid: "p_id upd = None"
    and ok: "\<not> fails env (task_id t)" and ok': "\<not> fails env' (task_id t)"
    and ids: "distinct (map task_id (tasks (store s)))"
    and room: "length (undoHistory (store s)) < undo_limit"
  shows "tasks (store (undo env' (updateTask env (task_id t) upd s))) = tasks (store s)
    \<and> undoHistory (store (undo env' (updateTask env (task_id t) upd s))) = undoHistory (store s)"
proof -
  let ?ts = "tasks (store s)"
  have found: "find_key task_id (task_id t) ?ts = Some t"
    using ids mem by (rule find_key_distinct)
  have restored: "map_where task_id (task_id t) (\<lambda>_. t)
      (map_where task_id (task_id t) (\<lambda>x. merge_patch x (upd\<lparr>p_updated_at := Some (now env)\<rparr>)) ?ts)
      = ?ts"
    using ids mem pid by (intro map_where_restore) simp_all
  show ?thesis
    using ok ok' room found restored
    by (simp add: updateTask_def undo_def undo_step_def tbl_update_def Let_def
        addUndoAction_last addUndoAction_butlast single_write_def set_tasks_done_def
        pop_history_def start_op_def)
qed

theorem undo_updateTask_restores_memory_witness:
  "tasks (store (undo (ok_env ''x'' ''t2'') (updateTask (ok_env ''y'' ''t1'') ''a''
      (empty_patch\<lparr>p_title := Some ''renamed''\<rparr>) (demo_sys [demo_task ''a'' 1 False]))))
   = [demo_task ''a'' 1 False]"
  using undo_updateTask_restores_memory [of "demo_task ''a'' 1 False" "demo_sys [demo_task ''a'' 1 False]"
      "empty_patch\<lparr>p_title := Some ''renamed''\<rparr>" "ok_env ''y'' ''t1''" "ok_env ''x'' ''t2''"]
  by (simp add: demo_defs empty_patch_def)

text \<open>
  C5. The same undo restores the table's due date only when the snapshot holds the key
  \<open>due_date\<close> as \<open>undefined\<close>: such a key in \<open>updateData\<close> deletes the row's field,
  while a key the snapshot lacks is left out of \<open>updateData\<close> and Dexie keeps the
  value the update wrote. A task loaded from the table, or added by the quick-add bar,
  without a due date has no such key; after giving it a due date and undoing, the row
  keeps the due date while the in-memory task has none, and the next \<open>loadTasks\<close>
  brings it back.
\<close>

theorem undo_updateTask_db_keeps_new_due_date:
  assumes mem: "t \<in> set (tasks (store s))" and row: "map_of (db s) (task_id t) \<noteq> None"
    and no_due: "due_date t = None" and sets_due: "p_due_date upd = Some (Some d)"
    and pid: "p_id upd = None"
    and ok: "\<not> fails env (task_id t)" and ok': "\<not> fails env' (task_id t)"
    and ids: "distinct (map task_id (tasks (store s)))"
  shows "map_option due_date (map_of (db (undo env' (updateTask env (task_id t) upd s))) (task_id t))
           = Some (if K_due_date \<in> undef_keys t then None else Some d)
    \<and> map_option due_date (find_key task_id (task_id t)
           (tasks (store (undo env' (updateTask env (task_id t) upd s))))) = Some None"
proof -
  have found: "find_key task_id (task_id t) (tasks (store s)) = Some t"
    using ids mem by (rule find_key_distinct)
  show ?thesis
    using ok ok' found row no_due sets_due pid
    by (auto simp: updateTask_def undo_def undo_step_def tbl_update_def Let_def
        addUndoAction_last single_write_def set_tasks_done_def map_of_map_entry
        pop_history_def start_op_def find_key_map_where_const find_key_map_where restore_patch_def)
qed

theorem undo_updateTask_db_keeps_new_due_date_witness:
  "map_option due_date (map_of (db (undo (ok_env ''x'' ''t2'') (updateTask (ok_env ''y'' ''t1'') ''a''
      (empty_patch\<lparr>p_due_date := Some (Some ''2025-12-31'')\<rparr>) (demo_sys [demo_task ''a'' 1 False])))) ''a'')
   = Some (Some ''2025-12-31'')
   \<and> map_option due_date (map_of (db (undo (ok_env ''x'' ''t2'') (updateTask (ok_env ''y'' ''t1'') ''a''
      (empty_patch\<lparr>p_due_date := Some (Some ''2025-12-31'')\<rparr>)
      (demo_sys [(demo_task ''a'' 1 False)\<lparr>undef_keys := {K_due_date}\<rparr>])))) ''a'')
   = Some None"
  using undo_updateTask_db_keeps_new_due_date [of "demo_task ''a'' 1 False" "demo_sys [demo_task ''a'' 1 False]"
      "empty_patch\<lparr>p_due_date := Some (Some ''2025-12-31'')\<rparr>" "''2025-12-31''"
      "ok_env ''y'' ''t1''" "ok_env ''x'' ''t2''"]
    undo_updateTask_db_keeps_new_due_date [of "(demo_task ''a'' 1 False)\<lparr>undef_keys := {K_due_date}\<rparr>"
      "demo_sys [(demo_task ''a'' 1 False)\<lparr>undef_keys := {K_due_date}\<rparr>]"
      "empty_patch\<lparr>p_due_date := Some (Some ''2025-12-31'')\<rparr>" "''2025-12-31''"
      "ok_env ''y'' ''t1''" "ok_env ''x'' ''t2''"]
  by (simp add: demo_defs empty_patch_def)

text \<open>A successful reorder followed by its undo: the reorder's writes and the
  inverse's writes back of the old indices all succeed.\<close>

lemma reorder_undo_runs:
  assumes i: "i < length (tasks (store s))"
    and ok: "\<forall>t \<in> set (tasks (store s)). \<not> fails env (task_id t)"
    and ok': "\<forall>t \<in> set (tasks (store s)). \<not> fails env' (task_id t)"
  obtains rows rows' where "reorderTasks env i j s = s\<lparr>db := rows,
     store := addUndoAction env Reorder_tasks Desc_reorder
       (no_undo_data\<lparr>ud_originalTasks := Some (tasks (store s))\<rparr>)
       ((start_op (store s))\<lparr>tasks := renumber_list (now env) (move (tasks (store s)) i j),
          isLoading := False\<rparr>)\<rparr>"
    and "run_all (map (\<lambda>t. tbl_update (fails env') (task_id t)
                 (empty_patch\<lparr>p_order_index := Some (order_index t)\<rparr>)) (tasks (store s))) rows = (None, rows')"
proof -
  let ?ts = "tasks (store s)"
  obtain rows where r: "reorderTasks env i j s = s\<lparr>db := rows,
     store := addUndoAction env Reorder_tasks Desc_reorder
       (no_undo_data\<lparr>ud_originalTasks := Some ?ts\<rparr>)
       ((start_op (store s))\<lparr>tasks := renumber_list (now env) (move ?ts i j), isLoading := False\<rparr>)\<rparr>"
    using reorderTasks_ok [OF i] ok by blast
  let ?ws = "map (\<lambda>t. tbl_update (fails env') (task_id t)
                 (empty_patch\<lparr>p_order_index := Some (order_index t)\<rparr>)) ?ts"
  have "fst (run_all ?ws rows) = None"
    by (rule run_all_ok) (use ok' in \<open>auto simp: tbl_update_def\<close>)
  then obtain rows' where r': "run_all ?ws rows = (None, rows')"
    by (cases "run_all ?ws rows") auto
  show ?thesis using r r' that by blast
qed

text \<open>
  C9. Undoing a successful reorder right after it gives back the list from before when
  that list was sorted by \<open>order_index\<close>: the inverse sorts the snapshot by
  \<open>order_index\<close>, which is the identity on a sorted list. The undo log is restored too.
\<close>

theorem undo_reorderTasks_restores_sorted:
  assumes i: "i < length (tasks (store s))"
    and ok: "\<forall>t \<in> set (tasks (store s)). \<not> fails env (task_id t)"
    and ok': "\<forall>t \<in> set (tasks (store s)). \<not> fails env' (task_id t)"
    and sorted: "sorted (map order_index (tasks (store s)))"
    and room: "length (undoHistory (store s)) < undo_limit"
  shows "tasks (store (undo env' (reorderTasks env i j s))) = tasks (store s)
    \<and> undoHistory (store (undo env' (reorderTasks env i j s))) = undoHistory (store s)"
proof -
  obtain rows rows' where r: "reorderTasks env i j s = s\<lparr>db := rows,
     store := addUndoAction env Reorder_tasks Desc_reorder
       (no_undo_data\<lparr>ud_originalTasks := Some (tasks (store s))\<rparr>)
       ((start_op (store s))\<lparr>tasks := renumber_list (now env) (move (tasks (store s)) i j),
          isLoading := False\<rparr>)\<rparr>"
    and r': "run_all (map (\<lambda>t. tbl_update (fails env') (task_id t)
                 (empty_patch\<lparr>p_order_index := Some (order_index t)\<rparr>)) (tasks (store s))) rows = (None, rows')"
    using reorder_undo_runs [OF i ok ok'] by blast
  show ?thesis
    using r r' room sorted
    by (simp add: undo_def undo_step_def addUndoAction_last addUndoAction_butlast batch_write_def
        set_tasks_done_def pop_history_def start_op_def sort_key_id_if_sorted)
qed

theorem undo_reorderTasks_restores_sorted_witness:
  "tasks (store (undo (ok_env ''u'' ''t2'') (reorderTasks (ok_env ''r'' ''t1'') 0 1
      (demo_sys [demo_task ''a'' 1 False, demo_task ''b'' 2 False]))))
   = [demo_task ''a'' 1 False, demo_task ''b'' 2 False]"
  using undo_reorderTasks_restores_sorted [of 0 "demo_sys [demo_task ''a'' 1 False, demo_task ''b'' 2 False]"
      "ok_env ''r'' ''t1''" "ok_env ''u'' ''t2''" 1]
  by (simp add: demo_defs)

text \<open>
  C12. Undoing any successful reorder right after it sets the in-memory list to the
  snapshot sorted by \<open>order_index\<close>, not to the snapshot: the inverse sorts. After an
  add the list is not in \<open>order_index\<close> order (C10), so undo then does not give back
  the order from before, against the spec's inverse law (P3). The undo log is restored.
\<close>

theorem undo_reorderTasks_sorts_snapshot:
  assumes i: "i < length (tasks (store s))"
    and ok: "\<forall>t \<in> set (tasks (store s)). \<not> fails env (task_id t)"
    and ok': "\<forall>t \<in> set (tasks (store s)). \<not> fails env' (task_id t)"
    and room: "length (undoHistory (store s)) < undo_limit"
  shows "tasks (store (undo env' (reorderTasks env i j s))) = sort_key order_index (tasks (store s))
    \<and> undoHistory (store (undo env' (reorderTasks env i j s))) = undoHistory (store s)"
proof -
  obtain rows rows' where r: "reorderTasks env i j s = s\<lparr>db := rows,
     store := addUndoAction env Reorder_tasks Desc_reorder
       (no_undo_data\<lparr>ud_originalTasks := Some (tasks (store s))\<rparr>)
       ((start_op (store s))\<lparr>tasks := renumber_list (now env) (move (tasks (store s)) i j),
          isLoading := False\<rparr>)\<rparr>"
    and r': "run_all (map (\<lambda>t. tbl_update (fails env') (task_id t)
                 (empty_patch\<lparr>p_order_index := Some (order_index t)\<rparr>)) (tasks (store s))) rows = (None, rows')"
    using reorder_undo_runs [OF i ok ok'] by blast
  show ?thesis
    using r r' room
    by (simp add: undo_def undo_step_def addUndoAction_last addUndoAction_butlast batch_write_def
        set_tasks_done_def pop_history_def start_op_def)
qed

theorem undo_reorderTasks_sorts_snapshot_witness:
  "0 < length (tasks (store (demo_sys [demo_task ''a'' 2 False, demo_task ''b'' 1 False])))
   \<and> tasks (store (undo (ok_env ''u'' ''t2'') (reorderTasks (ok_env ''r'' ''t1'') 0 1
      (demo_sys [demo_task ''a'' 2 False, demo_task ''b'' 1 False]))))
     = [demo_task ''b'' 1 False, demo_task ''a'' 2 False]"
  using undo_reorderTasks_sorts_snapshot [of 0 "demo_sys [demo_task ''a'' 2 False, demo_task ''b'' 1 False]"
      "ok_env ''r'' ''t1''" "ok_env ''u'' ''t2''" 1]
  by (simp add: demo_defs)

text \<open>
  C15. Undoing a successful \<open>clearCompleted\<close> right after it re-adds every cleared
  task and gives back the in-memory list from before (the re-insertion sorts by
  \<open>order_index\<close>, so the list must have been sorted without repeated indices), and
  the undo log from before.
\<close>

theorem undo_clearCompleted_restores:
  assumes some: "\<exists>t \<in> set (tasks (store s)). is_completed t"
    and ok: "\<forall>t \<in> set (tasks (store s)). \<not> fails env (task_id t)"
    and ok': "\<forall>t \<in> set (tasks (store s)). \<not> fails env' (task_id t)"
    and ids: "distinct (map task_id (tasks (store s)))"
    and sorted: "sorted (map order_index (tasks (store s)))"
    and dist: "distinct (map order_index (tasks (store s)))"
    and room: "length (undoHistory (store s)) < undo_limit"
  shows "tasks (store (undo env' (clearCompleted env s))) = tasks (store s)
    \<and> undoHistory (store (undo env' (clearCompleted env s))) = undoHistory (store s)"
proof -
  let ?ts = "tasks (store s)"
  let ?cs = "filter is_completed ?ts"
  have ne: "?cs \<noteq> []" using some by (simp add: filter_empty_conv)
  have "fst (run_all (map (\<lambda>t. tbl_delete (fails env) (task_id t)) ?cs) (db s)) = None"
    using ok by (intro run_all_ok) (auto simp: tbl_delete_def)
  then obtain rows where r: "run_all (map (\<lambda>t. tbl_delete (fails env) (task_id t)) ?cs) (db s) = (None, rows)"
    by (cases "run_all (map (\<lambda>t. tbl_delete (fails env) (task_id t)) ?cs) (db s)") auto
  have absent: "\<forall>t \<in> set ?cs. \<not> fails env' (task_id t) \<and> map_of rows (task_id t) = None"
    using ok' run_all_deletes [OF r] by auto
  have dcs: "distinct (map task_id ?cs)"
    using ids by (rule sorted_distinct_map_filter(2))
  have adds: "run_all (map (tbl_add (fails env')) ?cs) rows = (None, rows @ map (\<lambda>t. (task_id t, t)) ?cs)"
    by (rule run_all_adds [OF dcs absent])
  have perm: "mset (filter (\<lambda>t. \<not> is_completed t) ?ts @ ?cs) = mset ?ts"
    using mset_filter_split [where P = is_completed and xs = ?ts] by (simp add: add.commute)
  have restore: "sort_key order_index (filter (\<lambda>t. \<not> is_completed t) ?ts @ ?cs) = ?ts"
    by (rule sort_key_restores [OF sorted dist perm])
  have c: "clearCompleted env s = s\<lparr>db := rows,
      store := addUndoAction env Clear_completed (Desc_clear (length ?cs))
        (no_undo_data\<lparr>ud_tasks := Some ?cs\<rparr>)
        ((start_op (store s))\<lparr>tasks := filter (\<lambda>t. \<not> is_completed t) ?ts, isLoading := False\<rparr>)\<rparr>"
    using ne r by (simp add: clearCompleted_def Let_def start_op_def)
  show ?thesis
    using adds restore room
    by (simp add: c undo_def undo_step_def addUndoAction_last addUndoAction_butlast
        batch_write_def set_tasks_done_def pop_history_def start_op_def)
qed

theorem undo_clearCompleted_restores_witness:
  "tasks (store (undo (ok_env ''u'' ''t2'') (clearCompleted (ok_env ''x'' ''t1'')
      (demo_sys [demo_task ''a'' 1 False, demo_task ''b'' 2 True, demo_task ''c'' 3 False]))))
   = [demo_task ''a'' 1 False, demo_task ''b'' 2 True, demo_task ''c'' 3 False]"
  using undo_clearCompleted_restores [of "demo_sys [demo_task ''a'' 1 False, demo_task ''b'' 2 True,
      demo_task ''c'' 3 False]" "ok_env ''x'' ''t1''" "ok_env ''u'' ''t2''"]
  by (simp add: demo_defs)

end
