(* ===== verification/Invariants.thy ===== *)
theory Invariants
  imports Undo
begin

text \<open>
  The store as a state machine. Every call the presentation layer can make on
  \<open>useTaskStore\<close> is a constructor of \<open>store_op\<close>, carrying its arguments and
  the environment it runs in; \<open>exec_op\<close> runs one call to completion, and the
  reachable states are those a sequence of calls produces from the initial state (the
  store of \<open>taskStore.ts\<close> lines 80 to 88 over an empty table). Calls are serialised
  (spec, section 5), so a sequence of calls is an execution. The invariants of this
  theory hold in every reachable state, by rule induction.
\<close>

datatype store_op =
    Op_add env task_input
  | Op_update env string task_patch
  | Op_delete env string
  | Op_toggle env string
  | Op_reorder env nat nat
  | Op_clear env
  | Op_load env
  | Op_undo env
  | Op_setTasks "task list"
  | Op_setFilter task_filter
  | Op_setSearchQuery string
  | Op_setSelectedTask "string option"
  | Op_setLoading bool
  | Op_setError "store_error option"
  | Op_clearUndoHistory

definition on_store :: "(task_store \<Rightarrow> task_store) \<Rightarrow> sys \<Rightarrow> sys" where
  "on_store f s = s\<lparr>store := f (store s)\<rparr>"

fun exec_op :: "store_op \<Rightarrow> sys \<Rightarrow> sys" where
  "exec_op (Op_add env inp) s = addTask env inp s"
| "exec_op (Op_update env k p) s = updateTask env k p s"
| "exec_op (Op_delete env k) s = deleteTask env k s"
| "exec_op (Op_toggle env k) s = toggleComplete env k s"
| "exec_op (Op_reorder env i j) s = reorderTasks env i j s"
| "exec_op (Op_clear env) s = clearCompleted env s"
| "exec_op (Op_load env) s = loadTasks env s"
| "exec_op (Op_undo env) s = undo env s"
| "exec_op (Op_setTasks ts) s = on_store (setTasks ts) s"
| "exec_op (Op_setFilter f) s = on_store (setFilter f) s"
| "exec_op (Op_setSearchQuery q) s = on_store (setSearchQuery q) s"
| "exec_op (Op_setSelectedTask k) s = on_store (setSelectedTask k) s"
| "exec_op (Op_setLoading b) s = on_store (setLoading b) s"
| "exec_op (Op_setError e) s = on_store (setError e) s"
| "exec_op Op_clearUndoHistory s = on_store clearUndoHistory s"

fun run_ops :: "store_op list \<Rightarrow> sys \<Rightarrow> sys" where
  "run_ops [] s = s"
| "run_ops (o1 # os) s = run_ops os (exec_op o1 s)"

inductive reachable :: "sys \<Rightarrow> bool" where
  init: "reachable empty_sys"
| step: "reachable s \<Longrightarrow> reachable (exec_op o1 s)"

text \<open>
  The undo log's invariant: at most \<open>undo_limit\<close> entries, and \<open>canUndo\<close> says
  exactly whether there is one.
\<close>

definition hist_ok :: "task_store \<Rightarrow> bool" where
  "hist_ok st \<longleftrightarrow> length (undoHistory st) \<le> undo_limit \<and> canUndo st = (undoHistory st \<noteq> [])"

section \<open>The undo log stays bounded\<close>

lemma hist_ok_addUndoAction:
  "length (undoHistory st) \<le> undo_limit \<Longrightarrow> hist_ok (addUndoAction env ty d ud st)"
  by (auto simp: hist_ok_def addUndoAction_def Let_def undo_limit_def)

lemma hist_ok_update [simp]:
  "hist_ok (st\<lparr>tasks := ts\<rparr>) = hist_ok st"
  "hist_ok (st\<lparr>isLoading := b\<rparr>) = hist_ok st"
  "hist_ok (st\<lparr>error := e\<rparr>) = hist_ok st"
  "hist_ok (st\<lparr>selectedTaskId := k\<rparr>) = hist_ok st"
  "hist_ok (st\<lparr>filter_state := f\<rparr>) = hist_ok st"
  "hist_ok (st\<lparr>searchQuery := q\<rparr>) = hist_ok st"
  by (simp_all add: hist_ok_def)

lemma hist_ok_length: "hist_ok st \<Longrightarrow> length (undoHistory st) \<le> undo_limit"
  by (simp add: hist_ok_def)

lemma undo_step_store_log:
  "undoHistory (store (snd (undo_step env a s))) = undoHistory (store s)
   \<and> canUndo (store (snd (undo_step env a s))) = canUndo (store s)"
  by (simp add: undo_step_def Let_def single_write_def batch_write_def set_tasks_done_def
      split: undo_action_type.splits option.splits sum.splits prod.splits)

lemma hist_ok_pop: "hist_ok st \<Longrightarrow> hist_ok (pop_history st)"
  by (cases "undoHistory st" rule: rev_cases) (auto simp: hist_ok_def pop_history_def)

lemma hist_ok_cleared [simp]: "hist_ok (st\<lparr>undoHistory := [], canUndo := False\<rparr>)"
  by (simp add: hist_ok_def)

lemma hist_ok_exec_op: "hist_ok (store s) \<Longrightarrow> hist_ok (store (exec_op o1 s))"
proof (cases o1)
  case (Op_undo env)
  assume h: "hist_ok (store s)"
  show ?thesis
  proof (cases "undoHistory (store s) = []")
    case True
    with h Op_undo show ?thesis by (simp add: undo_def)
  next
    case False
    let ?s0 = "s\<lparr>store := start_op (store s)\<rparr>"
    obtain r s1 where r: "undo_step env (last (undoHistory (store s))) ?s0 = (r, s1)"
      by fastforce
    have "hist_ok (store s1)"
      using h undo_step_store_log [of env "last (undoHistory (store s))" ?s0] r
      by (simp add: hist_ok_def start_op_def)
    with False Op_undo r show ?thesis
      by (cases r) (simp_all add: undo_def hist_ok_pop fail_op_def)
  qed
qed (auto simp: op_defs Let_def on_store_def setTasks_def setFilter_def setSearchQuery_def
    setSelectedTask_def setLoading_def setError_def clearUndoHistory_def hist_ok_addUndoAction
    hist_ok_length
    split: sum.splits option.splits prod.splits if_splits)

text \<open>
  C13. In every state reachable by calls on the store, the undo log holds at most 20
  entries and \<open>canUndo\<close> is true exactly when the log is not empty (spec, section
  4.2: a bounded log, oldest entries evicted).
\<close>

theorem reachable_hist_ok:
  assumes "reachable s"
  shows "length (undoHistory (store s)) \<le> undo_limit \<and> canUndo (store s) = (undoHistory (store s) \<noteq> [])"
proof -
  from assms have "hist_ok (store s)"
  proof (induction rule: reachable.induct)
    case init
    show ?case by (simp add: hist_ok_def empty_sys_def init_store_def)
  next
    case (step s o1)
    from step.IH show ?case by (rule hist_ok_exec_op)
  qed
  then show ?thesis by (simp add: hist_ok_def)
qed

theorem reachable_hist_ok_witness:
  "length (undoHistory (store (exec_op (Op_add (ok_env ''a'' ''t1'') (quickAdd_input ''A'' Low)) empty_sys)))
     \<le> undo_limit
   \<and> canUndo (store (exec_op (Op_add (ok_env ''a'' ''t1'') (quickAdd_input ''A'' Low)) empty_sys))
     = (undoHistory (store (exec_op (Op_add (ok_env ''a'' ''t1'') (quickAdd_input ''A'' Low)) empty_sys)) \<noteq> [])"
  by (rule reachable_hist_ok [OF reachable.step [OF reachable.init]])

end
