(* ===== verification/Json.thy ===== *)
theory Json
  imports Prelude "HOL-Library.AList"
begin

text \<open>
  JavaScript values as they are stored, exported and imported by the application:
  the settings object of the settings store, the backup file and the export file
  of the data manager are plain JavaScript objects, built with object spread
  (\<open>{ ...a, ...b }\<close>) and moved through \<open>JSON.stringify\<close> / \<open>JSON.parse\<close>.
  A JSON value is the datatype \<open>json\<close>; an object is an association list of its
  own enumerable properties in insertion order (\<open>jobj\<close>).  Spread is
  \<open>AList.update\<close> of every property of the right operand in turn, which is the
  JavaScript semantics: an existing key keeps its position and takes the new
  value, a new key is appended.  Here an imported text is represented by the value
  \<open>JSON.parse\<close> returns (\<open>None\<close> when it throws); theory \<open>JsonText\<close> models
  the text level and proves the two agree.  The ordering of integer-like keys that
  JavaScript moves to the front of an object is not modelled.
\<close>

datatype json = JNull | JBool bool | JNum int | JStr string | JArr "json list"
  | JObj "(string \<times> json) list"

type_synonym jobj = "(string \<times> json) list"

text \<open>Decimal string of an array index: the property key of element \<open>n\<close>.\<close>

fun nat_str :: "nat \<Rightarrow> string" where
  "nat_str n = (if n < 10 then [char_of (48 + n)]
                else nat_str (n div 10) @ [char_of (48 + n mod 10)])"

declare nat_str.simps [simp del]

definition is_digit :: "char \<Rightarrow> bool" where
  "is_digit c \<longleftrightarrow> CHR ''0'' \<le> c \<and> c \<le> CHR ''9''"

definition digits_val :: "string \<Rightarrow> nat" where
  "digits_val ds = foldl (\<lambda>n c. 10 * n + (of_char c - 48)) 0 ds"

text \<open>The double-quote character.\<close>

definition dq :: char where "dq = CHR 0x22"

text \<open>\<open>Array.prototype.join(sep)\<close> on strings.\<close>

fun js_join :: "string \<Rightarrow> string list \<Rightarrow> string" where
  "js_join sep [] = []"
| "js_join sep [x] = x"
| "js_join sep (x # y # zs) = x @ sep @ js_join sep (y # zs)"

text \<open>\<open>s.split(c)\<close> for a one-character separator.\<close>

fun js_split :: "char \<Rightarrow> string \<Rightarrow> string list" where
  "js_split d [] = [[]]"
| "js_split d (c # cs) =
     (if c = d then [] # js_split d cs
      else (case js_split d cs of [] \<Rightarrow> [[c]] | p # ps \<Rightarrow> (c # p) # ps))"

text \<open>A canonical array index (\<open>"0"\<close> or digits without a leading zero).\<close>

definition parse_index :: "string \<Rightarrow> nat option" where
  "parse_index k =
     (if k \<noteq> [] \<and> list_all is_digit k \<and> (k = ''0'' \<or> hd k \<noteq> CHR ''0'') then Some (digits_val k) else None)"

definition index_keys :: "'a list \<Rightarrow> (string \<times> 'a) list" where
  "index_keys xs = zip (map nat_str [0..<length xs]) xs"

text \<open>\<open>{ ...a, ...b }\<close> for two objects.\<close>

definition spread :: "jobj \<Rightarrow> jobj \<Rightarrow> jobj" where
  "spread a b = fold (\<lambda>(k, v) acc. AList.update k v acc) b a"

text \<open>
  The own enumerable properties that \<open>...x\<close> contributes inside an object literal:
  \<open>undefined\<close> (\<open>None\<close>), \<open>null\<close>, booleans and numbers contribute nothing, a string
  contributes its characters under the keys \<open>"0"\<close>, \<open>"1"\<close>, \<dots>, an array its
  elements, an object its properties.
\<close>

fun spread_src :: "json option \<Rightarrow> jobj" where
  "spread_src (Some (JObj kvs)) = kvs"
| "spread_src (Some (JArr xs)) = index_keys xs"
| "spread_src (Some (JStr s)) = index_keys (map (\<lambda>c. JStr [c]) s)"
| "spread_src _ = []"

text \<open>Property access \<open>x.k\<close>; \<open>undefined\<close> is \<open>None\<close>.\<close>

fun jget :: "json \<Rightarrow> string \<Rightarrow> json option" where
  "jget (JObj kvs) k = map_of kvs k"
| "jget _ k = None"

text \<open>\<open>typeof x === 'object' && x\<close>: objects and arrays, not \<open>null\<close>.\<close>

fun is_object :: "json \<Rightarrow> bool" where
  "is_object (JObj _) = True"
| "is_object (JArr _) = True"
| "is_object _ = False"

text \<open>Of two properties with the same key the later one wins.\<close>

lemma js_split_ne [simp]: "js_split d s \<noteq> []"
  by (induction s) (auto split: list.splits)

lemma map_of_spread [simp]: "map_of (spread a b) = map_of a ++ map_of (rev b)"
proof (induction b arbitrary: a)
  case Nil
  then show ?case by (simp add: spread_def)
next
  case (Cons kv b)
  obtain k v where kv: "kv = (k, v)" by fastforce
  have "spread a (kv # b) = spread (AList.update k v a) b"
    by (simp add: spread_def kv)
  then show ?case
    using Cons.IH by (simp add: update_conv' kv map_add_def map_of_append fun_eq_iff split: option.splits)
qed

lemma distinct_spread [simp]:
  "distinct (map fst a) \<Longrightarrow> distinct (map fst (spread a b))"
proof (induction b arbitrary: a)
  case (Cons kv b)
  then show ?case by (cases kv) (simp add: spread_def distinct_update)
qed (simp add: spread_def)

lemma keys_spread_same:
  "set (map fst b) \<subseteq> set (map fst a) \<Longrightarrow> map fst (spread a b) = map fst a"
proof (induction b arbitrary: a)
  case Nil
  then show ?case by (simp add: spread_def)
next
  case (Cons kv b)
  obtain k v where kv: "kv = (k, v)" by fastforce
  have step: "spread a (kv # b) = spread (AList.update k v a) b"
    by (simp add: spread_def kv)
  have keys: "map fst (AList.update k v a) = map fst a"
    using Cons.prems by (simp add: kv update_keys)
  have "set (map fst b) \<subseteq> set (map fst (AList.update k v a))"
    using Cons.prems keys by simp
  then have "map fst (spread (AList.update k v a) b) = map fst (AList.update k v a)"
    by (rule Cons.IH)
  then show ?case
    using step keys by simp
qed

end
