(* ===== verification/Settings.thy ===== *)
theory Settings
  imports Json "HOL-Library.Monad_Syntax"
begin

text \<open>
  The settings store (\<open>src/stores/settingsStore.ts\<close>) and the settings row of the
  database (\<open>src/services/database/db.ts\<close>).  At run time the store's
  \<open>settings\<close> is a plain JavaScript object: the typed setters write well-typed
  properties into it, but \<open>importSettings\<close> spreads whatever object
  \<open>JSON.parse\<close> returned over the defaults.  The store therefore keeps the
  settings as a JSON object (\<open>jobj\<close>), and the TypeScript interface
  \<open>AppSettings\<close> is the record \<open>app_settings\<close> with an encoding
  \<open>settings_obj\<close> into objects and a decoding \<open>decode_settings\<close> that
  succeeds exactly on the objects that have every property at its declared type
  (extra properties are allowed, as in TypeScript).
\<close>

section \<open>The typed settings (\<open>types/index.ts\<close>)\<close>

datatype theme = Light | Dark | System

datatype view_mode = List_view | Grid_view | Kanban_view

record shortcuts =
  sc_new_task :: string
  sc_search :: string
  sc_toggle_complete :: string
  sc_delete_task :: string
  sc_undo :: string
  sc_export_data :: string
  sc_open_settings :: string
  sc_clear_selection :: string

record ui_preferences =
  window_size :: "int \<times> int"
  window_position :: "int \<times> int"
  sidebar_collapsed :: bool
  task_view_mode :: view_mode
  always_on_top :: bool

record app_settings =
  theme :: theme
  shortcuts :: shortcuts
  notifications_enabled :: bool
  language :: string
  ui_preferences :: ui_preferences
  auto_backup :: bool
  backup_interval :: int

section \<open>Encoding as JavaScript objects\<close>

fun theme_json :: "theme \<Rightarrow> json" where
  "theme_json Light = JStr ''light''"
| "theme_json Dark = JStr ''dark''"
| "theme_json System = JStr ''system''"

fun view_json :: "view_mode \<Rightarrow> json" where
  "view_json List_view = JStr ''list''"
| "view_json Grid_view = JStr ''grid''"
| "view_json Kanban_view = JStr ''kanban''"

definition shortcuts_obj :: "shortcuts \<Rightarrow> jobj" where
  "shortcuts_obj s =
     [(''new_task'', JStr (sc_new_task s)), (''search'', JStr (sc_search s)),
      (''toggle_complete'', JStr (sc_toggle_complete s)), (''delete_task'', JStr (sc_delete_task s)),
      (''undo'', JStr (sc_undo s)), (''export_data'', JStr (sc_export_data s)),
      (''open_settings'', JStr (sc_open_settings s)), (''clear_selection'', JStr (sc_clear_selection s))]"

definition size_json :: "int \<Rightarrow> int \<Rightarrow> json" where
  "size_json w h = JObj [(''width'', JNum w), (''height'', JNum h)]"

definition pos_json :: "int \<Rightarrow> int \<Rightarrow> json" where
  "pos_json x y = JObj [(''x'', JNum x), (''y'', JNum y)]"

definition ui_obj :: "ui_preferences \<Rightarrow> jobj" where
  "ui_obj u =
     [(''window_size'', case_prod size_json (window_size u)),
      (''window_position'', case_prod pos_json (window_position u)),
      (''sidebar_collapsed'', JBool (sidebar_collapsed u)),
      (''task_view_mode'', view_json (task_view_mode u)),
      (''always_on_top'', JBool (always_on_top u))]"

definition settings_obj :: "app_settings \<Rightarrow> jobj" where
  "settings_obj s =
     [(''theme'', theme_json (theme s)), (''shortcuts'', JObj (shortcuts_obj (shortcuts s))),
      (''notifications_enabled'', JBool (notifications_enabled s)), (''language'', JStr (language s)),
      (''ui_preferences'', JObj (ui_obj (ui_preferences s))), (''auto_backup'', JBool (auto_backup s)),
      (''backup_interval'', JNum (backup_interval s))]"

section \<open>Reading an object back at the declared types\<close>

fun as_str :: "json option \<Rightarrow> string option" where
  "as_str (Some (JStr s)) = Some s"
| "as_str _ = None"

fun as_bool :: "json option \<Rightarrow> bool option" where
  "as_bool (Some (JBool b)) = Some b"
| "as_bool _ = None"

fun as_num :: "json option \<Rightarrow> int option" where
  "as_num (Some (JNum n)) = Some n"
| "as_num _ = None"

fun as_obj :: "json option \<Rightarrow> jobj option" where
  "as_obj (Some (JObj kvs)) = Some kvs"
| "as_obj _ = None"

fun as_theme :: "json option \<Rightarrow> theme option" where
  "as_theme (Some (JStr s)) =
     (if s = ''light'' then Some Light else if s = ''dark'' then Some Dark
      else if s = ''system'' then Some System else None)"
| "as_theme _ = None"

fun as_view :: "json option \<Rightarrow> view_mode option" where
  "as_view (Some (JStr s)) =
     (if s = ''list'' then Some List_view else if s = ''grid'' then Some Grid_view
      else if s = ''kanban'' then Some Kanban_view else None)"
| "as_view _ = None"

definition decode_shortcuts :: "jobj \<Rightarrow> shortcuts option" where
  "decode_shortcuts o' = do {
     a \<leftarrow> as_str (map_of o' ''new_task''); b \<leftarrow> as_str (map_of o' ''search'');
     c \<leftarrow> as_str (map_of o' ''toggle_complete''); d \<leftarrow> as_str (map_of o' ''delete_task'');
     e \<leftarrow> as_str (map_of o' ''undo''); f \<leftarrow> as_str (map_of o' ''export_data'');
     g \<leftarrow> as_str (map_of o' ''open_settings''); h \<leftarrow> as_str (map_of o' ''clear_selection'');
     Some \<lparr>sc_new_task = a, sc_search = b, sc_toggle_complete = c, sc_delete_task = d,
           sc_undo = e, sc_export_data = f, sc_open_settings = g, sc_clear_selection = h\<rparr> }"

definition decode_pair :: "string \<Rightarrow> string \<Rightarrow> json option \<Rightarrow> (int \<times> int) option" where
  "decode_pair k1 k2 j = do {
     o' \<leftarrow> as_obj j; a \<leftarrow> as_num (map_of o' k1); b \<leftarrow> as_num (map_of o' k2); Some (a, b) }"

definition decode_ui :: "jobj \<Rightarrow> ui_preferences option" where
  "decode_ui o' = do {
     ws \<leftarrow> decode_pair ''width'' ''height'' (map_of o' ''window_size'');
     wp \<leftarrow> decode_pair ''x'' ''y'' (map_of o' ''window_position'');
     sc \<leftarrow> as_bool (map_of o' ''sidebar_collapsed'');
     vm \<leftarrow> as_view (map_of o' ''task_view_mode'');
     at \<leftarrow> as_bool (map_of o' ''always_on_top'');
     Some \<lparr>window_size = ws, window_position = wp, sidebar_collapsed = sc,
           task_view_mode = vm, always_on_top = at\<rparr> }"

definition decode_settings :: "jobj \<Rightarrow> app_settings option" where
  "decode_settings o' = do {
     th \<leftarrow> as_theme (map_of o' ''theme'');
     sc \<leftarrow> as_obj (map_of o' ''shortcuts'') \<bind> decode_shortcuts;
     ne \<leftarrow> as_bool (map_of o' ''notifications_enabled'');
     la \<leftarrow> as_str (map_of o' ''language'');
     ui \<leftarrow> as_obj (map_of o' ''ui_preferences'') \<bind> decode_ui;
     ab \<leftarrow> as_bool (map_of o' ''auto_backup'');
     bi \<leftarrow> as_num (map_of o' ''backup_interval'');
     Some \<lparr>theme = th, shortcuts = sc, notifications_enabled = ne, language = la,
           ui_preferences = ui, auto_backup = ab, backup_interval = bi\<rparr> }"

text \<open>An object is an \<open>AppSettings\<close> when it decodes.\<close>

definition settings_typed :: "jobj \<Rightarrow> bool" where
  "settings_typed o' \<longleftrightarrow> decode_settings o' \<noteq> None"

section \<open>Defaults (\<open>settingsStore.ts\<close> and \<open>db.ts\<close>)\<close>

definition defaultShortcuts :: shortcuts where
  "defaultShortcuts =
     \<lparr>sc_new_task = ''CmdOrCtrl+N'', sc_search = ''CmdOrCtrl+F'', sc_toggle_complete = ''Space'',
      sc_delete_task = ''Delete'', sc_undo = ''CmdOrCtrl+Z'', sc_export_data = ''CmdOrCtrl+Shift+E'',
      sc_open_settings = ''CmdOrCtrl+,'', sc_clear_selection = ''Escape''\<rparr>"

definition defaultUIPreferences :: ui_preferences where
  "defaultUIPreferences =
     \<lparr>window_size = (1000, 700), window_position = (-1, -1), sidebar_collapsed = False,
      task_view_mode = List_view, always_on_top = False\<rparr>"

definition defaultSettings :: app_settings where
  "defaultSettings =
     \<lparr>theme = System, shortcuts = defaultShortcuts, notifications_enabled = True,
      language = ''zh-CN'', ui_preferences = defaultUIPreferences, auto_backup = True,
      backup_interval = 24\<rparr>"

text \<open>The second copy of the defaults, written by \<open>initializeDefaultSettings\<close>.\<close>

definition db_defaultSettings :: app_settings where
  "db_defaultSettings =
     \<lparr>theme = System,
      shortcuts = \<lparr>sc_new_task = ''CmdOrCtrl+N'', sc_search = ''CmdOrCtrl+F'',
        sc_toggle_complete = ''Space'', sc_delete_task = ''Delete'', sc_undo = ''CmdOrCtrl+Z'',
        sc_export_data = ''CmdOrCtrl+Shift+E'', sc_open_settings = ''CmdOrCtrl+,'',
        sc_clear_selection = ''Escape''\<rparr>,
      notifications_enabled = True, language = ''zh-CN'',
      ui_preferences = \<lparr>window_size = (1000, 700), window_position = (-1, -1),
        sidebar_collapsed = False, task_view_mode = List_view, always_on_top = False\<rparr>,
      auto_backup = True, backup_interval = 24\<rparr>"

section \<open>The store\<close>

record settings_store =
  settings :: jobj
  showSettingsPanel :: bool

text \<open>Calls to the Electron main process made by \<open>setTheme\<close> and \<open>setAlwaysOnTop\<close>
  when \<open>window.electronAPI\<close> provides them (the flag \<open>api\<close>).\<close>

datatype ipc = Ipc_setTheme theme | Ipc_setAlwaysOnTop bool

definition init_settings_store :: settings_store where
  "init_settings_store = \<lparr>settings = settings_obj defaultSettings, showSettingsPanel = False\<rparr>"

text \<open>An object literal made of spreads, \<open>{ ...p1, ...p2, ... }\<close>; an explicit property
  \<open>k: v\<close> is the part \<open>[(k, v)]\<close>.\<close>

definition obj_lit :: "jobj list \<Rightarrow> jobj" where
  "obj_lit parts = fold (\<lambda>p acc. spread acc p) parts []"

text \<open>\<open>x.k\<close> on the value of a property: \<open>None\<close> when \<open>x\<close> is \<open>undefined\<close> or
  \<open>null\<close> (a \<open>TypeError\<close> is thrown), otherwise the property (\<open>undefined\<close> being
  \<open>None\<close>).\<close>

fun member :: "json option \<Rightarrow> string \<Rightarrow> json option option" where
  "member None k = None"
| "member (Some JNull) k = None"
| "member (Some j) k = Some (jget j k)"

text \<open>JavaScript truthiness (\<open>NaN\<close> is outside the model of numbers).\<close>

fun js_truthy :: "json option \<Rightarrow> bool" where
  "js_truthy None = False"
| "js_truthy (Some JNull) = False"
| "js_truthy (Some (JBool b)) = b"
| "js_truthy (Some (JNum n)) = (n \<noteq> 0)"
| "js_truthy (Some (JStr s)) = (s \<noteq> [])"
| "js_truthy (Some _) = True"

definition updateSettings :: "jobj \<Rightarrow> settings_store \<Rightarrow> settings_store" where
  "updateSettings upd st = st\<lparr>settings := obj_lit [settings st, upd]\<rparr>"

definition setTheme :: "bool \<Rightarrow> theme \<Rightarrow> settings_store \<Rightarrow> settings_store \<times> ipc list" where
  "setTheme api th st =
     (updateSettings [(''theme'', theme_json th)] st, if api then [Ipc_setTheme th] else [])"

definition setLanguage :: "string \<Rightarrow> settings_store \<Rightarrow> settings_store" where
  "setLanguage l = updateSettings [(''language'', JStr l)]"

definition setNotificationsEnabled :: "bool \<Rightarrow> settings_store \<Rightarrow> settings_store" where
  "setNotificationsEnabled b = updateSettings [(''notifications_enabled'', JBool b)]"

definition setAutoBackup :: "bool \<Rightarrow> settings_store \<Rightarrow> settings_store" where
  "setAutoBackup b = updateSettings [(''auto_backup'', JBool b)]"

definition setBackupInterval :: "int \<Rightarrow> settings_store \<Rightarrow> settings_store" where
  "setBackupInterval n = updateSettings [(''backup_interval'', JNum n)]"

definition updateShortcuts :: "jobj \<Rightarrow> settings_store \<Rightarrow> settings_store" where
  "updateShortcuts upd st =
     updateSettings [(''shortcuts'', JObj (obj_lit [spread_src (map_of (settings st) ''shortcuts''), upd]))] st"

definition updateUIPreferences :: "jobj \<Rightarrow> settings_store \<Rightarrow> settings_store" where
  "updateUIPreferences upd st =
     updateSettings [(''ui_preferences'',
       JObj (obj_lit [spread_src (map_of (settings st) ''ui_preferences''), upd]))] st"

definition setWindowSize :: "int \<Rightarrow> int \<Rightarrow> settings_store \<Rightarrow> settings_store" where
  "setWindowSize w h = updateUIPreferences [(''window_size'', size_json w h)]"

definition setWindowPosition :: "int \<Rightarrow> int \<Rightarrow> settings_store \<Rightarrow> settings_store" where
  "setWindowPosition x y = updateUIPreferences [(''window_position'', pos_json x y)]"

definition setTaskViewMode :: "view_mode \<Rightarrow> settings_store \<Rightarrow> settings_store" where
  "setTaskViewMode m = updateUIPreferences [(''task_view_mode'', view_json m)]"

text \<open>\<open>get().settings.ui_preferences.sidebar_collapsed\<close> throws when
  \<open>ui_preferences\<close> is missing or \<open>null\<close>: the result is \<open>None\<close> then.\<close>

definition toggleSidebar :: "settings_store \<Rightarrow> settings_store option" where
  "toggleSidebar st =
     map_option (\<lambda>cur. updateUIPreferences [(''sidebar_collapsed'', JBool (\<not> js_truthy cur))] st)
       (member (map_of (settings st) ''ui_preferences'') ''sidebar_collapsed'')"

definition setAlwaysOnTop :: "bool \<Rightarrow> bool \<Rightarrow> settings_store \<Rightarrow> settings_store \<times> ipc list" where
  "setAlwaysOnTop api b st =
     (updateUIPreferences [(''always_on_top'', JBool b)] st, if api then [Ipc_setAlwaysOnTop b] else [])"

definition toggleSettingsPanel :: "settings_store \<Rightarrow> settings_store" where
  "toggleSettingsPanel st = st\<lparr>showSettingsPanel := \<not> showSettingsPanel st\<rparr>"

definition resetSettings :: "settings_store \<Rightarrow> settings_store" where
  "resetSettings st = st\<lparr>settings := settings_obj defaultSettings\<rparr>"

text \<open>\<open>exportSettings\<close>: the value \<open>JSON.stringify\<close> writes.\<close>

definition exportSettings :: "settings_store \<Rightarrow> json" where
  "exportSettings st = JObj (settings st)"

definition import_merge :: "json \<Rightarrow> jobj" where
  "import_merge j =
     obj_lit [settings_obj defaultSettings, spread_src (Some j),
       [(''shortcuts'', JObj (obj_lit [shortcuts_obj defaultShortcuts, spread_src (jget j ''shortcuts'')]))],
       [(''ui_preferences'', JObj (obj_lit [ui_obj defaultUIPreferences, spread_src (jget j ''ui_preferences'')]))]]"

text \<open>\<open>importSettings\<close> on the result of \<open>JSON.parse\<close> (\<open>None\<close>: it threw); the
  boolean is the value returned.\<close>

definition importSettings :: "json option \<Rightarrow> settings_store \<Rightarrow> bool \<times> settings_store" where
  "importSettings parsed st =
     (case parsed of
        None \<Rightarrow> (False, st)
      | Some j \<Rightarrow> if is_object j then (True, st\<lparr>settings := import_merge j\<rparr>) else (False, st))"

definition getActiveTheme :: "bool \<Rightarrow> theme \<Rightarrow> theme" where
  "getActiveTheme system_dark th = (if th = System then (if system_dark then Dark else Light) else th)"

section \<open>Operations as steps\<close>

text \<open>The store's actions as the components call them (\<open>SettingsPanel\<close>, \<open>Sidebar\<close>,
  \<open>TaskList\<close>, \<open>App\<close>, \<open>DataManager\<close>, \<open>useI18n\<close>); \<open>updateShortcuts\<close> has no caller
  and is given an arbitrary object.\<close>

datatype settings_op =
    SetTheme bool theme | SetLanguage string | SetNotifications bool | SetAutoBackup bool
  | SetBackupInterval int | UpdateShortcuts jobj | SetWindowSize int int
  | SetWindowPosition int int | SetTaskViewMode view_mode | ToggleSidebar
  | SetAlwaysOnTop bool bool | ToggleSettingsPanel | ResetSettings | ImportSettings "json option"

fun settings_step :: "settings_op \<Rightarrow> settings_store \<Rightarrow> settings_store option" where
  "settings_step (SetTheme api th) st = Some (fst (setTheme api th st))"
| "settings_step (SetLanguage l) st = Some (setLanguage l st)"
| "settings_step (SetNotifications b) st = Some (setNotificationsEnabled b st)"
| "settings_step (SetAutoBackup b) st = Some (setAutoBackup b st)"
| "settings_step (SetBackupInterval n) st = Some (setBackupInterval n st)"
| "settings_step (UpdateShortcuts upd) st = Some (updateShortcuts upd st)"
| "settings_step (SetWindowSize w h) st = Some (setWindowSize w h st)"
| "settings_step (SetWindowPosition x y) st = Some (setWindowPosition x y st)"
| "settings_step (SetTaskViewMode m) st = Some (setTaskViewMode m st)"
| "settings_step ToggleSidebar st = toggleSidebar st"
| "settings_step (SetAlwaysOnTop api b) st = Some (fst (setAlwaysOnTop api b st))"
| "settings_step ToggleSettingsPanel st = Some (toggleSettingsPanel st)"
| "settings_step ResetSettings st = Some (resetSettings st)"
| "settings_step (ImportSettings j) st = Some (snd (importSettings j st))"

inductive settings_reachable :: "settings_store \<Rightarrow> bool" where
  init: "settings_reachable init_settings_store"
| step: "settings_reachable st \<Longrightarrow> settings_step op st = Some st' \<Longrightarrow> settings_reachable st'"

text \<open>The same operations on the typed record \<open>AppSettings\<close>, the abstract view the
  TypeScript types promise.  \<open>UpdateShortcuts\<close> and \<open>ImportSettings\<close> take untyped
  objects and have no typed counterpart.\<close>

fun typed_op :: "settings_op \<Rightarrow> bool" where
  "typed_op (UpdateShortcuts _) = False"
| "typed_op (ImportSettings _) = False"
| "typed_op _ = True"

fun typed_step :: "settings_op \<Rightarrow> app_settings \<Rightarrow> app_settings" where
  "typed_step (SetTheme api th) s = s\<lparr>theme := th\<rparr>"
| "typed_step (SetLanguage l) s = s\<lparr>language := l\<rparr>"
| "typed_step (SetNotifications b) s = s\<lparr>notifications_enabled := b\<rparr>"
| "typed_step (SetAutoBackup b) s = s\<lparr>auto_backup := b\<rparr>"
| "typed_step (SetBackupInterval n) s = s\<lparr>backup_interval := n\<rparr>"
| "typed_step (SetWindowSize w h) s = s\<lparr>ui_preferences := (ui_preferences s)\<lparr>window_size := (w, h)\<rparr>\<rparr>"
| "typed_step (SetWindowPosition x y) s =
     s\<lparr>ui_preferences := (ui_preferences s)\<lparr>window_position := (x, y)\<rparr>\<rparr>"
| "typed_step (SetTaskViewMode m) s = s\<lparr>ui_preferences := (ui_preferences s)\<lparr>task_view_mode := m\<rparr>\<rparr>"
| "typed_step ToggleSidebar s =
     s\<lparr>ui_preferences := (ui_preferences s)\<lparr>sidebar_collapsed := \<not> sidebar_collapsed (ui_preferences s)\<rparr>\<rparr>"
| "typed_step (SetAlwaysOnTop api b) s = s\<lparr>ui_preferences := (ui_preferences s)\<lparr>always_on_top := b\<rparr>\<rparr>"
| "typed_step ResetSettings s = defaultSettings"
| "typed_step _ s = s"

text \<open>The nested objects the actions dereference are objects.\<close>

definition nested_ok :: "jobj \<Rightarrow> bool" where
  "nested_ok o' \<longleftrightarrow> distinct (map fst o') \<and> as_obj (map_of o' ''shortcuts'') \<noteq> None
     \<and> as_obj (map_of o' ''ui_preferences'') \<noteq> None"

section \<open>Lemmas on object literals\<close>

lemma update_fresh: "k \<notin> set (map fst a) \<Longrightarrow> AList.update k v a = a @ [(k, v)]"
  by (induction a) auto

lemma spread_fresh:
  "distinct (map fst b) \<Longrightarrow> set (map fst b) \<inter> set (map fst a) = {} \<Longrightarrow> spread a b = a @ b"
proof (induction b arbitrary: a)
  case Nil
  then show ?case by (simp add: spread_def)
next
  case (Cons kv b)
  obtain k v where kv: "kv = (k, v)" by fastforce
  have "spread a (kv # b) = spread (a @ [(k, v)]) b"
    using Cons.prems by (simp add: spread_def kv update_fresh)
  also have "\<dots> = (a @ [(k, v)]) @ b"
    using Cons.prems by (intro Cons.IH) (auto simp: kv)
  finally show ?case by (simp add: kv)
qed

lemma obj_lit_pair: "distinct (map fst a) \<Longrightarrow> obj_lit [a, b] = spread a b"
  by (simp add: obj_lit_def spread_fresh)

lemma settings_obj_keys [simp]: "distinct (map fst (settings_obj s))"
  by (simp add: settings_obj_def)

text \<open>C20: the settings store implements the typed \<open>AppSettings\<close> record: on a store whose
  settings object encodes a record, every typed action writes the encoding of the record
  the action's TypeScript signature describes (refinement of \<open>typed_step\<close>).\<close>

lemma typed_refines:
  "typed_op op \<Longrightarrow> settings st = settings_obj s \<Longrightarrow>
   map_option settings (settings_step op st) = Some (settings_obj (typed_step op s))"
  by (cases op) (simp_all add: setTheme_def setLanguage_def setNotificationsEnabled_def setAutoBackup_def setBackupInterval_def setWindowSize_def setWindowPosition_def setTaskViewMode_def toggleSidebar_def setAlwaysOnTop_def toggleSettingsPanel_def resetSettings_def updateUIPreferences_def updateSettings_def obj_lit_pair spread_def settings_obj_def ui_obj_def size_json_def pos_json_def spread_fresh)

lemma obj_lit_Cons: "distinct (map fst a) \<Longrightarrow> obj_lit (a # ps) = fold (\<lambda>p acc. spread acc p) ps a"
  by (simp add: obj_lit_def spread_fresh)

lemma import_export_obj: "import_merge (JObj (settings_obj s)) = settings_obj s"
  by (simp add: import_merge_def obj_lit_Cons spread_def settings_obj_def shortcuts_obj_def ui_obj_def
      defaultSettings_def defaultShortcuts_def defaultUIPreferences_def)

text \<open>C21: importing what \<open>exportSettings\<close> produced restores exactly the exported
  settings object and returns true.\<close>

lemma import_export_roundtrip:
  "settings st = settings_obj s \<Longrightarrow>
   importSettings (Some (exportSettings st)) st' = (True, st'\<lparr>settings := settings_obj s\<rparr>)"
  by (simp add: importSettings_def exportSettings_def import_export_obj)

lemma updateSettings_settings:
  "distinct (map fst (settings st)) \<Longrightarrow> settings (updateSettings upd st) = spread (settings st) upd"
  by (simp add: updateSettings_def obj_lit_pair)

lemma nested_ok_settings_obj: "nested_ok (settings_obj s)"
  by (simp add: nested_ok_def settings_obj_def)

lemma nested_ok_init: "nested_ok (settings init_settings_store)"
  by (simp add: init_settings_store_def nested_ok_settings_obj)

lemma nested_ok_import: "nested_ok (import_merge j)"
  by (simp add: nested_ok_def import_merge_def obj_lit_Cons map_add_def)

lemma nested_ok_step:
  assumes ok: "nested_ok (settings st)" and st': "settings_step op st = Some st'"
  shows "nested_ok (settings st')"
proof (cases op)
  case ResetSettings
  then show ?thesis using st' by (auto simp: resetSettings_def nested_ok_settings_obj)
next
  case (ImportSettings j)
  then show ?thesis using ok st'
    by (auto simp: importSettings_def nested_ok_import split: option.splits if_splits)
qed (use ok st' in \<open>auto simp: nested_ok_def updateSettings_settings setTheme_def setLanguage_def
      setNotificationsEnabled_def setAutoBackup_def setBackupInterval_def updateShortcuts_def
      setWindowSize_def setWindowPosition_def setTaskViewMode_def toggleSidebar_def setAlwaysOnTop_def
      toggleSettingsPanel_def updateUIPreferences_def map_add_def\<close>)

lemma reachable_nested_ok: "settings_reachable st \<Longrightarrow> nested_ok (settings st)"
  by (induction rule: settings_reachable.induct) (auto intro: nested_ok_init nested_ok_step)

text \<open>C22: in every reachable state of the settings store, including after importing an
  arbitrary JSON value, \<open>toggleSidebar\<close> does not throw: \<open>ui_preferences\<close> is always an
  object.\<close>

lemma toggleSidebar_total: "settings_reachable st \<Longrightarrow> toggleSidebar st \<noteq> None"
proof -
  assume "settings_reachable st"
  then have "nested_ok (settings st)" by (rule reachable_nested_ok)
  then obtain u where "map_of (settings st) ''ui_preferences'' = Some (JObj u)"
    unfolding nested_ok_def by (auto elim: as_obj.elims)
  then show ?thesis by (simp add: toggleSidebar_def)
qed

lemma decode_encode: "decode_settings (settings_obj s) = Some s"
  by (simp add: decode_settings_def settings_obj_def decode_shortcuts_def decode_ui_def decode_pair_def
      shortcuts_obj_def ui_obj_def size_json_def pos_json_def split: prod.splits)
     (cases "theme s"; cases "task_view_mode (ui_preferences s)"; simp)

lemma setAutoBackup_obj:
  "settings st = settings_obj s \<Longrightarrow> settings (setAutoBackup b st) = settings_obj (s\<lparr>auto_backup := b\<rparr>)"
  by (simp add: setAutoBackup_def updateSettings_def obj_lit_pair spread_def settings_obj_def spread_fresh)

lemma setBackupInterval_obj:
  "settings st = settings_obj s \<Longrightarrow> settings (setBackupInterval n st) = settings_obj (s\<lparr>backup_interval := n\<rparr>)"
  by (simp add: setBackupInterval_def updateSettings_def obj_lit_pair spread_def settings_obj_def spread_fresh)

lemma updateSettings_other:
  "distinct (map fst (settings st)) \<Longrightarrow> k \<notin> set (map fst upd) \<Longrightarrow>
   map_of (settings (updateSettings upd st)) k = map_of (settings st) k"
proof -
  assume d: "distinct (map fst (settings st))" and k: "k \<notin> set (map fst upd)"
  then have "map_of (rev upd) k = None" by (simp add: map_of_eq_None_iff)
  then show ?thesis using d by (simp add: updateSettings_settings map_add_def)
qed

text \<open>The default settings written by the database (\<open>initializeDefaultSettings\<close>)
  are the defaults of the settings store.\<close>

lemma db_defaults_agree: "db_defaultSettings = defaultSettings"
  by (simp add: db_defaultSettings_def defaultSettings_def defaultShortcuts_def defaultUIPreferences_def)

text \<open>Importing an object with only a \<open>theme\<close> yields the default settings with
  that theme.\<close>

lemma import_theme_only:
  "import_merge (JObj [(''theme'', theme_json th)]) = settings_obj (defaultSettings\<lparr>theme := th\<rparr>)"
  by (simp add: import_merge_def obj_lit_Cons spread_def settings_obj_def shortcuts_obj_def ui_obj_def
      defaultSettings_def defaultShortcuts_def defaultUIPreferences_def)

text \<open>C25: \<open>importSettings\<close> checks no types: it accepts every object, and each
  top-level property other than \<open>shortcuts\<close> and \<open>ui_preferences\<close> (merged one level
  down) comes out as the object's value for that key, its last occurrence, whatever its
  type, or as the default where the object has none.  So \<open>{"theme": 42}\<close> is imported
  as it is, and the settings are then not an \<open>AppSettings\<close>.\<close>

theorem importSettings_unchecked:
  "k \<noteq> ''shortcuts'' \<Longrightarrow> k \<noteq> ''ui_preferences'' \<Longrightarrow>
   fst (importSettings (Some (JObj kvs)) st)
   \<and> map_of (settings (snd (importSettings (Some (JObj kvs)) st))) k
       = (case map_of (rev kvs) k of Some v \<Rightarrow> Some v | None \<Rightarrow> map_of (settings_obj defaultSettings) k)"
  by (simp add: importSettings_def import_merge_def obj_lit_def map_add_def settings_obj_def
      split: option.splits)

theorem importSettings_unchecked_witness:
  "''theme'' \<noteq> ''shortcuts'' \<and> ''theme'' \<noteq> ''ui_preferences''
   \<and> fst (importSettings (Some (JObj [(''theme'', JNum 42)])) init_settings_store)
   \<and> map_of (settings (snd (importSettings (Some (JObj [(''theme'', JNum 42)])) init_settings_store))) ''theme'' = Some (JNum 42)
   \<and> \<not> settings_typed (settings (snd (importSettings (Some (JObj [(''theme'', JNum 42)])) init_settings_store)))"
proof -
  have "\<not> settings_typed (settings (snd (importSettings (Some (JObj [(''theme'', JNum 42)])) init_settings_store)))"
    by (simp add: importSettings_def settings_typed_def decode_settings_def import_merge_def
        obj_lit_Cons spread_def settings_obj_def shortcuts_obj_def ui_obj_def defaultSettings_def)
  then show ?thesis
    using importSettings_unchecked [of "''theme''" "[(''theme'', JNum 42)]" init_settings_store] by simp
qed

lemma typed_refines_witness:
  "typed_op (SetTheme True Dark) \<and> settings init_settings_store = settings_obj defaultSettings \<and>
   map_option settings (settings_step (SetTheme True Dark) init_settings_store)
     = Some (settings_obj (typed_step (SetTheme True Dark) defaultSettings))"
  using typed_refines [of "SetTheme True Dark" init_settings_store defaultSettings]
  by (simp add: init_settings_store_def)

lemma import_export_roundtrip_witness:
  "settings init_settings_store = settings_obj defaultSettings \<and>
   importSettings (Some (exportSettings init_settings_store)) init_settings_store
     = (True, init_settings_store\<lparr>settings := settings_obj defaultSettings\<rparr>)"
  using import_export_roundtrip [of init_settings_store defaultSettings init_settings_store]
  by (simp add: init_settings_store_def)

lemma toggleSidebar_total_witness:
  "settings_reachable (snd (importSettings (Some (JObj [(''ui_preferences'', JNull)])) init_settings_store)) \<and>
   toggleSidebar (snd (importSettings (Some (JObj [(''ui_preferences'', JNull)])) init_settings_store)) \<noteq> None"
proof -
  have r: "settings_reachable (snd (importSettings (Some (JObj [(''ui_preferences'', JNull)])) init_settings_store))"
    by (rule settings_reachable.step [OF settings_reachable.init, of "ImportSettings (Some (JObj [(''ui_preferences'', JNull)]))"]) simp
  show ?thesis using r toggleSidebar_total [OF r] by simp
qed

end
