(* ===== verification/Backup.thy ===== *)
theory Backup
  imports Settings Table
begin

text \<open>
  The automatic backup service (\<open>src/services/autoBackup.ts\<close>, class
  \<open>AutoBackupService\<close>).  Its fields \<open>backupTimer\<close>, \<open>isBackupRunning\<close> and
  \<open>backupHistory\<close>, together with the browser's \<open>localStorage\<close>, are the record
  \<open>backup_sys\<close>; the timer is represented by its period.  \<open>performBackup\<close> is
  asynchronous: it runs synchronously up to \<open>await db.exportData()\<close> and resumes
  later, and other calls may run in between.  It is therefore split into
  \<open>performBackup_start\<close> (the guard and the locals \<open>backupId\<close>, \<open>timestamp\<close>, kept in
  \<open>pending\<close>) and \<open>performBackup_finish\<close> (everything after the \<open>await\<close>, and the
  \<open>finally\<close>).  What the environment decides is a record \<open>benv\<close>: the clock
  (\<open>Date.now()\<close> at each call), the outcome of \<open>db.exportData()\<close>, whether
  \<open>localStorage.setItem\<close> throws (quota), the byte size of the JSON text and the
  error message.  localStorage maps keys to the values whose JSON text is stored:
  a backup document, the saved history, or any other JSON value.
\<close>

datatype backup_status = Success | Failed

record backup_record =
  br_id :: string
  br_timestamp :: string
  br_size :: nat
  br_taskCount :: nat
  br_status :: backup_status
  br_error :: "string option"

record backup_doc =
  bd_version :: string
  bd_timestamp :: string
  bd_tasks :: "task list"
  bd_settings :: jobj

datatype ls_val = LS_doc backup_doc | LS_hist "backup_record list" | LS_json json

type_synonym local_storage = "(string \<times> ls_val) list"

record backup_sys =
  backupTimer :: "int option"
  isBackupRunning :: bool
  backupHistory :: "backup_record list"
  pending :: "(string \<times> string) option"
  ls :: local_storage

record benv =
  b_now :: nat
  b_iso :: string
  b_export :: "(task list \<times> jobj) option"
  b_now_key :: nat
  b_quota1 :: bool
  b_quota2 :: bool
  b_save_fails :: bool
  b_size :: nat
  b_err :: string

definition MAX_BACKUP_HISTORY :: nat where "MAX_BACKUP_HISTORY = 50"

definition backup_prefix :: string where "backup_prefix = ''desktodolist_backup_''"

definition history_key :: string where "history_key = ''desktodolist_backup_history''"

section \<open>JavaScript helpers\<close>

definition starts_with :: "string \<Rightarrow> string \<Rightarrow> bool" where
  "starts_with p s \<longleftrightarrow> take (length p) s = p"

text \<open>\<open>key.split('_').pop()\<close>: the text after the last underscore.\<close>

definition last_segment :: "string \<Rightarrow> string" where
  "last_segment s = rev (takeWhile (\<lambda>c. c \<noteq> CHR ''_'') (rev s))"

text \<open>\<open>parseInt\<close> on the text of a key (no white space or sign occurs in the
  keys): the leading decimal digits, \<open>NaN\<close> (\<open>None\<close>) when there are none.\<close>

definition parse_int :: "string \<Rightarrow> nat option" where
  "parse_int s = (let ds = takeWhile is_digit s in if ds = [] then None else Some (digits_val ds))"

text \<open>A comparator's result; \<open>NaN\<close> counts as \<open>0\<close> (ECMAScript SortCompare).\<close>

fun ts_diff :: "nat option \<Rightarrow> nat option \<Rightarrow> int" where
  "ts_diff (Some a) (Some b) = int a - int b"
| "ts_diff _ _ = 0"

text \<open>\<open>Array.prototype.sort\<close> with a comparator, as a stable insertion sort.  For a
  consistent comparator every stable sort gives this result; for the inconsistent
  comparators with \<open>NaN\<close> below the order is implementation-defined and the lemmas
  on it do not depend on the order.\<close>

fun insert_cmp :: "('a \<Rightarrow> 'a \<Rightarrow> int) \<Rightarrow> 'a \<Rightarrow> 'a list \<Rightarrow> 'a list" where
  "insert_cmp c x [] = [x]"
| "insert_cmp c x (y # ys) = (if c x y < 0 then x # y # ys else y # insert_cmp c x ys)"

definition sort_cmp :: "('a \<Rightarrow> 'a \<Rightarrow> int) \<Rightarrow> 'a list \<Rightarrow> 'a list" where
  "sort_cmp c xs = foldl (\<lambda>acc x. insert_cmp c x acc) [] xs"

text \<open>\<open>Math.round(p / q)\<close> for \<open>p, q \<ge> 0\<close>, \<open>q > 0\<close>.\<close>

definition js_round_div :: "nat \<Rightarrow> nat \<Rightarrow> nat" where
  "js_round_div p q = (2 * p + q) div (2 * q)"

section \<open>Service operations\<close>

text \<open>\<open>loadBackupHistory\<close> (called by the constructor).  The stored text was
  written by \<open>saveBackupHistory\<close>; another value under the key would be assigned
  unchecked by the source and is read here as no history.\<close>

definition loadBackupHistory :: "local_storage \<Rightarrow> backup_record list" where
  "loadBackupHistory s = (case map_of s history_key of Some (LS_hist h) \<Rightarrow> h | _ \<Rightarrow> [])"

definition init_backup :: "local_storage \<Rightarrow> backup_sys" where
  "init_backup s = \<lparr>backupTimer = None, isBackupRunning = False,
     backupHistory = loadBackupHistory s, pending = None, ls = s\<rparr>"

definition saveBackupHistory :: "bool \<Rightarrow> backup_sys \<Rightarrow> backup_sys" where
  "saveBackupHistory fails st =
     (if fails then st else st\<lparr>ls := AList.update history_key (LS_hist (backupHistory st)) (ls st)\<rparr>)"

definition addBackupRecord :: "bool \<Rightarrow> backup_record \<Rightarrow> backup_sys \<Rightarrow> backup_sys" where
  "addBackupRecord fails r st =
     (let h = r # backupHistory st;
          h' = (if length h > MAX_BACKUP_HISTORY then take MAX_BACKUP_HISTORY h else h)
      in saveBackupHistory fails (st\<lparr>backupHistory := h'\<rparr>))"

definition backup_keys :: "local_storage \<Rightarrow> string list" where
  "backup_keys s = filter (starts_with backup_prefix) (map fst s)"

definition cleanupOldBackups :: "local_storage \<Rightarrow> local_storage" where
  "cleanupOldBackups s =
     (let keys = sort_cmp (\<lambda>a b. ts_diff (parse_int (last_segment a)) (parse_int (last_segment b)))
                   (backup_keys s);
          del = take (length keys - 10) keys
      in fold AList.delete del s)"

definition stop :: "backup_sys \<Rightarrow> backup_sys" where
  "stop st = (if backupTimer st \<noteq> None then st\<lparr>backupTimer := None\<rparr> else st)"

definition performBackup_start :: "nat \<Rightarrow> string \<Rightarrow> backup_sys \<Rightarrow> backup_sys" where
  "performBackup_start now tstamp st =
     (if isBackupRunning st then st
      else st\<lparr>isBackupRunning := True, pending := Some (''backup_'' @ nat_str now, tstamp)\<rparr>)"

definition failed_record :: "string \<Rightarrow> string \<Rightarrow> string \<Rightarrow> backup_record" where
  "failed_record bid ts err = \<lparr>br_id = bid, br_timestamp = ts, br_size = 0, br_taskCount = 0,
     br_status = Failed, br_error = Some err\<rparr>"

definition success_record :: "string \<Rightarrow> string \<Rightarrow> nat \<Rightarrow> nat \<Rightarrow> backup_record" where
  "success_record bid ts sz n = \<lparr>br_id = bid, br_timestamp = ts, br_size = sz, br_taskCount = n,
     br_status = Success, br_error = None\<rparr>"

text \<open>The body of \<open>performBackup\<close> after the \<open>await\<close>: its \<open>try\<close>, \<open>catch\<close> and
  \<open>finally\<close>.\<close>

definition backup_body :: "benv \<Rightarrow> string \<Rightarrow> string \<Rightarrow> backup_sys \<Rightarrow> backup_sys" where
  "backup_body e bid ts st =
     (case b_export e of
        None \<Rightarrow> addBackupRecord (b_save_fails e) (failed_record bid ts (b_err e)) st
      | Some (tasks, sets) \<Rightarrow>
          (let doc = \<lparr>bd_version = ''1.0.0'', bd_timestamp = ts, bd_tasks = tasks, bd_settings = sets\<rparr>;
               key = backup_prefix @ nat_str (b_now_key e);
               ok = addBackupRecord (b_save_fails e) (success_record bid ts (b_size e) (length tasks))
           in if \<not> b_quota1 e then ok (st\<lparr>ls := AList.update key (LS_doc doc) (ls st)\<rparr>)
              else (let st1 = st\<lparr>ls := cleanupOldBackups (ls st)\<rparr>
                    in if b_quota2 e
                       then addBackupRecord (b_save_fails e) (failed_record bid ts (b_err e)) st1
                       else ok (st1\<lparr>ls := AList.update key (LS_doc doc) (ls st1)\<rparr>))))"

definition performBackup_finish :: "benv \<Rightarrow> backup_sys \<Rightarrow> backup_sys" where
  "performBackup_finish e st =
     (case pending st of
        None \<Rightarrow> st
      | Some (bid, ts) \<Rightarrow> (backup_body e bid ts st)\<lparr>isBackupRunning := False, pending := None\<rparr>)"

definition start :: "app_settings \<Rightarrow> benv \<Rightarrow> backup_sys \<Rightarrow> backup_sys" where
  "start s e st =
     (let st1 = stop st in
      if \<not> auto_backup s then st1
      else (performBackup_start (b_now e) (b_iso e) st1)\<lparr>backupTimer := Some (backup_interval s * 60 * 60 * 1000)\<rparr>)"

definition restart :: "app_settings \<Rightarrow> benv \<Rightarrow> backup_sys \<Rightarrow> backup_sys" where
  "restart = start"

text \<open>The interval firing: a new \<open>performBackup\<close> call.\<close>

definition tick :: "benv \<Rightarrow> backup_sys \<Rightarrow> backup_sys" where
  "tick e st = (if backupTimer st = None then st else performBackup_start (b_now e) (b_iso e) st)"

definition getLastBackup :: "backup_sys \<Rightarrow> backup_record option" where
  "getLastBackup st = (if length (backupHistory st) > 0 then Some (hd (backupHistory st)) else None)"

text \<open>\<open>manualBackup\<close>: no guard; on success the file offered for download (its name
  and document) and the record, on failure the record is logged and the error rethrown
  (\<open>Inl\<close>).\<close>

definition manualBackup ::
  "benv \<Rightarrow> backup_sys \<Rightarrow> (string + backup_record \<times> string \<times> backup_doc) \<times> backup_sys" where
  "manualBackup e st =
     (let bid = ''manual_backup_'' @ nat_str (b_now e); ts = b_iso e in
      case b_export e of
        None \<Rightarrow> (Inl (b_err e), addBackupRecord (b_save_fails e) (failed_record bid ts (b_err e)) st)
      | Some (tasks, sets) \<Rightarrow>
          (let doc = \<lparr>bd_version = ''1.0.0'', bd_timestamp = ts, bd_tasks = tasks, bd_settings = sets\<rparr>;
               r = success_record bid ts (b_size e) (length tasks);
               name = ''desktodolist-backup-'' @ takeWhile (\<lambda>c. c \<noteq> CHR ''T'') ts @ ''.json''
           in (Inr (r, name, doc), addBackupRecord (b_save_fails e) r st)))"

datatype restore_error = Backup_missing | Backup_invalid

text \<open>\<open>restoreFromBackup\<close>: validates the stored document and reports the number of
  tasks it holds (the source only shows an alert; nothing is restored).\<close>

definition restoreFromBackup :: "string \<Rightarrow> backup_sys \<Rightarrow> restore_error + nat" where
  "restoreFromBackup key st =
     (case map_of (ls st) key of
        None \<Rightarrow> Inl Backup_missing
      | Some (LS_doc d) \<Rightarrow> Inr (length (bd_tasks d))
      | Some (LS_hist h) \<Rightarrow> Inl Backup_invalid
      | Some (LS_json j) \<Rightarrow> (case jget j ''tasks'' of Some (JArr xs) \<Rightarrow> Inr (length xs) | _ \<Rightarrow> Inl Backup_invalid))"

text \<open>\<open>getAvailableBackups\<close>: key, parsed timestamp (\<open>None\<close> for \<open>NaN\<close>) and size in
  KB of every stored entry whose key has the backup prefix, newest first; \<open>sz\<close>
  is the byte size of a stored text.\<close>

definition getAvailableBackups :: "(ls_val \<Rightarrow> nat) \<Rightarrow> backup_sys \<Rightarrow> (string \<times> nat option \<times> nat) list" where
  "getAvailableBackups sz st =
     sort_cmp (\<lambda>a b. ts_diff (fst (snd b)) (fst (snd a)))
       [(k, parse_int (last_segment k), js_round_div (sz v) 1024). (k, v) \<leftarrow> ls st, starts_with backup_prefix k]"

record backup_stats =
  st_total :: nat
  st_successful :: nat
  st_failed :: nat
  st_successRate :: nat
  st_last :: "(string \<times> backup_status \<times> nat \<times> nat) option"

definition getBackupStats :: "backup_sys \<Rightarrow> backup_stats" where
  "getBackupStats st =
     (let hist = backupHistory st; total = length hist;
          successful = length (filter (\<lambda>r. br_status r = Success) hist);
          failed = length (filter (\<lambda>r. br_status r = Failed) hist)
      in \<lparr>st_total = total, st_successful = successful, st_failed = failed,
          st_successRate = (if total > 0 then js_round_div (successful * 100) total else 0),
          st_last = map_option (\<lambda>r. (br_timestamp r, br_status r, br_taskCount r, js_round_div (br_size r) 1024))
                      (getLastBackup st)\<rparr>)"

section \<open>The service as a step relation\<close>

datatype backup_op = B_start app_settings benv | B_stop | B_tick benv | B_finish benv | B_manual benv

fun backup_step :: "backup_op \<Rightarrow> backup_sys \<Rightarrow> backup_sys" where
  "backup_step (B_start s e) st = start s e st"
| "backup_step B_stop st = stop st"
| "backup_step (B_tick e) st = tick e st"
| "backup_step (B_finish e) st = performBackup_finish e st"
| "backup_step (B_manual e) st = snd (manualBackup e st)"

inductive backup_reachable :: "backup_sys \<Rightarrow> bool" where
  init: "length (loadBackupHistory s) \<le> MAX_BACKUP_HISTORY \<Longrightarrow> backup_reachable (init_backup s)"
| step: "backup_reachable st \<Longrightarrow> backup_reachable (backup_step op st)"

definition backup_inv :: "backup_sys \<Rightarrow> bool" where
  "backup_inv st \<longleftrightarrow> length (backupHistory st) \<le> MAX_BACKUP_HISTORY
     \<and> (isBackupRunning st \<longleftrightarrow> pending st \<noteq> None)"

section \<open>Fixtures\<close>

definition demo_benv :: benv where
  "demo_benv = \<lparr>b_now = 17, b_iso = ''2025-01-01T08:00:00.000Z'', b_export = Some ([], []),
     b_now_key = 18, b_quota1 = False, b_quota2 = False, b_save_fails = False, b_size = 120,
     b_err = ''QuotaExceededError''\<rparr>"

definition demo_storage :: local_storage where
  "demo_storage = [(''desktodolist_backup_5'', LS_json JNull), (''settings-store'', LS_json JNull),
     (''desktodolist_backup_7'', LS_json JNull)]"

section \<open>Lemmas\<close>

lemma addBackupRecord_fields [simp]:
  "backupHistory (addBackupRecord f r st) = take MAX_BACKUP_HISTORY (r # backupHistory st)"
  "isBackupRunning (addBackupRecord f r st) = isBackupRunning st"
  "pending (addBackupRecord f r st) = pending st"
  "backupTimer (addBackupRecord f r st) = backupTimer st"
  by (simp_all add: addBackupRecord_def saveBackupHistory_def Let_def)

lemma backup_body_fields [simp]:
  "isBackupRunning (backup_body e bid ts st) = isBackupRunning st"
  "pending (backup_body e bid ts st) = pending st"
  "backupTimer (backup_body e bid ts st) = backupTimer st"
  by (simp_all add: backup_body_def Let_def split: option.splits prod.splits)

lemma map_take_Cons: "map f (take n (x # xs)) = take n (f x # map f xs)"
  by (metis list.simps(9) take_map)

lemma backup_body_ids:
  "map br_id (backupHistory (backup_body e bid ts st)) = take MAX_BACKUP_HISTORY (bid # map br_id (backupHistory st))"
  by (simp add: backup_body_def Let_def failed_record_def success_record_def map_take_Cons split: option.splits prod.splits)

lemma length_take_hist: "length (take MAX_BACKUP_HISTORY xs) \<le> MAX_BACKUP_HISTORY"
  by simp

lemma backup_body_length [simp]:
  "length (backupHistory (backup_body e bid ts st)) = length (take MAX_BACKUP_HISTORY (bid # map br_id (backupHistory st)))"
  by (metis backup_body_ids length_map)

lemma backup_inv_step: "backup_inv st \<Longrightarrow> backup_inv (backup_step op st)"
  by (cases op) (auto simp: backup_inv_def start_def stop_def tick_def performBackup_start_def
      performBackup_finish_def manualBackup_def Let_def split: option.splits prod.splits)

text \<open>C27: in every reachable state of the backup service the history holds at most
  50 records, and a backup is marked running exactly when one is suspended at its
  \<open>await\<close>.\<close>

lemma reachable_backup_inv: "backup_reachable st \<Longrightarrow> backup_inv st"
proof (induction rule: backup_reachable.induct)
  case (init s)
  then show ?case by (simp add: backup_inv_def init_backup_def)
next
  case (step st op)
  from step.IH show ?case by (rule backup_inv_step)
qed

text \<open>C28: when the interval fires while a backup is suspended at its \<open>await\<close>, the
  second \<open>performBackup\<close> is skipped: completing the first adds exactly one record,
  the first call's, and clears the running flag.\<close>

lemma guard_skips_second_call:
  "\<not> isBackupRunning st \<Longrightarrow>
   map br_id (backupHistory (performBackup_finish e (performBackup_start n2 t2 (performBackup_start n1 t1 st))))
     = take MAX_BACKUP_HISTORY ((''backup_'' @ nat_str n1) # map br_id (backupHistory st))
   \<and> \<not> isBackupRunning (performBackup_finish e (performBackup_start n2 t2 (performBackup_start n1 t1 st)))"
  by (simp add: performBackup_start_def performBackup_finish_def backup_body_ids)

lemma status_Failed_iff: "(br_status r = Failed) = (\<not> br_status r = Success)"
  by (cases "br_status r") simp_all

lemma length_status_split:
  "length (filter (\<lambda>r. br_status r = Success) h) + length (filter (\<lambda>r. br_status r = Failed) h) = length h"
  unfolding status_Failed_iff by (rule sum_length_filter_compl)

lemma js_round_div_le: "s \<le> t \<Longrightarrow> 0 < t \<Longrightarrow> js_round_div (s * 100) t \<le> 100"
proof -
  assume "s \<le> t" "0 < t"
  then have "2 * (s * 100) + t < 101 * (2 * t)" by simp
  then have "(2 * (s * 100) + t) div (2 * t) < 101"
    using \<open>0 < t\<close> by (simp add: div_less_iff_less_mult)
  then show ?thesis by (simp add: js_round_div_def)
qed


lemma mset_insert_cmp [simp]: "mset (insert_cmp c x ys) = add_mset x (mset ys)"
  by (induction ys) auto

lemma mset_sort_cmp [simp]: "mset (sort_cmp c xs) = mset xs"
proof -
  have "mset (foldl (\<lambda>acc x. insert_cmp c x acc) acc xs) = mset acc + mset xs" for acc
    by (induction xs arbitrary: acc) auto
  then show ?thesis by (simp add: sort_cmp_def)
qed

lemma set_sort_cmp [simp]: "set (sort_cmp c xs) = set xs"
  by (metis mset_sort_cmp set_mset_mset)

lemma distinct_sort_cmp: "distinct xs \<Longrightarrow> distinct (sort_cmp c xs)"
  by (metis mset_sort_cmp distinct_count_atmost_1 set_mset_mset count_mset)

lemma map_fst_fold_delete: "map fst (fold AList.delete ks s) = filter (\<lambda>k. k \<notin> set ks) (map fst s)"
  by (induction ks arbitrary: s) (simp_all add: AList.delete_keys removeAll_filter_not_eq filter_filter eq_commute)

lemma map_of_fold_delete: "k \<notin> set ks \<Longrightarrow> map_of (fold AList.delete ks s) k = map_of s k"
  by (induction ks arbitrary: s) (simp_all add: delete_conv')

lemma cleanup_keeps_other_keys:
  "\<not> starts_with backup_prefix k \<Longrightarrow> map_of (cleanupOldBackups s) k = map_of s k"
proof -
  assume k: "\<not> starts_with backup_prefix k"
  let ?keys = "sort_cmp (\<lambda>a b. ts_diff (parse_int (last_segment a)) (parse_int (last_segment b))) (backup_keys s)"
  have "k \<notin> set (take (length ?keys - 10) ?keys)"
    using k by (auto simp: backup_keys_def dest: in_set_takeD)
  then show ?thesis by (simp add: cleanupOldBackups_def Let_def map_of_fold_delete)
qed

lemma cleanup_keeps_ten_aux:
  assumes "distinct (map fst s)"
  shows "length (backup_keys (cleanupOldBackups s)) = min (length (backup_keys s)) 10"
proof -
  let ?bk = "backup_keys s"
  let ?keys = "sort_cmp (\<lambda>a b. ts_diff (parse_int (last_segment a)) (parse_int (last_segment b))) ?bk"
  let ?del = "take (length ?keys - 10) ?keys"
  have dbk: "distinct ?bk" using assms by (simp add: backup_keys_def)
  then have dkeys: "distinct ?keys" by (rule distinct_sort_cmp)
  have len: "length ?keys = length ?bk" by (metis mset_sort_cmp size_mset)
  have sub: "set ?del \<subseteq> set ?bk" by (auto dest: in_set_takeD)
  have cdel: "card (set ?del) = length ?bk - 10"
    using dkeys len by (simp add: distinct_card)
  have "backup_keys (cleanupOldBackups s) = filter (\<lambda>k. k \<notin> set ?del) ?bk"
    by (simp add: cleanupOldBackups_def Let_def backup_keys_def map_fst_fold_delete filter_filter conj_commute)
  then have "length (backup_keys (cleanupOldBackups s)) = card (set ?bk - set ?del)"
    using dbk by (simp add: distinct_length_filter set_diff_eq Int_def conj_commute)
  also have "\<dots> = card (set ?bk) - card (set ?del)"
    using sub by (simp add: card_Diff_subset)
  also have "\<dots> = min (length ?bk) 10"
    using dbk cdel by (simp add: distinct_card)
  finally show ?thesis .
qed

lemma history_saved:
  "\<not> f \<Longrightarrow> map_of (ls (addBackupRecord f r st)) history_key = Some (LS_hist (backupHistory (addBackupRecord f r st)))"
  by (simp add: addBackupRecord_def saveBackupHistory_def Let_def update_conv')

lemma backup_body_saves_history:
  "\<not> b_save_fails e \<Longrightarrow> \<exists>h. map_of (ls (backup_body e bid ts st)) history_key = Some (LS_hist h)"
  by (auto simp: backup_body_def Let_def history_saved split: option.splits prod.splits)

lemma history_key_listed: "starts_with backup_prefix history_key"
  by (simp add: starts_with_def backup_prefix_def history_key_def)

text \<open>C31: after a completed backup whose history was saved, the list of backups
  offered for restore contains the history entry \<open>desktodolist_backup_history\<close>
  (it has the backup prefix), and restoring it always fails as an invalid backup.\<close>

lemma finish_lists_history_key:
  assumes "\<not> b_save_fails e" "pending st \<noteq> None"
  shows "history_key \<in> fst ` set (getAvailableBackups sz (performBackup_finish e st))
         \<and> restoreFromBackup history_key (performBackup_finish e st) = Inl Backup_invalid"
proof -
  obtain bid ts where p: "pending st = Some (bid, ts)" using assms(2) by auto
  obtain h where h: "map_of (ls (backup_body e bid ts st)) history_key = Some (LS_hist h)"
    using backup_body_saves_history [OF assms(1)] by blast
  have hs: "map_of (ls (performBackup_finish e st)) history_key = Some (LS_hist h)"
    using h p by (simp add: performBackup_finish_def)
  then have "(history_key, LS_hist h) \<in> set (ls (performBackup_finish e st))"
    by (rule map_of_SomeD)
  then have "history_key \<in> fst ` set (getAvailableBackups sz (performBackup_finish e st))"
    using history_key_listed by (force simp: getAvailableBackups_def)
  then show ?thesis using hs by (simp add: restoreFromBackup_def)
qed

text \<open>\<open>start\<close> always clears the previous interval; with \<open>auto_backup\<close> off it
  leaves no timer and starts no backup, otherwise there is one interval of
  \<open>backup_interval\<close> hours and a backup is running.\<close>

lemma start_timer:
  "backupTimer (start s e st) = (if auto_backup s then Some (backup_interval s * 3600000) else None)
   \<and> isBackupRunning (start s e st) = (auto_backup s \<or> isBackupRunning st)"
  by (simp add: start_def stop_def performBackup_start_def Let_def)

text \<open>C30: \<open>cleanupOldBackups\<close> removes only entries with the backup prefix and keeps
  ten of them (all when there are fewer), whatever order the comparator's sort produces.\<close>

lemma cleanupOldBackups_spec:
  assumes "distinct (map fst s)"
  shows "(\<forall>k. \<not> starts_with backup_prefix k \<longrightarrow> map_of (cleanupOldBackups s) k = map_of s k)
         \<and> length (backup_keys (cleanupOldBackups s)) = min (length (backup_keys s)) 10"
  using assms cleanup_keeps_other_keys cleanup_keeps_ten_aux by blast

lemma reachable_backup_inv_witness:
  "backup_reachable (backup_step (B_start defaultSettings demo_benv) (init_backup []))
   \<and> backup_inv (backup_step (B_start defaultSettings demo_benv) (init_backup []))"
proof -
  have r: "backup_reachable (backup_step (B_start defaultSettings demo_benv) (init_backup []))"
    by (rule backup_reachable.step, rule backup_reachable.init) (simp add: loadBackupHistory_def MAX_BACKUP_HISTORY_def)
  show ?thesis using r reachable_backup_inv [OF r] by simp
qed

lemma guard_skips_second_call_witness:
  "\<not> isBackupRunning (init_backup [])
   \<and> map br_id (backupHistory (performBackup_finish demo_benv
        (performBackup_start 2 ''b'' (performBackup_start 1 ''a'' (init_backup [])))))
       = take MAX_BACKUP_HISTORY ((''backup_'' @ nat_str 1) # map br_id (backupHistory (init_backup [])))
   \<and> \<not> isBackupRunning (performBackup_finish demo_benv
        (performBackup_start 2 ''b'' (performBackup_start 1 ''a'' (init_backup []))))"
  using guard_skips_second_call [of "init_backup []" demo_benv 2 "''b''" 1 "''a''"]
  by (simp add: init_backup_def)

lemma cleanupOldBackups_spec_witness:
  "distinct (map fst demo_storage)
   \<and> map_of (cleanupOldBackups demo_storage) ''settings-store'' = map_of demo_storage ''settings-store''
   \<and> length (backup_keys (cleanupOldBackups demo_storage)) = min (length (backup_keys demo_storage)) 10"
proof -
  have d: "distinct (map fst demo_storage)" by (simp add: demo_storage_def)
  have n: "\<not> starts_with backup_prefix ''settings-store''" by (simp add: starts_with_def backup_prefix_def)
  show ?thesis using d n cleanupOldBackups_spec [OF d] by blast
qed

lemma finish_lists_history_key_witness:
  "\<not> b_save_fails demo_benv \<and> pending (performBackup_start 1 ''a'' (init_backup [])) \<noteq> None
   \<and> history_key \<in> fst ` set (getAvailableBackups (\<lambda>v. 0)
        (performBackup_finish demo_benv (performBackup_start 1 ''a'' (init_backup []))))
   \<and> restoreFromBackup history_key
        (performBackup_finish demo_benv (performBackup_start 1 ''a'' (init_backup []))) = Inl Backup_invalid"
proof -
  have h: "\<not> b_save_fails demo_benv" "pending (performBackup_start 1 ''a'' (init_backup [])) \<noteq> None"
    by (simp_all add: demo_benv_def performBackup_start_def init_backup_def)
  show ?thesis using h finish_lists_history_key [OF h] by blast
qed

end
