(* ===== verification/AutoBackupHook.thy ===== *)
theory AutoBackupHook
  imports Backup
begin

text \<open>
  The composition of the settings store with the backup service.  The hook
  \<open>useAutoBackup\<close> (\<open>src/src/hooks/useAutoBackup.ts\<close>) mirrors the service's data in
  React state (\<open>backup_hook\<close>), starts the service when it mounts, restarts it when
  \<open>settings.auto_backup\<close> or \<open>settings.backup_interval\<close> change, and wraps
  \<open>manualBackup\<close> and \<open>restoreFromBackup\<close>.  The settings panel
  (\<open>src/src/components/SettingsPanel.tsx\<close>) is where those settings change: its
  buttons call the settings store's actions, and the hook's effect then runs on the new
  settings.  \<open>backup_app\<close> holds the three parts; \<open>app_event\<close> is one click followed
  by the effects it triggers.  The service reads the settings through
  \<open>useSettingsStore.getState()\<close> as an \<open>AppSettings\<close>; the model decodes them
  (\<open>decode_settings\<close>), and settings that do not decode (after an ill-typed import) are
  outside it (\<open>None\<close>).
\<close>

section \<open>The hook\<close>

record backup_hook =
  isBackingUp :: bool
  hk_history :: "backup_record list"
  hk_available :: "(string \<times> nat option \<times> nat) list"
  hk_last :: "backup_record option"
  hk_stats :: backup_stats

definition init_hook :: backup_hook where
  "init_hook = \<lparr>isBackingUp = False, hk_history = [], hk_available = [], hk_last = None,
     hk_stats = \<lparr>st_total = 0, st_successful = 0, st_failed = 0, st_successRate = 0, st_last = None\<rparr>\<rparr>"

definition refreshBackupData :: "(ls_val \<Rightarrow> nat) \<Rightarrow> backup_sys \<Rightarrow> backup_hook \<Rightarrow> backup_hook" where
  "refreshBackupData sz sv h =
     h\<lparr>hk_history := backupHistory sv, hk_available := getAvailableBackups sz sv,
       hk_last := getLastBackup sv, hk_stats := getBackupStats sv\<rparr>"

text \<open>\<open>manualBackup\<close>: the data is refreshed only when the backup succeeded; the error
  is rethrown (\<open>Inl\<close>); \<open>finally\<close> clears \<open>isBackingUp\<close>.\<close>

definition hook_manualBackup ::
  "(ls_val \<Rightarrow> nat) \<Rightarrow> benv \<Rightarrow> backup_sys \<Rightarrow> backup_hook \<Rightarrow> (string + unit) \<times> backup_sys \<times> backup_hook" where
  "hook_manualBackup sz e sv h =
     (case manualBackup e sv of
        (Inl err, sv1) \<Rightarrow> (Inl err, sv1, h\<lparr>isBackingUp := False\<rparr>)
      | (Inr _, sv1) \<Rightarrow> (Inr (), sv1, (refreshBackupData sz sv1 h)\<lparr>isBackingUp := False\<rparr>))"

definition hook_restoreFromBackup ::
  "(ls_val \<Rightarrow> nat) \<Rightarrow> string \<Rightarrow> backup_sys \<Rightarrow> backup_hook \<Rightarrow> (restore_error + unit) \<times> backup_hook" where
  "hook_restoreFromBackup sz k sv h =
     (case restoreFromBackup k sv of
        Inl err \<Rightarrow> (Inl err, h)
      | Inr _ \<Rightarrow> (Inr (), refreshBackupData sz sv h))"

text \<open>The dependency list \<open>[settings.auto_backup, settings.backup_interval]\<close> of the
  restart effect (compared with \<open>Object.is\<close>: the values are primitives).\<close>

definition backup_deps :: "settings_store \<Rightarrow> json option \<times> json option" where
  "backup_deps st = (map_of (settings st) ''auto_backup'', map_of (settings st) ''backup_interval'')"

text \<open>After a render with settings \<open>new\<close> that followed settings \<open>old\<close>: the service is
  restarted when a dependency changed.\<close>

definition hook_settings_effect ::
  "benv \<Rightarrow> settings_store \<Rightarrow> settings_store \<Rightarrow> backup_sys \<Rightarrow> backup_sys option" where
  "hook_settings_effect e old new sv =
     (if backup_deps old = backup_deps new then Some sv
      else map_option (\<lambda>s. restart s e sv) (decode_settings (settings new)))"

text \<open>Mounting runs the effects in order: the first refreshes the data and calls
  \<open>start()\<close>, the second calls \<open>restart()\<close> (its dependencies are new), the third
  installs the one-minute refresh interval.  The two service calls happen at the
  instants \<open>e1\<close> and \<open>e2\<close>.\<close>

definition hook_mount ::
  "(ls_val \<Rightarrow> nat) \<Rightarrow> benv \<Rightarrow> benv \<Rightarrow> settings_store \<Rightarrow> backup_sys \<Rightarrow> backup_hook \<Rightarrow> (backup_sys \<times> backup_hook) option" where
  "hook_mount sz e1 e2 st sv h =
     (case decode_settings (settings st) of
        None \<Rightarrow> None
      | Some s \<Rightarrow> Some (restart s e2 (start s e1 sv), refreshBackupData sz sv h))"

text \<open>Unmounting: the cleanup of the first effect.\<close>

definition hook_unmount :: "backup_sys \<Rightarrow> backup_sys" where
  "hook_unmount sv = stop sv"

section \<open>The settings panel\<close>

datatype panel_tab = General_tab | Shortcuts_tab | Data_tab

datatype setting_click =
    Click_theme theme | Click_view view_mode | Click_on_top | Click_notifications
  | Click_auto_backup | Pick_interval int

datatype panel_event = Panel_tab panel_tab | Panel_setting setting_click | Panel_manual_backup

datatype panel_alert = Backup_done | Backup_failed string

text \<open>The toggles read the current value: \<open>setAlwaysOnTop(!settings.ui_preferences.always_on_top)\<close>
  (\<open>None\<close>: reading it threw), \<open>setNotificationsEnabled(!settings.notifications_enabled)\<close>,
  \<open>setAutoBackup(!settings.auto_backup)\<close>.  \<open>api\<close> is whether \<open>window.electronAPI\<close>
  exists.\<close>

definition click_on_top :: "bool \<Rightarrow> settings_store \<Rightarrow> settings_op option" where
  "click_on_top api st =
     map_option (\<lambda>cur. SetAlwaysOnTop api (\<not> js_truthy cur))
       (member (map_of (settings st) ''ui_preferences'') ''always_on_top'')"

definition click_notifications :: "settings_store \<Rightarrow> settings_op" where
  "click_notifications st = SetNotifications (\<not> js_truthy (map_of (settings st) ''notifications_enabled''))"

definition click_auto_backup :: "settings_store \<Rightarrow> settings_op" where
  "click_auto_backup st = SetAutoBackup (\<not> js_truthy (map_of (settings st) ''auto_backup''))"

text \<open>The store action each control calls.\<close>

fun setting_op :: "bool \<Rightarrow> settings_store \<Rightarrow> setting_click \<Rightarrow> settings_op option" where
  "setting_op api st (Click_theme th) = Some (SetTheme api th)"
| "setting_op api st (Click_view m) = Some (SetTaskViewMode m)"
| "setting_op api st Click_on_top = click_on_top api st"
| "setting_op api st Click_notifications = Some (click_notifications st)"
| "setting_op api st Click_auto_backup = Some (click_auto_backup st)"
| "setting_op api st (Pick_interval n) = Some (SetBackupInterval n)"

record backup_app =
  ba_tab :: panel_tab
  ba_store :: settings_store
  ba_service :: backup_sys
  ba_hook :: backup_hook

text \<open>One event of the panel and the effects it triggers.\<close>

fun app_event ::
  "(ls_val \<Rightarrow> nat) \<Rightarrow> bool \<Rightarrow> benv \<Rightarrow> panel_event \<Rightarrow> backup_app \<Rightarrow> (backup_app \<times> panel_alert list) option" where
  "app_event sz api e (Panel_tab t) a = Some (a\<lparr>ba_tab := t\<rparr>, [])"
| "app_event sz api e Panel_manual_backup a =
     (case hook_manualBackup sz e (ba_service a) (ba_hook a) of
        (r, sv, h) \<Rightarrow> Some (a\<lparr>ba_service := sv, ba_hook := h\<rparr>,
                           [case r of Inl m \<Rightarrow> Backup_failed m | Inr _ \<Rightarrow> Backup_done]))"
| "app_event sz api e (Panel_setting c) a = do {
     op \<leftarrow> setting_op api (ba_store a) c;
     st \<leftarrow> settings_step op (ba_store a);
     sv \<leftarrow> hook_settings_effect e (ba_store a) st (ba_service a);
     Some (a\<lparr>ba_store := st, ba_service := sv\<rparr>, [])
   }"

section \<open>Lemmas\<close>

text \<open>A second \<open>start()\<close> while the first backup is suspended sets the same timer and
  starts no backup.\<close>

lemma start_start: "start s e2 (start s e1 sv) = start s e1 sv"
  by (simp add: start_def stop_def performBackup_start_def Let_def)

lemma map_of_settings_obj_auto [simp]: "map_of (settings_obj s) ''auto_backup'' = Some (JBool (auto_backup s))"
  by (simp add: settings_obj_def)

text \<open>C26: mounting the hook runs \<open>start()\<close> and then \<open>restart()\<close>; with auto-backup on
  and no backup running, exactly one backup is started, the first call's, and one
  interval of \<open>backup_interval\<close> hours is installed: the second call finds the first
  suspended at its \<open>await\<close> and skips.\<close>

lemma mount_single_backup:
  assumes "decode_settings (settings st) = Some s" "auto_backup s" "\<not> isBackupRunning sv"
  shows "\<exists>sv' h'. hook_mount sz e1 e2 st sv h = Some (sv', h')
           \<and> pending sv' = Some (''backup_'' @ nat_str (b_now e1), b_iso e1)
           \<and> backupTimer sv' = Some (backup_interval s * 3600000) \<and> isBackupRunning sv'"
  using assms by (simp add: hook_mount_def restart_def start_start) (simp add: start_def stop_def performBackup_start_def)

lemma mount_single_backup_witness:
  "decode_settings (settings init_settings_store) = Some defaultSettings \<and> auto_backup defaultSettings
   \<and> \<not> isBackupRunning (init_backup [])
   \<and> (\<exists>sv' h'. hook_mount (\<lambda>_. 0) demo_benv demo_benv init_settings_store (init_backup []) init_hook = Some (sv', h')
        \<and> pending sv' = Some (''backup_'' @ nat_str (b_now demo_benv), b_iso demo_benv)
        \<and> backupTimer sv' = Some (backup_interval defaultSettings * 3600000) \<and> isBackupRunning sv')"
proof -
  have h: "decode_settings (settings init_settings_store) = Some defaultSettings" "auto_backup defaultSettings"
    "\<not> isBackupRunning (init_backup [])"
    by (simp_all add: init_settings_store_def decode_encode defaultSettings_def init_backup_def)
  show ?thesis using h mount_single_backup [OF h, of "\<lambda>_. 0" demo_benv demo_benv init_hook] by blast
qed

text \<open>Switching auto-backup off in the panel restarts the service without a timer;
  a backup already suspended still completes.\<close>

lemma panel_auto_backup_off:
  assumes "settings (ba_store a) = settings_obj s" "auto_backup s"
  shows "\<exists>a'. app_event sz api e (Panel_setting Click_auto_backup) a = Some (a', [])
           \<and> settings (ba_store a') = settings_obj (s\<lparr>auto_backup := False\<rparr>)
           \<and> backupTimer (ba_service a') = None \<and> pending (ba_service a') = pending (ba_service a)"
  using assms
  by (simp add: click_auto_backup_def setAutoBackup_obj hook_settings_effect_def backup_deps_def decode_encode restart_def start_def stop_def)

text \<open>Switching it on installs the interval and starts a backup unless one is running.\<close>

lemma panel_auto_backup_on:
  assumes "settings (ba_store a) = settings_obj s" "\<not> auto_backup s"
  shows "\<exists>a'. app_event sz api e (Panel_setting Click_auto_backup) a = Some (a', [])
           \<and> settings (ba_store a') = settings_obj (s\<lparr>auto_backup := True\<rparr>)
           \<and> backupTimer (ba_service a') = Some (backup_interval s * 3600000)
           \<and> isBackupRunning (ba_service a')"
  using assms
  by (simp add: click_auto_backup_def setAutoBackup_obj hook_settings_effect_def backup_deps_def decode_encode restart_def start_def
      stop_def performBackup_start_def Let_def mult.commute)

text \<open>A setting the effect does not depend on leaves the service alone.\<close>

lemma panel_theme_keeps_service:
  assumes "settings (ba_store a) = settings_obj s"
  shows "\<exists>a'. app_event sz api e (Panel_setting (Click_theme th)) a = Some (a', []) \<and> ba_service a' = ba_service a"
proof -
  have "backup_deps (fst (setTheme api th (ba_store a))) = backup_deps (ba_store a)"
    using assms by (simp add: backup_deps_def setTheme_def updateSettings_other)
  then show ?thesis by (simp add: hook_settings_effect_def)
qed

text \<open>After a failed manual backup the service has logged the failure, but the hook
  refreshes only on success: the panel keeps showing the previous last backup (and
  statistics) until the one-minute refresh.\<close>

lemma manual_failure_stale:
  assumes "b_export e = None"
    and "app_event sz api e Panel_manual_backup a = Some (a', al)"
  shows "al = [Backup_failed (b_err e)] \<and> hk_last (ba_hook a') = hk_last (ba_hook a)
         \<and> getLastBackup (ba_service a') = Some (failed_record (''manual_backup_'' @ nat_str (b_now e)) (b_iso e) (b_err e))"
  using assms
  by (auto simp: hook_manualBackup_def manualBackup_def getLastBackup_def MAX_BACKUP_HISTORY_def)

end
