(* ===== verification/Electron.thy ===== *)
theory Electron
  imports AutoBackupHook
begin

text \<open>
  The Electron main process (\<open>src/electron/main.js\<close>), the bridge the preload script
  exposes as \<open>window.electronAPI\<close> (\<open>src/electron/preload.js\<close>), and the renderer's
  side of the conversation: the start-up effect of \<open>src/src/App.tsx\<close> that
  synchronises the always-on-top flag, and the settings store's actions that send IPC
  messages.  The main process's module state (\<open>mainWindow\<close>, \<open>tray\<close>,
  \<open>alwaysOnTop\<close>) is the record \<open>main_proc\<close>; the window is the part of a
  \<open>BrowserWindow\<close> the handlers read and write; \<open>tray_menu\<close> is the flag the tray's
  context menu was last built from (\<open>None\<close>: no tray).  \<open>process.platform ===
  'darwin'\<close> is the parameter \<open>darwin\<close>.  Each \<open>ipcMain.handle\<close> handler is a branch of
  \<open>ipc_handle\<close>; IPC messages are handled in the order they are sent.  Window
  creation options, icons and the dev server are not modelled.
\<close>

section \<open>The main process\<close>

record browser_window =
  w_visible :: bool
  w_minimized :: bool
  w_maximized :: bool
  w_on_top :: bool

record main_proc =
  mainWindow :: "browser_window option"
  tray_menu :: "bool option"
  alwaysOnTop :: bool
  app_quit :: bool

definition init_main :: main_proc where
  "init_main = \<lparr>mainWindow = None, tray_menu = None, alwaysOnTop = False, app_quit = False\<rparr>"

text \<open>\<open>mainWindow?.f()\<close>.\<close>

definition with_window :: "(browser_window \<Rightarrow> browser_window) \<Rightarrow> main_proc \<Rightarrow> main_proc" where
  "with_window f m = m\<lparr>mainWindow := map_option f (mainWindow m)\<rparr>"

text \<open>\<open>mainWindow?.isVisible() ? hide() : show()\<close>.\<close>

definition toggle_visible :: "main_proc \<Rightarrow> main_proc" where
  "toggle_visible m = with_window (\<lambda>w. w\<lparr>w_visible := \<not> w_visible w\<rparr>) m"

definition createWindow :: "main_proc \<Rightarrow> main_proc" where
  "createWindow m =
     m\<lparr>mainWindow := Some \<lparr>w_visible = True, w_minimized = False, w_maximized = False,
                             w_on_top = alwaysOnTop m\<rparr>\<rparr>"

text \<open>The label of the menu's first item, from the flag the menu was built with.\<close>

definition menu_label :: "bool \<Rightarrow> string" where
  "menu_label on_top =
     (if on_top then utf8 [229, 143, 150, 230, 182, 136, 231, 189, 174, 233, 161, 182]
      else utf8 [231, 189, 174, 233, 161, 182, 230, 130, 172, 230, 181, 174])"

definition buildTray :: "main_proc \<Rightarrow> main_proc" where
  "buildTray m = m\<lparr>tray_menu := Some (alwaysOnTop m)\<rparr>"

text \<open>After \<open>alwaysOnTop\<close> was assigned: \<open>mainWindow?.setAlwaysOnTop(alwaysOnTop)\<close> and,
  when there is a tray, \<open>tray.setContextMenu(getMenu())\<close>.\<close>

definition apply_on_top :: "main_proc \<Rightarrow> main_proc" where
  "apply_on_top m =
     (let m1 = with_window (\<lambda>w. w\<lparr>w_on_top := alwaysOnTop m\<rparr>) m in
      if tray_menu m1 = None then m1 else m1\<lparr>tray_menu := Some (alwaysOnTop m)\<rparr>)"

text \<open>\<open>app.quit()\<close> first closes the windows; on macOS the window's \<open>close\<close> handler
  prevents the close and hides the window, which cancels the quit.  Elsewhere the
  window closes (\<open>closed\<close> clears \<open>mainWindow\<close>) and the application quits.\<close>

definition app_quit_call :: "bool \<Rightarrow> main_proc \<Rightarrow> main_proc" where
  "app_quit_call darwin m =
     (if darwin \<and> mainWindow m \<noteq> None then with_window (\<lambda>w. w\<lparr>w_visible := False\<rparr>) m
      else m\<lparr>mainWindow := None, app_quit := True\<rparr>)"

datatype ipc_request =
    Get_always_on_top | Toggle_always_on_top | Set_always_on_top "json option"
  | Set_theme "json option" | Minimize_window | Maximize_window | Close_window
  | Toggle_window | Quit_app

text \<open>The \<open>ipcMain.handle\<close> handlers: the value returned to the renderer (\<open>None\<close> is
  \<open>undefined\<close>) and the new state.  \<open>Boolean(value)\<close> is \<open>js_truthy\<close>.\<close>

fun ipc_handle :: "bool \<Rightarrow> ipc_request \<Rightarrow> main_proc \<Rightarrow> json option \<times> main_proc" where
  "ipc_handle darwin Get_always_on_top m = (Some (JBool (alwaysOnTop m)), m)"
| "ipc_handle darwin Toggle_always_on_top m =
     (let m1 = apply_on_top (m\<lparr>alwaysOnTop := \<not> alwaysOnTop m\<rparr>) in (Some (JBool (alwaysOnTop m1)), m1))"
| "ipc_handle darwin (Set_always_on_top v) m =
     (let m1 = apply_on_top (m\<lparr>alwaysOnTop := js_truthy v\<rparr>) in (Some (JBool (alwaysOnTop m1)), m1))"
| "ipc_handle darwin (Set_theme v) m = (None, m)"
| "ipc_handle darwin Minimize_window m = (None, with_window (\<lambda>w. w\<lparr>w_minimized := True\<rparr>) m)"
| "ipc_handle darwin Maximize_window m = (None, with_window (\<lambda>w. w\<lparr>w_maximized := \<not> w_maximized w\<rparr>) m)"
| "ipc_handle darwin Close_window m =
     (None, if darwin then with_window (\<lambda>w. w\<lparr>w_visible := False\<rparr>) m else app_quit_call darwin m)"
| "ipc_handle darwin Toggle_window m = (None, toggle_visible m)"
| "ipc_handle darwin Quit_app m = (None, app_quit_call darwin m)"

text \<open>The items of the tray's context menu (the last has \<open>role: 'quit'\<close>, which calls
  \<open>app.quit()\<close>), and the double click on the icon.\<close>

datatype tray_event = Tray_toggle_on_top | Tray_show_hide | Tray_quit | Tray_double_click

fun tray_click :: "bool \<Rightarrow> tray_event \<Rightarrow> main_proc \<Rightarrow> main_proc" where
  "tray_click darwin Tray_toggle_on_top m = apply_on_top (m\<lparr>alwaysOnTop := \<not> alwaysOnTop m\<rparr>)"
| "tray_click darwin Tray_show_hide m = toggle_visible m"
| "tray_click darwin Tray_quit m = app_quit_call darwin m"
| "tray_click darwin Tray_double_click m = toggle_visible m"

text \<open>Closing the window: on macOS the \<open>close\<close> handler prevents it and hides the
  window; elsewhere the window closes (\<open>closed\<close> clears \<open>mainWindow\<close>) and
  \<open>window-all-closed\<close> quits.\<close>

definition window_close :: "bool \<Rightarrow> main_proc \<Rightarrow> main_proc" where
  "window_close darwin m =
     (if darwin then with_window (\<lambda>w. w\<lparr>w_visible := False\<rparr>) m
      else m\<lparr>mainWindow := None, app_quit := True\<rparr>)"

text \<open>\<open>activate\<close>: a new window when there is none.\<close>

definition app_activate :: "main_proc \<Rightarrow> main_proc" where
  "app_activate m = (if mainWindow m = None then createWindow m else m)"

definition app_ready :: "main_proc \<Rightarrow> main_proc" where
  "app_ready m = buildTray (createWindow m)"

datatype main_event = Ipc ipc_request | Tray tray_event | Close_clicked | Activate

fun main_step :: "bool \<Rightarrow> main_event \<Rightarrow> main_proc \<Rightarrow> main_proc" where
  "main_step darwin (Ipc r) m = snd (ipc_handle darwin r m)"
| "main_step darwin (Tray t) m = tray_click darwin t m"
| "main_step darwin Close_clicked m = window_close darwin m"
| "main_step darwin Activate m = app_activate m"

inductive main_reachable :: "bool \<Rightarrow> main_proc \<Rightarrow> bool" for darwin where
  ready: "main_reachable darwin (app_ready init_main)"
| step: "main_reachable darwin m \<Longrightarrow> main_reachable darwin (main_step darwin ev m)"

text \<open>The window and the tray menu agree with the main process's flag.\<close>

definition main_inv :: "main_proc \<Rightarrow> bool" where
  "main_inv m \<longleftrightarrow> (\<forall>w. mainWindow m = Some w \<longrightarrow> w_on_top w = alwaysOnTop m)
                  \<and> tray_menu m = Some (alwaysOnTop m)"

section \<open>The renderer and the bridge\<close>

text \<open>\<open>window.electronAPI\<close>: the store's messages on their channels.\<close>

fun ipc_of :: "ipc \<Rightarrow> ipc_request" where
  "ipc_of (Ipc_setTheme th) = Set_theme (Some (theme_json th))"
| "ipc_of (Ipc_setAlwaysOnTop b) = Set_always_on_top (Some (JBool b))"

definition deliver :: "bool \<Rightarrow> ipc list \<Rightarrow> main_proc \<Rightarrow> main_proc" where
  "deliver darwin is m = fold (\<lambda>i. main_step darwin (Ipc (ipc_of i))) is m"

record desktop =
  dk_store :: settings_store
  dk_main :: main_proc

text \<open>A settings store action with the messages it sends.\<close>

fun store_op_ipc :: "settings_op \<Rightarrow> settings_store \<Rightarrow> (settings_store \<times> ipc list) option" where
  "store_op_ipc (SetTheme api th) st = Some (setTheme api th st)"
| "store_op_ipc (SetAlwaysOnTop api b) st = Some (setAlwaysOnTop api b st)"
| "store_op_ipc op st = map_option (\<lambda>st'. (st', [])) (settings_step op st)"

text \<open>The start-up effect of \<open>App\<close> (its Electron part): send
  \<open>settings.ui_preferences.always_on_top\<close>, ask for the flag back, and when the answer
  differs (\<open>!==\<close>) from the value read, call the store's \<open>setAlwaysOnTop\<close> with it.
  \<open>None\<close>: reading the setting threw.\<close>

definition app_sync_effect :: "bool \<Rightarrow> desktop \<Rightarrow> desktop option" where
  "app_sync_effect darwin d =
     map_option (\<lambda>v.
       let m1 = snd (ipc_handle darwin (Set_always_on_top v) (dk_main d));
           isOnTop = alwaysOnTop m1
       in if v = Some (JBool isOnTop) then d\<lparr>dk_main := m1\<rparr>
          else (case setAlwaysOnTop True isOnTop (dk_store d) of
                  (st', is) \<Rightarrow> \<lparr>dk_store = st', dk_main = deliver darwin is m1\<rparr>))
       (member (map_of (settings (dk_store d)) ''ui_preferences'') ''always_on_top'')"

datatype desktop_event = Tray_ev tray_event | Panel_click setting_click | Sync_effect

fun desktop_step :: "bool \<Rightarrow> desktop_event \<Rightarrow> desktop \<Rightarrow> desktop option" where
  "desktop_step darwin (Tray_ev t) d = Some (d\<lparr>dk_main := tray_click darwin t (dk_main d)\<rparr>)"
| "desktop_step darwin (Panel_click c) d = do {
     op \<leftarrow> setting_op True (dk_store d) c;
     (st', is) \<leftarrow> store_op_ipc op (dk_store d);
     Some \<lparr>dk_store = st', dk_main = deliver darwin is (dk_main d)\<rparr>
   }"
| "desktop_step darwin Sync_effect d = app_sync_effect darwin d"

section \<open>Lemmas\<close>

lemma main_inv_apply: "tray_menu m \<noteq> None \<Longrightarrow> main_inv (apply_on_top m)"
  by (auto simp: main_inv_def apply_on_top_def with_window_def Let_def)

lemma main_inv_with_window:
  "main_inv m \<Longrightarrow> (\<And>w. w_on_top (f w) = w_on_top w) \<Longrightarrow> main_inv (with_window f m)"
  by (auto simp: main_inv_def with_window_def)

lemma main_inv_closed: "main_inv m \<Longrightarrow> main_inv (m\<lparr>mainWindow := None, app_quit := b\<rparr>)"
  by (simp add: main_inv_def)

lemma main_inv_quit_call: "main_inv m \<Longrightarrow> main_inv (app_quit_call darwin m)"
  unfolding app_quit_call_def by (auto intro: main_inv_with_window main_inv_closed)

lemma main_inv_step: "main_inv m \<Longrightarrow> main_inv (main_step darwin ev m)"
proof -
  assume inv: "main_inv m"
  have ww: "main_inv (with_window f m)" if "\<And>w. w_on_top (f w) = w_on_top w" for f
    using inv that by (rule main_inv_with_window)
  have ap: "main_inv (apply_on_top (m\<lparr>alwaysOnTop := b\<rparr>))" for b
    using inv by (intro main_inv_apply) (simp add: main_inv_def)
  show ?thesis
  proof (cases ev)
    case (Ipc r)
    then show ?thesis
      using inv ww ap main_inv_quit_call [OF inv] by (cases r) (simp_all add: Let_def toggle_visible_def)
  next
    case (Tray t)
    then show ?thesis using ww ap main_inv_quit_call [OF inv] by (cases t) (simp_all add: toggle_visible_def)
  next
    case Close_clicked
    then show ?thesis using ww main_inv_closed [OF inv] by (simp add: window_close_def)
  next
    case Activate
    then show ?thesis using inv by (auto simp: app_activate_def createWindow_def main_inv_def)
  qed
qed

lemma alwaysOnTop_apply [simp]: "alwaysOnTop (apply_on_top m) = alwaysOnTop m"
  by (simp add: apply_on_top_def with_window_def Let_def)

lemma mainWindow_with_window [simp]: "mainWindow (with_window f m) = map_option f (mainWindow m)"
  by (simp add: with_window_def)

lemma with_window_sel [simp]:
  "app_quit (with_window f m) = app_quit m" "tray_menu (with_window f m) = tray_menu m"
  "alwaysOnTop (with_window f m) = alwaysOnTop m"
  by (simp_all add: with_window_def)

lemma mainWindow_apply [simp]:
  "mainWindow (apply_on_top m) = map_option (\<lambda>w. w\<lparr>w_on_top := alwaysOnTop m\<rparr>) (mainWindow m)"
  by (simp add: apply_on_top_def Let_def)

lemma main_inv_ipc: "main_inv m \<Longrightarrow> main_inv (snd (ipc_handle darwin r m))"
  using main_inv_step [of m darwin "Ipc r"] by simp

lemma main_inv_deliver: "main_inv m \<Longrightarrow> main_inv (deliver darwin is m)"
  unfolding deliver_def by (induction "is" arbitrary: m) (simp_all add: main_inv_ipc)

lemma ui_pref_read:
  "member (map_of (settings (updateUIPreferences [(k, v)] st)) ''ui_preferences'') k = Some (Some v)"
  by (simp add: updateUIPreferences_def updateSettings_def obj_lit_def)

text \<open>C14: in every reachable state of the main process the window's always-on-top
  state and the tray menu agree with the flag \<open>alwaysOnTop\<close>, whichever of the IPC
  handlers, tray items and window events ran.\<close>

lemma reachable_main_inv: "main_reachable darwin m \<Longrightarrow> main_inv m"
proof (induction rule: main_reachable.induct)
  case ready
  then show ?case by (simp add: main_inv_def app_ready_def buildTray_def createWindow_def init_main_def)
next
  case (step m ev)
  from step.IH show ?case by (rule main_inv_step)
qed

text \<open>C7: on macOS the window is never destroyed, and the application never quits by its
  own means: the window's \<open>close\<close> handler cancels every \<open>app.quit()\<close>, from the
  tray's quit item and from \<open>quitApp\<close> alike.\<close>

lemma darwin_never_quits: "main_reachable True m \<Longrightarrow> mainWindow m \<noteq> None \<and> \<not> app_quit m"
proof (induction rule: main_reachable.induct)
  case ready
  then show ?case by (simp add: app_ready_def buildTray_def createWindow_def init_main_def)
next
  case (step m ev)
  then show ?case
  proof (cases ev)
    case (Ipc r)
    then show ?thesis using step by (cases r) (simp_all add: Let_def toggle_visible_def apply_on_top_def app_quit_call_def)
  next
    case (Tray t)
    then show ?thesis using step by (cases t) (simp_all add: toggle_visible_def apply_on_top_def Let_def app_quit_call_def)
  qed (simp_all add: window_close_def app_activate_def createWindow_def)
qed

text \<open>The start-up effect brings the three copies of the flag into agreement: the
  main process, the window and the settings end with \<open>Boolean(always_on_top)\<close>, a
  non-boolean stored value being replaced by the boolean.\<close>

lemma sync_agrees:
  assumes rd: "member (map_of (settings (dk_store d)) ''ui_preferences'') ''always_on_top'' = Some v"
    and inv: "main_inv (dk_main d)"
  shows "\<exists>d'. app_sync_effect darwin d = Some d'
           \<and> alwaysOnTop (dk_main d') = js_truthy v \<and> main_inv (dk_main d')
           \<and> member (map_of (settings (dk_store d')) ''ui_preferences'') ''always_on_top''
               = Some (Some (JBool (js_truthy v)))"
proof -
  let ?m1 = "apply_on_top ((dk_main d)\<lparr>alwaysOnTop := js_truthy v\<rparr>)"
  have inv1: "main_inv ?m1" using main_inv_step [OF inv, of darwin "Ipc (Set_always_on_top v)"] by (simp add: Let_def)
  show ?thesis
  proof (cases "v = Some (JBool (js_truthy v))")
    case True
    then show ?thesis using rd inv1 by (simp add: app_sync_effect_def Let_def)
  next
    case False
    let ?m2 = "deliver darwin [Ipc_setAlwaysOnTop (js_truthy v)] ?m1"
    have "alwaysOnTop ?m2 = js_truthy v" by (simp add: deliver_def Let_def)
    moreover have "main_inv ?m2" using inv1 by (rule main_inv_deliver)
    ultimately show ?thesis using rd False
      by (simp add: app_sync_effect_def Let_def setAlwaysOnTop_def ui_pref_read)
  qed
qed

text \<open>C16: the tray's always-on-top item changes the main process's flag but not the
  renderer's settings, so the settings panel keeps showing the old value; the panel's
  next click sends the value the window already has and changes nothing on screen.\<close>

lemma tray_toggle_then_click:
  assumes rd: "member (map_of (settings (dk_store d)) ''ui_preferences'') ''always_on_top'' = Some (Some (JBool b))"
    and flag: "alwaysOnTop (dk_main d) = b"
  shows "\<exists>d1 d2. desktop_step darwin (Tray_ev Tray_toggle_on_top) d = Some d1
           \<and> desktop_step darwin (Panel_click Click_on_top) d1 = Some d2
           \<and> member (map_of (settings (dk_store d1)) ''ui_preferences'') ''always_on_top'' = Some (Some (JBool b))
           \<and> alwaysOnTop (dk_main d1) = (\<not> b) \<and> alwaysOnTop (dk_main d2) = (\<not> b)
           \<and> map_option w_on_top (mainWindow (dk_main d2)) = map_option w_on_top (mainWindow (dk_main d1))"
  using rd flag
  by (simp add: click_on_top_def setAlwaysOnTop_def deliver_def Let_def option.map_comp comp_def)

lemma darwin_never_quits_witness:
  "main_reachable True (main_step True (Ipc Quit_app) (main_step True (Tray Tray_quit) (app_ready init_main)))
   \<and> mainWindow (main_step True (Ipc Quit_app) (main_step True (Tray Tray_quit) (app_ready init_main))) \<noteq> None
   \<and> \<not> app_quit (main_step True (Ipc Quit_app) (main_step True (Tray Tray_quit) (app_ready init_main)))"
proof -
  have r: "main_reachable True (main_step True (Ipc Quit_app) (main_step True (Tray Tray_quit) (app_ready init_main)))"
    by (intro main_reachable.step main_reachable.ready)
  show ?thesis using darwin_never_quits [OF r] r by blast
qed

lemma reachable_main_inv_witness:
  "main_reachable False (app_ready init_main) \<and> main_inv (app_ready init_main)"
  using reachable_main_inv [OF main_reachable.ready] main_reachable.ready by blast

lemma tray_toggle_then_click_witness:
  "member (map_of (settings init_settings_store) ''ui_preferences'') ''always_on_top'' = Some (Some (JBool False))
   \<and> alwaysOnTop (app_ready init_main) = False
   \<and> (\<exists>d1 d2. desktop_step False (Tray_ev Tray_toggle_on_top)
                  \<lparr>dk_store = init_settings_store, dk_main = app_ready init_main\<rparr> = Some d1
        \<and> desktop_step False (Panel_click Click_on_top) d1 = Some d2
        \<and> member (map_of (settings (dk_store d1)) ''ui_preferences'') ''always_on_top'' = Some (Some (JBool False))
        \<and> alwaysOnTop (dk_main d1) = (\<not> False) \<and> alwaysOnTop (dk_main d2) = (\<not> False)
        \<and> map_option w_on_top (mainWindow (dk_main d2)) = map_option w_on_top (mainWindow (dk_main d1)))"
proof -
  have h: "member (map_of (settings init_settings_store) ''ui_preferences'') ''always_on_top'' = Some (Some (JBool False))"
    "alwaysOnTop (app_ready init_main) = False"
    by (simp_all add: init_settings_store_def settings_obj_def ui_obj_def defaultSettings_def
        defaultUIPreferences_def app_ready_def buildTray_def createWindow_def init_main_def)
  show ?thesis
    using h tray_toggle_then_click [of "\<lparr>dk_store = init_settings_store, dk_main = app_ready init_main\<rparr>" False False]
    by simp
qed

end
