(* ===== verification/Search.thy ===== *)
theory Search
  imports TaskStore
begin

text \<open>
  The derived view \<open>getFilteredTasks\<close> of \<open>src/src/stores/taskStore.ts\<close> (lines
  403 to 426): the status filter, then, when the trimmed search query is not blank, a
  case-insensitive substring match against the title, the description or any tag.

  The JavaScript string functions it calls are modelled on the characters a
  \<open>string\<close> holds here (bytes): \<open>toLowerCase\<close> maps \<open>A\<close>..\<open>Z\<close> to
  \<open>a\<close>..\<open>z\<close> and leaves every other character alone (JavaScript also lowercases
  non-ASCII letters); \<open>trim\<close> removes leading and trailing ASCII white space (tab,
  line feed, vertical tab, form feed, carriage return, space; JavaScript also removes
  the Unicode space characters); \<open>includes\<close> is the substring test, written as the
  naive scan an engine performs.
\<close>

definition js_lower_char :: "char \<Rightarrow> char" where
  "js_lower_char c =
     (if CHR ''A'' \<le> c \<and> c \<le> CHR ''Z'' then char_of (of_char c + (32::nat)) else c)"

definition js_lower :: "string \<Rightarrow> string" where
  "js_lower s = map js_lower_char s"

definition js_space :: "char \<Rightarrow> bool" where
  "js_space c \<longleftrightarrow> c \<in> set [CHR 0x09, CHR 0x0A, CHR 0x0B, CHR 0x0C, CHR 0x0D, CHR 0x20]"

definition js_trim :: "string \<Rightarrow> string" where
  "js_trim s = rev (dropWhile js_space (rev (dropWhile js_space s)))"

fun js_includes :: "string \<Rightarrow> string \<Rightarrow> bool" where
  "js_includes q [] \<longleftrightarrow> q = []"
| "js_includes q (c # cs) \<longleftrightarrow> prefix q (c # cs) \<or> js_includes q cs"

text \<open>
  \<open>task.title.toLowerCase().includes(query) ||
   task.description?.toLowerCase().includes(query) ||
   task.tags.some(tag => tag.toLowerCase().includes(query))\<close>; a missing description
  gives \<open>undefined\<close>, which is false.
\<close>

definition matches_query :: "string \<Rightarrow> task \<Rightarrow> bool" where
  "matches_query q t \<longleftrightarrow>
     js_includes q (js_lower (title t))
     \<or> (case description t of None \<Rightarrow> False | Some d \<Rightarrow> js_includes q (js_lower d))
     \<or> (\<exists>tag \<in> set (tags t). js_includes q (js_lower tag))"

definition status_filter :: "task_filter \<Rightarrow> task list \<Rightarrow> task list" where
  "status_filter f ts =
     (case f of
        Active \<Rightarrow> filter (\<lambda>t. \<not> is_completed t) ts
      | Completed \<Rightarrow> filter is_completed ts
      | All \<Rightarrow> ts)"

definition getFilteredTasks :: "task_store \<Rightarrow> task list" where
  "getFilteredTasks st =
     (let ts = status_filter (filter_state st) (tasks st)
      in if js_trim (searchQuery st) \<noteq> []
         then (let q = js_trim (js_lower (searchQuery st)) in filter (matches_query q) ts)
         else ts)"

text \<open>
  What the spec asks of the view (section 4.1, \<open>filter\<close>): the status filter and
  the search, AND-composed, the search being a substring test (\<open>sublist\<close>) on the
  lower-cased title, description and tags.
\<close>

definition status_ok :: "task_filter \<Rightarrow> task \<Rightarrow> bool" where
  "status_ok f t = (case f of All \<Rightarrow> True | Active \<Rightarrow> \<not> is_completed t | Completed \<Rightarrow> is_completed t)"

definition matches_spec :: "string \<Rightarrow> task \<Rightarrow> bool" where
  "matches_spec q t \<longleftrightarrow>
     sublist q (js_lower (title t))
     \<or> (\<exists>d. description t = Some d \<and> sublist q (js_lower d))
     \<or> (\<exists>tag \<in> set (tags t). sublist q (js_lower tag))"

section \<open>The string functions\<close>

lemma js_lower_char_idem [simp]: "js_lower_char (js_lower_char c) = js_lower_char c"
  by (auto simp: js_lower_char_def less_eq_char_def)

lemma js_lower_idem [simp]: "js_lower (js_lower s) = js_lower s"
  by (simp add: js_lower_def comp_def)

lemma js_space_small: "js_space c \<Longrightarrow> of_char c \<le> (32::nat)"
  by (auto simp: js_space_def)

lemma js_space_lower [simp]: "js_space (js_lower_char c) = js_space c"
proof (cases "CHR ''A'' \<le> c \<and> c \<le> CHR ''Z''")
  case True
  then have big: "(65::nat) \<le> of_char c" "of_char c \<le> (90::nat)"
    by (simp_all add: less_eq_char_def)
  then have "of_char (js_lower_char c) = of_char c + (32::nat)"
    using True by (simp add: js_lower_char_def)
  with big show ?thesis
    using js_space_small [of c] js_space_small [of "js_lower_char c"] by linarith
next
  case False
  then have "js_lower_char c = c" unfolding js_lower_char_def by (rule if_not_P)
  then show ?thesis by simp
qed

lemma dropWhile_map_same:
  "(\<And>x. P (f x) = P x) \<Longrightarrow> dropWhile P (map f xs) = map f (dropWhile P xs)"
  by (induction xs) auto

lemma js_trim_lower: "js_trim (js_lower s) = js_lower (js_trim s)"
  by (simp add: js_trim_def js_lower_def dropWhile_map_same rev_map)

lemma includes_iff_sublist: "js_includes q h \<longleftrightarrow> sublist q h"
  by (induction h) (auto simp: sublist_Cons_right)

section \<open>Properties of the view\<close>

lemma matches_query_spec: "matches_query = matches_spec"
  by (intro ext) (simp add: matches_query_def matches_spec_def includes_iff_sublist split: option.splits)

text \<open>
  With the filter \<open>all\<close> and a blank search query the view is the task list
  itself, in its order (spec, property P5).
\<close>

theorem getFilteredTasks_all_blank:
  assumes "filter_state st = All" and "js_trim (searchQuery st) = []"
  shows "getFilteredTasks st = tasks st"
  using assms by (simp add: getFilteredTasks_def status_filter_def)

theorem getFilteredTasks_all_blank_witness:
  "getFilteredTasks (init_store\<lparr>tasks := [demo_task ''a'' 1 False, demo_task ''b'' 2 True],
      searchQuery := '' ''\<rparr>) = [demo_task ''a'' 1 False, demo_task ''b'' 2 True]"
proof -
  have "js_trim '' '' = []" by code_simp
  then show ?thesis
    using getFilteredTasks_all_blank [of "init_store\<lparr>tasks := [demo_task ''a'' 1 False,
        demo_task ''b'' 2 True], searchQuery := '' ''\<rparr>"]
    by (simp add: init_store_def)
qed

text \<open>
  C17. The view keeps, in list order, exactly the tasks that pass the status filter and,
  when the trimmed query is not blank, contain the trimmed lower-cased query in their
  lower-cased title, description or one of their tags (spec, section 4.1 and P5).
\<close>

theorem getFilteredTasks_spec:
  "getFilteredTasks st =
     filter (\<lambda>t. status_ok (filter_state st) t
                 \<and> (js_trim (searchQuery st) = [] \<or> matches_spec (js_trim (js_lower (searchQuery st))) t))
       (tasks st)"
  by (cases "filter_state st")
    (simp_all add: getFilteredTasks_def status_filter_def status_ok_def matches_query_spec
      Let_def conj_commute)

text \<open>
  The search is case-insensitive: lower-casing the query does not change the view.
\<close>

theorem getFilteredTasks_case_insensitive:
  "getFilteredTasks (st\<lparr>searchQuery := js_lower q\<rparr>) = getFilteredTasks (st\<lparr>searchQuery := q\<rparr>)"
proof -
  have "js_trim (js_lower q) = [] \<longleftrightarrow> js_trim q = []"
    by (simp only: js_trim_lower) (simp add: js_lower_def)
  then show ?thesis
    by (simp add: getFilteredTasks_def Let_def)
qed

end
