(* ===== verification/Database.thy ===== *)
theory Database
  imports Search Settings
begin

text \<open>
  The wrapper class \<open>AppDatabase\<close> of \<open>src/services/database/db.ts\<close>: its two
  tables (\<open>tasks\<close>, modelled in \<open>Table\<close>, and \<open>settings\<close>, one row with key
  \<open>'default'\<close>), the start-up hook that writes the default settings, and the
  methods.  Of the methods only \<open>exportData\<close> is called by the application (by the
  data manager and the backup service); the settings row is written only by
  \<open>initializeDefaultSettings\<close>, because the settings store persists to
  localStorage instead.  \<open>where('is_completed').equals(1)\<close> uses an IndexedDB index
  on a boolean property; booleans are not valid IndexedDB keys, so no row is in that
  index (\<open>idb_key_of_bool\<close>).
\<close>

record app_db =
  db_tasks :: task_table
  db_settings_row :: "jobj option"

text \<open>The keys IndexedDB indexes: numbers, strings (dates, binaries and arrays do not
  occur among the indexed task properties).\<close>

datatype idb_key = IK_num int | IK_str string

definition idb_key_of_bool :: "bool \<Rightarrow> idb_key option" where
  "idb_key_of_bool b = None"

text \<open>\<open>this.on('ready')\<close>: when the settings table is empty the defaults are added.\<close>

definition db_on_ready :: "app_db \<Rightarrow> app_db" where
  "db_on_ready d =
     (if db_settings_row d = None then d\<lparr>db_settings_row := Some (settings_obj db_defaultSettings)\<rparr> else d)"

definition db_getSettings :: "app_db \<Rightarrow> jobj option" where
  "db_getSettings d = db_settings_row d"

definition db_updateSettings :: "jobj \<Rightarrow> app_db \<Rightarrow> app_db" where
  "db_updateSettings s d = d\<lparr>db_settings_row := Some s\<rparr>"

text \<open>The row written by \<open>addTask\<close>: every property of the task copied.\<close>

definition task_row :: "task \<Rightarrow> task" where
  "task_row t = \<lparr>task_id = task_id t, title = title t, description = description t,
     priority = priority t, due_date = due_date t, created_at = created_at t,
     updated_at = updated_at t, completed_at = completed_at t, task_notes = task_notes t,
     order_index = order_index t, tags = tags t, is_completed = is_completed t,
     undef_keys = undef_keys t\<rparr>"

definition db_addTask :: "(string \<Rightarrow> bool) \<Rightarrow> task \<Rightarrow> app_db \<Rightarrow> db_error + app_db" where
  "db_addTask fl t d = map_sum id (\<lambda>rows. d\<lparr>db_tasks := rows\<rparr>) (tbl_add fl (task_row t) (db_tasks d))"

definition db_updateTask :: "(string \<Rightarrow> bool) \<Rightarrow> string \<Rightarrow> task_patch \<Rightarrow> app_db \<Rightarrow> db_error + app_db" where
  "db_updateTask fl k p d = map_sum id (\<lambda>rows. d\<lparr>db_tasks := rows\<rparr>) (tbl_update fl k p (db_tasks d))"

definition db_deleteTask :: "(string \<Rightarrow> bool) \<Rightarrow> string \<Rightarrow> app_db \<Rightarrow> db_error + app_db" where
  "db_deleteTask fl k d = map_sum id (\<lambda>rows. d\<lparr>db_tasks := rows\<rparr>) (tbl_delete fl k (db_tasks d))"

definition db_getAllTasks :: "app_db \<Rightarrow> task list" where
  "db_getAllTasks d = map task_row (tbl_ordered (db_tasks d))"

text \<open>\<open>searchTasks\<close>: like the store's search, but the query is neither trimmed nor
  checked for emptiness.\<close>

definition db_searchTasks :: "string \<Rightarrow> app_db \<Rightarrow> task list" where
  "db_searchTasks q d = filter (matches_query (js_lower q)) (db_getAllTasks d)"

definition db_clearCompletedTasks :: "app_db \<Rightarrow> app_db" where
  "db_clearCompletedTasks d =
     d\<lparr>db_tasks := filter (\<lambda>(k, t). idb_key_of_bool (is_completed t) \<noteq> Some (IK_num 1)) (db_tasks d)\<rparr>"

text \<open>\<open>exportData\<close>: the ordered tasks and the settings row, \<open>{}\<close> when there is none.\<close>

definition db_exportData :: "app_db \<Rightarrow> task list \<times> jobj" where
  "db_exportData d = (db_getAllTasks d, case db_getSettings d of Some s \<Rightarrow> s | None \<Rightarrow> [])"

lemma task_row_id [simp]: "task_row t = t"
  by (simp add: task_row_def)

lemma db_clearCompletedTasks_noop: "db_clearCompletedTasks d = d"
proof -
  have "filter (\<lambda>(k, t). idb_key_of_bool (is_completed t) \<noteq> Some (IK_num 1)) (db_tasks d) = db_tasks d"
    by (simp add: idb_key_of_bool_def split_def)
  then show ?thesis by (simp add: db_clearCompletedTasks_def)
qed

text \<open>On a query without surrounding white space, \<open>searchTasks\<close> agrees with the
  store's search over the same tasks.\<close>

lemma db_searchTasks_store:
  assumes "filter_state st = All" "tasks st = db_getAllTasks d" "searchQuery st = q" "js_trim q = q"
  shows "db_searchTasks q d = getFilteredTasks st"
proof (cases "q = []")
  case True
  have "matches_query [] t" for t by (simp add: matches_query_def includes_iff_sublist)
  then show ?thesis using assms True
    by (simp add: db_searchTasks_def getFilteredTasks_def status_filter_def js_lower_def js_trim_def)
next
  case False
  then show ?thesis using assms
    by (simp add: db_searchTasks_def getFilteredTasks_def status_filter_def js_trim_lower Let_def)
qed

end
