(* ===== verification/DataManager.thy ===== *)
theory DataManager
  imports Database
begin

text \<open>
  The data manager panel (\<open>src/components/DataManager.tsx\<close>): exporting all data
  as JSON, CSV or text, exporting the settings, and importing a data file.  Its React
  state is the record \<open>dm_state\<close>; the browser effects it causes (download, system
  notification, \<open>alert\<close>, \<open>confirm\<close>) are returned as a list of \<open>dm_effect\<close> in the
  order the code performs them.  Text is a list of bytes in UTF-8: the Chinese
  headers and the symbols of the text export are written as their UTF-8 bytes
  (\<open>utf8\<close>); the code only splits and escapes at ASCII characters, on which
  UTF-8 and UTF-16 agree.  \<open>JSON.stringify\<close> is the value it prints: a task is the
  object \<open>task_json\<close>, without the properties that are \<open>undefined\<close>.
\<close>

section \<open>\<open>JSON.stringify\<close> of a task\<close>

fun priority_str :: "priority \<Rightarrow> string" where
  "priority_str Low = ''low''"
| "priority_str Medium = ''medium''"
| "priority_str High = ''high''"

definition opt_prop :: "string \<Rightarrow> string option \<Rightarrow> jobj" where
  "opt_prop k v = (case v of None \<Rightarrow> [] | Some s \<Rightarrow> [(k, JStr s)])"

definition note_json :: "task_note \<Rightarrow> json" where
  "note_json n = JObj [(''id'', JStr (note_id n)), (''content'', JStr (content n)),
     (''created_at'', JStr (note_created_at n))]"

text \<open>The object \<open>getAllTasks\<close> builds, in its property order.\<close>

definition task_json :: "task \<Rightarrow> json" where
  "task_json t = JObj ([(''id'', JStr (task_id t)), (''title'', JStr (title t))]
     @ opt_prop ''description'' (description t) @ [(''priority'', JStr (priority_str (priority t)))]
     @ opt_prop ''due_date'' (due_date t)
     @ [(''created_at'', JStr (created_at t)), (''updated_at'', JStr (updated_at t))]
     @ opt_prop ''completed_at'' (completed_at t)
     @ [(''order_index'', JNum (order_index t)), (''tags'', JArr (map JStr (tags t))),
        (''notes'', JArr (map note_json (task_notes t))), (''is_completed'', JBool (is_completed t))])"

section \<open>Export\<close>

datatype export_format = Fmt_json | Fmt_csv | Fmt_txt

definition export_document :: "string \<Rightarrow> task list \<times> jobj \<Rightarrow> json" where
  "export_document clk data =
     JObj [(''version'', JStr ''1.0.0''), (''timestamp'', JStr clk),
       (''tasks'', JArr (map task_json (fst data))), (''settings'', JObj (snd data)),
       (''metadata'', JObj [(''total_tasks'', JNum (int (length (fst data)))),
          (''completed_tasks'', JNum (int (length (filter is_completed (fst data))))),
          (''export_source'', JStr ''DeskTodoList''), (''format_version'', JStr ''1.0'')])]"

definition csv_escape :: "string \<Rightarrow> string" where
  "csv_escape s = concat (map (\<lambda>c. if c = dq then [dq, dq] else [c]) s)"

text \<open>\<open>"${s.replace(/"/g, '""')}"\<close>.\<close>

definition csv_quote :: "string \<Rightarrow> string" where
  "csv_quote s = dq # csv_escape s @ [dq]"

definition csv_headers :: "string list" where
  "csv_headers = [''ID'', utf8 [230, 160, 135, 233, 162, 152], utf8 [230, 143, 143, 232, 191, 176],
     utf8 [228, 188, 152, 229, 133, 136, 231, 186, 167], utf8 [231, 138, 182, 230, 128, 129],
     utf8 [229, 136, 155, 229, 187, 186, 230, 151, 182, 233, 151, 180],
     utf8 [230, 136, 170, 230, 173, 162, 230, 151, 182, 233, 151, 180], utf8 [230, 160, 135, 231, 173, 190]]"

definition status_done :: string where "status_done = utf8 [229, 183, 178, 229, 174, 140, 230, 136, 144]"

definition status_todo :: string where "status_todo = utf8 [229, 190, 133, 229, 138, 158]"

definition csv_row :: "task \<Rightarrow> string list" where
  "csv_row t =
     [task_id t, csv_quote (title t), csv_quote (case description t of None \<Rightarrow> [] | Some d \<Rightarrow> d),
      priority_str (priority t), if is_completed t then status_done else status_todo, created_at t,
      case due_date t of None \<Rightarrow> [] | Some d \<Rightarrow> d,
      dq # js_join '', '' (tags t) @ [dq]]"

definition convertTasksToCSV :: "task list \<Rightarrow> string" where
  "convertTasksToCSV ts =
     js_join ''\<newline>'' (js_join '','' csv_headers # map (\<lambda>t. js_join '','' (csv_row t)) ts)"

definition task_text :: "task \<Rightarrow> string" where
  "task_text t =
     (let status = (if is_completed t then utf8 [226, 156, 147] else utf8 [226, 151, 139]);
          prio = (if priority t = High then utf8 [240, 159, 148, 180]
                  else if priority t = Medium then utf8 [240, 159, 159, 161] else utf8 [240, 159, 159, 162]);
          due = (case due_date t of None \<Rightarrow> [] | Some d \<Rightarrow>
                   if d = [] then [] else ''\<newline>  '' @ utf8 [230, 136, 170, 230, 173, 162, 58, 32]
                     @ takeWhile (\<lambda>c. c \<noteq> CHR ''T'') d);
          tg = (if length (tags t) > 0 then ''\<newline>  '' @ utf8 [230, 160, 135, 231, 173, 190, 58, 32]
                  @ js_join '', '' (tags t) else []);
          desc = (case description t of None \<Rightarrow> [] | Some d \<Rightarrow> if d = [] then [] else ''\<newline>  '' @ d)
      in status @ '' '' @ prio @ '' '' @ title t @ desc @ due @ tg @ ''\<newline>'')"

definition convertTasksToText :: "task list \<Rightarrow> string" where
  "convertTasksToText ts = js_join ''\<newline>'' (map task_text ts)"

datatype export_content = Content_json json | Content_text string

datatype dm_effect = Download string | Notify_export nat | Notify_import nat | Notify_error
  | Alert_export_ok string | Alert_export_failed | Confirm_import nat | Alert_import_ok
  | Alert_import_failed

datatype import_status = Import_success | Import_error

record dm_state =
  isExporting :: bool
  isImporting :: bool
  exportFormat :: export_format
  lastExportTime :: "string option"
  lastImportTime :: "string option"
  importStatus :: "import_status option"

definition init_dm :: dm_state where
  "init_dm = \<lparr>isExporting = False, isImporting = False, exportFormat = Fmt_json,
     lastExportTime = None, lastImportTime = None, importStatus = None\<rparr>"

definition iso_date :: "string \<Rightarrow> string" where
  "iso_date clk = takeWhile (\<lambda>c. c \<noteq> CHR ''T'') clk"

text \<open>\<open>handleExportAllData\<close>: \<open>exp\<close> is the outcome of \<open>db.exportData()\<close>, \<open>clk\<close> the
  value of \<open>new Date().toISOString()\<close>; the downloaded file is returned.\<close>

definition handleExportAllData ::
  "(task list \<times> jobj) option \<Rightarrow> string \<Rightarrow> dm_state \<Rightarrow> dm_state \<times> dm_effect list \<times> (string \<times> export_content) option" where
  "handleExportAllData exp clk dm =
     (case exp of
        None \<Rightarrow> (dm\<lparr>isExporting := False\<rparr>, [Notify_error, Alert_export_failed], None)
      | Some data \<Rightarrow>
          (let (content, filename) =
             (case exportFormat dm of
                Fmt_json \<Rightarrow> (Content_json (export_document clk data), ''desktodolist-data-'' @ iso_date clk @ ''.json'')
              | Fmt_csv \<Rightarrow> (Content_text (utf8 [239, 187, 191] @ convertTasksToCSV (fst data)),
                            ''desktodolist-tasks-'' @ iso_date clk @ ''.csv'')
              | Fmt_txt \<Rightarrow> (Content_text (convertTasksToText (fst data)), ''desktodolist-tasks-'' @ iso_date clk @ ''.txt''))
           in (dm\<lparr>isExporting := False, lastExportTime := Some clk\<rparr>,
               [Download filename, Notify_export (length (fst data)), Alert_export_ok filename],
               Some (filename, content))))"

definition handleExportSettings :: "string \<Rightarrow> settings_store \<Rightarrow> string \<times> json" where
  "handleExportSettings clk ss = (''desktodolist-settings-'' @ iso_date clk @ ''.json'', exportSettings ss)"

section \<open>Import\<close>

fun is_array :: "json option \<Rightarrow> bool" where
  "is_array (Some (JArr _)) = True"
| "is_array _ = False"

text \<open>The validation \<open>!data.tasks || !Array.isArray(data.tasks)\<close> on the parsed file
  (\<open>None\<close>: \<open>JSON.parse\<close> threw; reading \<open>tasks\<close> of \<open>null\<close> throws too).\<close>

definition import_doc_ok :: "json option \<Rightarrow> bool" where
  "import_doc_ok parsed =
     (case parsed of None \<Rightarrow> False
      | Some data \<Rightarrow> (case member (Some data) ''tasks'' of None \<Rightarrow> False
                      | Some tv \<Rightarrow> js_truthy tv \<and> is_array tv))"

definition tasks_count :: "json \<Rightarrow> nat" where
  "tasks_count data = (case jget data ''tasks'' of Some (JArr xs) \<Rightarrow> length xs | _ \<Rightarrow> 0)"

text \<open>\<open>handleImportData\<close>: \<open>file\<close> whether a file was chosen, \<open>parsed\<close> the result of
  \<open>JSON.parse\<close> on its text, \<open>ok\<close> the answer to \<open>confirm\<close>.  The settings are imported
  through \<open>importSettings(JSON.stringify(data.settings))\<close>, which parses back the
  same value; the tasks are only counted (the task import is a \<open>TODO\<close> in the
  source).\<close>

definition handleImportData ::
  "bool \<Rightarrow> json option \<Rightarrow> bool \<Rightarrow> string \<Rightarrow> dm_state \<Rightarrow> settings_store \<Rightarrow> dm_state \<times> settings_store \<times> dm_effect list" where
  "handleImportData file parsed ok clk dm ss =
     (if \<not> file then (dm, ss, [])
      else
        (let dm1 = dm\<lparr>isImporting := True, importStatus := None\<rparr> in
         if \<not> import_doc_ok parsed
         then (dm1\<lparr>importStatus := Some Import_error, isImporting := False\<rparr>, ss, [Notify_error, Alert_import_failed])
         else
           (let data = the parsed;
                ss' = (if js_truthy (jget data ''settings'') then snd (importSettings (jget data ''settings'') ss) else ss);
                n = tasks_count data
            in if ok
               then (dm1\<lparr>importStatus := Some Import_success, lastImportTime := Some clk, isImporting := False\<rparr>,
                     ss', [Confirm_import n, Notify_import n, Alert_import_ok])
               else (dm1\<lparr>isImporting := False\<rparr>, ss', [Confirm_import n]))))"

section \<open>Reading a CSV record\<close>

text \<open>An RFC 4180 reader for one record: fields separated by commas, a field in double
  quotes may contain commas, and a doubled quote inside it stands for one quote.\<close>

fun csv_split :: "string \<Rightarrow> string \<Rightarrow> bool \<Rightarrow> string list" where
  "csv_split [] cur q = [rev cur]"
| "csv_split (c # cs) cur False =
     (if c = CHR '','' then rev cur # csv_split cs [] False
      else if c = dq then csv_split cs cur True else csv_split cs (c # cur) False)"
| "csv_split (c # cs) cur True =
     (if c = dq then (case cs of [] \<Rightarrow> csv_split [] cur False
                      | d # ds \<Rightarrow> if d = dq then csv_split ds (dq # cur) True else csv_split cs cur False)
      else csv_split cs (c # cur) True)"

definition plain_ok :: "string \<Rightarrow> bool" where
  "plain_ok s \<longleftrightarrow> CHR '','' \<notin> set s \<and> dq \<notin> set s"

definition csv_cells :: "task \<Rightarrow> string list" where
  "csv_cells t =
     [task_id t, title t, case description t of None \<Rightarrow> [] | Some d \<Rightarrow> d,
      priority_str (priority t), if is_completed t then status_done else status_todo, created_at t,
      case due_date t of None \<Rightarrow> [] | Some d \<Rightarrow> d, js_join '', '' (tags t)]"

section \<open>Fixtures\<close>

definition csv_task :: task where
  "csv_task = (demo_task ''t1'' 1 False)\<lparr>title := ''Buy milk, eggs'', description := Some (''say '' @ [dq] @ ''hi'' @ [dq]),
     tags := [''home'', ''errand'']\<rparr>"

definition quoted_tag_task :: task where
  "quoted_tag_task = (demo_task ''t2'' 2 False)\<lparr>tags := [''a'' @ [dq] @ ''b'']\<rparr>"

section \<open>Lemmas\<close>

lemma comma_ne_dq [simp]: "CHR '','' \<noteq> dq" "dq \<noteq> CHR '',''"
  by (simp_all add: dq_def)

lemma csv_split_comma [simp]: "csv_split (CHR '','' # cs) cur False = rev cur # csv_split cs [] False"
  by simp

lemma csv_split_plain:
  "plain_ok p \<Longrightarrow> csv_split (p @ rest) cur False = csv_split rest (rev p @ cur) False"
  by (induction p arbitrary: cur) (auto simp: plain_ok_def)

lemma csv_split_escaped:
  "(rest = [] \<or> hd rest \<noteq> dq) \<Longrightarrow>
   csv_split (csv_escape s @ dq # rest) cur True = csv_split rest (rev s @ cur) False"
proof (induction s arbitrary: cur)
  case Nil
  then show ?case by (cases rest) (auto simp: csv_escape_def)
next
  case (Cons c s)
  then show ?case by (auto simp: csv_escape_def)
qed

lemma csv_split_quoted:
  "(rest = [] \<or> hd rest \<noteq> dq) \<Longrightarrow>
   csv_split (csv_quote s @ rest) cur False = csv_split rest (rev s @ cur) False"
  by (simp add: csv_quote_def csv_split_escaped)

lemma csv_split_quoted_last: "csv_split (csv_quote s) cur False = [rev cur @ s]"
  using csv_split_quoted [of "[]" s cur] by simp

lemma csv_escape_plain: "dq \<notin> set s \<Longrightarrow> csv_escape s = s"
  by (induction s) (auto simp: csv_escape_def)

lemma plain_ok_priority [simp]: "plain_ok (priority_str p)"
  by (cases p) (simp_all add: plain_ok_def dq_def)

lemma plain_ok_status [simp]: "plain_ok status_done" "plain_ok status_todo"
  unfolding plain_ok_def dq_def status_done_def status_todo_def utf8_def by code_simp+

text \<open>C33: a row of the CSV export reads back, by an RFC 4180 reader, as the task's
  cells: titles and descriptions with commas and quotes survive, provided the unquoted
  cells (id, creation time, due date) hold no comma or quote and no tag holds a quote.\<close>

lemma csv_row_roundtrip:
  assumes "plain_ok (task_id t)" "plain_ok (created_at t)"
    "plain_ok (case due_date t of None \<Rightarrow> [] | Some d \<Rightarrow> d)" "dq \<notin> set (js_join '', '' (tags t))"
  shows "csv_split (js_join '','' (csv_row t)) [] False = csv_cells t"
proof -
  let ?tg = "js_join '', '' (tags t)"
  have tg: "dq # ?tg @ [dq] = csv_quote ?tg" using assms(4) by (simp add: csv_quote_def csv_escape_plain)
  have sep: "hd ('','' @ r) \<noteq> dq" for r by (simp add: dq_def)
  show ?thesis
    using assms tg
    by (cases "is_completed t") (simp_all add: csv_row_def csv_cells_def csv_split_plain csv_split_quoted csv_split_quoted_last sep
        del: csv_split.simps(2,3))
qed

lemma csv_row_roundtrip_witness:
  "plain_ok (task_id csv_task) \<and> plain_ok (created_at csv_task)
   \<and> plain_ok (case due_date csv_task of None \<Rightarrow> [] | Some d \<Rightarrow> d)
   \<and> dq \<notin> set (js_join '', '' (tags csv_task))
   \<and> csv_split (js_join '','' (csv_row csv_task)) [] False = csv_cells csv_task"
proof -
  have h: "plain_ok (task_id csv_task)" "plain_ok (created_at csv_task)"
    "plain_ok (case due_date csv_task of None \<Rightarrow> [] | Some d \<Rightarrow> d)" "dq \<notin> set (js_join '', '' (tags csv_task))"
    by (simp_all add: csv_task_def demo_task_def plain_ok_def dq_def)
  show ?thesis using h csv_row_roundtrip [OF h] by blast
qed

text \<open>The tags cell is quoted without escaping: a tag holding a quote breaks the row.\<close>

lemma csv_quoted_tag_breaks:
  "csv_split (js_join '','' (csv_row quoted_tag_task)) [] False \<noteq> csv_cells quoted_tag_task"
  unfolding quoted_tag_task_def demo_task_def csv_row_def csv_cells_def csv_quote_def csv_escape_def dq_def
    status_todo_def utf8_def by code_simp

text \<open>The import's check, read off the document: \<open>data.tasks\<close> is an array.\<close>

lemma import_doc_ok_iff:
  "import_doc_ok parsed \<longleftrightarrow> (\<exists>xs. Option.bind parsed (\<lambda>d. jget d ''tasks'') = Some (JArr xs))"
proof (cases parsed)
  case (Some d)
  then show ?thesis
    by (cases d) (auto simp: import_doc_ok_def elim: is_array.elims)
qed (simp add: import_doc_ok_def)

text \<open>C34: a confirmed import succeeds exactly when the parsed document has a \<open>tasks\<close>
  array; a file that does not parse, or whose \<open>tasks\<close> is missing or not an array
  (even a non-empty string), fails: the import status becomes error, the failure is
  notified and alerted, and the settings are left as they were even when the file has
  settings.\<close>

theorem import_requires_tasks_array:
  "importStatus (fst (handleImportData True parsed True clk dm ss))
     = Some (if \<exists>xs. Option.bind parsed (\<lambda>d. jget d ''tasks'') = Some (JArr xs) then Import_success else Import_error)
   \<and> ((\<forall>xs. Option.bind parsed (\<lambda>d. jget d ''tasks'') \<noteq> Some (JArr xs)) \<longrightarrow>
        handleImportData True parsed ok clk dm ss
          = (dm\<lparr>isImporting := False, importStatus := Some Import_error\<rparr>, ss, [Notify_error, Alert_import_failed]))"
  by (simp add: handleImportData_def Let_def import_doc_ok_iff [symmetric])

theorem import_requires_tasks_array_witness:
  "(\<forall>xs. Option.bind (Some (JObj [(''tasks'', JStr ''abc''), (''settings'', JObj [(''theme'', JStr ''dark'')])]))
          (\<lambda>d. jget d ''tasks'') \<noteq> Some (JArr xs))
   \<and> handleImportData True (Some (JObj [(''tasks'', JStr ''abc''), (''settings'', JObj [(''theme'', JStr ''dark'')])]))
       True ''t'' init_dm init_settings_store
     = (init_dm\<lparr>isImporting := False, importStatus := Some Import_error\<rparr>, init_settings_store,
        [Notify_error, Alert_import_failed])"
  using import_requires_tasks_array [of "Some (JObj [(''tasks'', JStr ''abc''), (''settings'', JObj [(''theme'', JStr ''dark'')])])"
      "''t''" init_dm init_settings_store True]
  by simp

end
