(* ===== verification/Notify.thy ===== *)
theory Notify
  imports Settings
begin

text \<open>
  Desktop notifications and in-app toasts: the service
  \<open>src/services/notifications.ts\<close> (class \<open>NotificationService\<close>, whose state is
  whether the browser supports notifications and the current permission), the hook
  \<open>src/hooks/useNotifications.ts\<close> that sends notifications only when the
  \<open>notifications_enabled\<close> setting is on, and the toast queue
  \<open>src/hooks/useToast.ts\<close>.  The browser's \<open>Notification.requestPermission()\<close> is
  the user's answer \<open>ans\<close> (\<open>None\<close>: the request threw); the texts are the source's
  templates, with text outside ASCII as UTF-8 bytes.
\<close>

section \<open>The service\<close>

datatype permission = Perm_default | Perm_granted | Perm_denied

datatype notification_type = NT_success | NT_warning | NT_info | NT_error

record notification_options =
  no_title :: string
  no_body :: string
  no_type :: "notification_type option"
  no_duration :: "nat option"

record notification_service =
  isSupported :: bool
  nperm :: permission

definition init_notification_service :: "bool \<Rightarrow> permission \<Rightarrow> notification_service" where
  "init_notification_service supported browser_perm =
     \<lparr>isSupported = supported, nperm = (if supported then browser_perm else Perm_denied)\<rparr>"

text \<open>A notification shown: its title, body, and when it closes itself.\<close>

record shown_notification =
  sn_title :: string
  sn_body :: string
  sn_autoclose :: "nat option"

definition requestPermission :: "permission option \<Rightarrow> notification_service \<Rightarrow> permission \<times> notification_service" where
  "requestPermission ans sv =
     (if \<not> isSupported sv then (Perm_denied, sv)
      else if nperm sv = Perm_granted then (Perm_granted, sv)
      else (case ans of
              None \<Rightarrow> (Perm_denied, sv)
            | Some p \<Rightarrow> (p, sv\<lparr>nperm := p\<rparr>)))"

text \<open>\<open>notify\<close>; \<open>ok\<close> is whether \<open>new Notification(...)\<close> succeeds.\<close>

definition notify :: "permission option \<Rightarrow> bool \<Rightarrow> notification_options \<Rightarrow> notification_service
    \<Rightarrow> shown_notification option \<times> notification_service" where
  "notify ans ok opts sv =
     (if \<not> isSupported sv then (None, sv)
      else (let (p, sv') = (if nperm sv \<noteq> Perm_granted then requestPermission ans sv else (Perm_granted, sv)) in
            if p \<noteq> Perm_granted then (None, sv')
            else if \<not> ok then (None, sv')
            else (let d = (case no_duration opts of None \<Rightarrow> 5000 | Some d \<Rightarrow> d) in
                  (Some \<lparr>sn_title = no_title opts, sn_body = no_body opts,
                         sn_autoclose = (if d > 0 then Some d else None)\<rparr>, sv'))))"

text \<open>The messages of the \<open>notifyX\<close> methods.\<close>

datatype notification_kind = NK_taskCompleted string | NK_taskAdded string | NK_taskDeleted string
  | NK_batch string nat | NK_error string | NK_undo string | NK_data string "nat option"

fun kind_options :: "notification_kind \<Rightarrow> notification_options" where
  "kind_options (NK_taskCompleted t) = \<lparr>no_title = (utf8 [228, 187, 187, 229, 138, 161, 229, 183, 178, 229, 174, 140, 230, 136, 144, 32, 226, 156, 133]), no_body = [dq] @ t @ [dq] @ (utf8 [32, 229, 183, 178, 230, 160, 135, 232, 174, 176, 228, 184, 186, 229, 174, 140, 230, 136, 144]),
     no_type = Some NT_success, no_duration = Some 3000\<rparr>"
| "kind_options (NK_taskAdded t) = \<lparr>no_title = (utf8 [230, 150, 176, 228, 187, 187, 229, 138, 161, 229, 183, 178, 230, 183, 187, 229, 138, 160, 32, 240, 159, 147, 157]), no_body = [dq] @ t @ [dq] @ (utf8 [32, 229, 183, 178, 230, 183, 187, 229, 138, 160, 229, 136, 176, 228, 187, 187, 229, 138, 161, 229, 136, 151, 232, 161, 168]),
     no_type = Some NT_info, no_duration = Some 3000\<rparr>"
| "kind_options (NK_taskDeleted t) = \<lparr>no_title = (utf8 [228, 187, 187, 229, 138, 161, 229, 183, 178, 229, 136, 160, 233, 153, 164, 32, 240, 159, 151, 145, 239, 184, 143]), no_body = [dq] @ t @ [dq] @ (utf8 [32, 229, 183, 178, 228, 187, 142, 228, 187, 187, 229, 138, 161, 229, 136, 151, 232, 161, 168, 228, 184, 173, 231, 167, 187, 233, 153, 164]),
     no_type = Some NT_warning, no_duration = Some 3000\<rparr>"
| "kind_options (NK_batch op n) = \<lparr>no_title = (utf8 [230, 137, 185, 233, 135, 143, 230, 147, 141, 228, 189, 156, 229, 174, 140, 230, 136, 144, 32, 240, 159, 142, 175]), no_body = op @ '' '' @ nat_str n @ (utf8 [32, 228, 184, 170, 228, 187, 187, 229, 138, 161]),
     no_type = Some NT_info, no_duration = Some 4000\<rparr>"
| "kind_options (NK_error m) = \<lparr>no_title = (utf8 [230, 147, 141, 228, 189, 156, 229, 164, 177, 232, 180, 165, 32, 226, 157, 140]), no_body = m,
     no_type = Some NT_error, no_duration = Some 5000\<rparr>"
| "kind_options (NK_undo op) = \<lparr>no_title = (utf8 [230, 147, 141, 228, 189, 156, 229, 183, 178, 230, 146, 164, 233, 148, 128, 32, 226, 134, 182]), no_body = op @ (utf8 [32, 229, 183, 178, 230, 146, 164, 233, 148, 128]),
     no_type = Some NT_info, no_duration = Some 3000\<rparr>"
| "kind_options (NK_data op c) = \<lparr>no_title = (utf8 [230, 149, 176, 230, 141, 174]) @ op @ (utf8 [230, 136, 144, 229, 138, 159, 32, 240, 159, 146, 190]),
     no_body = (case c of Some n \<Rightarrow> if n \<noteq> 0 then (utf8 [230, 136, 144, 229, 138, 159]) @ op @ '' '' @ nat_str n @ (utf8 [32, 228, 184, 170, 228, 187, 187, 229, 138, 161])
                          else (utf8 [230, 149, 176, 230, 141, 174]) @ op @ (utf8 [229, 174, 140, 230, 136, 144])
                | None \<Rightarrow> (utf8 [230, 149, 176, 230, 141, 174]) @ op @ (utf8 [229, 174, 140, 230, 136, 144])),
     no_type = Some NT_success, no_duration = Some 4000\<rparr>"

section \<open>The hook\<close>

text \<open>\<open>isEnabled = settings.notifications_enabled && isNotificationSupported()\<close>, on the
  settings object (any truthy value enables).\<close>

definition notifications_enabled_in :: "settings_store \<Rightarrow> notification_service \<Rightarrow> bool" where
  "notifications_enabled_in ss sv \<longleftrightarrow> js_truthy (map_of (settings ss) ''notifications_enabled'') \<and> isSupported sv"

definition hook_notify :: "settings_store \<Rightarrow> permission option \<Rightarrow> bool \<Rightarrow> notification_kind
    \<Rightarrow> notification_service \<Rightarrow> shown_notification option \<times> notification_service" where
  "hook_notify ss ans ok k sv =
     (if \<not> notifications_enabled_in ss sv then (None, sv) else notify ans ok (kind_options k) sv)"

section \<open>Toasts\<close>

datatype toast_type = Toast_success | Toast_error | Toast_warning | Toast_info

record toast =
  toast_id :: string
  toast_type :: toast_type
  toast_title :: string
  toast_message :: "string option"
  toast_duration :: "nat option"

definition addToast :: "string \<Rightarrow> toast_type \<Rightarrow> string \<Rightarrow> string option \<Rightarrow> nat option \<Rightarrow> toast list \<Rightarrow> string \<times> toast list" where
  "addToast fresh ty ttl msg dur ts =
     (fresh, ts @ [\<lparr>toast_id = fresh, toast_type = ty, toast_title = ttl, toast_message = msg, toast_duration = dur\<rparr>])"

definition removeToast :: "string \<Rightarrow> toast list \<Rightarrow> toast list" where
  "removeToast k ts = filter (\<lambda>t. toast_id t \<noteq> k) ts"

definition clearToasts :: "toast list \<Rightarrow> toast list" where
  "clearToasts ts = []"

section \<open>Lemmas\<close>

text \<open>A notification is shown only with permission granted, and a granted permission
  is never lost.\<close>

lemma notify_shown_granted:
  "fst (notify ans ok opts sv) \<noteq> None \<Longrightarrow> isSupported sv \<and> nperm (snd (notify ans ok opts sv)) = Perm_granted"
  by (auto simp: notify_def requestPermission_def Let_def split: if_splits option.splits prod.splits)

lemma notify_keeps_granted:
  "nperm sv = Perm_granted \<Longrightarrow> nperm (snd (notify ans ok opts sv)) = Perm_granted"
  by (simp add: notify_def Let_def)

text \<open>With notifications switched off in the settings nothing is shown and no
  permission is requested.\<close>

lemma hook_notify_disabled:
  "\<not> js_truthy (map_of (settings ss) ''notifications_enabled'') \<Longrightarrow> hook_notify ss ans ok k sv = (None, sv)"
  by (simp add: hook_notify_def notifications_enabled_in_def)

text \<open>Removing a toast just added with a fresh id restores the queue.\<close>

lemma toast_add_remove:
  "fresh \<notin> toast_id ` set ts \<Longrightarrow> removeToast fresh (snd (addToast fresh ty ttl msg dur ts)) = ts"
  by (induction ts) (auto simp: removeToast_def addToast_def)

end
