(* ===== verification/DataPanel.thy ===== *)
theory DataPanel
  imports DataManager Notify Backup
begin

text \<open>
  The markup of the data manager (\<open>src/src/components/DataManager.tsx\<close>, its handlers
  are in theory \<open>DataManager\<close>) as the facts it shows, its second import button
  (settings only), and the composition of its handlers with the notification hook of
  theory \<open>Notify\<close>.  The hook's \<open>notifyDataOperation\<close> and \<open>notifyError\<close> are closures
  of the render that reads \<open>settings.notifications_enabled\<close>: they decide on the
  settings of that render, even when the handler has just imported other settings.
  The length of \<open>JSON.stringify(tasks)\<close>, shown as the data size, is an input.
\<close>

section \<open>The panel's render\<close>

definition export_formats :: "export_format list" where
  "export_formats = [Fmt_json, Fmt_csv, Fmt_txt]"

text \<open>The overview: the number of tasks, of completed tasks, and the size in KB
  (\<open>Math.round(JSON.stringify(tasks).length / 1024)\<close>).\<close>

definition data_overview :: "nat \<Rightarrow> task list \<Rightarrow> nat \<times> nat \<times> nat" where
  "data_overview json_len ts = (length ts, length (filter is_completed ts), js_round_div json_len 1024)"

text \<open>The format buttons, the current one highlighted; a click selects its format.\<close>

definition format_buttons :: "dm_state \<Rightarrow> (export_format \<times> bool) list" where
  "format_buttons dm = map (\<lambda>f. (f, exportFormat dm = f)) export_formats"

definition select_format :: "export_format \<Rightarrow> dm_state \<Rightarrow> dm_state" where
  "select_format f dm = dm\<lparr>exportFormat := f\<rparr>"

text \<open>The export-all button (disabled, with a spinner, while exporting); the import
  label (a spinner, and its file input disabled, while importing).\<close>

definition export_buttons :: "dm_state \<Rightarrow> bool \<times> bool" where
  "export_buttons dm = (\<not> isExporting dm, isExporting dm)"

definition import_buttons :: "dm_state \<Rightarrow> bool \<times> bool" where
  "import_buttons dm = (isImporting dm, \<not> isImporting dm)"

record data_view =
  dmv_total :: nat
  dmv_completed :: nat
  dmv_size_kb :: nat
  dmv_formats :: "(export_format \<times> bool) list"
  dmv_export_enabled :: bool
  dmv_exporting :: bool
  dmv_last_export :: "string option"
  dmv_importing :: bool
  dmv_import_enabled :: bool
  dmv_status :: "import_status option"
  dmv_last_import :: "string option"

text \<open>The four sections: overview; export (formats, buttons, the last export time when
  set); import (buttons, the status box when set, the last import time when set); the
  static security notes.\<close>

definition data_render :: "nat \<Rightarrow> task list \<Rightarrow> dm_state \<Rightarrow> data_view" where
  "data_render json_len ts dm =
     (let (n, c, kb) = data_overview json_len ts in
      \<lparr>dmv_total = n, dmv_completed = c, dmv_size_kb = kb,
       dmv_formats = format_buttons dm,
       dmv_export_enabled = fst (export_buttons dm), dmv_exporting = snd (export_buttons dm),
       dmv_last_export = lastExportTime dm,
       dmv_importing = fst (import_buttons dm), dmv_import_enabled = snd (import_buttons dm),
       dmv_status = importStatus dm, dmv_last_import = lastImportTime dm\<rparr>)"

section \<open>Importing the settings only\<close>

definition import_op :: string where "import_op = utf8 [229, 175, 188, 229, 133, 165]"

definition export_op :: string where "export_op = utf8 [229, 175, 188, 229, 135, 186]"

definition settings_error_msg :: string where
  "settings_error_msg = utf8 [232, 174, 190, 231, 189, 174, 229, 175, 188, 229, 133, 165, 229, 164, 177, 232, 180, 165,
     239, 188, 140, 232, 175, 183, 230, 163, 128, 230, 159, 165, 230, 150, 135, 228, 187, 182, 230, 160, 188, 229, 188, 143]"

datatype settings_import_effect = SI_notify notification_kind | SI_alert_ok | SI_alert_failed

text \<open>The second button: a file chooser whose file text goes to \<open>importSettings\<close>
  (\<open>parsed\<close>: the result of \<open>JSON.parse\<close> on it); success sends
  \<open>notifyDataOperation\<close> of an import without a count, failure \<open>notifyError\<close>, each with an
  \<open>alert\<close>.  The \<open>catch\<close> is unreachable: \<open>importSettings\<close> catches its own errors.\<close>

definition importSettingsOnly ::
  "bool \<Rightarrow> json option \<Rightarrow> settings_store \<Rightarrow> settings_store \<times> settings_import_effect list" where
  "importSettingsOnly file parsed ss =
     (if \<not> file then (ss, [])
      else (let (ok, ss') = importSettings parsed ss in
            if ok then (ss', [SI_notify (NK_data import_op None), SI_alert_ok])
            else (ss', [SI_notify (NK_error settings_error_msg), SI_alert_failed])))"

section \<open>Notifications of the handlers\<close>

definition import_error_msg :: string where
  "import_error_msg = utf8 [230, 149, 176, 230, 141, 174, 229, 175, 188, 229, 133, 165, 229, 164, 177, 232, 180, 165,
     239, 188, 140, 232, 175, 183, 230, 163, 128, 230, 159, 165, 230, 150, 135, 228, 187, 182, 230, 160, 188, 229, 188, 143]"

text \<open>The notification call behind an effect of \<open>handleImportData\<close> and
  \<open>handleExportAllData\<close>; \<open>msg\<close> is the handler's error message.\<close>

fun dm_kind :: "string \<Rightarrow> dm_effect \<Rightarrow> notification_kind option" where
  "dm_kind msg (Notify_export n) = Some (NK_data export_op (Some n))"
| "dm_kind msg (Notify_import n) = Some (NK_data import_op (Some n))"
| "dm_kind msg Notify_error = Some (NK_error msg)"
| "dm_kind msg _ = None"

text \<open>The hook's calls, in order, all through the closures of the render whose
  settings are \<open>ss\<close>.\<close>

fun send_all :: "settings_store \<Rightarrow> permission option \<Rightarrow> bool \<Rightarrow> notification_kind list
    \<Rightarrow> notification_service \<Rightarrow> shown_notification list \<times> notification_service" where
  "send_all ss ans ok [] sv = ([], sv)"
| "send_all ss ans ok (k # ks) sv =
     (let (n, sv1) = hook_notify ss ans ok k sv; (ns, sv2) = send_all ss ans ok ks sv1
      in (case n of None \<Rightarrow> ns | Some x \<Rightarrow> x # ns, sv2))"

text \<open>A file chosen in the import input: \<open>handleImportData\<close> on the store, then the
  notifications of the render's closures.\<close>

definition import_file_event ::
  "permission option \<Rightarrow> bool \<Rightarrow> bool \<Rightarrow> json option \<Rightarrow> bool \<Rightarrow> string \<Rightarrow> dm_state \<Rightarrow> settings_store
   \<Rightarrow> notification_service \<Rightarrow> dm_state \<times> settings_store \<times> shown_notification list \<times> notification_service" where
  "import_file_event ans nok file parsed confirm clk dm ss sv =
     (let (dm', ss', effs) = handleImportData file parsed confirm clk dm ss;
          (ns, sv') = send_all ss ans nok (List.map_filter (dm_kind import_error_msg) effs) sv
      in (dm', ss', ns, sv'))"

text \<open>A data file whose settings turn the notifications off.\<close>

definition quiet_file :: json where
  "quiet_file = JObj [(''tasks'', JArr []), (''settings'', JObj [(''notifications_enabled'', JBool False)])]"

section \<open>Lemmas\<close>

text \<open>Exactly one format is highlighted; after a click it is the one clicked, and the
  export then writes a file of that format.\<close>

lemma one_format_highlighted: "filter snd (dmv_formats (data_render l ts dm)) = [(exportFormat dm, True)]"
  by (cases "exportFormat dm") (simp_all add: data_render_def format_buttons_def export_formats_def Let_def split: prod.splits)

lemma export_follows_button:
  assumes "handleExportAllData (Some data) clk (select_format f dm) = (dm', effs, Some (fname, c))"
  shows "(\<exists>p. fname = p @ (case f of Fmt_json \<Rightarrow> ''.json'' | Fmt_csv \<Rightarrow> ''.csv'' | Fmt_txt \<Rightarrow> ''.txt''))
         \<and> (f = Fmt_json \<longleftrightarrow> (\<exists>j. c = Content_json j))"
  using assms by (cases f) (auto simp: handleExportAllData_def select_format_def)



text \<open>The settings-only import accepts exactly the files that parse to an object.\<close>

lemma settings_only_ok_iff:
  "importSettingsOnly True parsed ss = (ss', effs) \<Longrightarrow>
   SI_alert_ok \<in> set effs \<longleftrightarrow> (\<exists>j. parsed = Some j \<and> is_object j)"
  by (auto simp: importSettingsOnly_def importSettings_def split: option.splits if_splits)

text \<open>A full data export chosen with the settings-only button is accepted: the button
  reports success, but the settings sit under the file's \<open>settings\<close> key, so the store's
  theme becomes the default whatever the exported settings said.\<close>

lemma settings_only_resets_on_data_file:
  assumes "importSettingsOnly True (Some (export_document clk data)) ss = (ss', effs)"
  shows "SI_alert_ok \<in> set effs \<and> map_of (settings ss') ''theme'' = Some (theme_json System)
         \<and> map_of (settings ss') ''tasks'' \<noteq> None"
  using assms
  by (auto simp add: importSettingsOnly_def importSettings_def export_document_def import_merge_def obj_lit_def
      spread_def settings_obj_def defaultSettings_def)

text \<open>Importing a file whose settings turn the notifications off: the store's setting
  is off afterwards, yet the success notification is shown, decided on the settings of
  the render that chose the file.\<close>

lemma import_notifies_after_disabling:
  assumes "notifications_enabled_in ss sv" "nperm sv = Perm_granted"
    and "import_file_event ans True True (Some quiet_file) True clk dm ss sv = (dm', ss', ns, sv')"
  shows "ns \<noteq> [] \<and> map_of (settings ss') ''notifications_enabled'' = Some (JBool False)"
  using assms
  by (auto simp add: import_file_event_def handleImportData_def import_doc_ok_def quiet_file_def tasks_count_def
      importSettings_def import_merge_def obj_lit_def spread_def settings_obj_def defaultSettings_def
      hook_notify_def notify_def notifications_enabled_in_def Let_def)

lemma import_notifies_after_disabling_example:
  "fst (snd (snd (import_file_event None True True (Some quiet_file) True ''t'' init_dm init_settings_store
      (init_notification_service True Perm_granted)))) \<noteq> []
   \<and> map_of (settings (fst (snd (import_file_event None True True (Some quiet_file) True ''t'' init_dm
      init_settings_store (init_notification_service True Perm_granted))))) ''notifications_enabled''
     = Some (JBool False)"
proof -
  have en: "notifications_enabled_in init_settings_store (init_notification_service True Perm_granted)"
    by (simp add: notifications_enabled_in_def init_notification_service_def init_settings_store_def
        settings_obj_def defaultSettings_def)
  have gr: "nperm (init_notification_service True Perm_granted) = Perm_granted"
    by (simp add: init_notification_service_def)
  obtain a b c d where eq: "import_file_event None True True (Some quiet_file) True ''t'' init_dm init_settings_store
      (init_notification_service True Perm_granted) = (a, b, c, d)"
    by (cases "import_file_event None True True (Some quiet_file) True ''t'' init_dm init_settings_store
      (init_notification_service True Perm_granted)") auto
  show ?thesis
    using import_notifies_after_disabling [OF en gr eq] by (simp add: eq)
qed

end
