(* ===== verification/Views.thy ===== *)
theory Views
  imports Search
begin

text \<open>
  The logic of the task views: the statistics and popular tags of the sidebar
  (\<open>src/components/Sidebar.tsx\<close>), the counts and the clear-completed handler of the
  task list (\<open>TaskList.tsx\<close>), the two-column board with its grouping and drop
  handler (\<open>TaskKanbanView.tsx\<close>) and the drop handler shared by the sortable list
  and grid (\<open>DraggableTaskList.tsx\<close>, \<open>DraggableTaskGridView.tsx\<close>).  All of them
  are given \<open>getFilteredTasks()\<close> by \<open>TaskList\<close> and call the task store.  Dates:
  \<open>new Date(s)\<close> is the parameter \<open>date_ms\<close> (\<open>None\<close> for an invalid date, whose
  comparisons are false) and \<open>new Date()\<close> the parameter \<open>now_ms\<close>.
\<close>

section \<open>Sidebar\<close>

record task_stats =
  ts_total :: nat
  ts_completed :: nat
  ts_pending :: nat
  ts_overdue :: nat
  ts_high :: nat
  ts_medium :: nat
  ts_low :: nat
  ts_dueToday :: nat

definition is_overdue :: "(string \<Rightarrow> int option) \<Rightarrow> int \<Rightarrow> task \<Rightarrow> bool" where
  "is_overdue date_ms now_ms t \<longleftrightarrow>
     \<not> is_completed t \<and> (case due_date t of None \<Rightarrow> False
                          | Some d \<Rightarrow> d \<noteq> [] \<and> (case date_ms d of None \<Rightarrow> False | Some x \<Rightarrow> x < now_ms))"

definition date_part :: "string \<Rightarrow> string" where
  "date_part s = takeWhile (\<lambda>c. c \<noteq> CHR ''T'') s"

definition getTaskStats :: "(string \<Rightarrow> int option) \<Rightarrow> int \<Rightarrow> string \<Rightarrow> task list \<Rightarrow> task_stats" where
  "getTaskStats date_ms now_ms today_iso ts =
     (let total = length ts; completed = length (filter is_completed ts);
          pend_prio = (\<lambda>p. length (filter (\<lambda>t. \<not> is_completed t \<and> priority t = p) ts))
      in \<lparr>ts_total = total, ts_completed = completed, ts_pending = total - completed,
          ts_overdue = length (filter (is_overdue date_ms now_ms) ts),
          ts_high = pend_prio High, ts_medium = pend_prio Medium, ts_low = pend_prio Low,
          ts_dueToday = length (filter (\<lambda>t. \<not> is_completed t \<and>
                          (case due_date t of None \<Rightarrow> False
                           | Some d \<Rightarrow> d \<noteq> [] \<and> date_part d = date_part today_iso)) ts)\<rparr>)"

text \<open>\<open>tagCount\<close>: the tags in order of first occurrence (the order of
  \<open>Object.entries\<close> for keys that are not array indices) with their counts.\<close>

definition tag_counts :: "task list \<Rightarrow> (string \<times> nat) list" where
  "tag_counts ts =
     fold (\<lambda>tag acc. AList.update tag (case map_of acc tag of None \<Rightarrow> 1 | Some n \<Rightarrow> n + 1) acc)
       (concat (map tags ts)) []"

definition getPopularTags :: "task list \<Rightarrow> (string \<times> nat) list" where
  "getPopularTags ts = take 5 (sort_key (\<lambda>(tag, n). - int n) (tag_counts ts))"

section \<open>Task list\<close>

definition getTaskCounts :: "task list \<Rightarrow> nat \<times> nat \<times> nat" where
  "getTaskCounts ts =
     (length ts, length (filter (\<lambda>t. \<not> is_completed t) ts), length (filter is_completed ts))"

datatype view_effect = Confirm_clear nat | Notify_batch nat | Confirm_delete

text \<open>\<open>handleClearCompleted\<close>; \<open>ok\<close> is the answer to \<open>confirm\<close>.\<close>

definition handleClearCompleted :: "env \<Rightarrow> bool \<Rightarrow> sys \<Rightarrow> sys \<times> view_effect list" where
  "handleClearCompleted e ok s =
     (let n = length (filter is_completed (tasks (store s))) in
      if n = 0 then (s, [])
      else if ok then (clearCompleted e s, [Confirm_clear n, Notify_batch n])
      else (s, [Confirm_clear n]))"

section \<open>Drag and drop\<close>

text \<open>The \<open>DropResult\<close> of react-beautiful-dnd: the column and index the card was
  taken from, where it was dropped (\<open>None\<close>: cancelled), and the card's id.\<close>

record drop_result =
  dr_source :: "string \<times> nat"
  dr_destination :: "(string \<times> nat) option"
  dr_draggableId :: string

text \<open>\<open>handleDragEnd\<close> of the sortable list and grid: the indices are those of the
  displayed list and are passed to \<open>reorderTasks\<close> unchanged.\<close>

definition list_handleDragEnd :: "env \<Rightarrow> drop_result \<Rightarrow> sys \<Rightarrow> sys" where
  "list_handleDragEnd e r s =
     (case dr_destination r of
        None \<Rightarrow> s
      | Some (_, j) \<Rightarrow> if j = snd (dr_source r) then s else reorderTasks e (snd (dr_source r)) j s)"

text \<open>The grid's \<open>handleDragEnd\<close>, the same code.\<close>

definition grid_handleDragEnd :: "env \<Rightarrow> drop_result \<Rightarrow> sys \<Rightarrow> sys" where
  "grid_handleDragEnd e r s =
     (case dr_destination r of
        None \<Rightarrow> s
      | Some (_, j) \<Rightarrow> if j = snd (dr_source r) then s else reorderTasks e (snd (dr_source r)) j s)"

record kanban_ui =
  isDragging :: bool
  groupedCache :: "(task list \<times> task list) option"

definition init_kanban :: kanban_ui where
  "init_kanban = \<lparr>isDragging = False, groupedCache = None\<rparr>"

text \<open>The two columns: \<open>todo\<close> holds the pending tasks, \<open>completed\<close> the completed
  ones, each sorted by \<open>order_index\<close>.\<close>

definition group_columns :: "task list \<Rightarrow> task list \<times> task list" where
  "group_columns ts =
     (sort_key order_index (filter (\<lambda>t. \<not> is_completed t) ts), sort_key order_index (filter is_completed ts))"

text \<open>\<open>groupedTasks\<close> (\<open>useMemo\<close>): during a drag the cached grouping is shown; outside a
  drag the grouping is recomputed and cached.\<close>

definition groupedTasks :: "task list \<Rightarrow> kanban_ui \<Rightarrow> (task list \<times> task list) \<times> kanban_ui" where
  "groupedTasks ts ui =
     (case groupedCache ui of
        Some g \<Rightarrow> if isDragging ui then (g, ui) else (group_columns ts, ui\<lparr>groupedCache := Some (group_columns ts)\<rparr>)
      | None \<Rightarrow> if isDragging ui then (group_columns ts, ui)
                else (group_columns ts, ui\<lparr>groupedCache := Some (group_columns ts)\<rparr>))"

definition kanban_handleDragStart :: "kanban_ui \<Rightarrow> kanban_ui" where
  "kanban_handleDragStart ui = ui\<lparr>isDragging := True\<rparr>"

definition kanban_columns :: "string list" where
  "kanban_columns = [''todo'', ''completed'']"

text \<open>\<open>handleDragEnd\<close> of the board: a drop into the other column toggles the
  card's completion; a drop within a column does nothing (reordering is disabled).\<close>

definition kanban_handleDragEnd :: "env \<Rightarrow> drop_result \<Rightarrow> kanban_ui \<times> sys \<Rightarrow> kanban_ui \<times> sys" where
  "kanban_handleDragEnd e r uis =
     (let ui = (fst uis)\<lparr>isDragging := False\<rparr>; s = snd uis in
      case dr_destination r of
        None \<Rightarrow> (ui, s)
      | Some (dcol, j) \<Rightarrow>
          if dcol = fst (dr_source r) \<and> j = snd (dr_source r) then (ui, s)
          else if dcol \<notin> set kanban_columns \<or> fst (dr_source r) \<notin> set kanban_columns then (ui, s)
          else if dcol \<noteq> fst (dr_source r) then (ui, toggleComplete e (dr_draggableId r) s)
          else (ui, s))"

text \<open>The card's buttons: complete, delete (after \<open>confirm\<close>), select.\<close>

definition card_toggle :: "env \<Rightarrow> task \<Rightarrow> sys \<Rightarrow> sys" where
  "card_toggle e t s = toggleComplete e (task_id t) s"

definition card_delete :: "env \<Rightarrow> bool \<Rightarrow> task \<Rightarrow> sys \<Rightarrow> sys" where
  "card_delete e ok t s = (if ok then deleteTask e (task_id t) s else s)"

definition card_click :: "bool \<Rightarrow> task \<Rightarrow> sys \<Rightarrow> sys" where
  "card_click prevented t s = (if prevented then s else s\<lparr>store := setSelectedTask (Some (task_id t)) (store s)\<rparr>)"

section \<open>Fixtures\<close>

definition drag_sys :: sys where
  "drag_sys = (demo_sys [demo_task ''a'' 1 True, demo_task ''b'' 2 False, demo_task ''c'' 3 False])
     \<lparr>store := (store (demo_sys [demo_task ''a'' 1 True, demo_task ''b'' 2 False, demo_task ''c'' 3 False]))\<lparr>filter_state := Active\<rparr>\<rparr>"

definition drag_b_down :: drop_result where
  "drag_b_down = \<lparr>dr_source = (''task-list'', 0), dr_destination = Some (''task-list'', 1), dr_draggableId = ''b''\<rparr>"

section \<open>Lemmas\<close>

lemma grid_is_list: "grid_handleDragEnd = list_handleDragEnd"
  by (intro ext) (simp add: grid_handleDragEnd_def list_handleDragEnd_def)

text \<open>C36: the board's two columns partition the displayed tasks: together they hold
  each task exactly once, the first only pending and the second only completed tasks,
  each sorted by \<open>order_index\<close>.\<close>

lemma group_columns_partition:
  "mset (fst (group_columns ts)) + mset (snd (group_columns ts)) = mset ts
   \<and> sorted (map order_index (fst (group_columns ts))) \<and> sorted (map order_index (snd (group_columns ts)))
   \<and> list_all (\<lambda>t. \<not> is_completed t) (fst (group_columns ts)) \<and> list_all is_completed (snd (group_columns ts))"
  by (simp add: group_columns_def list_all_iff mset_filter_split[symmetric] add.commute)

lemma groupedTasks_idle: "\<not> isDragging ui \<Longrightarrow> fst (groupedTasks ts ui) = group_columns ts"
  by (simp add: groupedTasks_def split: option.splits)

lemma map_where_member:
  "x \<in> set xs \<Longrightarrow> key x = k \<Longrightarrow> g x \<in> set (map_where key k g xs)"
  by (induction xs) auto

lemma toggleComplete_ok:
  assumes "find_key task_id k (tasks (store s)) = Some t" "\<not> fails e k"
  shows "tasks (store (toggleComplete e k s))
           = map_where task_id k (\<lambda>x. merge_patch x (toggle_patch e t)) (tasks (store s))"
  using assms by (simp add: toggleComplete_def start_op_def tbl_update_def Let_def)

text \<open>C37: dropping a pending card from the \<open>todo\<close> column into the \<open>completed\<close>
  column, when the write succeeds, puts the task into the completed column of the
  regrouped board.\<close>

lemma kanban_drop_completes:
  assumes t: "find_key task_id k (tasks (store s)) = Some t" and p: "\<not> is_completed t"
    and ok: "\<not> fails e k"
    and r: "dr_source r = (''todo'', i)" "dr_destination r = Some (''completed'', j)" "dr_draggableId r = k"
  shows "k \<in> task_id ` set (snd (fst (groupedTasks (tasks (store (snd (kanban_handleDragEnd e r (ui, s)))))
                                        (fst (kanban_handleDragEnd e r (ui, s))))))"
proof -
  have tin: "t \<in> set (tasks (store s))" and tk: "task_id t = k" using find_key_Some [OF t] by auto
  let ?t' = "merge_patch t (toggle_patch e t)"
  have res: "kanban_handleDragEnd e r (ui, s) = (ui\<lparr>isDragging := False\<rparr>, toggleComplete e k s)"
    using r by (simp add: kanban_handleDragEnd_def kanban_columns_def)
  have "?t' \<in> set (tasks (store (toggleComplete e k s)))"
    using toggleComplete_ok [OF t ok] map_where_member [of t "tasks (store s)" task_id k "\<lambda>x. merge_patch x (toggle_patch e t)", OF tin tk] by simp
  moreover have "is_completed ?t'" "task_id ?t' = k"
    using p tk by (simp_all add: toggle_patch_def merge_patch_def empty_patch_def)
  ultimately show ?thesis
    using res by (force simp: groupedTasks_idle group_columns_def)
qed

lemma view_all_blank:
  "filter_state st = All \<Longrightarrow> js_trim (searchQuery st) = [] \<Longrightarrow> getFilteredTasks st = tasks st"
  by (simp add: getFilteredTasks_def status_filter_def)

text \<open>C38: with the filter \<open>all\<close> and no search, dropping the card at position \<open>i\<close>
  of the sortable list at position \<open>j\<close> moves exactly that card in the displayed list
  (when the writes succeed).\<close>

lemma list_drag_moves_view:
  assumes v: "filter_state (store s) = All" "js_trim (searchQuery (store s)) = []"
    and d: "dr_destination r = Some (c, j)" and i: "snd (dr_source r) < length (getFilteredTasks (store s))"
    and ok: "\<forall>t \<in> set (tasks (store s)). \<not> fails e (task_id t)"
  shows "map task_id (getFilteredTasks (store (list_handleDragEnd e r s)))
           = move (map task_id (getFilteredTasks (store s))) (snd (dr_source r)) j"
proof (cases "j = snd (dr_source r)")
  case True
  then show ?thesis using d i v by (simp add: list_handleDragEnd_def view_all_blank move_same)
next
  case False
  let ?i = "snd (dr_source r)"
  have il: "?i < length (tasks (store s))" using i v by (simp add: view_all_blank)
  obtain rows where eq: "reorderTasks e ?i j s = s\<lparr>db := rows,
     store := addUndoAction e Reorder_tasks Desc_reorder
       (no_undo_data\<lparr>ud_originalTasks := Some (tasks (store s))\<rparr>)
       ((start_op (store s))\<lparr>tasks := renumber_list (now e) (move (tasks (store s)) ?i j),
          isLoading := False\<rparr>)\<rparr>"
    using reorderTasks_ok [OF il] ok by blast
  show ?thesis
    using False d v il eq
    by (simp add: list_handleDragEnd_def view_all_blank addUndoAction_def start_op_def Let_def
        map_task_id_renumber_list map_move)
qed

text \<open>With the filter \<open>active\<close> the drop indices are positions in the filtered
  list but \<open>reorderTasks\<close> applies them to the full list: over [a (completed), b, c],
  dragging b below c leaves the displayed list b, c unchanged and moves the hidden
  task a instead.\<close>

lemma list_drag_filtered_scenario:
  "map task_id (getFilteredTasks (store drag_sys)) = [''b'', ''c'']
   \<and> map task_id (getFilteredTasks (store (list_handleDragEnd (ok_env ''x'' ''t1'') drag_b_down drag_sys))) = [''b'', ''c'']
   \<and> map task_id (tasks (store (list_handleDragEnd (ok_env ''x'' ''t1'') drag_b_down drag_sys))) = [''b'', ''a'', ''c'']"
  unfolding drag_sys_def drag_b_down_def demo_sys_def demo_task_def ok_env_def
  by code_simp

lemma pending_prio_split:
  "length (filter (\<lambda>t. \<not> is_completed t \<and> priority t = High) ts)
   + length (filter (\<lambda>t. \<not> is_completed t \<and> priority t = Medium) ts)
   + length (filter (\<lambda>t. \<not> is_completed t \<and> priority t = Low) ts)
   = length (filter (\<lambda>t. \<not> is_completed t) ts)"
proof (induction ts)
  case (Cons t ts)
  then show ?case by (cases "priority t") auto
qed simp

lemma pending_count: "length ts - length (filter is_completed ts) = length (filter (\<lambda>t. \<not> is_completed t) ts)"
  using sum_length_filter_compl [of is_completed ts] by linarith

text \<open>C40: the sidebar statistics are consistent: completed and pending tasks are all
  tasks, the three priority counts split the pending tasks, and overdue tasks and
  tasks due today are pending tasks.\<close>

lemma stats_consistent:
  "ts_completed (getTaskStats dm nm td ts) + ts_pending (getTaskStats dm nm td ts) = ts_total (getTaskStats dm nm td ts)
   \<and> ts_high (getTaskStats dm nm td ts) + ts_medium (getTaskStats dm nm td ts) + ts_low (getTaskStats dm nm td ts)
       = ts_pending (getTaskStats dm nm td ts)
   \<and> ts_overdue (getTaskStats dm nm td ts) \<le> ts_pending (getTaskStats dm nm td ts)
   \<and> ts_dueToday (getTaskStats dm nm td ts) \<le> ts_pending (getTaskStats dm nm td ts)"
proof -
  have "length (filter is_completed ts) \<le> length ts" by simp
  moreover have "length (filter (is_overdue dm nm) ts) \<le> length (filter (\<lambda>t. \<not> is_completed t) ts)"
    by (rule length_filter_mono) (simp add: is_overdue_def)
  moreover have "length (filter (\<lambda>t. \<not> is_completed t \<and> (case due_date t of None \<Rightarrow> False
                   | Some d \<Rightarrow> d \<noteq> [] \<and> date_part d = date_part td)) ts) \<le> length (filter (\<lambda>t. \<not> is_completed t) ts)"
    by (rule length_filter_mono) simp
  ultimately show ?thesis
    by (simp add: getTaskStats_def Let_def pending_count pending_prio_split sum_length_filter_compl)
qed

lemma kanban_drop_completes_witness:
  "find_key task_id ''b'' (tasks (store (demo_sys [demo_task ''b'' 2 False]))) = Some (demo_task ''b'' 2 False)
   \<and> \<not> is_completed (demo_task ''b'' 2 False) \<and> \<not> fails (ok_env ''x'' ''t1'') ''b''
   \<and> dr_source \<lparr>dr_source = (''todo'', 0), dr_destination = Some (''completed'', 0), dr_draggableId = ''b''\<rparr> = (''todo'', 0)
   \<and> ''b'' \<in> task_id ` set (snd (fst (groupedTasks
        (tasks (store (snd (kanban_handleDragEnd (ok_env ''x'' ''t1'')
           \<lparr>dr_source = (''todo'', 0), dr_destination = Some (''completed'', 0), dr_draggableId = ''b''\<rparr>
           (init_kanban, demo_sys [demo_task ''b'' 2 False])))))
        (fst (kanban_handleDragEnd (ok_env ''x'' ''t1'')
           \<lparr>dr_source = (''todo'', 0), dr_destination = Some (''completed'', 0), dr_draggableId = ''b''\<rparr>
           (init_kanban, demo_sys [demo_task ''b'' 2 False]))))))"
proof -
  have h: "find_key task_id ''b'' (tasks (store (demo_sys [demo_task ''b'' 2 False]))) = Some (demo_task ''b'' 2 False)"
    "\<not> is_completed (demo_task ''b'' 2 False)" "\<not> fails (ok_env ''x'' ''t1'') ''b''"
    by (simp_all add: demo_sys_def demo_task_def init_store_def find_key_def ok_env_def)
  show ?thesis
    using h kanban_drop_completes [OF h, of "\<lparr>dr_source = (''todo'', 0), dr_destination = Some (''completed'', 0), dr_draggableId = ''b''\<rparr>" 0 0 init_kanban]
    by simp
qed

lemma list_drag_moves_view_witness:
  "filter_state (store (demo_sys [demo_task ''a'' 1 False, demo_task ''b'' 2 False])) = All
   \<and> js_trim (searchQuery (store (demo_sys [demo_task ''a'' 1 False, demo_task ''b'' 2 False]))) = []
   \<and> map task_id (getFilteredTasks (store (list_handleDragEnd (ok_env ''x'' ''t1'')
        \<lparr>dr_source = (''task-list'', 0), dr_destination = Some (''task-list'', 1), dr_draggableId = ''a''\<rparr>
        (demo_sys [demo_task ''a'' 1 False, demo_task ''b'' 2 False]))))
     = move (map task_id (getFilteredTasks (store (demo_sys [demo_task ''a'' 1 False, demo_task ''b'' 2 False])))) 0 1"
proof -
  let ?s = "demo_sys [demo_task ''a'' 1 False, demo_task ''b'' 2 False]"
  let ?r = "\<lparr>dr_source = (''task-list'', 0::nat), dr_destination = Some (''task-list'', 1::nat), dr_draggableId = ''a''\<rparr>"
  have h1: "filter_state (store ?s) = All" "js_trim (searchQuery (store ?s)) = []"
    by (simp_all add: demo_sys_def init_store_def js_trim_def)
  have h2: "dr_destination ?r = Some (''task-list'', 1)" by simp
  have h3: "snd (dr_source ?r) < length (getFilteredTasks (store ?s))"
    using h1 by (simp add: getFilteredTasks_def status_filter_def demo_sys_def init_store_def)
  have h4: "\<forall>t \<in> set (tasks (store ?s)). \<not> fails (ok_env ''x'' ''t1'') (task_id t)"
    by (simp add: ok_env_def)
  show ?thesis using h1 list_drag_moves_view [OF h1 h2 h3 h4] by simp
qed

end
