(* ===== verification/I18n.thy ===== *)
theory I18n
  imports Settings
begin

text \<open>
  The translation service (\<open>src/services/i18n.ts\<close>, class \<open>I18nService\<close>) and its
  hook (\<open>src/hooks/useI18n.ts\<close>).  The two translation tables are the object
  literals of \<open>getChineseTranslations\<close> and \<open>getEnglishTranslations\<close>, one
  definition per namespace, transcribed mechanically from the source (text outside
  ASCII as UTF-8 bytes).  \<open>t(key)\<close> splits the key at dots and follows the parts
  through the table of the current language with optional chaining; a missing part
  gives back the key, and so does a value that is not a string.  The current language
  is whatever \<open>settings.language\<close> holds (a JSON value after an import); only a
  string names a table.  Property names of \<open>Object.prototype\<close> used as key parts, and
  the coercion of a non-string language to a property key, are not modelled.
\<close>

section \<open>The tables\<close>

definition zh_app :: jobj where
  "zh_app =
     [(''name'', JStr (''DeskTodoList'')),
      (''version'', JStr (''v1.0.0''))]"

definition zh_common :: jobj where
  "zh_common =
     [(''ok'', JStr (utf8 [231, 161, 174, 229, 174, 154])),
      (''cancel'', JStr (utf8 [229, 143, 150, 230, 182, 136])),
      (''save'', JStr (utf8 [228, 191, 157, 229, 173, 152])),
      (''delete'', JStr (utf8 [229, 136, 160, 233, 153, 164])),
      (''edit'', JStr (utf8 [231, 188, 150, 232, 190, 145])),
      (''add'', JStr (utf8 [230, 183, 187, 229, 138, 160])),
      (''close'', JStr (utf8 [229, 133, 179, 233, 151, 173])),
      (''confirm'', JStr (utf8 [231, 161, 174, 232, 174, 164])),
      (''loading'', JStr (utf8 [229, 138, 160, 232, 189, 189, 228, 184, 173, 46, 46, 46])),
      (''search'', JStr (utf8 [230, 144, 156, 231, 180, 162])),
      (''clear'', JStr (utf8 [230, 184, 133, 233, 153, 164])),
      (''reset'', JStr (utf8 [233, 135, 141, 231, 189, 174])),
      (''import'', JStr (utf8 [229, 175, 188, 229, 133, 165])),
      (''export'', JStr (utf8 [229, 175, 188, 229, 135, 186])),
      (''backup'', JStr (utf8 [229, 164, 135, 228, 187, 189])),
      (''restore'', JStr (utf8 [230, 129, 162, 229, 164, 141])),
      (''settings'', JStr (utf8 [232, 174, 190, 231, 189, 174])),
      (''help'', JStr (utf8 [229, 184, 174, 229, 138, 169])),
      (''yes'', JStr (utf8 [230, 152, 175])),
      (''no'', JStr (utf8 [229, 144, 166]))]"

definition zh_task :: jobj where
  "zh_task =
     [(''title'', JStr (utf8 [230, 160, 135, 233, 162, 152])),
      (''description'', JStr (utf8 [230, 143, 143, 232, 191, 176])),
      (''priority'', JStr (utf8 [228, 188, 152, 229, 133, 136, 231, 186, 167])),
      (''dueDate'', JStr (utf8 [230, 136, 170, 230, 173, 162, 230, 151, 165, 230, 156, 159])),
      (''tags'', JStr (utf8 [230, 160, 135, 231, 173, 190])),
      (''notes'', JStr (utf8 [229, 164, 135, 230, 179, 168])),
      (''completed'', JStr (utf8 [229, 183, 178, 229, 174, 140, 230, 136, 144])),
      (''pending'', JStr (utf8 [229, 190, 133, 229, 138, 158, 228, 186, 139, 233, 161, 185])),
      (''overdue'', JStr (utf8 [229, 183, 178, 232, 191, 135, 230, 156, 159])),
      (''priority_low'', JStr (utf8 [228, 189, 142, 228, 188, 152, 229, 133, 136, 231, 186, 167])),
      (''priority_medium'', JStr (utf8 [228, 184, 173, 228, 188, 152, 229, 133, 136, 231, 186, 167])),
      (''priority_high'', JStr (utf8 [233, 171, 152, 228, 188, 152, 229, 133, 136, 231, 186, 167])),
      (''addTask'', JStr (utf8 [230, 183, 187, 229, 138, 160, 230, 150, 176, 228, 187, 187, 229, 138, 161, 46, 46, 46])),
      (''editTask'', JStr (utf8 [231, 188, 150, 232, 190, 145, 228, 187, 187, 229, 138, 161])),
      (''deleteTask'', JStr (utf8 [229, 136, 160, 233, 153, 164, 228, 187, 187, 229, 138, 161])),
      (''completeTask'', JStr (utf8 [229, 174, 140, 230, 136, 144, 228, 187, 187, 229, 138, 161])),
      (''uncompleteTask'', JStr (utf8 [229, 143, 150, 230, 182, 136, 229, 174, 140, 230, 136, 144])),
      (''duplicateTask'', JStr (utf8 [229, 164, 141, 229, 136, 182, 228, 187, 187, 229, 138, 161])),
      (''filterAll'', JStr (utf8 [229, 133, 168, 233, 131, 168, 228, 187, 187, 229, 138, 161])),
      (''filterActive'', JStr (utf8 [229, 190, 133, 229, 138, 158, 228, 186, 139, 233, 161, 185])),
      (''filterCompleted'', JStr (utf8 [229, 183, 178, 229, 174, 140, 230, 136, 144])),
      (''listView'', JStr (utf8 [229, 136, 151, 232, 161, 168, 232, 167, 134, 229, 155, 190])),
      (''gridView'', JStr (utf8 [231, 189, 145, 230, 160, 188, 232, 167, 134, 229, 155, 190])),
      (''kanbanView'', JStr (utf8 [231, 156, 139, 230, 157, 191, 232, 167, 134, 229, 155, 190])),
      (''noTasks'', JStr (utf8 [230, 154, 130, 230, 151, 160, 228, 187, 187, 229, 138, 161])),
      (''noTasksDesc'', JStr (utf8 [229, 188, 128, 229, 167, 139, 230, 183, 187, 229, 138, 160, 230, 130, 168, 231, 154, 132, 231, 172, 172, 228, 184, 128, 228, 184, 170, 228, 187, 187, 229, 138, 161, 229, 144, 167])),
      (''taskCount'', JStr (utf8 [228, 184, 170, 228, 187, 187, 229, 138, 161])),
      (''completedCount'', JStr (utf8 [228, 184, 170, 229, 183, 178, 229, 174, 140, 230, 136, 144]))]"

definition zh_settings :: jobj where
  "zh_settings =
     [(''title'', JStr (utf8 [229, 186, 148, 231, 148, 168, 232, 174, 190, 231, 189, 174])),
      (''general'', JStr (utf8 [229, 184, 184, 232, 167, 132, 232, 174, 190, 231, 189, 174])),
      (''shortcuts'', JStr (utf8 [229, 191, 171, 230, 141, 183, 233, 148, 174])),
      (''dataManagement'', JStr (utf8 [230, 149, 176, 230, 141, 174, 231, 174, 161, 231, 144, 134])),
      (''appearance'', JStr (utf8 [229, 164, 150, 232, 167, 130, 232, 174, 190, 231, 189, 174])),
      (''theme'', JStr (utf8 [228, 184, 187, 233, 162, 152])),
      (''themeLight'', JStr (utf8 [230, 152, 142, 228, 186, 174, 230, 168, 161, 229, 188, 143])),
      (''themeDark'', JStr (utf8 [230, 154, 151, 233, 187, 145, 230, 168, 161, 229, 188, 143])),
      (''themeSystem'', JStr (utf8 [232, 183, 159, 233, 154, 143, 231, 179, 187, 231, 187, 159])),
      (''taskViewMode'', JStr (utf8 [228, 187, 187, 229, 138, 161, 232, 167, 134, 229, 155, 190, 230, 168, 161, 229, 188, 143])),
      (''window'', JStr (utf8 [231, 170, 151, 229, 143, 163, 232, 174, 190, 231, 189, 174])),
      (''alwaysOnTop'', JStr (utf8 [231, 170, 151, 229, 143, 163, 231, 189, 174, 233, 161, 182])),
      (''alwaysOnTopDesc'', JStr (utf8 [228, 191, 157, 230, 140, 129, 229, 186, 148, 231, 148, 168, 231, 170, 151, 229, 143, 163, 229, 167, 139, 231, 187, 136, 229, 156, 168, 230, 156, 128, 229, 137, 141, 233, 157, 162])),
      (''notifications'', JStr (utf8 [233, 128, 154, 231, 159, 165, 232, 174, 190, 231, 189, 174])),
      (''systemNotifications'', JStr (utf8 [231, 179, 187, 231, 187, 159, 233, 128, 154, 231, 159, 165])),
      (''systemNotificationsDesc'', JStr (utf8 [230, 142, 165, 230, 148, 182, 228, 187, 187, 229, 138, 161, 230, 143, 144, 233, 134, 146, 229, 146, 140, 231, 179, 187, 231, 187, 159, 233, 128, 154, 231, 159, 165])),
      (''autoBackup'', JStr (utf8 [232, 135, 170, 229, 138, 168, 229, 164, 135, 228, 187, 189])),
      (''autoBackupDesc'', JStr (utf8 [229, 174, 154, 230, 156, 159, 232, 135, 170, 229, 138, 168, 229, 164, 135, 228, 187, 189, 228, 187, 187, 229, 138, 161, 230, 149, 176, 230, 141, 174])),
      (''backupInterval'', JStr (utf8 [229, 164, 135, 228, 187, 189, 233, 151, 180, 233, 154, 148])),
      (''backupStatus'', JStr (utf8 [229, 164, 135, 228, 187, 189, 231, 138, 182, 230, 128, 129])),
      (''backupSuccessRate'', JStr (utf8 [230, 136, 144, 229, 138, 159, 231, 142, 135])),
      (''lastBackup'', JStr (utf8 [230, 156, 128, 232, 191, 145, 229, 164, 135, 228, 187, 189])),
      (''manualBackup'', JStr (utf8 [231, 171, 139, 229, 141, 179, 229, 164, 135, 228, 187, 189])),
      (''backingUp'', JStr (utf8 [229, 164, 135, 228, 187, 189, 228, 184, 173, 46, 46, 46])),
      (''shortcutsDesc'', JStr (utf8 [232, 135, 170, 229, 174, 154, 228, 185, 137, 229, 186, 148, 231, 148, 168, 229, 191, 171, 230, 141, 183, 233, 148, 174])),
      (''shortcutDisabledInInput'', JStr (utf8 [229, 156, 168, 232, 190, 147, 229, 133, 165, 230, 161, 134, 229, 134, 133, 229, 191, 171, 230, 141, 183, 233, 148, 174, 229, 176, 134, 232, 162, 171, 231, 166, 129, 231, 148, 168])),
      (''language'', JStr (utf8 [232, 175, 173, 232, 168, 128])),
      (''languageDesc'', JStr (utf8 [233, 128, 137, 230, 139, 169, 229, 186, 148, 231, 148, 168, 231, 149, 140, 233, 157, 162, 232, 175, 173, 232, 168, 128]))]"

definition zh_dataManager :: jobj where
  "zh_dataManager =
     [(''title'', JStr (utf8 [230, 149, 176, 230, 141, 174, 231, 174, 161, 231, 144, 134])),
      (''overview'', JStr (utf8 [230, 149, 176, 230, 141, 174, 230, 166, 130, 232, 167, 136])),
      (''export'', JStr (utf8 [229, 175, 188, 229, 135, 186, 230, 149, 176, 230, 141, 174])),
      (''import'', JStr (utf8 [229, 175, 188, 229, 133, 165, 230, 149, 176, 230, 141, 174])),
      (''exportFormat'', JStr (utf8 [229, 175, 188, 229, 135, 186, 230, 160, 188, 229, 188, 143])),
      (''exportAll'', JStr (utf8 [229, 175, 188, 229, 135, 186, 230, 137, 128, 230, 156, 137, 230, 149, 176, 230, 141, 174])),
      (''exportSettings'', JStr (utf8 [228, 187, 133, 229, 175, 188, 229, 135, 186, 232, 174, 190, 231, 189, 174])),
      (''exportSuccess'', JStr (utf8 [230, 149, 176, 230, 141, 174, 229, 175, 188, 229, 135, 186, 230, 136, 144, 229, 138, 159])),
      (''exportFailed'', JStr (utf8 [230, 149, 176, 230, 141, 174, 229, 175, 188, 229, 135, 186, 229, 164, 177, 232, 180, 165])),
      (''importAll'', JStr (utf8 [229, 175, 188, 229, 133, 165, 230, 137, 128, 230, 156, 137, 230, 149, 176, 230, 141, 174])),
      (''importSettings'', JStr (utf8 [228, 187, 133, 229, 175, 188, 229, 133, 165, 232, 174, 190, 231, 189, 174])),
      (''importSuccess'', JStr (utf8 [230, 149, 176, 230, 141, 174, 229, 175, 188, 229, 133, 165, 230, 136, 144, 229, 138, 159])),
      (''importFailed'', JStr (utf8 [230, 149, 176, 230, 141, 174, 229, 175, 188, 229, 133, 165, 229, 164, 177, 232, 180, 165])),
      (''formatJson'', JStr (utf8 [74, 83, 79, 78, 32, 230, 160, 188, 229, 188, 143])),
      (''formatCsv'', JStr (utf8 [67, 83, 86, 32, 230, 160, 188, 229, 188, 143])),
      (''formatTxt'', JStr (utf8 [230, 150, 135, 230, 156, 172, 230, 160, 188, 229, 188, 143]))]"

definition zh_notifications :: jobj where
  "zh_notifications =
     [(''taskAdded'', JStr (utf8 [230, 150, 176, 228, 187, 187, 229, 138, 161, 229, 183, 178, 230, 183, 187, 229, 138, 160])),
      (''taskCompleted'', JStr (utf8 [228, 187, 187, 229, 138, 161, 229, 183, 178, 229, 174, 140, 230, 136, 144])),
      (''taskDeleted'', JStr (utf8 [228, 187, 187, 229, 138, 161, 229, 183, 178, 229, 136, 160, 233, 153, 164])),
      (''taskUpdated'', JStr (utf8 [228, 187, 187, 229, 138, 161, 229, 183, 178, 230, 155, 180, 230, 150, 176])),
      (''operationUndone'', JStr (utf8 [230, 147, 141, 228, 189, 156, 229, 183, 178, 230, 146, 164, 233, 148, 128])),
      (''batchOperation'', JStr (utf8 [230, 137, 185, 233, 135, 143, 230, 147, 141, 228, 189, 156, 229, 174, 140, 230, 136, 144])),
      (''dataExported'', JStr (utf8 [230, 149, 176, 230, 141, 174, 229, 175, 188, 229, 135, 186, 230, 136, 144, 229, 138, 159])),
      (''dataImported'', JStr (utf8 [230, 149, 176, 230, 141, 174, 229, 175, 188, 229, 133, 165, 230, 136, 144, 229, 138, 159])),
      (''backupCompleted'', JStr (utf8 [229, 164, 135, 228, 187, 189, 229, 174, 140, 230, 136, 144])),
      (''backupFailed'', JStr (utf8 [229, 164, 135, 228, 187, 189, 229, 164, 177, 232, 180, 165])),
      (''permissionDenied'', JStr (utf8 [233, 128, 154, 231, 159, 165, 230, 157, 131, 233, 153, 144, 232, 162, 171, 230, 139, 146, 231, 187, 157, 239, 188, 140, 232, 175, 183, 229, 156, 168, 230, 181, 143, 232, 167, 136, 229, 153, 168, 232, 174, 190, 231, 189, 174, 228, 184, 173, 230, 137, 139, 229, 138, 168, 229, 188, 128, 229, 144, 175])),
      (''permissionGranted'', JStr (utf8 [233, 128, 154, 231, 159, 165, 229, 183, 178, 229, 144, 175, 231, 148, 168, 239, 188, 140, 230, 130, 168, 229, 176, 134, 230, 148, 182, 229, 136, 176, 228, 187, 187, 229, 138, 161, 231, 155, 184, 229, 133, 179, 231, 154, 132, 230, 161, 140, 233, 157, 162, 233, 128, 154, 231, 159, 165]))]"

definition zh_errors :: jobj where
  "zh_errors =
     [(''unknown'', JStr (utf8 [230, 156, 170, 231, 159, 165, 233, 148, 153, 232, 175, 175])),
      (''networkError'', JStr (utf8 [231, 189, 145, 231, 187, 156, 233, 148, 153, 232, 175, 175])),
      (''invalidFormat'', JStr (utf8 [230, 151, 160, 230, 149, 136, 231, 154, 132, 230, 150, 135, 228, 187, 182, 230, 160, 188, 229, 188, 143])),
      (''fileNotFound'', JStr (utf8 [230, 150, 135, 228, 187, 182, 230, 156, 170, 230, 137, 190, 229, 136, 176])),
      (''permissionDenied'', JStr (utf8 [230, 157, 131, 233, 153, 144, 232, 162, 171, 230, 139, 146, 231, 187, 157])),
      (''quotaExceeded'', JStr (utf8 [229, 173, 152, 229, 130, 168, 231, 169, 186, 233, 151, 180, 228, 184, 141, 232, 182, 179])),
      (''taskNotFound'', JStr (utf8 [228, 187, 187, 229, 138, 161, 228, 184, 141, 229, 173, 152, 229, 156, 168])),
      (''saveFailed'', JStr (utf8 [228, 191, 157, 229, 173, 152, 229, 164, 177, 232, 180, 165])),
      (''loadFailed'', JStr (utf8 [229, 138, 160, 232, 189, 189, 229, 164, 177, 232, 180, 165]))]"

definition zh_confirmations :: jobj where
  "zh_confirmations =
     [(''deleteTask'', JStr (utf8 [231, 161, 174, 229, 174, 154, 232, 166, 129, 229, 136, 160, 233, 153, 164, 232, 191, 153, 228, 184, 170, 228, 187, 187, 229, 138, 161, 229, 144, 151, 239, 188, 159])),
      (''deleteAllCompleted'', JStr (utf8 [231, 161, 174, 229, 174, 154, 232, 166, 129, 229, 136, 160, 233, 153, 164, 230, 137, 128, 230, 156, 137, 229, 183, 178, 229, 174, 140, 230, 136, 144, 231, 154, 132, 228, 187, 187, 229, 138, 161, 229, 144, 151, 239, 188, 159])),
      (''clearAllData'', JStr (utf8 [231, 161, 174, 229, 174, 154, 232, 166, 129, 230, 184, 133, 233, 153, 164, 230, 137, 128, 230, 156, 137, 230, 149, 176, 230, 141, 174, 229, 144, 151, 239, 188, 159, 230, 173, 164, 230, 147, 141, 228, 189, 156, 228, 184, 141, 229, 143, 175, 230, 146, 164, 233, 148, 128, 227, 128, 130])),
      (''importData'', JStr (utf8 [229, 175, 188, 229, 133, 165, 229, 176, 134, 230, 155, 191, 230, 141, 162, 229, 189, 147, 229, 137, 141, 230, 137, 128, 230, 156, 137, 230, 149, 176, 230, 141, 174, 239, 188, 140, 231, 161, 174, 229, 174, 154, 231, 187, 167, 231, 187, 173, 229, 144, 151, 239, 188, 159])),
      (''restoreBackup'', JStr (utf8 [231, 161, 174, 229, 174, 154, 232, 166, 129, 230, 129, 162, 229, 164, 141, 230, 173, 164, 229, 164, 135, 228, 187, 189, 229, 144, 151, 239, 188, 159, 229, 189, 147, 229, 137, 141, 230, 149, 176, 230, 141, 174, 229, 176, 134, 232, 162, 171, 230, 155, 191, 230, 141, 162, 227, 128, 130])),
      (''resetSettings'', JStr (utf8 [231, 161, 174, 229, 174, 154, 232, 166, 129, 233, 135, 141, 231, 189, 174, 230, 137, 128, 230, 156, 137, 232, 174, 190, 231, 189, 174, 229, 144, 151, 239, 188, 159]))]"

definition zh_shortcuts :: jobj where
  "zh_shortcuts =
     [(''newTask'', JStr (utf8 [230, 150, 176, 229, 187, 186, 228, 187, 187, 229, 138, 161])),
      (''search'', JStr (utf8 [230, 144, 156, 231, 180, 162, 228, 187, 187, 229, 138, 161])),
      (''toggleComplete'', JStr (utf8 [229, 136, 135, 230, 141, 162, 229, 174, 140, 230, 136, 144, 231, 138, 182, 230, 128, 129])),
      (''deleteTask'', JStr (utf8 [229, 136, 160, 233, 153, 164, 228, 187, 187, 229, 138, 161])),
      (''undo'', JStr (utf8 [230, 146, 164, 233, 148, 128, 230, 147, 141, 228, 189, 156])),
      (''exportData'', JStr (utf8 [229, 175, 188, 229, 135, 186, 230, 149, 176, 230, 141, 174])),
      (''openSettings'', JStr (utf8 [230, 137, 147, 229, 188, 128, 232, 174, 190, 231, 189, 174])),
      (''clearSelection'', JStr (utf8 [230, 184, 133, 233, 153, 164, 233, 128, 137, 230, 139, 169]))]"

definition zh_time :: jobj where
  "zh_time =
     [(''today'', JStr (utf8 [228, 187, 138, 229, 164, 169])),
      (''yesterday'', JStr (utf8 [230, 152, 168, 229, 164, 169])),
      (''tomorrow'', JStr (utf8 [230, 152, 142, 229, 164, 169])),
      (''thisWeek'', JStr (utf8 [230, 156, 172, 229, 145, 168])),
      (''lastWeek'', JStr (utf8 [228, 184, 138, 229, 145, 168])),
      (''thisMonth'', JStr (utf8 [230, 156, 172, 230, 156, 136])),
      (''lastMonth'', JStr (utf8 [228, 184, 138, 230, 156, 136])),
      (''custom'', JStr (utf8 [232, 135, 170, 229, 174, 154, 228, 185, 137])),
      (''justNow'', JStr (utf8 [229, 136, 154, 229, 136, 154])),
      (''minutesAgo'', JStr (utf8 [229, 136, 134, 233, 146, 159, 229, 137, 141])),
      (''hoursAgo'', JStr (utf8 [229, 176, 143, 230, 151, 182, 229, 137, 141])),
      (''daysAgo'', JStr (utf8 [229, 164, 169, 229, 137, 141])),
      (''weeksAgo'', JStr (utf8 [229, 145, 168, 229, 137, 141])),
      (''monthsAgo'', JStr (utf8 [230, 156, 136, 229, 137, 141])),
      (''yearsAgo'', JStr (utf8 [229, 185, 180, 229, 137, 141]))]"

definition zh_translations :: jobj where
  "zh_translations = [(''app'', JObj zh_app), (''common'', JObj zh_common), (''task'', JObj zh_task), (''settings'', JObj zh_settings), (''dataManager'', JObj zh_dataManager), (''notifications'', JObj zh_notifications), (''errors'', JObj zh_errors), (''confirmations'', JObj zh_confirmations), (''shortcuts'', JObj zh_shortcuts), (''time'', JObj zh_time)]"

definition en_app :: jobj where
  "en_app =
     [(''name'', JStr (''DeskTodoList'')),
      (''version'', JStr (''v1.0.0''))]"

definition en_common :: jobj where
  "en_common =
     [(''ok'', JStr (''OK'')),
      (''cancel'', JStr (''Cancel'')),
      (''save'', JStr (''Save'')),
      (''delete'', JStr (''Delete'')),
      (''edit'', JStr (''Edit'')),
      (''add'', JStr (''Add'')),
      (''close'', JStr (''Close'')),
      (''confirm'', JStr (''Confirm'')),
      (''loading'', JStr (''Loading...'')),
      (''search'', JStr (''Search'')),
      (''clear'', JStr (''Clear'')),
      (''reset'', JStr (''Reset'')),
      (''import'', JStr (''Import'')),
      (''export'', JStr (''Export'')),
      (''backup'', JStr (''Backup'')),
      (''restore'', JStr (''Restore'')),
      (''settings'', JStr (''Settings'')),
      (''help'', JStr (''Help'')),
      (''yes'', JStr (''Yes'')),
      (''no'', JStr (''No''))]"

definition en_task :: jobj where
  "en_task =
     [(''title'', JStr (''Title'')),
      (''description'', JStr (''Description'')),
      (''priority'', JStr (''Priority'')),
      (''dueDate'', JStr (''Due Date'')),
      (''tags'', JStr (''Tags'')),
      (''notes'', JStr (''Notes'')),
      (''completed'', JStr (''Completed'')),
      (''pending'', JStr (''Pending'')),
      (''overdue'', JStr (''Overdue'')),
      (''priority_low'', JStr (''Low Priority'')),
      (''priority_medium'', JStr (''Medium Priority'')),
      (''priority_high'', JStr (''High Priority'')),
      (''addTask'', JStr (''Add new task...'')),
      (''editTask'', JStr (''Edit Task'')),
      (''deleteTask'', JStr (''Delete Task'')),
      (''completeTask'', JStr (''Complete Task'')),
      (''uncompleteTask'', JStr (''Mark as Incomplete'')),
      (''duplicateTask'', JStr (''Duplicate Task'')),
      (''filterAll'', JStr (''All Tasks'')),
      (''filterActive'', JStr (''Active'')),
      (''filterCompleted'', JStr (''Completed'')),
      (''listView'', JStr (''List View'')),
      (''gridView'', JStr (''Grid View'')),
      (''kanbanView'', JStr (''Kanban View'')),
      (''noTasks'', JStr (''No tasks'')),
      (''noTasksDesc'', JStr (''Start by adding your first task'')),
      (''taskCount'', JStr ('' tasks'')),
      (''completedCount'', JStr ('' completed''))]"

definition en_settings :: jobj where
  "en_settings =
     [(''title'', JStr (''App Settings'')),
      (''general'', JStr (''General'')),
      (''shortcuts'', JStr (''Shortcuts'')),
      (''dataManagement'', JStr (''Data Management'')),
      (''appearance'', JStr (''Appearance'')),
      (''theme'', JStr (''Theme'')),
      (''themeLight'', JStr (''Light Mode'')),
      (''themeDark'', JStr (''Dark Mode'')),
      (''themeSystem'', JStr (''Follow System'')),
      (''taskViewMode'', JStr (''Task View Mode'')),
      (''window'', JStr (''Window'')),
      (''alwaysOnTop'', JStr (''Always on Top'')),
      (''alwaysOnTopDesc'', JStr (''Keep app window always in front'')),
      (''notifications'', JStr (''Notifications'')),
      (''systemNotifications'', JStr (''System Notifications'')),
      (''systemNotificationsDesc'', JStr (''Receive task reminders and system notifications'')),
      (''autoBackup'', JStr (''Auto Backup'')),
      (''autoBackupDesc'', JStr (''Automatically backup task data periodically'')),
      (''backupInterval'', JStr (''Backup Interval'')),
      (''backupStatus'', JStr (''Backup Status'')),
      (''backupSuccessRate'', JStr (''Success Rate'')),
      (''lastBackup'', JStr (''Last Backup'')),
      (''manualBackup'', JStr (''Backup Now'')),
      (''backingUp'', JStr (''Backing up...'')),
      (''shortcutsDesc'', JStr (''Customize application shortcuts'')),
      (''shortcutDisabledInInput'', JStr (''Shortcuts are disabled in input fields'')),
      (''language'', JStr (''Language'')),
      (''languageDesc'', JStr (''Select application interface language''))]"

definition en_dataManager :: jobj where
  "en_dataManager =
     [(''title'', JStr (''Data Management'')),
      (''overview'', JStr (''Data Overview'')),
      (''export'', JStr (''Export Data'')),
      (''import'', JStr (''Import Data'')),
      (''exportFormat'', JStr (''Export Format'')),
      (''exportAll'', JStr (''Export All Data'')),
      (''exportSettings'', JStr (''Export Settings Only'')),
      (''exportSuccess'', JStr (''Data exported successfully'')),
      (''exportFailed'', JStr (''Data export failed'')),
      (''importAll'', JStr (''Import All Data'')),
      (''importSettings'', JStr (''Import Settings Only'')),
      (''importSuccess'', JStr (''Data imported successfully'')),
      (''importFailed'', JStr (''Data import failed'')),
      (''formatJson'', JStr (''JSON Format'')),
      (''formatCsv'', JStr (''CSV Format'')),
      (''formatTxt'', JStr (''Text Format''))]"

definition en_notifications :: jobj where
  "en_notifications =
     [(''taskAdded'', JStr (''New task added'')),
      (''taskCompleted'', JStr (''Task completed'')),
      (''taskDeleted'', JStr (''Task deleted'')),
      (''taskUpdated'', JStr (''Task updated'')),
      (''operationUndone'', JStr (''Operation undone'')),
      (''batchOperation'', JStr (''Batch operation completed'')),
      (''dataExported'', JStr (''Data exported successfully'')),
      (''dataImported'', JStr (''Data imported successfully'')),
      (''backupCompleted'', JStr (''Backup completed'')),
      (''backupFailed'', JStr (''Backup failed'')),
      (''permissionDenied'', JStr (''Notification permission denied. Please enable it in browser settings.'')),
      (''permissionGranted'', JStr (''Notifications enabled. You will receive desktop notifications for tasks.''))]"

definition en_errors :: jobj where
  "en_errors =
     [(''unknown'', JStr (''Unknown error'')),
      (''networkError'', JStr (''Network error'')),
      (''invalidFormat'', JStr (''Invalid file format'')),
      (''fileNotFound'', JStr (''File not found'')),
      (''permissionDenied'', JStr (''Permission denied'')),
      (''quotaExceeded'', JStr (''Storage quota exceeded'')),
      (''taskNotFound'', JStr (''Task not found'')),
      (''saveFailed'', JStr (''Save failed'')),
      (''loadFailed'', JStr (''Load failed''))]"

definition en_confirmations :: jobj where
  "en_confirmations =
     [(''deleteTask'', JStr (''Are you sure you want to delete this task?'')),
      (''deleteAllCompleted'', JStr (''Are you sure you want to delete all completed tasks?'')),
      (''clearAllData'', JStr (''Are you sure you want to clear all data? This action cannot be undone.'')),
      (''importData'', JStr (''Import will replace all current data. Continue?'')),
      (''restoreBackup'', JStr (''Are you sure you want to restore this backup? Current data will be replaced.'')),
      (''resetSettings'', JStr (''Are you sure you want to reset all settings?''))]"

definition en_shortcuts :: jobj where
  "en_shortcuts =
     [(''newTask'', JStr (''New Task'')),
      (''search'', JStr (''Search Tasks'')),
      (''toggleComplete'', JStr (''Toggle Complete'')),
      (''deleteTask'', JStr (''Delete Task'')),
      (''undo'', JStr (''Undo'')),
      (''exportData'', JStr (''Export Data'')),
      (''openSettings'', JStr (''Open Settings'')),
      (''clearSelection'', JStr (''Clear Selection''))]"

definition en_time :: jobj where
  "en_time =
     [(''today'', JStr (''Today'')),
      (''yesterday'', JStr (''Yesterday'')),
      (''tomorrow'', JStr (''Tomorrow'')),
      (''thisWeek'', JStr (''This Week'')),
      (''lastWeek'', JStr (''Last Week'')),
      (''thisMonth'', JStr (''This Month'')),
      (''lastMonth'', JStr (''Last Month'')),
      (''custom'', JStr (''Custom'')),
      (''justNow'', JStr (''Just now'')),
      (''minutesAgo'', JStr ('' minutes ago'')),
      (''hoursAgo'', JStr ('' hours ago'')),
      (''daysAgo'', JStr ('' days ago'')),
      (''weeksAgo'', JStr ('' weeks ago'')),
      (''monthsAgo'', JStr ('' months ago'')),
      (''yearsAgo'', JStr ('' years ago''))]"

definition en_translations :: jobj where
  "en_translations = [(''app'', JObj en_app), (''common'', JObj en_common), (''task'', JObj en_task), (''settings'', JObj en_settings), (''dataManager'', JObj en_dataManager), (''notifications'', JObj en_notifications), (''errors'', JObj en_errors), (''confirmations'', JObj en_confirmations), (''shortcuts'', JObj en_shortcuts), (''time'', JObj en_time)]"

section \<open>The service\<close>

definition supported_languages :: "(string \<times> string \<times> string) list" where
  "supported_languages = [(''zh-CN'', ''Chinese (Simplified)'', utf8 [231, 174, 128, 228, 189, 147, 228, 184, 173, 230, 150, 135]),
     (''en-US'', ''English (US)'', ''English'')]"

fun translations_of :: "json option \<Rightarrow> json option" where
  "translations_of (Some (JStr l)) =
     (if l = ''zh-CN'' then Some (JObj zh_translations)
      else if l = ''en-US'' then Some (JObj en_translations) else None)"
| "translations_of _ = None"

text \<open>\<open>key.split('.')\<close>.\<close>

definition js_split_dot :: "string \<Rightarrow> string list" where
  "js_split_dot s = js_split (CHR ''.'') s"

text \<open>\<open>value?.[k]\<close>: own properties of an object, the length and the characters of a
  string (other values have no such properties).\<close>

fun prop_get :: "json \<Rightarrow> string \<Rightarrow> json option" where
  "prop_get (JObj kvs) k = map_of kvs k"
| "prop_get (JStr s) k =
     (if k = ''length'' then Some (JNum (int (length s)))
      else (case parse_index k of Some n \<Rightarrow> if n < length s then Some (JStr [s ! n]) else None | None \<Rightarrow> None))"
| "prop_get (JArr xs) k =
     (if k = ''length'' then Some (JNum (int (length xs)))
      else (case parse_index k of Some n \<Rightarrow> if n < length xs then Some (xs ! n) else None | None \<Rightarrow> None))"
| "prop_get _ k = None"

fun lookup_path :: "json option \<Rightarrow> string list \<Rightarrow> json option" where
  "lookup_path v [] = v"
| "lookup_path None (k # ks) = None"
| "lookup_path (Some v) (k # ks) = lookup_path (prop_get v k) ks"

definition i18n_t :: "json option \<Rightarrow> string \<Rightarrow> string" where
  "i18n_t lang key =
     (case lookup_path (translations_of lang) (js_split_dot key) of Some (JStr s) \<Rightarrow> s | _ \<Rightarrow> key)"

record i18n_service =
  currentLanguage :: "json option"

definition init_i18n :: "settings_store \<Rightarrow> i18n_service" where
  "init_i18n ss = \<lparr>currentLanguage = map_of (settings ss) ''language''\<rparr>"

definition updateLanguage :: "settings_store \<Rightarrow> i18n_service \<Rightarrow> i18n_service" where
  "updateLanguage ss sv = sv\<lparr>currentLanguage := map_of (settings ss) ''language''\<rparr>"

definition i18n_setLanguage :: "string \<Rightarrow> i18n_service \<Rightarrow> i18n_service" where
  "i18n_setLanguage l sv = sv\<lparr>currentLanguage := Some (JStr l)\<rparr>"

text \<open>The key paths of a table, for comparing the two tables.\<close>

fun paths :: "json \<Rightarrow> string list list" where
  "paths (JObj kvs) = concat (map (\<lambda>kv. map (Cons (fst kv)) (paths (snd kv))) kvs)"
| "paths _ = [[]]"

section \<open>The hook\<close>

text \<open>The hook's state: the service, the settings store and its own
  \<open>currentLanguage\<close> (initialised from \<open>settings.language\<close>).\<close>

record i18n_hook =
  h_service :: i18n_service
  h_settings :: settings_store
  h_lang :: "json option"

definition hook_setLanguage :: "string \<Rightarrow> i18n_hook \<Rightarrow> i18n_hook" where
  "hook_setLanguage l h =
     h\<lparr>h_service := i18n_setLanguage l (h_service h), h_settings := setLanguage l (h_settings h),
       h_lang := Some (JStr l)\<rparr>"

text \<open>The effect run after a render when \<open>settings.language\<close> changed.\<close>

definition hook_sync :: "i18n_hook \<Rightarrow> i18n_hook" where
  "hook_sync h =
     (let nl = map_of (settings (h_settings h)) ''language'' in
      if nl \<noteq> h_lang h then h\<lparr>h_service := (h_service h)\<lparr>currentLanguage := nl\<rparr>, h_lang := nl\<rparr> else h)"

section \<open>Lemmas\<close>

lemma keys_app: "paths (JObj zh_app) = paths (JObj en_app)"
  by (simp add: zh_app_def en_app_def)

lemma keys_common: "paths (JObj zh_common) = paths (JObj en_common)"
  by (simp add: zh_common_def en_common_def)

lemma keys_task: "paths (JObj zh_task) = paths (JObj en_task)"
  by (simp add: zh_task_def en_task_def)

lemma keys_settings: "paths (JObj zh_settings) = paths (JObj en_settings)"
  by (simp add: zh_settings_def en_settings_def)

lemma keys_dataManager: "paths (JObj zh_dataManager) = paths (JObj en_dataManager)"
  by (simp add: zh_dataManager_def en_dataManager_def)

lemma keys_notifications: "paths (JObj zh_notifications) = paths (JObj en_notifications)"
  by (simp add: zh_notifications_def en_notifications_def)

lemma keys_errors: "paths (JObj zh_errors) = paths (JObj en_errors)"
  by (simp add: zh_errors_def en_errors_def)

lemma keys_confirmations: "paths (JObj zh_confirmations) = paths (JObj en_confirmations)"
  by (simp add: zh_confirmations_def en_confirmations_def)

lemma keys_shortcuts: "paths (JObj zh_shortcuts) = paths (JObj en_shortcuts)"
  by (simp add: zh_shortcuts_def en_shortcuts_def)

lemma keys_time: "paths (JObj zh_time) = paths (JObj en_time)"
  by (simp add: zh_time_def en_time_def)

text \<open>Both tables have the same keys, nested the same way: each conforms to the one
  interface \<open>TranslationKeys\<close>, so a key defined in one language is defined in the
  other.\<close>

lemma tables_same_keys: "paths (JObj zh_translations) = paths (JObj en_translations)"
  using keys_app keys_common keys_task keys_settings keys_dataManager keys_notifications keys_errors keys_confirmations keys_shortcuts keys_time
  by (simp add: zh_translations_def en_translations_def)

lemma js_split_dot_ne [simp]: "js_split_dot s \<noteq> []"
  by (simp add: js_split_dot_def)

lemma t_unsupported: "translations_of lang = None \<Longrightarrow> i18n_t lang key = key"
proof -
  assume n: "translations_of lang = None"
  obtain p ps where "js_split_dot key = p # ps" using js_split_dot_ne by (cases "js_split_dot key") auto
  then show ?thesis using n by (simp add: i18n_t_def)
qed

lemma t_examples:
  "i18n_t (Some (JStr ''en-US'')) ''common.ok'' = ''OK''
   \<and> i18n_t (Some (JStr ''en-US'')) ''common'' = ''common''
   \<and> i18n_t (Some (JStr ''en-US'')) ''common.ok.length'' = ''common.ok.length''
   \<and> i18n_t (Some (JStr ''en-US'')) ''common.missing'' = ''common.missing''
   \<and> i18n_t (Some (JStr ''fr-FR'')) ''common.ok'' = ''common.ok''"
  by (simp add: i18n_t_def js_split_dot_def en_translations_def en_common_def)

lemma map_of_setLanguage:
  "distinct (map fst (settings ss)) \<Longrightarrow> map_of (settings (setLanguage l ss)) ''language'' = Some (JStr l)"
  by (simp add: setLanguage_def updateSettings_settings)

lemma hook_language_agrees:
  "distinct (map fst (settings (h_settings h))) \<Longrightarrow>
   currentLanguage (h_service (hook_sync (hook_setLanguage l h))) = Some (JStr l)
   \<and> map_of (settings (h_settings (hook_sync (hook_setLanguage l h)))) ''language'' = Some (JStr l)"
  by (simp add: hook_sync_def hook_setLanguage_def i18n_setLanguage_def map_of_setLanguage Let_def)

end
