(* ===== verification/I18nKeys.thy ===== *)
theory I18nKeys
  imports I18n
begin

text \<open>
  The interface \<open>TranslationKeys\<close> of \<open>src/src/services/i18n.ts\<close>, which both
  \<open>getChineseTranslations\<close> and \<open>getEnglishTranslations\<close> are declared to return:
  its sections, each with the keys it declares as \<open>string\<close>, in the order written.
  The lemmas show that both tables of theory \<open>I18n\<close> have exactly these key paths, and
  that \<open>t\<close> returns, for every declared key, the text the table holds there.
\<close>

section \<open>The interface\<close>

definition tk_app :: "string list" where
  "tk_app =
     [''name'', ''version'']"

definition tk_common :: "string list" where
  "tk_common =
     [''ok'', ''cancel'', ''save'', ''delete'', ''edit'', ''add'', ''close'', ''confirm'',
      ''loading'', ''search'', ''clear'', ''reset'', ''import'', ''export'', ''backup'',
      ''restore'', ''settings'', ''help'', ''yes'', ''no'']"

definition tk_task :: "string list" where
  "tk_task =
     [''title'', ''description'', ''priority'', ''dueDate'', ''tags'', ''notes'',
      ''completed'', ''pending'', ''overdue'', ''priority_low'', ''priority_medium'',
      ''priority_high'', ''addTask'', ''editTask'', ''deleteTask'', ''completeTask'',
      ''uncompleteTask'', ''duplicateTask'', ''filterAll'', ''filterActive'',
      ''filterCompleted'', ''listView'', ''gridView'', ''kanbanView'', ''noTasks'',
      ''noTasksDesc'', ''taskCount'', ''completedCount'']"

definition tk_settings :: "string list" where
  "tk_settings =
     [''title'', ''general'', ''shortcuts'', ''dataManagement'', ''appearance'', ''theme'',
      ''themeLight'', ''themeDark'', ''themeSystem'', ''taskViewMode'', ''window'',
      ''alwaysOnTop'', ''alwaysOnTopDesc'', ''notifications'', ''systemNotifications'',
      ''systemNotificationsDesc'', ''autoBackup'', ''autoBackupDesc'', ''backupInterval'',
      ''backupStatus'', ''backupSuccessRate'', ''lastBackup'', ''manualBackup'', ''backingUp'',
      ''shortcutsDesc'', ''shortcutDisabledInInput'', ''language'', ''languageDesc'']"

definition tk_dataManager :: "string list" where
  "tk_dataManager =
     [''title'', ''overview'', ''export'', ''import'', ''exportFormat'', ''exportAll'',
      ''exportSettings'', ''exportSuccess'', ''exportFailed'', ''importAll'',
      ''importSettings'', ''importSuccess'', ''importFailed'', ''formatJson'', ''formatCsv'',
      ''formatTxt'']"

definition tk_notifications :: "string list" where
  "tk_notifications =
     [''taskAdded'', ''taskCompleted'', ''taskDeleted'', ''taskUpdated'', ''operationUndone'',
      ''batchOperation'', ''dataExported'', ''dataImported'', ''backupCompleted'',
      ''backupFailed'', ''permissionDenied'', ''permissionGranted'']"

definition tk_errors :: "string list" where
  "tk_errors =
     [''unknown'', ''networkError'', ''invalidFormat'', ''fileNotFound'', ''permissionDenied'',
      ''quotaExceeded'', ''taskNotFound'', ''saveFailed'', ''loadFailed'']"

definition tk_confirmations :: "string list" where
  "tk_confirmations =
     [''deleteTask'', ''deleteAllCompleted'', ''clearAllData'', ''importData'',
      ''restoreBackup'', ''resetSettings'']"

definition tk_shortcuts :: "string list" where
  "tk_shortcuts =
     [''newTask'', ''search'', ''toggleComplete'', ''deleteTask'', ''undo'', ''exportData'',
      ''openSettings'', ''clearSelection'']"

definition tk_time :: "string list" where
  "tk_time =
     [''today'', ''yesterday'', ''tomorrow'', ''thisWeek'', ''lastWeek'', ''thisMonth'',
      ''lastMonth'', ''custom'', ''justNow'', ''minutesAgo'', ''hoursAgo'', ''daysAgo'',
      ''weeksAgo'', ''monthsAgo'', ''yearsAgo'']"

definition translation_keys :: "(string \<times> string list) list" where
  "translation_keys =
     [(''app'', tk_app),
      (''common'', tk_common),
      (''task'', tk_task),
      (''settings'', tk_settings),
      (''dataManager'', tk_dataManager),
      (''notifications'', tk_notifications),
      (''errors'', tk_errors),
      (''confirmations'', tk_confirmations),
      (''shortcuts'', tk_shortcuts),
      (''time'', tk_time)]"

text \<open>The key paths the interface declares: a section and one of its keys.\<close>

definition interface_paths :: "string list list" where
  "interface_paths = concat (map (\<lambda>(s, ks). map (\<lambda>k. [s, k]) ks) translation_keys)"

text \<open>\<open>getCurrentLanguage\<close>.\<close>

definition getCurrentLanguage :: "i18n_service \<Rightarrow> json option" where
  "getCurrentLanguage sv = currentLanguage sv"

fun is_jstr :: "json option \<Rightarrow> bool" where
  "is_jstr (Some (JStr s)) = True"
| "is_jstr _ = False"

text \<open>A table of texts: objects with distinct keys at every level, strings at the leaves.\<close>

fun str_tree :: "json \<Rightarrow> bool" where
  "str_tree (JStr s) = True"
| "str_tree (JObj kvs) = (distinct (map fst kvs) \<and> list_all id (map (\<lambda>kv. str_tree (snd kv)) kvs))"
| "str_tree _ = False"

section \<open>Lemmas\<close>

lemma js_split_no_sep: "d \<notin> set x \<Longrightarrow> js_split d x = [x]"
  by (induction x) auto

lemma js_split_append_sep: "d \<notin> set x \<Longrightarrow> js_split d (x @ d # r) = x # js_split d r"
proof (induction x)
  case (Cons c cs)
  then show ?case by (cases "js_split d r") (auto split: list.splits)
qed simp

text \<open>\<open>key.split('.')\<close> inverts \<open>join('.')\<close> on keys without a dot.\<close>

lemma split_join_roundtrip:
  "xs \<noteq> [] \<Longrightarrow> \<forall>x \<in> set xs. d \<notin> set x \<Longrightarrow> js_split d (js_join [d] xs) = xs"
proof (induction "[d]" xs rule: js_join.induct)
  case (3 x y zs)
  then show ?case by (simp add: js_split_append_sep)
qed (auto simp: js_split_no_sep)

lemma interface_no_dot: "\<forall>p \<in> set interface_paths. p \<noteq> [] \<and> (\<forall>k \<in> set p. CHR ''.'' \<notin> set k)"
  by code_simp

text \<open>Both tables have exactly the key paths the interface declares, in its order.\<close>

lemma zh_conforms: "paths (JObj zh_translations) = interface_paths"
  by (simp add: interface_paths_def translation_keys_def zh_translations_def zh_app_def zh_common_def zh_task_def
      zh_settings_def zh_dataManager_def zh_notifications_def zh_errors_def zh_confirmations_def zh_shortcuts_def
      zh_time_def tk_app_def tk_common_def tk_task_def tk_settings_def tk_dataManager_def tk_notifications_def
      tk_errors_def tk_confirmations_def tk_shortcuts_def tk_time_def)

lemma en_conforms: "paths (JObj en_translations) = interface_paths"
  by (simp add: interface_paths_def translation_keys_def en_translations_def en_app_def en_common_def en_task_def
      en_settings_def en_dataManager_def en_notifications_def en_errors_def en_confirmations_def en_shortcuts_def
      en_time_def tk_app_def tk_common_def tk_task_def tk_settings_def tk_dataManager_def tk_notifications_def
      tk_errors_def tk_confirmations_def tk_shortcuts_def tk_time_def)

lemma is_jstr_Some: "is_jstr x \<Longrightarrow> \<exists>s. x = Some (JStr s)"
  by (cases x rule: is_jstr.cases) auto

text \<open>In a table of texts every key path leads to a string.\<close>

lemma str_tree_paths:
  "str_tree v \<Longrightarrow> p \<in> set (paths v) \<Longrightarrow> is_jstr (lookup_path (Some v) p)"
proof (induction v arbitrary: p rule: str_tree.induct)
  case (2 kvs)
  then obtain kv q where kv: "kv \<in> set kvs" and p: "p = fst kv # q" and q: "q \<in> set (paths (snd kv))"
    by auto
  have "map_of kvs (fst kv) = Some (snd kv)"
    using 2(2) kv by (simp add: map_of_is_SomeI)
  moreover have "str_tree (snd kv)" using 2(2) kv by (simp add: list_all_iff)
  ultimately show ?case using 2(1) [OF kv] q p by simp
qed auto

lemma zh_str_tree: "str_tree (JObj zh_translations)"
  by (simp add: zh_translations_def zh_app_def zh_common_def zh_task_def
      zh_settings_def zh_dataManager_def zh_notifications_def zh_errors_def zh_confirmations_def zh_shortcuts_def
      zh_time_def)

lemma en_str_tree: "str_tree (JObj en_translations)"
  by (simp add: en_translations_def en_app_def en_common_def en_task_def
      en_settings_def en_dataManager_def en_notifications_def en_errors_def en_confirmations_def en_shortcuts_def
      en_time_def)

lemma supported_table:
  "l \<in> {''zh-CN'', ''en-US''} \<Longrightarrow>
   \<exists>v. translations_of (Some (JStr l)) = Some v \<and> str_tree v \<and> paths v = interface_paths"
  using zh_str_tree en_str_tree zh_conforms en_conforms by auto

text \<open>For every key the interface declares, in either language, \<open>t\<close> returns the text the
  table holds at that path: the lookup never falls back to the key.\<close>

lemma t_declared:
  assumes "l \<in> {''zh-CN'', ''en-US''}" and "p \<in> set interface_paths"
  shows "lookup_path (translations_of (Some (JStr l))) p = Some (JStr (i18n_t (Some (JStr l)) (js_join ''.'' p)))"
proof -
  obtain v where v: "translations_of (Some (JStr l)) = Some v" "str_tree v" "paths v = interface_paths"
    using supported_table [OF assms(1)] by blast
  have "js_split_dot (js_join ''.'' p) = p"
    using split_join_roundtrip [of p "CHR ''.''"] interface_no_dot assms(2) by (simp add: js_split_dot_def)
  moreover obtain s where "lookup_path (Some v) p = Some (JStr s)"
    using is_jstr_Some [OF str_tree_paths [OF v(2)]] v(3) assms(2) by auto
  ultimately show ?thesis using v(1) by (simp add: i18n_t_def)
qed

end
