(* ===== verification/Forms.thy ===== *)
theory Forms
  imports Search
begin

text \<open>
  The two forms that write tasks: the edit panel \<open>src/components/TaskDetail.tsx\<close>
  (its React state is the record \<open>detail_form\<close>, one field per \<open>useState\<close>) and
  the quick-add bar \<open>src/components/QuickAdd.tsx\<close> (\<open>quick_form\<close>).  The handlers
  are functions on the form and, where they call the store, on the system state
  \<open>sys\<close>; \<open>onClose\<close>, \<open>confirm\<close> and notifications are returned as effects.  The
  fresh note id \<open>note_${Date.now()}_${random}\<close> and the clock are parameters.
\<close>

section \<open>The edit panel\<close>

record detail_form =
  f_title :: string
  f_description :: string
  f_priority :: priority
  f_dueDate :: string
  f_tags :: "string list"
  f_newTag :: string
  f_notes :: "task_note list"
  f_newNote :: string
  f_editingNoteId :: "string option"
  f_editingNoteContent :: string
  f_isSaving :: bool

definition resetForm :: detail_form where
  "resetForm = \<lparr>f_title = [], f_description = [], f_priority = Medium, f_dueDate = [], f_tags = [],
     f_newTag = [], f_notes = [], f_newNote = [], f_editingNoteId = None, f_editingNoteContent = [],
     f_isSaving = False\<rparr>"

text \<open>\<open>due_date ? due_date.split('T')[0] : ''\<close>.\<close>

definition due_field :: "string option \<Rightarrow> string" where
  "due_field d = (case d of None \<Rightarrow> [] | Some s \<Rightarrow> takeWhile (\<lambda>c. c \<noteq> CHR ''T'') s)"

definition currentTask :: "string option \<Rightarrow> task list \<Rightarrow> task option" where
  "currentTask tid ts = (case tid of None \<Rightarrow> None | Some k \<Rightarrow> find_key task_id k ts)"

text \<open>The effect loading the current task into the form (the fields it does not set
  keep their values).\<close>

definition load_form :: "task option \<Rightarrow> detail_form \<Rightarrow> detail_form" where
  "load_form ct f =
     (case ct of
        None \<Rightarrow> resetForm
      | Some t \<Rightarrow> f\<lparr>f_title := title t, f_description := (case description t of None \<Rightarrow> [] | Some d \<Rightarrow> d),
                   f_priority := priority t, f_dueDate := due_field (due_date t), f_tags := tags t,
                   f_notes := task_notes t\<rparr>)"

definition hasChanges :: "task option \<Rightarrow> detail_form \<Rightarrow> bool" where
  "hasChanges ct f =
     (case ct of
        None \<Rightarrow> False
      | Some t \<Rightarrow> f_title f \<noteq> title t \<or> f_description f \<noteq> (case description t of None \<Rightarrow> [] | Some d \<Rightarrow> d)
                 \<or> f_priority f \<noteq> priority t \<or> f_dueDate f \<noteq> due_field (due_date t)
                 \<or> f_tags f \<noteq> tags t \<or> f_notes f \<noteq> task_notes t)"

text \<open>The patch \<open>handleSave\<close> passes to \<open>updateTask\<close>; \<open>s || undefined\<close> is \<open>None\<close> for
  the empty string.\<close>

definition save_patch :: "detail_form \<Rightarrow> task_patch" where
  "save_patch f =
     empty_patch\<lparr>p_title := Some (js_trim (f_title f)),
       p_description := Some (if js_trim (f_description f) = [] then None else Some (js_trim (f_description f))),
       p_priority := Some (f_priority f),
       p_due_date := Some (if f_dueDate f = [] then None else Some (f_dueDate f)),
       p_tags := Some (filter (\<lambda>tag. js_trim tag \<noteq> []) (f_tags f)),
       p_notes := Some (f_notes f)\<rparr>"

datatype form_effect = Close_panel | Confirm_discard | Notify_added string

text \<open>\<open>handleSave\<close>: nothing without a current task or with a blank title; otherwise
  the update (whose failures the store catches) and \<open>onClose\<close>.\<close>

definition handleSave :: "env \<Rightarrow> task option \<Rightarrow> detail_form \<Rightarrow> sys \<Rightarrow> detail_form \<times> sys \<times> form_effect list" where
  "handleSave e ct f s =
     (case ct of
        None \<Rightarrow> (f, s, [])
      | Some t \<Rightarrow> if js_trim (f_title f) = [] then (f, s, [])
                 else (f\<lparr>f_isSaving := False\<rparr>, updateTask e (task_id t) (save_patch f) s, [Close_panel]))"

definition handleCancel :: "bool \<Rightarrow> task option \<Rightarrow> detail_form \<Rightarrow> form_effect list" where
  "handleCancel ok ct f =
     (if hasChanges ct f then (if ok then [Confirm_discard, Close_panel] else [Confirm_discard]) else [Close_panel])"

definition handleAddTag :: "detail_form \<Rightarrow> detail_form" where
  "handleAddTag f =
     (let tg = js_trim (f_newTag f) in
      if tg \<noteq> [] \<and> tg \<notin> set (f_tags f) then f\<lparr>f_tags := f_tags f @ [tg], f_newTag := []\<rparr> else f)"

definition handleRemoveTag :: "string \<Rightarrow> detail_form \<Rightarrow> detail_form" where
  "handleRemoveTag tg f = f\<lparr>f_tags := filter (\<lambda>x. x \<noteq> tg) (f_tags f)\<rparr>"

definition handleAddNote :: "string \<Rightarrow> string \<Rightarrow> detail_form \<Rightarrow> detail_form" where
  "handleAddNote nid clk f =
     (let nt = js_trim (f_newNote f) in
      if nt = [] then f
      else f\<lparr>f_notes := f_notes f @ [\<lparr>note_id = nid, content = nt, note_created_at = clk\<rparr>], f_newNote := []\<rparr>)"

definition handleDeleteNote :: "string \<Rightarrow> detail_form \<Rightarrow> detail_form" where
  "handleDeleteNote nid f = f\<lparr>f_notes := filter (\<lambda>n. note_id n \<noteq> nid) (f_notes f)\<rparr>"

definition handleStartEditNote :: "task_note \<Rightarrow> detail_form \<Rightarrow> detail_form" where
  "handleStartEditNote n f = f\<lparr>f_editingNoteId := Some (note_id n), f_editingNoteContent := content n\<rparr>"

definition handleSaveNoteEdit :: "detail_form \<Rightarrow> detail_form" where
  "handleSaveNoteEdit f =
     (case f_editingNoteId f of
        None \<Rightarrow> f
      | Some nid \<Rightarrow> if js_trim (f_editingNoteContent f) = [] then f
                   else f\<lparr>f_notes := map_where note_id nid (\<lambda>n. n\<lparr>content := js_trim (f_editingNoteContent f)\<rparr>) (f_notes f),
                          f_editingNoteId := None, f_editingNoteContent := []\<rparr>)"

definition handleCancelNoteEdit :: "detail_form \<Rightarrow> detail_form" where
  "handleCancelNoteEdit f = f\<lparr>f_editingNoteId := None, f_editingNoteContent := []\<rparr>"

section \<open>Quick add\<close>

record quick_form =
  q_title :: string
  q_priority :: priority
  q_showPrioritySelector :: bool

definition init_quick :: quick_form where
  "init_quick = \<lparr>q_title = [], q_priority = Medium, q_showPrioritySelector = False\<rparr>"

text \<open>\<open>handleSubmit\<close>: \<open>addTask\<close> catches its own failures, so the form is cleared and
  the notification sent whether or not the task was stored.\<close>

definition handleSubmit :: "env \<Rightarrow> quick_form \<Rightarrow> sys \<Rightarrow> quick_form \<times> sys \<times> form_effect list" where
  "handleSubmit e q s =
     (let tt = js_trim (q_title q) in
      if tt = [] then (q, s, [])
      else (q\<lparr>q_title := [], q_priority := Medium, q_showPrioritySelector := False\<rparr>,
            addTask e (quickAdd_input tt (q_priority q)) s, [Notify_added tt]))"

definition quick_escape :: "quick_form \<Rightarrow> quick_form" where
  "quick_escape q = q\<lparr>q_title := [], q_showPrioritySelector := False\<rparr>"

definition handlePrioritySelect :: "priority \<Rightarrow> quick_form \<Rightarrow> quick_form" where
  "handlePrioritySelect p q = q\<lparr>q_priority := p, q_showPrioritySelector := False\<rparr>"

section \<open>Fixtures\<close>

definition timed_task :: task where
  "timed_task = (demo_task ''d'' 1 False)\<lparr>due_date := Some ''2025-03-01T18:30:00.000Z''\<rparr>"

section \<open>Lemmas\<close>

text \<open>A freshly loaded form has no changes.\<close>

lemma load_no_changes: "hasChanges (Some t) (load_form (Some t) f) = False"
  by (simp add: hasChanges_def load_form_def split: option.splits)

lemma addTag_distinct: "distinct (f_tags f) \<Longrightarrow> distinct (f_tags (handleAddTag f))"
  by (simp add: handleAddTag_def Let_def)

lemma saveNoteEdit_ids: "map note_id (f_notes (handleSaveNoteEdit f)) = map note_id (f_notes f)"
  by (simp add: handleSaveNoteEdit_def map_map_where_key split: option.splits)

text \<open>When \<open>addTask\<close> fails the quick-add bar still clears its input and announces
  the task as added.\<close>

lemma submit_failure_still_clears:
  "js_trim (q_title q) \<noteq> [] \<Longrightarrow> fails e (new_id e) \<Longrightarrow>
   tasks (store (fst (snd (handleSubmit e q s)))) = tasks (store s)
   \<and> q_title (fst (handleSubmit e q s)) = []
   \<and> snd (snd (handleSubmit e q s)) = [Notify_added (js_trim (q_title q))]"
  by (simp add: handleSubmit_def addTask_def tbl_add_def new_task_def fail_op_def start_op_def Let_def)

text \<open>Saving a form without changes is not neutral: the due date field holds only the
  date part, so a due date with a time is cut to the date.\<close>

lemma save_unchanged_truncates_due:
  "\<not> hasChanges (Some timed_task) (load_form (Some timed_task) resetForm)
   \<and> due_date (hd (tasks (store (fst (snd (handleSave (ok_env ''x'' ''t1'') (Some timed_task)
        (load_form (Some timed_task) resetForm) (demo_sys [timed_task]))))))) = Some ''2025-03-01''"
  unfolding timed_task_def demo_task_def demo_sys_def ok_env_def
  by code_simp

end
