(* ===== verification/Keyboard.thy ===== *)
theory Keyboard
  imports Undo Search Notify
begin

text \<open>
  Keyboard shortcuts: the matcher \<open>isKeyMatch\<close> and the document listener of
  \<open>src/hooks/useKeyboard.ts\<close>, the display form \<open>formatShortcut\<close>, and the handlers
  \<open>src/App.tsx\<close> registers for the actions.  The listener walks
  \<open>Object.entries(settings.shortcuts)\<close>, the settings object's property as it is
  (\<open>entries_of\<close>; reading the entries of \<open>undefined\<close> or \<open>null\<close>, or lower-casing a
  shortcut that is not a string, throws and ends the walk).  The App handlers run on
  the whole application state \<open>app_state\<close>: the task system, the settings store, the
  focus flag of the quick-add bar and the toasts; the handlers an event fires run one
  after the other, each on the state the previous one left.
\<close>

section \<open>Matching\<close>

datatype key_target = T_input | T_textarea | T_editable | T_other

record key_event =
  ke_ctrl :: bool
  ke_meta :: bool
  ke_shift :: bool
  ke_alt :: bool
  ke_key :: string
  ke_target :: key_target

definition pressed_keys :: "key_event \<Rightarrow> string list" where
  "pressed_keys ev =
     (if ke_ctrl ev \<or> ke_meta ev then [''cmdorctrl''] else []) @ (if ke_shift ev then [''shift''] else [])
     @ (if ke_alt ev then [''alt''] else [])
     @ (let k = js_lower (ke_key ev) in
        if k \<noteq> ''control'' \<and> k \<noteq> ''meta'' \<and> k \<noteq> ''shift'' \<and> k \<noteq> ''alt'' then [k] else [])"

definition isKeyMatch :: "key_event \<Rightarrow> string \<Rightarrow> bool" where
  "isKeyMatch ev sc =
     (let keys = js_split (CHR ''+'') (js_lower sc); pressed = pressed_keys ev
      in list_all (\<lambda>k. k \<in> set pressed) keys \<and> length keys = length pressed)"

text \<open>\<open>Object.entries(x)\<close>; \<open>None\<close> when it throws.\<close>

fun entries_of :: "json option \<Rightarrow> jobj option" where
  "entries_of None = None"
| "entries_of (Some JNull) = None"
| "entries_of (Some j) = Some (spread_src (Some j))"

text \<open>The \<open>forEach\<close> of the listener: the actions fired, and whether it threw.\<close>

fun fire_entries :: "key_event \<Rightarrow> (string \<Rightarrow> bool) \<Rightarrow> jobj \<Rightarrow> string list \<times> bool" where
  "fire_entries ev h [] = ([], False)"
| "fire_entries ev h ((a, v) # es) =
     (case v of
        JStr sc \<Rightarrow> (let (rest, thr) = fire_entries ev h es in
                    ((if isKeyMatch ev sc \<and> h a then [a] else []) @ rest, thr))
      | _ \<Rightarrow> ([], True))"

definition keyboard_dispatch :: "(string \<Rightarrow> bool) \<Rightarrow> key_event \<Rightarrow> settings_store \<Rightarrow> string list \<times> bool" where
  "keyboard_dispatch h ev ss =
     (if ke_target ev \<noteq> T_other then ([], False)
      else (case entries_of (map_of (settings ss) ''shortcuts'') of
              None \<Rightarrow> ([], True)
            | Some es \<Rightarrow> fire_entries ev h es))"

section \<open>Display\<close>

text \<open>\<open>s.replace(/p/gi, r)\<close> for an ASCII pattern.\<close>

function replace_ci :: "string \<Rightarrow> string \<Rightarrow> string \<Rightarrow> string" where
  "replace_ci p r s =
     (if p \<noteq> [] \<and> length p \<le> length s \<and> js_lower (take (length p) s) = js_lower p
      then r @ replace_ci p r (drop (length p) s)
      else (case s of [] \<Rightarrow> [] | c # cs \<Rightarrow> c # replace_ci p r cs))"
  by pat_completeness auto
termination
proof (relation "measure (\<lambda>(p, r, s). length s)")
  fix p r s :: string
  assume "p \<noteq> [] \<and> length p \<le> length s \<and> js_lower (take (length p) s) = js_lower p"
  then show "((p, r, drop (length p) s), p, r, s) \<in> measure (\<lambda>(p, r, s). length s)"
    by (cases p) auto
qed auto

text \<open>\<open>s.split(sep)\<close> for a separator string.\<close>

function split_str :: "string \<Rightarrow> string \<Rightarrow> string list" where
  "split_str sep s =
     (if sep \<noteq> [] \<and> take (length sep) s = sep then [] # split_str sep (drop (length sep) s)
      else (case s of [] \<Rightarrow> [[]]
            | c # cs \<Rightarrow> (case split_str sep cs of [] \<Rightarrow> [[c]] | q # qs \<Rightarrow> (c # q) # qs)))"
  by pat_completeness auto
termination
proof (relation "measure (\<lambda>(sep, s). length s)")
  fix sep s :: string
  assume a: "sep \<noteq> [] \<and> take (length sep) s = sep"
  then have "s \<noteq> []" by auto
  with a show "((sep, drop (length sep) s), sep, s) \<in> measure (\<lambda>(sep, s). length s)"
    by (cases sep) auto
qed auto

definition js_upper_char :: "char \<Rightarrow> char" where
  "js_upper_char c = (if CHR ''a'' \<le> c \<and> c \<le> CHR ''z'' then char_of (of_char c - (32::nat)) else c)"

definition capitalize :: "string \<Rightarrow> string" where
  "capitalize k = (case k of [] \<Rightarrow> [] | c # cs \<Rightarrow> js_upper_char c # cs)"

definition formatShortcut :: "bool \<Rightarrow> string \<Rightarrow> string" where
  "formatShortcut mac sc =
     js_join '' + '' (map capitalize (split_str '' + ''
       (replace_ci ''+'' '' + ''
         (replace_ci ''Alt'' (if mac then (utf8 [226, 140, 165]) else ''Alt'')
           (replace_ci ''Shift'' (utf8 [226, 135, 167])
             (replace_ci ''CmdOrCtrl'' (if mac then (utf8 [226, 140, 152]) else ''Ctrl'') sc))))))"

section \<open>The handlers of the application\<close>

record app_state =
  a_sys :: sys
  a_settings :: settings_store
  a_quickAddFocused :: bool
  a_toasts :: "toast list"

text \<open>The actions \<open>App\<close> registers (there is none for \<open>export_data\<close>).\<close>

definition app_handlers :: "string list" where
  "app_handlers = [''new_task'', ''search'', ''toggle_complete'', ''delete_task'', ''open_settings'',
     ''clear_selection'', ''undo'']"

text \<open>One handler; \<open>ok\<close> answers \<open>confirm\<close>, \<open>fresh\<close> is the toast id.  The
  notifications it requests are returned.\<close>

definition app_action :: "env \<Rightarrow> bool \<Rightarrow> string \<Rightarrow> string \<Rightarrow> app_state \<Rightarrow> app_state \<times> notification_kind list" where
  "app_action e ok fresh a st =
     (let s = a_sys st; sel = selectedTaskId (store s) in
      if a = ''new_task'' then (st\<lparr>a_quickAddFocused := True\<rparr>, [])
      else if a = ''toggle_complete'' then
        (case sel of None \<Rightarrow> (st, [])
         | Some k \<Rightarrow> (let t = find_key task_id k (tasks (store s)) in
             (st\<lparr>a_sys := toggleComplete e k s,
                 a_toasts := snd (addToast fresh Toast_success (utf8 [231, 138, 182, 230, 128, 129, 229, 183, 178, 229, 136, 135, 230, 141, 162]) (Some (utf8 [228, 187, 187, 229, 138, 161, 231, 138, 182, 230, 128, 129, 229, 183, 178, 230, 155, 180, 230, 150, 176])) None (a_toasts st))\<rparr>,
              case t of Some x \<Rightarrow> if \<not> is_completed x then [NK_taskCompleted (title x)] else [] | None \<Rightarrow> [])))
      else if a = ''delete_task'' then
        (case sel of None \<Rightarrow> (st, [])
         | Some k \<Rightarrow> if \<not> ok then (st, [])
             else (let t = find_key task_id k (tasks (store s)) in
               (st\<lparr>a_sys := deleteTask e k s,
                   a_toasts := snd (addToast fresh Toast_success (utf8 [228, 187, 187, 229, 138, 161, 229, 183, 178, 229, 136, 160, 233, 153, 164]) (Some (utf8 [228, 187, 187, 229, 138, 161, 229, 183, 178, 228, 187, 142, 229, 136, 151, 232, 161, 168, 228, 184, 173, 231, 167, 187, 233, 153, 164])) None (a_toasts st))\<rparr>,
                case t of Some x \<Rightarrow> [NK_taskDeleted (title x)] | None \<Rightarrow> [])))
      else if a = ''open_settings'' then (st\<lparr>a_settings := toggleSettingsPanel (a_settings st)\<rparr>, [])
      else if a = ''clear_selection'' then (st\<lparr>a_sys := s\<lparr>store := setSelectedTask None (store s)\<rparr>\<rparr>, [])
      else if a = ''undo'' then
        (if canUndo (store s)
         then (st\<lparr>a_sys := undo e s,
                  a_toasts := snd (addToast fresh Toast_success (utf8 [230, 147, 141, 228, 189, 156, 229, 183, 178, 230, 146, 164, 233, 148, 128]) (Some (utf8 [229, 183, 178, 230, 129, 162, 229, 164, 141, 229, 136, 176, 228, 185, 139, 229, 137, 141, 231, 154, 132, 231, 138, 182, 230, 128, 129])) None (a_toasts st))\<rparr>,
               [NK_undo (utf8 [228, 184, 138, 228, 184, 128, 230, 173, 165, 230, 147, 141, 228, 189, 156])])
         else (st, []))
      else (st, []))"

fun run_actions :: "env \<Rightarrow> bool \<Rightarrow> string \<Rightarrow> string list \<Rightarrow> app_state \<Rightarrow> app_state \<times> notification_kind list" where
  "run_actions e ok fresh [] st = (st, [])"
| "run_actions e ok fresh (a # as) st =
     (let (st1, n1) = app_action e ok fresh a st; (st2, n2) = run_actions e ok fresh as st1 in (st2, n1 @ n2))"

definition app_keydown :: "env \<Rightarrow> bool \<Rightarrow> string \<Rightarrow> key_event \<Rightarrow> app_state \<Rightarrow> app_state \<times> notification_kind list" where
  "app_keydown e ok fresh ev st =
     run_actions e ok fresh (fst (keyboard_dispatch (\<lambda>a. a \<in> set app_handlers) ev (a_settings st))) st"

section \<open>Fixtures\<close>

definition key :: "string \<Rightarrow> key_event" where
  "key k = \<lparr>ke_ctrl = False, ke_meta = False, ke_shift = False, ke_alt = False, ke_key = k, ke_target = T_other\<rparr>"

section \<open>Lemmas\<close>

lemma js_lower_Space: "js_lower ''Space'' = ''space''"
  unfolding js_lower_def js_lower_char_def by code_simp

text \<open>The space bar sends \<open>event.key === " "\<close>, so the default shortcut \<open>Space\<close> for
  completing the selected task never matches it.\<close>

lemma space_bar_never_matches: "ke_key ev = '' '' \<Longrightarrow> \<not> isKeyMatch ev ''Space''"
  by (simp add: isKeyMatch_def js_lower_Space pressed_keys_def js_lower_def js_lower_char_def Let_def)

text \<open>With the default shortcuts, Ctrl+Z fires exactly the undo handler.\<close>

lemma ctrl_z_undo:
  "keyboard_dispatch (\<lambda>a. a \<in> set app_handlers) ((key ''z'')\<lparr>ke_ctrl := True\<rparr>) init_settings_store = ([''undo''], False)"
  unfolding key_def app_handlers_def init_settings_store_def settings_obj_def defaultSettings_def defaultShortcuts_def
    shortcuts_obj_def
  by code_simp

text \<open>Ctrl+Shift+E, the default export shortcut, fires nothing: \<open>App\<close> registers no
  \<open>export_data\<close> handler.\<close>

lemma export_shortcut_dead:
  "keyboard_dispatch (\<lambda>a. a \<in> set app_handlers) ((key ''E'')\<lparr>ke_ctrl := True, ke_shift := True\<rparr>) init_settings_store = ([], False)"
  unfolding key_def app_handlers_def init_settings_store_def settings_obj_def defaultSettings_def defaultShortcuts_def
    shortcuts_obj_def
  by code_simp

text \<open>After importing settings whose \<open>undo\<close> shortcut is a number, the listener throws
  at that entry, so Escape no longer clears the selection.\<close>

lemma escape_after_bad_import:
  "keyboard_dispatch (\<lambda>a. a \<in> set app_handlers) (key ''Escape'')
     (snd (importSettings (Some (JObj [(''shortcuts'', JObj [(''undo'', JNum 5)])])) init_settings_store)) = ([], True)
   \<and> keyboard_dispatch (\<lambda>a. a \<in> set app_handlers) (key ''Escape'') init_settings_store = ([''clear_selection''], False)"
  unfolding key_def app_handlers_def init_settings_store_def settings_obj_def defaultSettings_def defaultShortcuts_def
    shortcuts_obj_def importSettings_def import_merge_def ui_obj_def defaultUIPreferences_def
  by code_simp

text \<open>\<open>formatShortcut\<close> on a Mac.\<close>

lemma format_mac: "formatShortcut True ''CmdOrCtrl+Shift+E'' = utf8 [226, 140, 152] @ '' + '' @ utf8 [226, 135, 167] @ '' + E''"
  unfolding formatShortcut_def utf8_def by code_simp

end
