(* ===== verification/Utils.thy ===== *)
theory Utils
  imports Types
begin

text \<open>
  The helpers of \<open>src/src/utils/index.ts\<close> that compute: the priority colours, the
  overdue test, \<open>debounce\<close> and \<open>throttle\<close>, \<open>truncateText\<close>, \<open>isValidEmail\<close>,
  \<open>generateRandomColor\<close> and \<open>daysBetween\<close>.  \<open>Date\<close> parsing is a parameter
  \<open>parse\<close> giving milliseconds since the epoch (\<open>None\<close> for an invalid date, whose
  value is \<open>NaN\<close>); \<open>Math.random()\<close> enters as the integer
  \<open>Math.floor(Math.random() * 16777215)\<close>.  The two timer combinators are state
  machines over the one timeout their closure holds, run over a timeline of calls
  \<open>(time, arguments)\<close>: a timer due at the time of a call fires before the call only
  when it is due strictly earlier.
  \<open>generateId\<close> and \<open>getCurrentISOString\<close> are the environment of the store
  operations; \<open>formatDate\<close> and \<open>formatDateTime\<close> (\<open>Intl\<close> formatting) and
  \<open>deepClone\<close> are not modelled.
\<close>

section \<open>Priority colours\<close>

record priority_colors =
  pc_bg :: string
  pc_border :: string
  pc_text :: string
  pc_dot :: string

definition getPriorityColor :: "priority \<Rightarrow> priority_colors" where
  "getPriorityColor p =
     (case p of
        Low \<Rightarrow> \<lparr>pc_bg = ''bg-green-100'', pc_border = ''border-green-300'',
                pc_text = ''text-green-800'', pc_dot = ''bg-green-500''\<rparr>
      | Medium \<Rightarrow> \<lparr>pc_bg = ''bg-yellow-100'', pc_border = ''border-yellow-300'',
                   pc_text = ''text-yellow-800'', pc_dot = ''bg-yellow-500''\<rparr>
      | High \<Rightarrow> \<lparr>pc_bg = ''bg-red-100'', pc_border = ''border-red-300'',
                 pc_text = ''text-red-800'', pc_dot = ''bg-red-500''\<rparr>)"

section \<open>Overdue test\<close>

text \<open>\<open>!dueDate\<close> is true for \<open>undefined\<close> and for the empty string; a comparison
  with \<open>NaN\<close> is false.\<close>

definition isTaskOverdue :: "(string \<Rightarrow> int option) \<Rightarrow> int \<Rightarrow> string option \<Rightarrow> bool" where
  "isTaskOverdue parse clk d =
     (case d of
        None \<Rightarrow> False
      | Some s \<Rightarrow> s \<noteq> [] \<and> (case parse s of None \<Rightarrow> False | Some t \<Rightarrow> t < clk))"

section \<open>Debounce and throttle\<close>

text \<open>The closure of \<open>debounce\<close> holds one \<open>timeoutId\<close>: the pending timeout, its due
  time and the arguments it will pass.\<close>

type_synonym 'a timeout = "(nat \<times> 'a) option"

text \<open>Timers due strictly before \<open>t\<close> fire first; the returned list is the arguments
  \<open>func\<close> is applied to.\<close>

definition timer_advance :: "nat \<Rightarrow> 'a timeout \<Rightarrow> 'a timeout \<times> 'a list" where
  "timer_advance t tm =
     (case tm of None \<Rightarrow> (None, []) | Some (due, a) \<Rightarrow> if due < t then (None, [a]) else (tm, []))"

text \<open>A call: \<open>clearTimeout(timeoutId); timeoutId = setTimeout(..., delay)\<close>.\<close>

definition debounce_call :: "nat \<Rightarrow> nat \<Rightarrow> 'a \<Rightarrow> 'a timeout \<Rightarrow> 'a timeout" where
  "debounce_call delay t a tm = Some (t + delay, a)"

text \<open>A timeline of calls, after which the pending timeout eventually fires.\<close>

fun debounce_run :: "nat \<Rightarrow> (nat \<times> 'a) list \<Rightarrow> 'a timeout \<Rightarrow> 'a list" where
  "debounce_run delay [] tm = (case tm of None \<Rightarrow> [] | Some (_, a) \<Rightarrow> [a])"
| "debounce_run delay ((t, a) # cs) tm =
     (let (tm1, out) = timer_advance t tm in out @ debounce_run delay cs (debounce_call delay t a tm1))"

text \<open>The closure of \<open>throttle\<close> holds \<open>inThrottle\<close> (initially \<open>undefined\<close>, falsy);
  \<open>Some due\<close> is \<open>inThrottle = true\<close> with the timeout that clears it due at \<open>due\<close>.\<close>

definition throttle_call :: "nat \<Rightarrow> nat \<Rightarrow> nat option \<Rightarrow> nat option \<times> bool" where
  "throttle_call limit t r =
     (let r1 = (case r of Some due \<Rightarrow> if due < t then None else r | None \<Rightarrow> None) in
      if r1 = None then (Some (t + limit), True) else (r1, False))"

text \<open>The calls of a timeline that reach \<open>func\<close>.\<close>

fun throttle_run :: "nat \<Rightarrow> (nat \<times> 'a) list \<Rightarrow> nat option \<Rightarrow> (nat \<times> 'a) list" where
  "throttle_run limit [] r = []"
| "throttle_run limit ((t, a) # cs) r =
     (let (r1, fired) = throttle_call limit t r in
      (if fired then [(t, a)] else []) @ throttle_run limit cs r1)"

section \<open>Text\<close>

text \<open>\<open>text.length\<close> and \<open>slice\<close> count UTF-16 code units; here the characters of
  the string, which agree on ASCII text.\<close>

definition truncateText :: "string \<Rightarrow> nat \<Rightarrow> string" where
  "truncateText s n = (if length s \<le> n then s else take n s @ ''...'')"

text \<open>\<open>\s\<close> of a JavaScript regular expression, on ASCII.\<close>

definition js_space :: "char \<Rightarrow> bool" where
  "js_space c \<longleftrightarrow> c \<in> set [CHR '' '', CHR 0x09, CHR 0x0A, CHR 0x0B, CHR 0x0C, CHR 0x0D]"

text \<open>The class \<open>[^\s@]\<close>.\<close>

definition email_char :: "char \<Rightarrow> bool" where
  "email_char c \<longleftrightarrow> \<not> js_space c \<and> c \<noteq> CHR ''@''"

text \<open>The language of \<open>/^[^\s@]+@[^\s@]+\.[^\s@]+$/\<close>.\<close>

definition email_lang :: "string \<Rightarrow> bool" where
  "email_lang s \<longleftrightarrow> (\<exists>a b c. s = a @ CHR ''@'' # b @ CHR ''.'' # c \<and> a \<noteq> [] \<and> b \<noteq> [] \<and> c \<noteq> []
                      \<and> list_all email_char (a @ b @ c))"

text \<open>\<open>emailRegex.test(email)\<close>, decided: the part before the only \<open>@\<close> is non-empty,
  and the part after it has a dot that is neither its first nor its last character.\<close>

definition isValidEmail :: "string \<Rightarrow> bool" where
  "isValidEmail s =
     (let a = takeWhile (\<lambda>c. c \<noteq> CHR ''@'') s; r = dropWhile (\<lambda>c. c \<noteq> CHR ''@'') s; d = drop 1 r in
      a \<noteq> [] \<and> r \<noteq> [] \<and> list_all email_char a \<and> list_all email_char d \<and> CHR ''.'' \<in> set (butlast (drop 1 d)))"

section \<open>Random colour\<close>

definition hex_digit :: "nat \<Rightarrow> char" where
  "hex_digit n = (if n < 10 then char_of (48 + n) else char_of (87 + n))"

text \<open>\<open>n.toString(16)\<close>.\<close>

function to_hex :: "nat \<Rightarrow> string" where
  "to_hex n = (if n < 16 then [hex_digit n] else to_hex (n div 16) @ [hex_digit (n mod 16)])"
  by pat_completeness auto
termination
  by (relation "measure id") auto

declare to_hex.simps [simp del]

definition pad_start :: "nat \<Rightarrow> char \<Rightarrow> string \<Rightarrow> string" where
  "pad_start n c s = replicate (n - length s) c @ s"

definition generateRandomColor :: "nat \<Rightarrow> string" where
  "generateRandomColor r = CHR ''#'' # pad_start 6 (CHR ''0'') (to_hex r)"

text \<open>\<open>parseInt(s, 16)\<close> on lower-case hexadecimal digits.\<close>

definition hex_val_char :: "char \<Rightarrow> nat" where
  "hex_val_char c = (if of_char c < (58::nat) then of_char c - 48 else of_char c - 87)"

definition hex_val :: "string \<Rightarrow> nat" where
  "hex_val s = foldl (\<lambda>acc c. acc * 16 + hex_val_char c) 0 s"

section \<open>Days between two dates\<close>

text \<open>\<open>Math.ceil(Math.abs(d2 - d1) / 86400000)\<close>; \<open>None\<close> is \<open>NaN\<close>.\<close>

definition daysBetween :: "(string \<Rightarrow> int option) \<Rightarrow> string \<Rightarrow> string \<Rightarrow> int option" where
  "daysBetween parse d1 d2 =
     (case (parse d1, parse d2) of
        (Some t1, Some t2) \<Rightarrow> Some (- ((- \<bar>t2 - t1\<bar>) div 86400000))
      | _ \<Rightarrow> None)"

section \<open>Specification of the timer combinators\<close>

text \<open>What \<open>debounce\<close> promises: of each burst of calls, where a burst ends when
  the next call comes more than \<open>delay\<close> after the previous one, only the last call
  reaches \<open>func\<close>.\<close>

fun bursts_last :: "nat \<Rightarrow> (nat \<times> 'a) list \<Rightarrow> 'a list" where
  "bursts_last d [] = []"
| "bursts_last d [(t, a)] = [a]"
| "bursts_last d ((t, a) # (t', b) # cs) = (if t + d < t' then [a] else []) @ bursts_last d ((t', b) # cs)"

section \<open>Lemmas\<close>

lemma getPriorityColor_inj: "inj getPriorityColor"
proof (rule injI)
  fix p q assume "getPriorityColor p = getPriorityColor q"
  then show "p = q" by (cases p; cases q) (simp_all add: getPriorityColor_def)
qed

lemma debounce_run_pending:
  "debounce_run d cs (Some (t + d, a)) = bursts_last d ((t, a) # cs)"
proof (induction cs arbitrary: t a)
  case Nil
  then show ?case by simp
next
  case (Cons c cs)
  then show ?case by (cases c) (simp add: timer_advance_def debounce_call_def)
qed

lemma debounce_spec: "debounce_run d cs None = bursts_last d cs"
  by (cases cs) (auto simp: timer_advance_def debounce_call_def debounce_run_pending)

lemma bursts_last_last: "cs \<noteq> [] \<Longrightarrow> last (bursts_last d cs) = snd (last cs) \<and> bursts_last d cs \<noteq> []"
  by (induction d cs rule: bursts_last.induct) auto

lemma bursts_last_one:
  "successively (\<lambda>x y. fst y \<le> fst x + d) cs \<Longrightarrow> cs \<noteq> [] \<Longrightarrow> bursts_last d cs = [snd (last cs)]"
  by (induction d cs rule: bursts_last.induct) auto

lemma throttle_after:
  "r = Some due \<Longrightarrow> \<forall>x \<in> set (throttle_run l cs r). due < fst x"
proof (induction cs arbitrary: r due)
  case Nil
  then show ?case by simp
next
  case (Cons c cs)
  then show ?case
    by (cases c) (fastforce simp: throttle_call_def Let_def split: if_splits)
qed

text \<open>C23: the calls a throttled function passes on, over any timeline of calls, are
  spaced by more than the limit.\<close>

lemma throttle_spaced: "sorted_wrt (\<lambda>x y. fst x + l < fst y) (throttle_run l cs r)"
proof (induction cs arbitrary: r)
  case Nil
  then show ?case by simp
next
  case (Cons c cs)
  obtain t a where c: "c = (t, a)" by (cases c)
  show ?case
    using Cons throttle_after [of "Some (t + l)" "t + l" l cs]
    by (auto simp: c throttle_call_def Let_def sorted_wrt_append split: option.splits)
qed

lemma throttle_subseq: "subseq (throttle_run l cs r) cs"
proof (induction cs arbitrary: r)
  case Nil
  then show ?case by simp
next
  case (Cons c cs)
  then show ?case by (cases c) (auto simp: throttle_call_def Let_def split: option.splits)
qed

lemma truncate_bounds:
  "length (truncateText s n) \<le> n + 3 \<and> take n (truncateText s n) = take n s"
  by (simp add: truncateText_def)

lemma truncate_longer: "length s = n + 1 \<Longrightarrow> length (truncateText s n) = length s + 2"
  by (simp add: truncateText_def)

lemma email_char_at [simp]: "\<not> email_char CHR ''@''"
  by (simp add: email_char_def)

lemma isValidEmail_sound: "isValidEmail s \<Longrightarrow> email_lang s"
proof -
  assume v: "isValidEmail s"
  define a where "a = takeWhile (\<lambda>c. c \<noteq> CHR ''@'') s"
  define r where "r = dropWhile (\<lambda>c. c \<noteq> CHR ''@'') s"
  define d where "d = drop 1 r"
  have a: "a \<noteq> []" "list_all email_char a" and rne: "r \<noteq> []" and dok: "list_all email_char d"
    and dot: "CHR ''.'' \<in> set (butlast (drop 1 d))"
    using v by (simp_all add: isValidEmail_def Let_def a_def r_def d_def)
  have "hd r = CHR ''@''" using hd_dropWhile [of "\<lambda>c. c \<noteq> CHR ''@''" s] rne by (simp add: r_def)
  then have r: "r = CHR ''@'' # d" using rne unfolding d_def by (cases r) auto
  have s: "s = a @ r" by (simp add: a_def r_def)
  obtain ys zs where yz: "butlast (drop 1 d) = ys @ CHR ''.'' # zs" using dot by (meson split_list)
  then have bne: "butlast (drop 1 d) \<noteq> []" by simp
  then obtain x0 d' where d: "d = x0 # d'" by (cases d) auto
  with bne have "d' \<noteq> []" by auto
  then have "d' = butlast d' @ [last d']" by simp
  then obtain mid xl where dm: "d = x0 # mid @ [xl]" and "mid = butlast d'" using d by blast
  then have "mid = ys @ CHR ''.'' # zs" using yz by simp
  then have "d = (x0 # ys) @ CHR ''.'' # (zs @ [xl])" using dm by simp
  then show "email_lang s"
    unfolding email_lang_def using a dok s r by (intro exI [of _ a] exI [of _ "x0 # ys"] exI [of _ "zs @ [xl]"]) auto
qed

lemma isValidEmail_complete: "email_lang s \<Longrightarrow> isValidEmail s"
proof -
  assume "email_lang s"
  then obtain a b c where s: "s = a @ CHR ''@'' # b @ CHR ''.'' # c" and ne: "a \<noteq> []" "b \<noteq> []" "c \<noteq> []"
    and ok: "list_all email_char (a @ b @ c)"
    unfolding email_lang_def by blast
  have na: "\<forall>x \<in> set a. x \<noteq> CHR ''@''" using ok by (auto simp: list_all_iff email_char_def)
  have tw: "takeWhile (\<lambda>c. c \<noteq> CHR ''@'') s = a" using na by (simp add: s takeWhile_append2)
  have dw: "dropWhile (\<lambda>c. c \<noteq> CHR ''@'') s = CHR ''@'' # b @ CHR ''.'' # c" using na by (simp add: s dropWhile_append2)
  have dotc: "email_char CHR ''.''" by (simp add: email_char_def js_space_def)
  obtain b0 bs where b: "b = b0 # bs" using ne(2) by (cases b) auto
  have "CHR ''.'' \<in> set (butlast (bs @ CHR ''.'' # c))" using ne(3) by (simp add: butlast_append)
  then show ?thesis using ne ok dotc by (simp add: isValidEmail_def tw dw b)
qed

lemma daysBetween_sym: "daysBetween parse d1 d2 = daysBetween parse d2 d1"
  by (simp add: daysBetween_def abs_minus_commute split: option.splits)

lemma daysBetween_ceil:
  assumes "parse d1 = Some t1" "parse d2 = Some t2"
  shows "\<exists>n. daysBetween parse d1 d2 = Some n \<and> 0 \<le> n
           \<and> 86400000 * n - 86400000 < \<bar>t2 - t1\<bar> \<and> \<bar>t2 - t1\<bar> \<le> 86400000 * n"
proof -
  let ?x = "\<bar>t2 - t1\<bar>" and ?k = "86400000 :: int"
  have eq: "?k * ((- ?x) div ?k) + (- ?x) mod ?k = - ?x" by (rule mult_div_mod_eq)
  have "0 \<le> (- ?x) mod ?k" "(- ?x) mod ?k < ?k" by simp_all
  then have "?k * (- ((- ?x) div ?k)) - ?k < ?x \<and> ?x \<le> ?k * (- ((- ?x) div ?k))" using eq by linarith
  moreover have "0 \<le> - ((- ?x) div ?k)" by (simp add: div_nonpos_pos_le0)
  ultimately show ?thesis using assms by (simp add: daysBetween_def)
qed

lemma hex_val_char_digit: "n < 16 \<Longrightarrow> hex_val_char (hex_digit n) = n"
  by (simp add: hex_val_char_def hex_digit_def)

lemma hex_val_snoc: "hex_val (xs @ [c]) = hex_val xs * 16 + hex_val_char c"
  by (simp add: hex_val_def)

lemma hex_val_to_hex: "hex_val (to_hex n) = n"
proof (induction n rule: to_hex.induct)
  case (1 n)
  then show ?case
    by (subst to_hex.simps) (simp add: hex_val_snoc hex_val_char_digit hex_val_def[of "[_]"])
qed

lemma length_to_hex: "0 < k \<Longrightarrow> n < 16 ^ k \<Longrightarrow> length (to_hex n) \<le> k"
proof (induction n arbitrary: k rule: to_hex.induct)
  case (1 n)
  show ?case
  proof (cases "n < 16")
    case True
    then show ?thesis using 1(2) by (simp add: to_hex.simps)
  next
    case False
    then obtain j where k: "k = Suc j" using 1(2) by (cases k) auto
    have "n div 16 < 16 ^ j" using 1(3) k by (simp add: div_less_iff_less_mult mult.commute)
    moreover have "0 < j" using False 1(3) k by (cases j) auto
    ultimately have "length (to_hex (n div 16)) \<le> j" using 1(1) False by blast
    then show ?thesis using False k by (subst to_hex.simps) simp
  qed
qed

lemma hex_val_zeros: "hex_val (replicate k (CHR ''0'') @ s) = hex_val s"
proof -
  have "foldl (\<lambda>acc c. acc * 16 + hex_val_char c) 0 (replicate k (CHR ''0'')) = 0"
    by (induction k) (simp_all add: hex_val_char_def)
  then show ?thesis by (simp add: hex_val_def)
qed

lemma color_roundtrip:
  "r < 16777215 \<Longrightarrow> length (generateRandomColor r) = 7 \<and> hex_val (tl (generateRandomColor r)) = r"
proof -
  assume "r < 16777215"
  then have "length (to_hex r) \<le> 6" by (intro length_to_hex) simp_all
  then show ?thesis by (simp add: generateRandomColor_def pad_start_def hex_val_zeros hex_val_to_hex)
qed

lemma color_never_white: "r < 16777215 \<Longrightarrow> generateRandomColor r \<noteq> ''#ffffff''"
proof
  assume "r < 16777215" "generateRandomColor r = ''#ffffff''"
  then have "hex_val ''ffffff'' = r" using color_roundtrip [of r] by simp
  moreover have "hex_val ''ffffff'' = 16777215" by (simp add: hex_val_def hex_val_char_def)
  ultimately show False using \<open>r < 16777215\<close> by simp
qed

text \<open>\<open>isValidEmail\<close> decides exactly the language of the regular expression.\<close>

lemma isValidEmail_regex: "isValidEmail s = email_lang s"
  using isValidEmail_sound isValidEmail_complete by blast

text \<open>The last call of a timeline always reaches \<open>func\<close>, and a single burst
  reaches it once, with the last arguments.\<close>

lemma debounce_last_call:
  "cs \<noteq> [] \<Longrightarrow> debounce_run d cs None \<noteq> [] \<and> last (debounce_run d cs None) = snd (last cs)"
  by (simp add: debounce_spec bursts_last_last)

lemma debounce_one_burst:
  "successively (\<lambda>x y. fst y \<le> fst x + d) cs \<Longrightarrow> cs \<noteq> [] \<Longrightarrow> debounce_run d cs None = [snd (last cs)]"
  by (simp add: debounce_spec bursts_last_one)

text \<open>The first call always goes through.\<close>

lemma throttle_first: "throttle_run l ((t, a) # cs) None = (t, a) # throttle_run l cs (Some (t + l))"
  by (simp add: throttle_call_def)

lemma utils_examples:
  "isValidEmail ''a@b.c'' \<and> \<not> isValidEmail ''a@b.'' \<and> \<not> isValidEmail ''a b@c.d'' \<and> \<not> isValidEmail ''a@@b.c''
   \<and> debounce_run 300 [(0, ''h''), (100, ''he''), (250, ''hel''), (900, ''help'')] None = [''hel'', ''help'']
   \<and> map fst (throttle_run 100 [(0, ()), (50, ()), (100, ()), (101, ()), (150, ())] None) = [0, 101]
   \<and> truncateText ''abcdef'' 5 = ''abcde...''"
  by (simp add: isValidEmail_def email_char_def js_space_def timer_advance_def debounce_call_def
      throttle_call_def truncateText_def)

end
