(* ===== verification/ToastTimers.thy ===== *)
theory ToastTimers
  imports Notify
begin

text \<open>
  The life of a toast: the \<open>Toast\<close> component of \<open>src/src/components/Toast.tsx\<close>,
  mounted by \<open>ToastContainer\<close> for every toast of the queue of \<open>useToast\<close>, and the
  browser timers its effect schedules.  The effect shows the toast after 100 ms and,
  after \<open>toast.duration || 3000\<close> ms, marks it exiting and schedules \<open>onClose\<close> 300 ms
  later; \<open>onClose\<close> is \<open>removeToast\<close>, which unmounts the component, whose cleanup
  clears the two timers of the effect (not the inner one).  The close button does the
  same as the hide timer, at once.  \<open>toast_sys\<close> holds the clock, the queue, the
  component states and the pending timers, as \<open>(due time, callback)\<close> in the order they
  were set.  The event loop fires the earliest timer first (\<open>earliest\<close>, the first of
  those due at the same time) and is a \<open>partial_function (option)\<close>: that it always
  returns is a theorem, not an assumption.
\<close>

section \<open>State and timers\<close>

datatype timer_cb = Show_cb string | Hide_cb string | Close_cb string

record toast_sys =
  ts_clock :: nat
  ts_toasts :: "toast list"
  ts_visible :: "string list"
  ts_exiting :: "string list"
  ts_timers :: "(nat \<times> timer_cb) list"

definition init_toasts :: toast_sys where
  "init_toasts = \<lparr>ts_clock = 0, ts_toasts = [], ts_visible = [], ts_exiting = [], ts_timers = []\<rparr>"

text \<open>\<open>toast.duration || 3000\<close>: an absent or zero duration is 3000 ms.\<close>

definition toast_duration_ms :: "toast \<Rightarrow> nat" where
  "toast_duration_ms t = (case toast_duration t of None \<Rightarrow> 3000 | Some d \<Rightarrow> if d = 0 then 3000 else d)"

text \<open>The mount effect: \<open>setTimeout(show, 100)\<close> and \<open>setTimeout(hide, duration)\<close>.\<close>

definition mount_toast :: "toast \<Rightarrow> toast_sys \<Rightarrow> toast_sys" where
  "mount_toast t st =
     st\<lparr>ts_timers := ts_timers st @ [(ts_clock st + 100, Show_cb (toast_id t)),
                                     (ts_clock st + toast_duration_ms t, Hide_cb (toast_id t))]\<rparr>"

text \<open>The cleanup of an unmounted toast: \<open>clearTimeout(showTimer); clearTimeout(hideTimer)\<close>;
  its component state goes with it.\<close>

definition toast_cleanup :: "string \<Rightarrow> toast_sys \<Rightarrow> toast_sys" where
  "toast_cleanup k st =
     st\<lparr>ts_timers := filter (\<lambda>(d, c). c \<noteq> Show_cb k \<and> c \<noteq> Hide_cb k) (ts_timers st),
       ts_visible := filter (\<lambda>x. x \<noteq> k) (ts_visible st),
       ts_exiting := filter (\<lambda>x. x \<noteq> k) (ts_exiting st)\<rparr>"

text \<open>\<open>success\<close>, \<open>error\<close>, \<open>warning\<close>, \<open>info\<close> of \<open>useToast\<close>: the toast is queued and
  the container mounts a \<open>Toast\<close> for it.\<close>

definition show_toast ::
  "string \<Rightarrow> toast_type \<Rightarrow> string \<Rightarrow> string option \<Rightarrow> nat option \<Rightarrow> toast_sys \<Rightarrow> toast_sys" where
  "show_toast fresh ty ttl msg dur st =
     (let ts' = snd (addToast fresh ty ttl msg dur (ts_toasts st))
      in mount_toast (last ts') (st\<lparr>ts_toasts := ts'\<rparr>))"

text \<open>\<open>setIsExiting(true); setTimeout(() => onClose(toast.id), 300)\<close>: the hide timer's
  callback and \<open>handleClose\<close> alike.\<close>

definition start_exit :: "string \<Rightarrow> toast_sys \<Rightarrow> toast_sys" where
  "start_exit k st =
     st\<lparr>ts_exiting := k # ts_exiting st, ts_timers := ts_timers st @ [(ts_clock st + 300, Close_cb k)]\<rparr>"

definition handleClose :: "string \<Rightarrow> toast_sys \<Rightarrow> toast_sys" where
  "handleClose k st = start_exit k st"

text \<open>A timer's callback; \<open>onClose\<close> removes the toast and unmounts its component.\<close>

fun fire :: "timer_cb \<Rightarrow> toast_sys \<Rightarrow> toast_sys" where
  "fire (Show_cb k) st = st\<lparr>ts_visible := k # ts_visible st\<rparr>"
| "fire (Hide_cb k) st = start_exit k st"
| "fire (Close_cb k) st = toast_cleanup k (st\<lparr>ts_toasts := removeToast k (ts_toasts st)\<rparr>)"

text \<open>The first of the timers with the least due time.\<close>

fun earliest :: "(nat \<times> 'a) list \<Rightarrow> (nat \<times> 'a) option" where
  "earliest [] = None"
| "earliest (x # xs) =
     (case earliest xs of None \<Rightarrow> Some x | Some y \<Rightarrow> if fst y < fst x then Some y else Some x)"

text \<open>One turn of the event loop: the clock advances to the earliest timer, which is
  removed and fired.\<close>

definition timer_step :: "toast_sys \<Rightarrow> toast_sys option" where
  "timer_step st =
     map_option (\<lambda>(d, c). fire c (st\<lparr>ts_clock := max (ts_clock st) d, ts_timers := remove1 (d, c) (ts_timers st)\<rparr>))
       (earliest (ts_timers st))"

text \<open>Running the timers until none is left.\<close>

partial_function (option) run_timers :: "toast_sys \<Rightarrow> toast_sys option" where
  "run_timers st = (case timer_step st of None \<Rightarrow> Some st | Some st' \<Rightarrow> run_timers st')"

section \<open>The toast system as a state machine\<close>

datatype toast_event =
    Show_toast string toast_type string "string option" "nat option"
  | Toast_close_clicked string | Timer_fires

fun toast_step :: "toast_event \<Rightarrow> toast_sys \<Rightarrow> toast_sys" where
  "toast_step (Show_toast fresh ty ttl msg dur) st = show_toast fresh ty ttl msg dur st"
| "toast_step (Toast_close_clicked k) st = handleClose k st"
| "toast_step Timer_fires st = (case timer_step st of None \<Rightarrow> st | Some st' \<Rightarrow> st')"

inductive toast_reachable :: "toast_sys \<Rightarrow> bool" where
  init: "toast_reachable init_toasts"
| step: "toast_reachable st \<Longrightarrow> toast_reachable (toast_step ev st)"

text \<open>Every toast on screen has a pending timer that will remove it: its hide timer or
  a close timer.\<close>

definition toast_pending :: "toast_sys \<Rightarrow> bool" where
  "toast_pending st \<longleftrightarrow>
     (\<forall>t \<in> set (ts_toasts st). \<exists>d. (d, Hide_cb (toast_id t)) \<in> set (ts_timers st)
                                    \<or> (d, Close_cb (toast_id t)) \<in> set (ts_timers st))"

text \<open>The work left in the timers: a hide timer will still set a close timer.\<close>

fun cb_weight :: "timer_cb \<Rightarrow> nat" where
  "cb_weight (Show_cb k) = 1"
| "cb_weight (Hide_cb k) = 2"
| "cb_weight (Close_cb k) = 1"

definition timers_weight :: "(nat \<times> timer_cb) list \<Rightarrow> nat" where
  "timers_weight q = sum_list (map (cb_weight \<circ> snd) q)"

definition has_pending :: "string \<Rightarrow> (nat \<times> timer_cb) list \<Rightarrow> bool" where
  "has_pending i q \<longleftrightarrow> (\<exists>d. (d, Hide_cb i) \<in> set q \<or> (d, Close_cb i) \<in> set q)"

section \<open>The event loop always returns\<close>

lemma earliest_None [simp]: "earliest q = None \<longleftrightarrow> q = []"
  by (induction q) (auto split: option.splits)

lemma earliest_in: "earliest q = Some x \<Longrightarrow> x \<in> set q"
  by (induction q arbitrary: x) (auto split: option.splits if_splits)

lemma timers_weight_append [simp]: "timers_weight (a @ b) = timers_weight a + timers_weight b"
  by (simp add: timers_weight_def)

lemma timers_weight_filter: "timers_weight (filter P q) \<le> timers_weight q"
  by (induction q) (auto simp: timers_weight_def)

lemma timers_weight_remove1:
  "x \<in> set q \<Longrightarrow> timers_weight (remove1 x q) + cb_weight (snd x) = timers_weight q"
  by (simp add: timers_weight_def sum_list_map_remove1)

lemma fire_weight: "timers_weight (ts_timers (fire c st)) + 1 \<le> timers_weight (ts_timers st) + cb_weight c"
proof (cases c)
  case (Close_cb k)
  then show ?thesis using timers_weight_filter by (simp add: toast_cleanup_def)
qed (simp_all add: start_exit_def timers_weight_def)

lemma timer_step_weight:
  "timer_step st = Some st' \<Longrightarrow> timers_weight (ts_timers st') < timers_weight (ts_timers st)"
proof -
  assume "timer_step st = Some st'"
  then obtain d c where e: "earliest (ts_timers st) = Some (d, c)"
    and st': "st' = fire c (st\<lparr>ts_clock := max (ts_clock st) d, ts_timers := remove1 (d, c) (ts_timers st)\<rparr>)"
    by (auto simp: timer_step_def)
  have "timers_weight (remove1 (d, c) (ts_timers st)) + cb_weight c = timers_weight (ts_timers st)"
    using earliest_in [OF e] timers_weight_remove1 by fastforce
  moreover have "timers_weight (ts_timers st') + 1 \<le>
      timers_weight (remove1 (d, c) (ts_timers st)) + cb_weight c"
    unfolding st' using fire_weight [of c "st\<lparr>ts_clock := max (ts_clock st) d, ts_timers := remove1 (d, c) (ts_timers st)\<rparr>"]
    by simp
  ultimately show ?thesis by linarith
qed

lemma run_timers_invariant:
  assumes step: "\<And>s s'. P s \<Longrightarrow> timer_step s = Some s' \<Longrightarrow> P s'" and p: "P st"
  shows "\<exists>r. run_timers st = Some r \<and> P r \<and> ts_timers r = []"
  using p
proof (induction "timers_weight (ts_timers st)" arbitrary: st rule: less_induct)
  case less
  show ?case
  proof (cases "timer_step st")
    case None
    then have "ts_timers st = []" by (simp add: timer_step_def)
    with None less.prems show ?thesis by (subst run_timers.simps) simp
  next
    case (Some st')
    with less.prems step have "P st'" by blast
    with Some obtain r where "run_timers st' = Some r \<and> P r \<and> ts_timers r = []"
      using less.hyps timer_step_weight by blast
    with Some show ?thesis by (subst run_timers.simps) simp
  qed
qed

text \<open>C24: the event loop of the toast timers terminates on every state: each timer fired
  lowers the weight of the pending timers (a hide timer sets one close timer, a close
  timer clears the timers of its toast), so \<open>run_timers\<close> returns a value.\<close>

theorem run_timers_terminates: "\<exists>r. run_timers st = Some r"
  using run_timers_invariant [of "\<lambda>_. True" st] by blast

lemma toast_pending_has: "toast_pending st \<longleftrightarrow> (\<forall>t \<in> set (ts_toasts st). has_pending (toast_id t) (ts_timers st))"
  by (simp add: toast_pending_def has_pending_def)

lemma has_pending_remove1:
  "has_pending i q \<Longrightarrow> c \<noteq> Hide_cb i \<Longrightarrow> c \<noteq> Close_cb i \<Longrightarrow> has_pending i (remove1 (d, c) q)"
  by (auto simp: has_pending_def in_set_remove1)

lemma has_pending_append: "has_pending i q \<Longrightarrow> has_pending i (q @ r)"
  by (auto simp: has_pending_def)

lemma has_pending_close: "has_pending i (q @ [(d, Close_cb i)])"
  by (auto simp: has_pending_def)

lemma has_pending_filter:
  "has_pending i q \<Longrightarrow> i \<noteq> k \<Longrightarrow>
   has_pending i (filter (\<lambda>(d, c). c \<noteq> Show_cb k \<and> c \<noteq> Hide_cb k) q)"
  by (auto simp: has_pending_def)

section \<open>Every toast goes away\<close>

lemma pending_step: "toast_pending st \<Longrightarrow> timer_step st = Some st' \<Longrightarrow> toast_pending st'"
proof -
  assume p: "toast_pending st" and s: "timer_step st = Some st'"
  then obtain d c where e: "earliest (ts_timers st) = Some (d, c)"
    and st': "st' = fire c (st\<lparr>ts_clock := max (ts_clock st) d, ts_timers := remove1 (d, c) (ts_timers st)\<rparr>)"
    by (auto simp: timer_step_def)
  define q where "q = remove1 (d, c) (ts_timers st)"
  show ?thesis unfolding toast_pending_has
  proof
    fix t assume t: "t \<in> set (ts_toasts st')"
    show "has_pending (toast_id t) (ts_timers st')"
    proof (cases c)
      case (Show_cb k)
      from t st' Show_cb have "t \<in> set (ts_toasts st)" by simp
      with p have "has_pending (toast_id t) (ts_timers st)" by (simp add: toast_pending_has)
      then have "has_pending (toast_id t) q" unfolding q_def using Show_cb by (simp add: has_pending_remove1)
      with st' Show_cb show ?thesis by (simp add: q_def)
    next
      case (Hide_cb k)
      from t st' Hide_cb have t0: "t \<in> set (ts_toasts st)" by (simp add: start_exit_def)
      show ?thesis
      proof (cases "toast_id t = k")
        case True
        with Hide_cb st' show ?thesis by (simp add: start_exit_def has_pending_close)
      next
        case False
        from t0 p have "has_pending (toast_id t) (ts_timers st)" by (simp add: toast_pending_has)
        then have "has_pending (toast_id t) q" unfolding q_def using Hide_cb False by (simp add: has_pending_remove1)
        with st' Hide_cb show ?thesis by (simp add: start_exit_def q_def has_pending_append)
      qed
    next
      case (Close_cb k)
      from t st' Close_cb have i: "toast_id t \<noteq> k" and t0: "t \<in> set (ts_toasts st)"
        by (simp_all add: toast_cleanup_def removeToast_def)
      from t0 p have "has_pending (toast_id t) (ts_timers st)" by (simp add: toast_pending_has)
      then have "has_pending (toast_id t) q" unfolding q_def using Close_cb i by (simp add: has_pending_remove1)
      with i st' Close_cb show ?thesis by (simp add: toast_cleanup_def q_def has_pending_filter)
    qed
  qed
qed

lemma pending_no_timers: "toast_pending st \<Longrightarrow> ts_timers st = [] \<Longrightarrow> ts_toasts st = []"
  by (cases "ts_toasts st") (auto simp: toast_pending_def)

lemma reachable_pending: "toast_reachable st \<Longrightarrow> toast_pending st"
proof (induction rule: toast_reachable.induct)
  case init
  then show ?case by (simp add: toast_pending_def init_toasts_def)
next
  case (step st ev)
  then show ?case
  proof (cases ev)
    case (Show_toast fresh ty ttl msg dur)
    then show ?thesis using step.IH
      by (auto simp: toast_pending_has show_toast_def addToast_def mount_toast_def has_pending_def)
  next
    case (Toast_close_clicked k)
    then show ?thesis using step.IH
      by (auto simp: toast_pending_has handleClose_def start_exit_def intro: has_pending_append)
  next
    case Timer_fires
    then show ?thesis using step.IH pending_step by (auto split: option.splits)
  qed
qed

text \<open>C32: every toast shown is eventually removed: from any reachable state, running the
  timers returns, and in the state it returns the toast queue is empty.\<close>

theorem toasts_eventually_removed:
  "toast_reachable st \<Longrightarrow> \<exists>r. run_timers st = Some r \<and> ts_toasts r = []"
  using run_timers_invariant [of toast_pending st] pending_step reachable_pending pending_no_timers
  by blast

theorem toasts_eventually_removed_witness: "toast_reachable (toast_step (Show_toast ''t1'' Toast_success ''Saved'' None None) init_toasts) \<and>
  (\<exists>r. run_timers (toast_step (Show_toast ''t1'' Toast_success ''Saved'' None None) init_toasts) = Some r \<and> ts_toasts r = [])"
proof -
  have r: "toast_reachable (toast_step (Show_toast ''t1'' Toast_success ''Saved'' None None) init_toasts)"
    by (rule toast_reachable.step [OF toast_reachable.init])
  show ?thesis using toasts_eventually_removed [OF r] r by blast
qed

lemma run_one_toast: "map_option (\<lambda>r. (ts_clock r, ts_toasts r, ts_timers r))
   (run_timers (show_toast ''t1'' Toast_success ''Saved'' None None init_toasts)) = Some (3300, [], [])"
  apply (simp add: show_toast_def addToast_def mount_toast_def init_toasts_def toast_duration_ms_def)
  apply (subst run_timers.simps, simp add: timer_step_def start_exit_def)+
  apply (simp add: timer_step_def toast_cleanup_def removeToast_def)
  done
end
