(* ===== verification/ToastView.thy ===== *)
theory ToastView
  imports ToastTimers
begin

text \<open>
  What the toasts put on screen (\<open>src/src/components/Toast.tsx\<close>): each \<open>Toast\<close> as
  its icon, colour, whether it is slid in, its title and message, and
  \<open>ToastContainer\<close> as the list of them, over the state \<open>toast_sys\<close> of theory
  \<open>ToastTimers\<close> (the component flags \<open>isVisible\<close> and \<open>isExiting\<close> are
  \<open>ts_visible\<close> and \<open>ts_exiting\<close>).  The convenience methods of \<open>useToast\<close>
  (\<open>src/src/hooks/useToast.ts\<close>) complete it.
\<close>

section \<open>The convenience methods of useToast\<close>

definition toast_success :: "string \<Rightarrow> string \<Rightarrow> string option \<Rightarrow> nat option \<Rightarrow> toast list \<Rightarrow> string \<times> toast list" where
  "toast_success fresh ttl msg dur ts = addToast fresh Toast_success ttl msg dur ts"

definition toast_error :: "string \<Rightarrow> string \<Rightarrow> string option \<Rightarrow> nat option \<Rightarrow> toast list \<Rightarrow> string \<times> toast list" where
  "toast_error fresh ttl msg dur ts = addToast fresh Toast_error ttl msg dur ts"

definition toast_warning :: "string \<Rightarrow> string \<Rightarrow> string option \<Rightarrow> nat option \<Rightarrow> toast list \<Rightarrow> string \<times> toast list" where
  "toast_warning fresh ttl msg dur ts = addToast fresh Toast_warning ttl msg dur ts"

definition toast_info :: "string \<Rightarrow> string \<Rightarrow> string option \<Rightarrow> nat option \<Rightarrow> toast list \<Rightarrow> string \<times> toast list" where
  "toast_info fresh ttl msg dur ts = addToast fresh Toast_info ttl msg dur ts"

section \<open>A toast on screen\<close>

datatype toast_icon = Check_circle | X_circle | Alert_circle | Info_icon

primrec getIcon :: "toast_type \<Rightarrow> toast_icon" where
  "getIcon Toast_success = Check_circle"
| "getIcon Toast_error = X_circle"
| "getIcon Toast_warning = Alert_circle"
| "getIcon Toast_info = Info_icon"

text \<open>\<open>getStyles\<close>, by the colour its classes use.\<close>

primrec getStyles :: "toast_type \<Rightarrow> string" where
  "getStyles Toast_success = ''green''"
| "getStyles Toast_error = ''red''"
| "getStyles Toast_warning = ''yellow''"
| "getStyles Toast_info = ''blue''"

record toast_card =
  tc_id :: string
  tc_icon :: toast_icon
  tc_color :: string
  tc_shown :: bool
  tc_title :: string
  tc_message :: "string option"

text \<open>Slid in while \<open>isVisible && !isExiting\<close>; the message only when it is a
  non-empty string.\<close>

definition toast_render :: "toast_sys \<Rightarrow> toast \<Rightarrow> toast_card" where
  "toast_render st t =
     \<lparr>tc_id = toast_id t, tc_icon = getIcon (toast_type t), tc_color = getStyles (toast_type t),
      tc_shown = (toast_id t \<in> set (ts_visible st) \<and> toast_id t \<notin> set (ts_exiting st)),
      tc_title = toast_title t,
      tc_message = (case toast_message t of Some m \<Rightarrow> if m = [] then None else Some m | None \<Rightarrow> None)\<rparr>"

text \<open>\<open>ToastContainer\<close>: nothing for an empty queue, otherwise a card per toast in
  queue order.\<close>

definition ToastContainer :: "toast_sys \<Rightarrow> toast_card list option" where
  "ToastContainer st = (if ts_toasts st = [] then None else Some (map (toast_render st) (ts_toasts st)))"

definition shown_cards :: "toast_sys \<Rightarrow> string list" where
  "shown_cards st = (case ToastContainer st of None \<Rightarrow> [] | Some cs \<Rightarrow> map tc_id (filter tc_shown cs))"

definition one_toast :: toast_sys where
  "one_toast = show_toast ''t1'' Toast_success ''Saved'' None None init_toasts"

section \<open>Lemmas\<close>

text \<open>Each type has its own icon and colour.\<close>

lemma icon_style_inj: "getIcon a = getIcon b \<Longrightarrow> a = b" "getStyles a = getStyles b \<Longrightarrow> a = b"
  by (cases a; cases b; simp)+

lemma container_cards: "ToastContainer st = Some cs \<Longrightarrow> map tc_id cs = map toast_id (ts_toasts st)"
  by (auto simp: ToastContainer_def toast_render_def split: if_splits)

text \<open>A toast's timeline: it slides in at 100 ms, slides out at its 3000 ms duration
  while still queued, and is removed 300 ms later, when the container renders nothing.\<close>

lemma one_toast_timeline:
  "shown_cards one_toast = []
   \<and> map_option (\<lambda>s. (ts_clock s, shown_cards s)) (timer_step one_toast) = Some (100, [''t1''])
   \<and> map_option (\<lambda>s. (ts_clock s, shown_cards s, map toast_id (ts_toasts s)))
       (Option.bind (timer_step one_toast) timer_step) = Some (3000, [], [''t1''])
   \<and> map_option (\<lambda>s. (ts_clock s, ToastContainer s))
       (Option.bind (Option.bind (timer_step one_toast) timer_step) timer_step) = Some (3300, None)"
  by (simp add: one_toast_def show_toast_def addToast_def mount_toast_def init_toasts_def toast_duration_ms_def
      timer_step_def start_exit_def toast_cleanup_def removeToast_def shown_cards_def ToastContainer_def
      toast_render_def)

end
