(* ===== verification/Render.thy ===== *)
theory Render
  imports Views Utils Settings
begin

text \<open>
  What the task views put on screen, read off their JSX: the four task cards
  (\<open>TaskItem\<close>, the card of \<open>TaskGridView\<close>, \<open>DraggableTaskCard\<close> of
  \<open>DraggableTaskGridView\<close> and \<open>TaskCard\<close> of \<open>TaskKanbanView\<close>), the lists and grids
  with their empty states, the board with its hook sequence and its error screen, and
  the body, toolbar, footer and search box of \<open>TaskList\<close>.  A card is a record of the
  facts it shows: each field is one class condition or one conditional child of the
  markup.  \<open>formatDate\<close> (\<open>Intl\<close>) is not modelled: the date shown is the value passed
  to it.  The pointer (hovered card) and the drag library's snapshot are inputs.
\<close>

section \<open>The task cards\<close>

record card_view =
  cv_selected :: bool
  cv_dimmed :: bool
  cv_checked :: bool
  cv_dot :: string
  cv_title :: string
  cv_struck :: bool
  cv_description :: "string option"
  cv_due :: "(string \<times> bool) option"
  cv_tags :: "string list"
  cv_more_tags :: "nat option"
  cv_created :: string
  cv_notes :: "nat option"
  cv_actions :: bool
  cv_scaled :: bool
  cv_lifted :: bool
  cv_handle :: bool

text \<open>\<open>x && <child/>\<close> for an optional string: the child is rendered for a non-empty
  string only.\<close>

definition truthy_str :: "string option \<Rightarrow> string option" where
  "truthy_str s = (case s of None \<Rightarrow> None | Some d \<Rightarrow> if d = [] then None else Some d)"

text \<open>\<open>isOverdue && !task.is_completed\<close>: the red date and the overdue label.\<close>

definition overdue_mark :: "(string \<Rightarrow> int option) \<Rightarrow> int \<Rightarrow> task \<Rightarrow> bool" where
  "overdue_mark parse clk t \<longleftrightarrow> isTaskOverdue parse clk (due_date t) \<and> \<not> is_completed t"

definition more_tags :: "nat \<Rightarrow> string list \<Rightarrow> nat option" where
  "more_tags k ts = (if k < length ts then Some (length ts - k) else None)"

definition notes_badge :: "task \<Rightarrow> nat option" where
  "notes_badge t = (if task_notes t = [] then None else Some (length (task_notes t)))"

text \<open>\<open>TaskItem\<close>: the title in full, the first two tags joined by a comma, the actions
  shown while the pointer is over the card (\<open>showActions\<close>).\<close>

definition item_card :: "(string \<Rightarrow> int option) \<Rightarrow> int \<Rightarrow> bool \<Rightarrow> bool \<Rightarrow> task \<Rightarrow> card_view" where
  "item_card parse clk sel hover t =
     \<lparr>cv_selected = sel, cv_dimmed = is_completed t \<and> \<not> sel, cv_checked = is_completed t,
      cv_dot = pc_dot (getPriorityColor (priority t)), cv_title = title t,
      cv_struck = is_completed t,
      cv_description = map_option (\<lambda>d. truncateText d 80) (truthy_str (description t)),
      cv_due = map_option (\<lambda>d. (d, overdue_mark parse clk t)) (truthy_str (due_date t)),
      cv_tags = (if tags t = [] then [] else [js_join '', '' (take 2 (tags t))]),
      cv_more_tags = more_tags 2 (tags t), cv_created = created_at t,
      cv_notes = notes_badge t, cv_actions = hover, cv_scaled = False,
      cv_lifted = False, cv_handle = False\<rparr>"

text \<open>The card of \<open>TaskGridView\<close>: the title cut at 50 characters, three tags cut at
  10, a selected card scaled up.\<close>

definition grid_card :: "(string \<Rightarrow> int option) \<Rightarrow> int \<Rightarrow> bool \<Rightarrow> bool \<Rightarrow> task \<Rightarrow> card_view" where
  "grid_card parse clk sel hover t =
     \<lparr>cv_selected = sel, cv_dimmed = is_completed t \<and> \<not> sel, cv_checked = is_completed t,
      cv_dot = pc_dot (getPriorityColor (priority t)), cv_title = truncateText (title t) 50,
      cv_struck = is_completed t,
      cv_description = map_option (\<lambda>d. truncateText d 80) (truthy_str (description t)),
      cv_due = map_option (\<lambda>d. (d, overdue_mark parse clk t)) (truthy_str (due_date t)),
      cv_tags = map (\<lambda>g. truncateText g 10) (take 3 (tags t)),
      cv_more_tags = more_tags 3 (tags t), cv_created = created_at t,
      cv_notes = notes_badge t, cv_actions = hover, cv_scaled = sel,
      cv_lifted = False, cv_handle = False\<rparr>"

text \<open>\<open>DraggableTaskCard\<close> of the draggable grid: the same content, the scale-up
  suspended while the card is dragged, and a drag handle shown on hover or drag.\<close>

definition drag_grid_card ::
  "(string \<Rightarrow> int option) \<Rightarrow> int \<Rightarrow> bool \<Rightarrow> bool \<Rightarrow> bool \<Rightarrow> task \<Rightarrow> card_view" where
  "drag_grid_card parse clk sel hover dragging t =
     \<lparr>cv_selected = sel, cv_dimmed = is_completed t \<and> \<not> sel, cv_checked = is_completed t,
      cv_dot = pc_dot (getPriorityColor (priority t)), cv_title = truncateText (title t) 50,
      cv_struck = is_completed t,
      cv_description = map_option (\<lambda>d. truncateText d 80) (truthy_str (description t)),
      cv_due = map_option (\<lambda>d. (d, overdue_mark parse clk t)) (truthy_str (due_date t)),
      cv_tags = map (\<lambda>g. truncateText g 10) (take 3 (tags t)),
      cv_more_tags = more_tags 3 (tags t), cv_created = created_at t,
      cv_notes = notes_badge t, cv_actions = hover, cv_scaled = sel \<and> \<not> dragging,
      cv_lifted = dragging, cv_handle = hover \<or> dragging\<rparr>"

text \<open>\<open>TaskCard\<close> of the board: the title cut at 40, the description at 60, two tags
  cut at 8.\<close>

definition kanban_card :: "(string \<Rightarrow> int option) \<Rightarrow> int \<Rightarrow> bool \<Rightarrow> bool \<Rightarrow> task \<Rightarrow> card_view" where
  "kanban_card parse clk sel hover t =
     \<lparr>cv_selected = sel, cv_dimmed = is_completed t \<and> \<not> sel, cv_checked = is_completed t,
      cv_dot = pc_dot (getPriorityColor (priority t)), cv_title = truncateText (title t) 40,
      cv_struck = is_completed t,
      cv_description = map_option (\<lambda>d. truncateText d 60) (truthy_str (description t)),
      cv_due = map_option (\<lambda>d. (d, overdue_mark parse clk t)) (truthy_str (due_date t)),
      cv_tags = map (\<lambda>g. truncateText g 8) (take 2 (tags t)),
      cv_more_tags = more_tags 2 (tags t), cv_created = created_at t,
      cv_notes = notes_badge t, cv_actions = hover, cv_scaled = False,
      cv_lifted = False, cv_handle = False\<rparr>"

text \<open>The draggable wrappers of the list and the board around a card.\<close>

definition drag_item :: "(string \<Rightarrow> int option) \<Rightarrow> int \<Rightarrow> bool \<Rightarrow> bool \<Rightarrow> bool \<Rightarrow> task \<Rightarrow> card_view" where
  "drag_item parse clk sel hover dragging t =
     (item_card parse clk sel hover t)\<lparr>cv_lifted := dragging, cv_handle := hover \<or> dragging\<rparr>"

definition kanban_drag_card ::
  "(string \<Rightarrow> int option) \<Rightarrow> int \<Rightarrow> bool \<Rightarrow> bool \<Rightarrow> bool \<Rightarrow> task \<Rightarrow> card_view" where
  "kanban_drag_card parse clk sel hover dragging t =
     (kanban_card parse clk sel hover t)\<lparr>cv_lifted := dragging\<rparr>"

section \<open>Lists, grids and the board\<close>

text \<open>The pointer: the card under it (\<open>onMouseEnter\<close>, \<open>group-hover\<close>) and the card
  the drag library is moving (\<open>snapshot.isDragging\<close>).\<close>

record pointer =
  hovered :: "string option"
  dragged :: "string option"

definition is_sel :: "string option \<Rightarrow> task \<Rightarrow> bool" where
  "is_sel sel t \<longleftrightarrow> sel = Some (task_id t)"

definition on_card :: "string option \<Rightarrow> task \<Rightarrow> bool" where
  "on_card p t \<longleftrightarrow> p = Some (task_id t)"

datatype 'a shown = Empty_state | Shown 'a

text \<open>\<open>DraggableTaskList\<close>, \<open>TaskGridView\<close> and \<open>DraggableTaskGridView\<close>: an empty
  state for no tasks, otherwise one card per task in the order given.\<close>

definition drag_list_view ::
  "(string \<Rightarrow> int option) \<Rightarrow> int \<Rightarrow> string option \<Rightarrow> pointer \<Rightarrow> task list \<Rightarrow> card_view list shown" where
  "drag_list_view parse clk sel p ts =
     (if ts = [] then Empty_state
      else Shown (map (\<lambda>t. drag_item parse clk (is_sel sel t) (on_card (hovered p) t) (on_card (dragged p) t) t) ts))"

definition grid_view ::
  "(string \<Rightarrow> int option) \<Rightarrow> int \<Rightarrow> string option \<Rightarrow> pointer \<Rightarrow> task list \<Rightarrow> card_view list shown" where
  "grid_view parse clk sel p ts =
     (if ts = [] then Empty_state
      else Shown (map (\<lambda>t. grid_card parse clk (is_sel sel t) (on_card (hovered p) t) t) ts))"

definition drag_grid_view ::
  "(string \<Rightarrow> int option) \<Rightarrow> int \<Rightarrow> string option \<Rightarrow> pointer \<Rightarrow> task list \<Rightarrow> card_view list shown" where
  "drag_grid_view parse clk sel p ts =
     (if ts = [] then Empty_state
      else Shown (map (\<lambda>t. drag_grid_card parse clk (is_sel sel t) (on_card (hovered p) t) (on_card (dragged p) t) t) ts))"

text \<open>The board's error state (\<open>dragError\<close>, \<open>retryCount\<close>) and what it renders: an
  empty state, the error screen (its message and whether retrying is still allowed, the
  retry count on the button), or the two columns with their counts and cards.\<close>

record board_err =
  dragError :: "string option"
  retryCount :: nat

definition init_board_err :: board_err where
  "init_board_err = \<lparr>dragError = None, retryCount = 0\<rparr>"

record column_view =
  col_id :: string
  col_count :: nat
  col_cards :: "card_view list"

datatype board_view = Board_empty | Board_error bool "nat option" | Board "column_view list"

definition board_column ::
  "(string \<Rightarrow> int option) \<Rightarrow> int \<Rightarrow> string option \<Rightarrow> pointer \<Rightarrow> string \<Rightarrow> task list \<Rightarrow> column_view" where
  "board_column parse clk sel p c cts =
     \<lparr>col_id = c, col_count = length cts,
      col_cards = map (\<lambda>t. kanban_drag_card parse clk (is_sel sel t) (on_card (hovered p) t) (on_card (dragged p) t) t) cts\<rparr>"

text \<open>The render of \<open>TaskKanbanView\<close>: \<open>groupedTasks\<close> (\<open>useMemo\<close>) is computed, and its
  cache updated, before the early return for an empty task list.\<close>

definition kanban_view ::
  "(string \<Rightarrow> int option) \<Rightarrow> int \<Rightarrow> string option \<Rightarrow> pointer \<Rightarrow> task list \<Rightarrow> kanban_ui \<Rightarrow> board_err
   \<Rightarrow> board_view \<times> kanban_ui" where
  "kanban_view parse clk sel p ts ui be =
     (let (g, ui') = groupedTasks ts ui in
      if ts = [] then (Board_empty, ui')
      else (case dragError be of
              Some _ \<Rightarrow> (Board_error (2 < retryCount be) (if 0 < retryCount be then Some (retryCount be) else None), ui')
            | None \<Rightarrow> (Board [board_column parse clk sel p ''todo'' (fst g),
                              board_column parse clk sel p ''completed'' (snd g)], ui')))"

text \<open>\<open>onBeforeCapture\<close>, \<open>handleDragError\<close> and \<open>handleRetry\<close> of the board.\<close>

definition kanban_beforeCapture :: "task list \<Rightarrow> kanban_ui \<Rightarrow> board_err \<Rightarrow> kanban_ui \<times> board_err" where
  "kanban_beforeCapture ts ui be =
     ((if groupedCache ui = None then ui\<lparr>groupedCache := Some (group_columns ts)\<rparr> else ui),
      be\<lparr>dragError := None\<rparr>)"

definition handleDragError :: "string \<Rightarrow> kanban_ui \<Rightarrow> board_err \<Rightarrow> kanban_ui \<times> board_err" where
  "handleDragError msg ui be =
     (ui\<lparr>isDragging := False, groupedCache := None\<rparr>, be\<lparr>dragError := Some msg\<rparr>)"

definition handleRetry :: "kanban_ui \<Rightarrow> board_err \<Rightarrow> kanban_ui \<times> board_err" where
  "handleRetry ui be =
     (ui\<lparr>groupedCache := None\<rparr>, be\<lparr>dragError := None, retryCount := retryCount be + 1\<rparr>)"

text \<open>The board as its handlers are wired in the JSX: \<open>onBeforeCapture\<close>,
  \<open>onDragStart\<close>, \<open>onDragEnd\<close>, a render over the filtered tasks, and the retry button,
  which is on screen only with the error screen and disabled after three retries.\<close>

datatype board_event = B_before_capture | B_drag_start | B_drag_end env drop_result | B_render | B_retry

fun board_step :: "board_event \<Rightarrow> kanban_ui \<times> board_err \<times> sys \<Rightarrow> kanban_ui \<times> board_err \<times> sys" where
  "board_step B_before_capture (ui, be, s) =
     (let (ui', be') = kanban_beforeCapture (getFilteredTasks (store s)) ui be in (ui', be', s))"
| "board_step B_drag_start (ui, be, s) = (kanban_handleDragStart ui, be, s)"
| "board_step (B_drag_end e r) (ui, be, s) = (let (ui', s') = kanban_handleDragEnd e r (ui, s) in (ui', be, s'))"
| "board_step B_render (ui, be, s) = (snd (groupedTasks (getFilteredTasks (store s)) ui), be, s)"
| "board_step B_retry (ui, be, s) =
     (if dragError be \<noteq> None \<and> retryCount be \<le> 2 then (let (ui', be') = handleRetry ui be in (ui', be', s))
      else (ui, be, s))"

inductive board_reachable :: "kanban_ui \<times> board_err \<times> sys \<Rightarrow> bool" where
  init: "board_reachable (init_kanban, init_board_err, s)"
| step: "board_reachable b \<Longrightarrow> board_reachable (board_step ev b)"

text \<open>The hooks a render of \<open>TaskKanbanView\<close> calls, in order: \<open>useTaskStore\<close>,
  \<open>useState\<close>, \<open>useRef\<close>, two \<open>useCallback\<close>, \<open>useRef\<close>, \<open>useMemo\<close>, then, past the
  early return for an empty list, two \<open>useState\<close> and two \<open>useCallback\<close>.\<close>

datatype hook = Hook_store | Hook_state | Hook_ref | Hook_callback | Hook_memo

definition kanban_hooks :: "task list \<Rightarrow> hook list" where
  "kanban_hooks ts =
     [Hook_store, Hook_state, Hook_ref, Hook_callback, Hook_callback, Hook_ref, Hook_memo]
     @ (if ts = [] then [] else [Hook_state, Hook_state, Hook_callback, Hook_callback])"

text \<open>React's check on the re-render of a mounted component: more hooks than the
  previous render, or fewer, is an error that unmounts the tree.\<close>

datatype react_error = Rendered_more_hooks | Rendered_fewer_hooks

definition react_rerender :: "hook list \<Rightarrow> hook list \<Rightarrow> react_error + hook list" where
  "react_rerender prev cur =
     (if length prev < length cur then Inl Rendered_more_hooks
      else if length cur < length prev then Inl Rendered_fewer_hooks else Inr cur)"

text \<open>A card shows the overdue marker.\<close>

definition card_overdue :: "card_view \<Rightarrow> bool" where
  "card_overdue cv \<longleftrightarrow> (case cv_due cv of None \<Rightarrow> False | Some (d, b) \<Rightarrow> b)"

section \<open>The task list\<close>

text \<open>The body of \<open>TaskList\<close>: a spinner while loading; for no filtered task one of
  four messages, chosen on the raw search text, the store's tasks and the filter; the
  filtered tasks in the view of the settings otherwise.\<close>

datatype body_view =
    Body_loading | Body_no_match | Body_no_tasks | Body_no_completed | Body_all_done
  | Body_list "task list" | Body_grid "task list" | Body_kanban "task list"

definition list_body :: "task_store \<Rightarrow> view_mode \<Rightarrow> body_view" where
  "list_body st m =
     (let fts = getFilteredTasks st in
      if isLoading st then Body_loading
      else if fts = [] then
        (if searchQuery st \<noteq> [] then Body_no_match
         else if tasks st = [] then Body_no_tasks
         else if filter_state st = Completed then Body_no_completed
         else Body_all_done)
      else (case m of List_view \<Rightarrow> Body_list fts | Grid_view \<Rightarrow> Body_grid fts
                    | Kanban_view \<Rightarrow> Body_kanban fts))"

text \<open>The toolbar: one button per filter with its count, highlighted when active; one
  button per view mode; the clear button only when some task is completed.\<close>

definition task_filters :: "task_filter list" where
  "task_filters = [All, Active, Completed]"

definition filter_count :: "task list \<Rightarrow> task_filter \<Rightarrow> nat" where
  "filter_count ts f =
     (let (a, p, c) = getTaskCounts ts in case f of All \<Rightarrow> a | Active \<Rightarrow> p | Completed \<Rightarrow> c)"

definition filter_buttons :: "task_store \<Rightarrow> (task_filter \<times> nat \<times> bool) list" where
  "filter_buttons st = map (\<lambda>f. (f, filter_count (tasks st) f, filter_state st = f)) task_filters"

definition view_buttons :: "view_mode \<Rightarrow> (view_mode \<times> bool) list" where
  "view_buttons m = map (\<lambda>v. (v, v = m)) [List_view, Grid_view, Kanban_view]"

definition clear_button_shown :: "task_store \<Rightarrow> bool" where
  "clear_button_shown st \<longleftrightarrow> 0 < filter_count (tasks st) Completed"

text \<open>The footer, shown when the store holds a task: the total, the number of results
  while a search text is set, the pending and the completed counts.\<close>

definition list_footer :: "task_store \<Rightarrow> (nat \<times> nat option \<times> nat \<times> nat) option" where
  "list_footer st =
     (if tasks st = [] then None
      else Some (filter_count (tasks st) All,
                 if searchQuery st \<noteq> [] then Some (length (getFilteredTasks st)) else None,
                 filter_count (tasks st) Active, filter_count (tasks st) Completed))"

text \<open>The search box.  \<open>debouncedSearch\<close> is \<open>debounce(...)\<close> called in the body of the
  component, so every render makes a new closure with its own \<open>timeoutId\<close>; typing
  re-renders (\<open>setLocalSearchQuery\<close>), so each keystroke calls a fresh closure whose
  \<open>clearTimeout\<close> clears nothing.  The pending timeouts are kept in the order set.\<close>

record search_box =
  localSearchQuery :: string
  search_timers :: "(nat \<times> string) list"

definition init_search_box :: search_box where
  "init_search_box = \<lparr>localSearchQuery = [], search_timers = []\<rparr>"

definition handleSearchChange :: "nat \<Rightarrow> string \<Rightarrow> search_box \<Rightarrow> search_box" where
  "handleSearchChange clk q sb =
     sb\<lparr>localSearchQuery := q, search_timers := search_timers sb @ [(clk + 300, q)]\<rparr>"

text \<open>The clear button, on screen while the store's search text is set.\<close>

definition search_clear :: "search_box \<times> task_store \<Rightarrow> search_box \<times> task_store" where
  "search_clear sbst = ((fst sbst)\<lparr>localSearchQuery := []\<rparr>, setSearchQuery [] (snd sbst))"

text \<open>The timeouts due by \<open>clk\<close> fire in order, each calling \<open>setSearchQuery\<close>; the
  queries they pass are returned.\<close>

definition search_due :: "nat \<Rightarrow> search_box \<Rightarrow> search_box \<times> string list" where
  "search_due clk sb =
     (sb\<lparr>search_timers := filter (\<lambda>(d, q). \<not> d \<le> clk) (search_timers sb)\<rparr>,
      map snd (filter (\<lambda>(d, q). d \<le> clk) (search_timers sb)))"

datatype search_event = Type_query nat string | Click_clear | Timers_due nat

fun search_step :: "search_event \<Rightarrow> search_box \<times> task_store \<Rightarrow> (search_box \<times> task_store) \<times> string list" where
  "search_step (Type_query clk q) (sb, st) = ((handleSearchChange clk q sb, st), [])"
| "search_step Click_clear (sb, st) =
     (if searchQuery st \<noteq> [] then (search_clear (sb, st), []) else ((sb, st), []))"
| "search_step (Timers_due clk) (sb, st) =
     (let (sb', qs) = search_due clk sb in ((sb', fold setSearchQuery qs st), qs))"

text \<open>A run of events: the final state and every query passed to \<open>setSearchQuery\<close>
  by a timeout.\<close>

fun search_run :: "search_event list \<Rightarrow> search_box \<times> task_store \<Rightarrow> (search_box \<times> task_store) \<times> string list" where
  "search_run [] x = (x, [])"
| "search_run (ev # evs) x =
     (let (y, qs) = search_step ev x; (z, rs) = search_run evs y in (z, qs @ rs))"

section \<open>The cards agree with the sidebar\<close>

lemma card_overdue_cards:
  "card_overdue (item_card parse clk sel hv t) = is_overdue parse clk t"
  "card_overdue (grid_card parse clk sel hv t) = is_overdue parse clk t"
  "card_overdue (drag_grid_card parse clk sel hv dr t) = is_overdue parse clk t"
  "card_overdue (kanban_card parse clk sel hv t) = is_overdue parse clk t"
  "card_overdue (drag_item parse clk sel hv dr t) = is_overdue parse clk t"
  "card_overdue (kanban_drag_card parse clk sel hv dr t) = is_overdue parse clk t"
  by (auto simp: card_overdue_def item_card_def grid_card_def drag_grid_card_def kanban_card_def
      drag_item_def kanban_drag_card_def overdue_mark_def truthy_str_def is_overdue_def isTaskOverdue_def
      split: option.splits)

lemma filter_map_count: "(\<And>x. P (f x) = Q x) \<Longrightarrow> length (filter P (map f xs)) = length (filter Q xs)"
  by (induction xs) auto

lemma grid_overdue_count:
  "grid_view parse clk sel p ts = Shown cvs \<Longrightarrow>
   length (filter card_overdue cvs) = ts_overdue (getTaskStats parse clk today ts)"
  by (auto simp: grid_view_def getTaskStats_def Let_def card_overdue_cards intro!: filter_map_count split: if_splits)

lemma mset_group_columns: "mset (fst (group_columns ts)) + mset (snd (group_columns ts)) = mset ts"
  by (simp add: group_columns_def mset_filter multiset_partition [symmetric] add.commute)

lemma count_filter_mset: "length (filter P xs) = size (filter_mset P (mset xs))"
  by (metis mset_filter size_mset)

lemma board_overdue_count:
  assumes "kanban_view parse clk sel p ts ui be = (Board cols, ui')" "\<not> isDragging ui"
  shows "sum_list (map (\<lambda>c. length (filter card_overdue (col_cards c))) cols)
         = ts_overdue (getTaskStats parse clk today ts)"
proof -
  have g: "fst (groupedTasks ts ui) = group_columns ts" using assms(2)
    by (simp add: groupedTasks_def split: option.splits)
  have cols: "cols = [board_column parse clk sel p ''todo'' (fst (group_columns ts)),
                      board_column parse clk sel p ''completed'' (snd (group_columns ts))]"
    using assms(1) g by (auto simp: kanban_view_def split: prod.splits if_splits option.splits)
  have "length (filter (is_overdue parse clk) (fst (group_columns ts)))
        + length (filter (is_overdue parse clk) (snd (group_columns ts)))
        = length (filter (is_overdue parse clk) ts)"
    unfolding count_filter_mset using mset_group_columns [of ts]
    by (metis filter_union_mset size_union)
  then show ?thesis
    by (simp add: cols board_column_def comp_def card_overdue_cards getTaskStats_def Let_def)
qed


lemma cards_count_tags:
  "length (cv_tags (grid_card parse clk sel hv t)) + (case cv_more_tags (grid_card parse clk sel hv t) of None \<Rightarrow> 0 | Some n \<Rightarrow> n) = length (tags t)"
  "length (cv_tags (kanban_card parse clk sel hv t)) + (case cv_more_tags (kanban_card parse clk sel hv t) of None \<Rightarrow> 0 | Some n \<Rightarrow> n) = length (tags t)"
  by (auto simp: grid_card_def kanban_card_def more_tags_def min_def)

lemma drag_grid_still: "drag_grid_card parse clk sel hv False t = (grid_card parse clk sel hv t)\<lparr>cv_handle := hv\<rparr>"
  by (simp add: drag_grid_card_def grid_card_def)

section \<open>The task list, the board and its hooks\<close>

lemma list_body_all_done:
  "list_body st m = Body_all_done \<Longrightarrow> tasks st \<noteq> [] \<and> (\<forall>t \<in> set (tasks st). is_completed t)"
  by (auto simp: list_body_def getFilteredTasks_def status_filter_def Let_def filter_empty_conv js_trim_def
      split: if_splits task_filter.splits view_mode.splits)

lemma list_body_no_completed:
  "list_body st m = Body_no_completed \<Longrightarrow> tasks st \<noteq> [] \<and> (\<forall>t \<in> set (tasks st). \<not> is_completed t)"
  by (auto simp: list_body_def getFilteredTasks_def status_filter_def Let_def filter_empty_conv js_trim_def
      split: if_splits task_filter.splits view_mode.splits)

lemma list_body_kanban: "list_body st m = Body_kanban ts \<Longrightarrow> ts = getFilteredTasks st \<and> ts \<noteq> []"
  by (auto simp: list_body_def Let_def split: if_splits view_mode.splits)

lemma kanban_hooks_nonempty: "ts \<noteq> [] \<Longrightarrow> ts' \<noteq> [] \<Longrightarrow> kanban_hooks ts = kanban_hooks ts'"
  by (simp add: kanban_hooks_def)

lemma kanban_first_task_crashes:
  "react_rerender (kanban_hooks []) (kanban_hooks [t]) = Inl Rendered_more_hooks
   \<and> react_rerender (kanban_hooks [t]) (kanban_hooks []) = Inl Rendered_fewer_hooks"
  by (simp add: react_rerender_def kanban_hooks_def)

text \<open>C29: as \<open>TaskList\<close> mounts the board only for a non-empty filtered list, any
  two renders of a mounted board call the same hooks, and React's check passes.\<close>

theorem task_list_board_hooks_stable:
  "list_body st m = Body_kanban ts \<Longrightarrow> list_body st' m' = Body_kanban ts' \<Longrightarrow>
   react_rerender (kanban_hooks ts) (kanban_hooks ts') = Inr (kanban_hooks ts')"
proof -
  assume "list_body st m = Body_kanban ts" "list_body st' m' = Body_kanban ts'"
  then have "ts \<noteq> []" "ts' \<noteq> []" using list_body_kanban by blast+
  then have "kanban_hooks ts = kanban_hooks ts'" by (rule kanban_hooks_nonempty)
  then show ?thesis by (simp add: react_rerender_def)
qed

lemma board_step_err: "dragError be = None \<Longrightarrow> retryCount be = 0 \<Longrightarrow> board_step ev (ui, be, s) = (ui', be', s') \<Longrightarrow> be' = be"
  by (cases ev) (auto simp: kanban_beforeCapture_def Let_def split: prod.splits)

lemma board_no_error: "board_reachable b \<Longrightarrow> fst (snd b) = init_board_err"
proof (induction rule: board_reachable.induct)
  case (init s)
  then show ?case by simp
next
  case (step b ev)
  obtain ui be s where b: "b = (ui, be, s)" by (cases b) auto
  obtain ui' be' s' where b': "board_step ev (ui, be, s) = (ui', be', s')" by (cases "board_step ev (ui, be, s)") auto
  from step.IH b have "be = init_board_err" by simp
  then have "be' = be" using board_step_err [OF _ _ b'] by (simp add: init_board_err_def)
  with b b' \<open>be = init_board_err\<close> show ?case by simp
qed

lemma board_never_error_screen:
  "board_reachable (ui, be, s) \<Longrightarrow> fst (kanban_view parse clk sel p ts ui be) \<noteq> Board_error r n"
  using board_no_error [of "(ui, be, s)"]
  by (auto simp: kanban_view_def init_board_err_def split: prod.splits)


section \<open>The search box\<close>

lemma search_run_append:
  "search_run (xs @ ys) x = (let (y, qs) = search_run xs x; (z, rs) = search_run ys y in (z, qs @ rs))"
  by (induction xs arbitrary: x) (auto simp: Let_def split: prod.splits)

lemma search_typing:
  "search_run (map (\<lambda>(c, q). Type_query c q) ks) (sb, st)
   = ((sb\<lparr>localSearchQuery := (if ks = [] then localSearchQuery sb else snd (last ks)),
          search_timers := search_timers sb @ map (\<lambda>(c, q). (c + 300, q)) ks\<rparr>, st), [])"
  by (induction ks arbitrary: sb) (auto simp: handleSearchChange_def)

lemma fold_setSearchQuery: "qs \<noteq> [] \<Longrightarrow> fold setSearchQuery qs st = st\<lparr>searchQuery := last qs\<rparr>"
proof (induction qs arbitrary: st)
  case (Cons x xs)
  then show ?case by (cases xs) (auto simp: setSearchQuery_def)
qed simp

text \<open>C19: the search box does not debounce: each keystroke's timeout survives the
  next keystroke, so once the last one is due the store has received every query
  typed, in order, and ends with the last one.\<close>

theorem search_every_keystroke:
  assumes "ks \<noteq> []" "\<forall>(c, q) \<in> set ks. c + 300 \<le> T"
  shows "search_run (map (\<lambda>(c, q). Type_query c q) ks @ [Timers_due T]) (init_search_box, st)
         = ((init_search_box\<lparr>localSearchQuery := snd (last ks)\<rparr>, st\<lparr>searchQuery := snd (last ks)\<rparr>), map snd ks)"
proof -
  have due: "filter (\<lambda>(d, q). d \<le> T) (map (\<lambda>(c, q). (c + 300, q)) ks) = map (\<lambda>(c, q). (c + 300, q)) ks"
    using assms(2) by (auto simp: filter_id_conv)
  have none: "filter (\<lambda>(d, q). \<not> d \<le> T) (map (\<lambda>(c, q). (c + 300, q)) ks) = []"
    using assms(2) by (auto simp: filter_empty_conv)
  have "map (snd \<circ> (\<lambda>(c, q). (c + 300, q))) ks = map snd ks" by (induction ks) auto
  moreover have "last (map (snd \<circ> (\<lambda>(c, q). (c + 300, q))) ks) = snd (last ks)"
    using assms(1) by (cases "last ks") (simp add: last_map)
  ultimately show ?thesis using assms(1)
    by (simp add: search_run_append search_typing init_search_box_def search_due_def due none
        fold_setSearchQuery)
qed

theorem search_every_keystroke_witness:
  "snd (search_run [Type_query 0 ''a'', Type_query 100 ''ab'', Type_query 200 ''abc'', Timers_due 500]
          (init_search_box, init_store)) = [''a'', ''ab'', ''abc'']
   \<and> bursts_last 300 [(0::nat, ''a''), (100, ''ab''), (200, ''abc'')] = [''abc'']"
  using search_every_keystroke [of "[(0, ''a''), (100, ''ab''), (200, ''abc'')]" 500 init_store]
  by simp

lemma search_clear_race:
  "fst (search_run [Type_query 0 ''ab'', Timers_due 300, Type_query 1000 ''abc'', Click_clear, Timers_due 1300]
          (init_search_box, st))
   = (init_search_box, st\<lparr>searchQuery := ''abc''\<rparr>)"
  by (simp add: init_search_box_def handleSearchChange_def search_due_def search_clear_def setSearchQuery_def)

theorem task_list_board_hooks_stable_witness:
  "list_body (store (demo_sys [demo_task ''a'' 1 False])) Kanban_view = Body_kanban [demo_task ''a'' 1 False]
   \<and> list_body (store (demo_sys [demo_task ''a'' 1 False, demo_task ''b'' 2 True])) Kanban_view
       = Body_kanban [demo_task ''a'' 1 False, demo_task ''b'' 2 True]
   \<and> react_rerender (kanban_hooks [demo_task ''a'' 1 False]) (kanban_hooks [demo_task ''a'' 1 False, demo_task ''b'' 2 True])
       = Inr (kanban_hooks [demo_task ''a'' 1 False, demo_task ''b'' 2 True])"
proof -
  have a: "list_body (store (demo_sys [demo_task ''a'' 1 False])) Kanban_view = Body_kanban [demo_task ''a'' 1 False]"
    by (simp add: list_body_def demo_defs getFilteredTasks_def status_filter_def js_trim_def)
  have b: "list_body (store (demo_sys [demo_task ''a'' 1 False, demo_task ''b'' 2 True])) Kanban_view
       = Body_kanban [demo_task ''a'' 1 False, demo_task ''b'' 2 True]"
    by (simp add: list_body_def demo_defs getFilteredTasks_def status_filter_def js_trim_def)
  show ?thesis using task_list_board_hooks_stable [OF a b] a b by simp
qed

lemma board_no_error_example:
  "board_reachable (board_step B_drag_start (init_kanban, init_board_err, demo_sys [demo_task ''a'' 1 False]))
   \<and> fst (snd (board_step B_drag_start (init_kanban, init_board_err, demo_sys [demo_task ''a'' 1 False]))) = init_board_err"
proof -
  have r: "board_reachable (board_step B_drag_start (init_kanban, init_board_err, demo_sys [demo_task ''a'' 1 False]))"
    by (rule board_reachable.step [OF board_reachable.init])
  show ?thesis using board_no_error [OF r] r by simp
qed
end
