(* ===== verification/DetailKeys.thy ===== *)
theory DetailKeys
  imports Forms Keyboard
begin

text \<open>
  The keyboard of the edit panel \<open>TaskDetail\<close> (\<open>src/src/components/TaskDetail.tsx\<close>)
  and what the panel shows.  A key pressed in a field runs the field's handler
  (\<open>handleTagKeyDown\<close>, \<open>handleNoteKeyDown\<close>) and then bubbles to the dialog's
  \<open>handleKeyDown\<close>, as no handler stops propagation.  Both handlers are closures of the
  same render: they read the form of that render, and their \<open>setState\<close> calls are
  applied after the event, in the order made.  \<open>detail_keydown\<close> composes them so;
  \<open>detail_view\<close> is the panel's markup as the facts it shows.
\<close>

section \<open>Key handlers\<close>

datatype detail_field =
  Title_field | Description_field | Due_field | Tag_field | Note_add_field | Note_edit_field

datatype dialog_action = Dialog_cancel | Dialog_save

text \<open>\<open>handleKeyDown\<close> of the dialog: Escape cancels, Ctrl or Cmd with Enter saves.\<close>

definition dialog_key :: "key_event \<Rightarrow> dialog_action option" where
  "dialog_key ev =
     (if ke_key ev = ''Escape'' then Some Dialog_cancel
      else if ke_key ev = ''Enter'' \<and> (ke_ctrl ev \<or> ke_meta ev) then Some Dialog_save
      else None)"

definition handleTagKeyDown :: "key_event \<Rightarrow> detail_form \<Rightarrow> detail_form" where
  "handleTagKeyDown ev f = (if ke_key ev = ''Enter'' then handleAddTag f else f)"

datatype note_action = Note_add | Note_edit

definition handleNoteKeyDown ::
  "string \<Rightarrow> string \<Rightarrow> note_action \<Rightarrow> key_event \<Rightarrow> detail_form \<Rightarrow> detail_form" where
  "handleNoteKeyDown nid clk a ev f =
     (if ke_key ev = ''Enter'' \<and> \<not> ke_shift ev
      then (case a of Note_add \<Rightarrow> handleAddNote nid clk f | Note_edit \<Rightarrow> handleSaveNoteEdit f)
      else if ke_key ev = ''Escape'' \<and> a = Note_edit then handleCancelNoteEdit f
      else f)"

text \<open>The handler of the field that has the focus (\<open>onKeyDown\<close> of the tag input and
  of the two note text areas; the other fields have none).\<close>

definition field_key :: "string \<Rightarrow> string \<Rightarrow> detail_field \<Rightarrow> key_event \<Rightarrow> detail_form \<Rightarrow> detail_form" where
  "field_key nid clk fld ev f =
     (case fld of
        Tag_field \<Rightarrow> handleTagKeyDown ev f
      | Note_add_field \<Rightarrow> handleNoteKeyDown nid clk Note_add ev f
      | Note_edit_field \<Rightarrow> handleNoteKeyDown nid clk Note_edit ev f
      | _ \<Rightarrow> f)"

text \<open>A key press in a field of the panel: the field's handler, then the dialog's, both
  reading the render's form \<open>f\<close>.  The form after the event holds the field handler's
  updates, then the dialog's (\<open>setIsSaving\<close>).\<close>

definition detail_keydown ::
  "env \<Rightarrow> string \<Rightarrow> string \<Rightarrow> bool \<Rightarrow> detail_field \<Rightarrow> key_event \<Rightarrow> task option \<Rightarrow> detail_form \<Rightarrow> sys
   \<Rightarrow> detail_form \<times> sys \<times> form_effect list" where
  "detail_keydown e nid clk ok fld ev ct f s =
     (let f1 = field_key nid clk fld ev f in
      case dialog_key ev of
        None \<Rightarrow> (f1, s, [])
      | Some Dialog_cancel \<Rightarrow> (f1, s, handleCancel ok ct f)
      | Some Dialog_save \<Rightarrow>
          (let (f2, s2, effs) = handleSave e ct f s in (f1\<lparr>f_isSaving := f_isSaving f2\<rparr>, s2, effs)))"

section \<open>What the panel shows\<close>

record detail_view =
  dv_save_enabled :: bool
  dv_saving_label :: bool
  dv_title_count :: "nat option"
  dv_title_error :: bool
  dv_desc_count :: "nat option"
  dv_priorities :: "(priority \<times> bool) list"
  dv_clear_date :: bool
  dv_tags :: "string list"
  dv_add_tag_enabled :: bool
  dv_notes :: "(task_note \<times> bool) list"
  dv_save_note_enabled :: bool
  dv_add_note_enabled :: bool
  dv_completed_at :: "string option"

text \<open>The sections of the panel's markup, each read off its JSX: the header's save
  button (enabled for a non-blank title when not saving, its label while saving); the
  title's counter past 180 characters and its blank-title warning; the description's
  counter past 900; the priority radios; the clear-date button; the tags and the add
  button (enabled for a new, non-blank tag); the notes, the one being edited marked, and
  the two note buttons; the completion time.\<close>

definition detail_header :: "detail_form \<Rightarrow> bool \<times> bool" where
  "detail_header f = (js_trim (f_title f) \<noteq> [] \<and> \<not> f_isSaving f, f_isSaving f)"

definition title_section :: "detail_form \<Rightarrow> nat option \<times> bool" where
  "title_section f =
     (if 180 < length (f_title f) then Some (length (f_title f)) else None, js_trim (f_title f) = [])"

definition description_section :: "detail_form \<Rightarrow> nat option" where
  "description_section f = (if 900 < length (f_description f) then Some (length (f_description f)) else None)"

definition priority_section :: "detail_form \<Rightarrow> (priority \<times> bool) list" where
  "priority_section f = map (\<lambda>p. (p, f_priority f = p)) [Low, Medium, High]"

definition due_section :: "detail_form \<Rightarrow> bool" where
  "due_section f = (f_dueDate f \<noteq> [])"

definition tags_section :: "detail_form \<Rightarrow> string list \<times> bool" where
  "tags_section f = (f_tags f, js_trim (f_newTag f) \<noteq> [] \<and> js_trim (f_newTag f) \<notin> set (f_tags f))"

definition notes_section :: "detail_form \<Rightarrow> (task_note \<times> bool) list \<times> bool \<times> bool" where
  "notes_section f =
     (map (\<lambda>n. (n, f_editingNoteId f = Some (note_id n))) (f_notes f),
      js_trim (f_editingNoteContent f) \<noteq> [], js_trim (f_newNote f) \<noteq> [])"

definition info_section :: "task \<Rightarrow> string option" where
  "info_section t = (case completed_at t of None \<Rightarrow> None | Some c \<Rightarrow> if c = [] then None else Some c)"

text \<open>Nothing without \<open>isOpen\<close> and a current task; otherwise the sections.\<close>

definition detail_view :: "bool \<Rightarrow> task option \<Rightarrow> detail_form \<Rightarrow> detail_view option" where
  "detail_view isOpen ct f =
     (case ct of
        None \<Rightarrow> None
      | Some t \<Rightarrow> if \<not> isOpen then None else Some
          \<lparr>dv_save_enabled = fst (detail_header f), dv_saving_label = snd (detail_header f),
           dv_title_count = fst (title_section f), dv_title_error = snd (title_section f),
           dv_desc_count = description_section f,
           dv_priorities = priority_section f,
           dv_clear_date = due_section f,
           dv_tags = fst (tags_section f), dv_add_tag_enabled = snd (tags_section f),
           dv_notes = fst (notes_section f), dv_save_note_enabled = fst (snd (notes_section f)),
           dv_add_note_enabled = snd (snd (notes_section f)),
           dv_completed_at = info_section t\<rparr>)"

lemmas detail_sections = detail_header_def title_section_def description_section_def priority_section_def
  due_section_def tags_section_def notes_section_def info_section_def

section \<open>Lemmas\<close>

lemma handleSave_some:
  "js_trim (f_title f) \<noteq> [] \<Longrightarrow>
   handleSave e (Some t) f s = (f\<lparr>f_isSaving := False\<rparr>, updateTask e (task_id t) (save_patch f) s, [Close_panel])"
  by (simp add: handleSave_def)

lemma addNote_title [simp]: "f_title (handleAddNote nid clk f) = f_title f"
  by (simp add: handleAddNote_def Let_def)

text \<open>C11: Ctrl+Enter in the new-note box adds the note to the form, and the same event,
  bubbling to the dialog, saves the form of the render, which lacks the note; the panel
  then closes and the note is lost.  Clicking the add button, then saving, stores it.\<close>

lemma ctrl_enter_note_saves_stale:
  assumes "js_trim (f_title f) \<noteq> []" "js_trim (f_newNote f) \<noteq> []"
    and "ke_key ev = ''Enter''" "ke_ctrl ev" "\<not> ke_shift ev"
  shows "detail_keydown e nid clk ok Note_add_field ev (Some t) f s
           = ((handleAddNote nid clk f)\<lparr>f_isSaving := False\<rparr>, updateTask e (task_id t) (save_patch f) s, [Close_panel])
         \<and> p_notes (save_patch f) = Some (f_notes f)
         \<and> handleSave e (Some t) (handleAddNote nid clk f) s
           = ((handleAddNote nid clk f)\<lparr>f_isSaving := False\<rparr>,
              updateTask e (task_id t) (save_patch (handleAddNote nid clk f)) s, [Close_panel])
         \<and> p_notes (save_patch (handleAddNote nid clk f))
           = Some (f_notes f @ [\<lparr>note_id = nid, content = js_trim (f_newNote f), note_created_at = clk\<rparr>])"
  using assms
  by (simp add: detail_keydown_def field_key_def handleNoteKeyDown_def dialog_key_def handleSave_some
      save_patch_def handleAddNote_def Let_def)

lemma ctrl_enter_note_saves_stale_witness:
  "js_trim (f_title (resetForm\<lparr>f_title := ''T'', f_newNote := ''n''\<rparr>)) \<noteq> [] \<and> js_trim (f_newNote (resetForm\<lparr>f_title := ''T'', f_newNote := ''n''\<rparr>)) \<noteq> []
   \<and> ke_key ((key ''Enter'')\<lparr>ke_ctrl := True\<rparr>) = ''Enter'' \<and> ke_ctrl ((key ''Enter'')\<lparr>ke_ctrl := True\<rparr>) \<and> \<not> ke_shift ((key ''Enter'')\<lparr>ke_ctrl := True\<rparr>)
   \<and> snd (snd (detail_keydown (ok_env ''e'' ''t1'') ''n1'' ''c'' True Note_add_field ((key ''Enter'')\<lparr>ke_ctrl := True\<rparr>) (Some (demo_task ''a'' 1 False)) (resetForm\<lparr>f_title := ''T'', f_newNote := ''n''\<rparr>) (demo_sys [demo_task ''a'' 1 False])))
       = [Close_panel]
   \<and> p_notes (save_patch (resetForm\<lparr>f_title := ''T'', f_newNote := ''n''\<rparr>)) = Some []"
proof -
  have h: "js_trim (f_title (resetForm\<lparr>f_title := ''T'', f_newNote := ''n''\<rparr>)) \<noteq> []" "js_trim (f_newNote (resetForm\<lparr>f_title := ''T'', f_newNote := ''n''\<rparr>)) \<noteq> []"
    "ke_key ((key ''Enter'')\<lparr>ke_ctrl := True\<rparr>) = ''Enter''" "ke_ctrl ((key ''Enter'')\<lparr>ke_ctrl := True\<rparr>)" "\<not> ke_shift ((key ''Enter'')\<lparr>ke_ctrl := True\<rparr>)"
    by (simp_all add: resetForm_def key_def js_trim_def js_space_def)
  show ?thesis
    using ctrl_enter_note_saves_stale [OF h, of "ok_env ''e'' ''t1''" "''n1''" "''c''" True "(demo_task ''a'' 1 False)" "(demo_sys [demo_task ''a'' 1 False])"] h
    by (simp add: resetForm_def)
qed

text \<open>Escape in a note being edited cancels the edit, and bubbling to the dialog,
  closes the whole panel when the form has no other change.\<close>

lemma escape_note_edit_closes:
  "ke_key ev = ''Escape'' \<Longrightarrow> \<not> hasChanges ct f \<Longrightarrow>
   detail_keydown e nid clk ok Note_edit_field ev ct f s = (handleCancelNoteEdit f, s, [Close_panel])"
  by (simp add: detail_keydown_def field_key_def handleNoteKeyDown_def dialog_key_def handleCancel_def)

text \<open>The add buttons are enabled exactly when their handlers change the form.\<close>

lemma add_buttons_agree:
  assumes "detail_view True (Some t) f = Some v"
  shows "dv_add_tag_enabled v \<longleftrightarrow> f_tags (handleAddTag f) \<noteq> f_tags f"
    and "dv_add_note_enabled v \<longleftrightarrow> f_notes (handleAddNote nid clk f) \<noteq> f_notes f"
  using assms by (auto simp: detail_view_def detail_sections handleAddTag_def handleAddNote_def Let_def)

text \<open>While a save is in progress the save button is disabled, but Ctrl+Enter still
  calls \<open>handleSave\<close>, which does not test \<open>isSaving\<close>.\<close>

lemma ctrl_enter_while_saving:
  assumes "detail_view True (Some t) f = Some v" "f_isSaving f" "js_trim (f_title f) \<noteq> []"
    and "ke_key ev = ''Enter''" "ke_ctrl ev"
  shows "\<not> dv_save_enabled v
         \<and> detail_keydown e nid clk ok Title_field ev (Some t) f s
           = (f\<lparr>f_isSaving := False\<rparr>, updateTask e (task_id t) (save_patch f) s, [Close_panel])"
  using assms
  by (auto simp: detail_view_def detail_sections detail_keydown_def field_key_def dialog_key_def handleSave_some)

end
