(* ===== verification/SidebarView.thy ===== *)
theory SidebarView
  imports Render Backup
begin

text \<open>
  The sidebar (\<open>src/src/components/Sidebar.tsx\<close>): its filter items and quick
  filters over the statistics of \<open>getTaskStats\<close> (theory \<open>Views\<close>), and its two
  renders, collapsed and expanded, as the facts they show.  The statistics' clock is
  one reading per render; the completion rate \<open>Math.round(completed / total * 100)\<close>
  is computed exactly (\<open>js_round_div\<close>).
\<close>

section \<open>Items and handlers\<close>

text \<open>\<open>filterItems\<close>: the three status filters with their counts.\<close>

definition filter_items :: "task_stats \<Rightarrow> (task_filter \<times> nat) list" where
  "filter_items s = [(All, ts_total s), (Active, ts_pending s), (Completed, ts_completed s)]"

datatype quick_filter = Due_today | Overdue_tasks | High_priority

text \<open>\<open>quickFilters\<close>: due today, overdue and high priority, with their counts.\<close>

definition quick_filters :: "task_stats \<Rightarrow> (quick_filter \<times> nat) list" where
  "quick_filters s = [(Due_today, ts_dueToday s), (Overdue_tasks, ts_overdue s), (High_priority, ts_high s)]"

text \<open>The quick filters' \<open>onClick\<close> handlers are empty (\<open>// TODO\<close>).\<close>

definition quick_filter_click :: "quick_filter \<Rightarrow> task_store \<Rightarrow> task_store" where
  "quick_filter_click q st = st"

text \<open>A filter item's button: \<open>setFilter(item.id)\<close>.\<close>

definition sidebar_filter_click :: "task_filter \<Rightarrow> task_store \<Rightarrow> task_store" where
  "sidebar_filter_click f st = setFilter f st"

section \<open>The two renders\<close>

record sidebar_view =
  sv_collapsed :: bool
  sv_filters :: "(task_filter \<times> nat \<times> bool) list"
  sv_quick :: "(quick_filter \<times> nat) list"
  sv_tags :: "(string \<times> nat) list"
  sv_summary :: "(nat \<times> nat \<times> nat \<times> nat) option"
  sv_completed :: nat
  sv_rate :: "nat option"

text \<open>Collapsed: the filter buttons (count, highlighted when active) and the completed
  count.  Expanded: also the quick filters, the popular tags when there are any, the
  four counters and the completion rate when there is a task.\<close>

definition sidebar_collapsed :: "task_store \<Rightarrow> task_stats \<Rightarrow> sidebar_view" where
  "sidebar_collapsed st s =
     \<lparr>sv_collapsed = True, sv_filters = map (\<lambda>(f, n). (f, n, filter_state st = f)) (filter_items s),
      sv_quick = [], sv_tags = [], sv_summary = None, sv_completed = ts_completed s, sv_rate = None\<rparr>"

definition sidebar_expanded :: "task_store \<Rightarrow> task_stats \<Rightarrow> sidebar_view" where
  "sidebar_expanded st s =
     \<lparr>sv_collapsed = False, sv_filters = map (\<lambda>(f, n). (f, n, filter_state st = f)) (filter_items s),
      sv_quick = quick_filters s, sv_tags = getPopularTags (tasks st),
      sv_summary = Some (ts_completed s, ts_pending s, ts_dueToday s, ts_overdue s),
      sv_completed = ts_completed s,
      sv_rate = (if 0 < ts_total s then Some (js_round_div (100 * ts_completed s) (ts_total s)) else None)\<rparr>"

definition sidebar_render ::
  "(string \<Rightarrow> int option) \<Rightarrow> int \<Rightarrow> string \<Rightarrow> bool \<Rightarrow> task_store \<Rightarrow> sidebar_view" where
  "sidebar_render parse clk today collapsed st =
     (let s = getTaskStats parse clk today (tasks st) in
      if collapsed then sidebar_collapsed st s else sidebar_expanded st s)"

text \<open>A store of 199 completed tasks and one pending.\<close>

definition almost_done :: task_store where
  "almost_done = init_store\<lparr>tasks := replicate 199 (demo_task ''d'' 1 True) @ [demo_task ''p'' 2 False]\<rparr>"

section \<open>Lemmas\<close>

lemma task_filters_filter_items:
  "map fst (filter_items s) = task_filters"
  by (simp add: filter_items_def task_filters_def)

text \<open>The sidebar and the task list's toolbar show the same three filters with the same
  counts and highlight the same one.\<close>

lemma sidebar_agrees_with_toolbar:
  "sv_filters (sidebar_render parse clk today c st) = filter_buttons st"
  by (simp add: sidebar_render_def sidebar_collapsed_def sidebar_expanded_def filter_items_def filter_buttons_def task_filters_def
      filter_count_def getTaskCounts_def getTaskStats_def Let_def pending_count)

text \<open>A quick filter's button changes nothing: the view it promises is not shown.\<close>

lemma quick_filter_noop:
  "getFilteredTasks (quick_filter_click q st) = getFilteredTasks st"
  by (simp add: quick_filter_click_def)

lemma js_round_div_percent: "0 < q \<Longrightarrow> p \<le> q \<Longrightarrow> js_round_div (100 * p) q \<le> 100"
proof -
  assume "0 < q" "p \<le> q"
  then have "2 * (100 * p) + q < 101 * (2 * q)" by simp
  then have "(2 * (100 * p) + q) div (2 * q) < 101" by (rule less_mult_imp_div_less)
  then show ?thesis by (simp add: js_round_div_def)
qed

text \<open>The completion rate is a percentage; it is 100 when every task is completed and
  0 when none is.\<close>

lemma sidebar_rate:
  assumes "sv_rate (sidebar_render parse clk today False st) = Some r"
  shows "r \<le> 100 \<and> ((\<forall>t \<in> set (tasks st). is_completed t) \<longrightarrow> r = 100)
         \<and> ((\<forall>t \<in> set (tasks st). \<not> is_completed t) \<longrightarrow> r = 0)"
proof -
  let ?c = "length (filter is_completed (tasks st))" and ?n = "length (tasks st)"
  have r: "r = js_round_div (100 * ?c) ?n" and n: "0 < ?n"
    using assms by (auto simp: sidebar_render_def sidebar_expanded_def getTaskStats_def Let_def split: if_splits)
  have "?c \<le> ?n" by (rule length_filter_le)
  then have "r \<le> 100" using r n js_round_div_percent by simp
  moreover have "(\<forall>t \<in> set (tasks st). is_completed t) \<longrightarrow> r = 100"
  proof
    assume "\<forall>t \<in> set (tasks st). is_completed t"
    then have "?c = ?n" by (simp add: filter_id_conv)
    with r n show "r = 100" by (simp add: js_round_div_def)
  qed
  moreover have "(\<forall>t \<in> set (tasks st). \<not> is_completed t) \<longrightarrow> r = 0"
  proof
    assume "\<forall>t \<in> set (tasks st). \<not> is_completed t"
    then have "?c = 0" by (simp add: filter_empty_conv)
    with r n show "r = 0" by (simp add: js_round_div_def)
  qed
  ultimately show ?thesis by blast
qed

text \<open>The converse fails: \<open>Math.round\<close> shows 199 completed tasks of 200 as 100%.\<close>

lemma rate_rounds_up:
  "sv_rate (sidebar_render parse clk today False almost_done) = Some 100
   \<and> (\<exists>t \<in> set (tasks almost_done). \<not> is_completed t)"
  by (simp add: sidebar_render_def sidebar_expanded_def getTaskStats_def almost_done_def init_store_def demo_task_def
      js_round_div_def Let_def)

end
