(* ===== verification/PanelView.thy ===== *)
theory PanelView
  imports AutoBackupHook Keyboard I18n
begin

text \<open>
  What the settings panel (\<open>src/src/components/SettingsPanel.tsx\<close>) shows: the tab
  bar, and for the general tab the theme and view buttons, the three toggles, the
  backup details of \<open>useAutoBackup\<close> (theory \<open>AutoBackupHook\<close>) and the language select;
  for the shortcuts tab the shortcut rows; for the data tab the \<open>DataManager\<close>.  The
  panel reads the settings as the typed record \<open>app_settings\<close> (theory \<open>Settings\<close>).
  A controlled \<open><select>\<close> whose value matches no option shows its first option (React
  DOM's \<open>updateOptions\<close>): \<open>select_shown\<close>.
\<close>

section \<open>The panel's render\<close>

definition select_shown :: "'a list \<Rightarrow> 'a \<Rightarrow> 'a" where
  "select_shown opts v = (if v \<in> set opts then v else hd opts)"

text \<open>The options of the backup interval select, in hours.\<close>

definition interval_options :: "int list" where
  "interval_options = [1, 6, 12, 24, 168]"

record backup_view =
  bv_interval :: int
  bv_last :: "(string \<times> bool \<times> nat \<times> nat) option"
  bv_rate :: nat
  bv_rate_good :: bool
  bv_counts :: "nat \<times> nat"
  bv_button_enabled :: bool

text \<open>The backup details under the auto-backup toggle: the interval shown by the select,
  the last backup (time, success, task count, size in KB by \<open>Math.round\<close>), the success
  rate (green from 80), successful of total, and the manual button (disabled while a
  backup runs).\<close>

definition backup_details :: "app_settings \<Rightarrow> backup_hook \<Rightarrow> backup_view" where
  "backup_details s h =
     \<lparr>bv_interval = select_shown interval_options (backup_interval s),
      bv_last = map_option (\<lambda>r. (br_timestamp r, br_status r = Success, br_taskCount r, js_round_div (br_size r) 1024))
                  (hk_last h),
      bv_rate = st_successRate (hk_stats h), bv_rate_good = (80 \<le> st_successRate (hk_stats h)),
      bv_counts = (st_successful (hk_stats h), st_total (hk_stats h)),
      bv_button_enabled = (\<not> isBackingUp h)\<rparr>"

record general_view =
  gv_themes :: "(theme \<times> bool) list"
  gv_views :: "(view_mode \<times> bool) list"
  gv_on_top :: bool
  gv_notifications :: bool
  gv_auto_backup :: bool
  gv_backup :: "backup_view option"
  gv_language :: string

text \<open>\<open>Object.entries(settings.shortcuts)\<close>: the actions in the order of the
  settings object, each with its shortcut; the panel prints each as \<open>formatShortcut\<close>
  does.\<close>

definition shortcut_entries :: "shortcuts \<Rightarrow> (string \<times> string) list" where
  "shortcut_entries sc =
     [(''new_task'', sc_new_task sc), (''search'', sc_search sc), (''toggle_complete'', sc_toggle_complete sc),
      (''delete_task'', sc_delete_task sc), (''undo'', sc_undo sc), (''export_data'', sc_export_data sc),
      (''open_settings'', sc_open_settings sc), (''clear_selection'', sc_clear_selection sc)]"

definition shortcut_rows :: "bool \<Rightarrow> shortcuts \<Rightarrow> (string \<times> string) list" where
  "shortcut_rows mac sc = map (\<lambda>(k, v). (k, formatShortcut mac v)) (shortcut_entries sc)"

datatype panel_body = General_body general_view | Shortcuts_body "(string \<times> string) list" | Data_body

text \<open>The sections of the general tab: appearance (theme and view buttons, the current
  ones highlighted), window (the always-on-top toggle), notifications (the notification
  and auto-backup toggles) and language (the select).\<close>

definition appearance_section :: "app_settings \<Rightarrow> (theme \<times> bool) list \<times> (view_mode \<times> bool) list" where
  "appearance_section s =
     (map (\<lambda>th. (th, theme s = th)) [Light, Dark, System],
      map (\<lambda>m. (m, task_view_mode (ui_preferences s) = m)) [List_view, Grid_view, Kanban_view])"

definition window_section :: "app_settings \<Rightarrow> bool" where
  "window_section s = always_on_top (ui_preferences s)"

definition notification_toggles :: "app_settings \<Rightarrow> bool \<times> bool" where
  "notification_toggles s = (notifications_enabled s, auto_backup s)"

definition language_section :: "string \<Rightarrow> string" where
  "language_section lang = select_shown (map fst supported_languages) lang"

definition general_body :: "app_settings \<Rightarrow> backup_hook \<Rightarrow> string \<Rightarrow> general_view" where
  "general_body s h lang =
     \<lparr>gv_themes = fst (appearance_section s), gv_views = snd (appearance_section s),
      gv_on_top = window_section s,
      gv_notifications = fst (notification_toggles s),
      gv_auto_backup = snd (notification_toggles s),
      gv_backup = (if auto_backup s then Some (backup_details s h) else None),
      gv_language = language_section lang\<rparr>"

text \<open>Nothing when closed; otherwise the tabs, the active one highlighted, and the body
  of the active tab.\<close>

definition panel_render ::
  "bool \<Rightarrow> bool \<Rightarrow> panel_tab \<Rightarrow> app_settings \<Rightarrow> backup_hook \<Rightarrow> string
   \<Rightarrow> ((panel_tab \<times> bool) list \<times> panel_body) option" where
  "panel_render isOpen mac tab s h lang =
     (if \<not> isOpen then None
      else Some (map (\<lambda>x. (x, tab = x)) [General_tab, Shortcuts_tab, Data_tab],
                 (case tab of
                    General_tab \<Rightarrow> General_body (general_body s h lang)
                  | Shortcuts_tab \<Rightarrow> Shortcuts_body (shortcut_rows mac (shortcuts s))
                  | Data_tab \<Rightarrow> Data_body)))"

section \<open>Lemmas\<close>

text \<open>The interval select shows the interval the service uses only when it is one of
  its five options; any other interval, which an import accepts, is shown as one hour.\<close>

lemma interval_shown:
  "bv_interval (backup_details s h) = backup_interval s \<longleftrightarrow> backup_interval s \<in> set interval_options"
  "backup_interval s \<notin> set interval_options \<Longrightarrow> bv_interval (backup_details s h) = 1"
  by (auto simp: backup_details_def select_shown_def interval_options_def)

text \<open>Exactly one theme and one view mode are highlighted, the current ones.\<close>

lemma one_highlighted:
  "filter snd (gv_themes (general_body s h lang)) = [(theme s, True)]"
  "filter snd (gv_views (general_body s h lang)) = [(task_view_mode (ui_preferences s), True)]"
  by (cases "theme s"; simp add: general_body_def appearance_section_def)
     (cases "task_view_mode (ui_preferences s)"; simp add: general_body_def appearance_section_def)

end
