(* ===== verification/Widgets.thy ===== *)
theory Widgets
  imports Forms PanelView Utils
begin

text \<open>
  The quick-add bar's popup and markup (\<open>src/src/components/QuickAdd.tsx\<close>; its form
  handlers are in theory \<open>Forms\<close>) and the shortcut help dialog
  (\<open>src/src/components/ShortcutHelper.tsx\<close>).  The popup's geometry is in CSS pixels,
  taken as integers: the input's bounding box and the window size are inputs.
\<close>

section \<open>Quick add: the priority selector\<close>

text \<open>The priority button toggles the selector; while it is open a \<open>mousedown\<close>
  outside the selector and the button closes it.\<close>

definition quick_toggle_selector :: "quick_form \<Rightarrow> quick_form" where
  "quick_toggle_selector q = q\<lparr>q_showPrioritySelector := \<not> q_showPrioritySelector q\<rparr>"

definition quick_mousedown :: "bool \<Rightarrow> quick_form \<Rightarrow> quick_form" where
  "quick_mousedown inside q =
     (if q_showPrioritySelector q \<and> \<not> inside then q\<lparr>q_showPrioritySelector := False\<rparr> else q)"

text \<open>\<open>getPopupPosition\<close>: below the input, 8 pixels apart; moved left to fit a popup
  240 wide; above the input when a popup 200 high does not fit below, but not above the
  top margin.  Without the input, the origin.\<close>

definition getPopupPosition :: "(int \<times> int \<times> int) option \<Rightarrow> int \<Rightarrow> int \<Rightarrow> int \<times> int" where
  "getPopupPosition rect w h =
     (case rect of
        None \<Rightarrow> (0, 0)
      | Some (rtop, rbottom, rleft) \<Rightarrow>
          (let top = rbottom + 8;
               left = (if rleft + 240 > w then w - 240 - 8 else rleft);
               top' = (if top + 200 > h then (if rtop - 200 - 8 < 8 then 8 else rtop - 200 - 8) else top)
           in (top', left)))"

record quick_view =
  qv_dot :: string
  qv_selector_ring :: bool
  qv_pulse :: bool
  qv_input_enabled :: bool
  qv_submit_enabled :: bool
  qv_busy :: bool
  qv_options :: "(priority \<times> bool) list option"
  qv_counter :: "(nat \<times> bool) option"

text \<open>The bar: the priority button (its colour, a ring while the selector is open, a
  pulse for high priority), the input (disabled while loading), the submit button
  (enabled for a non-blank title when not loading, a spinner while loading), the
  selector's options with the current one marked, the counter past 180 characters (red
  from 200).\<close>

definition quick_render :: "bool \<Rightarrow> quick_form \<Rightarrow> quick_view" where
  "quick_render loading q =
     \<lparr>qv_dot = pc_dot (getPriorityColor (q_priority q)), qv_selector_ring = q_showPrioritySelector q,
      qv_pulse = (q_priority q = High), qv_input_enabled = (\<not> loading),
      qv_submit_enabled = (js_trim (q_title q) \<noteq> [] \<and> \<not> loading), qv_busy = loading,
      qv_options = (if q_showPrioritySelector q then Some (map (\<lambda>p. (p, q_priority q = p)) [Low, Medium, High]) else None),
      qv_counter = (if 180 < length (q_title q) then Some (length (q_title q), 200 \<le> length (q_title q)) else None)\<rparr>"

section \<open>The shortcut help\<close>

text \<open>The actions the help lists, in its order.\<close>

definition helper_actions :: "string list" where
  "helper_actions = [''new_task'', ''search'', ''toggle_complete'', ''delete_task'', ''open_settings'', ''clear_selection'']"

definition helper_rows :: "bool \<Rightarrow> shortcuts \<Rightarrow> (string \<times> string) list" where
  "helper_rows mac sc =
     map (\<lambda>a. (a, case map_of (shortcut_entries sc) a of None \<Rightarrow> [] | Some v \<Rightarrow> formatShortcut mac v)) helper_actions"

text \<open>The dialog's state \<open>isOpen\<close>: the keyboard button opens it; Escape (listened to
  while open), the close button and a click on the backdrop itself close it.\<close>

datatype helper_event = Helper_open | Helper_key string | Helper_close | Helper_backdrop bool

fun helper_step :: "helper_event \<Rightarrow> bool \<Rightarrow> bool" where
  "helper_step Helper_open b = True"
| "helper_step (Helper_key k) b = (if k = ''Escape'' \<and> b then False else b)"
| "helper_step Helper_close b = False"
| "helper_step (Helper_backdrop on_backdrop) b = (if on_backdrop then False else b)"

section \<open>Lemmas\<close>

text \<open>The popup's right edge stays in the window; when the input is on screen and the
  window is at least 208 pixels high, the popup lies between the top margin and the
  bottom of the window.\<close>

lemma popup_right_edge:
  "getPopupPosition (Some (rt, rb, rl)) w h = (pt, pl) \<Longrightarrow> pl + 240 \<le> w"
  by (auto simp: getPopupPosition_def Let_def split: if_splits)

lemma popup_vertical:
  assumes "getPopupPosition (Some (rt, rb, rl)) w h = (pt, pl)"
    and "0 \<le> rb" "rt \<le> h" "208 \<le> h"
  shows "8 \<le> pt \<and> pt + 200 \<le> h"
  using assms by (auto simp: getPopupPosition_def Let_def split: if_splits)

text \<open>The submit button is enabled exactly when submitting adds a task.\<close>

lemma submit_enabled_iff:
  "qv_submit_enabled (quick_render False q) \<longleftrightarrow> snd (snd (handleSubmit e q s)) \<noteq> []"
  by (simp add: quick_render_def handleSubmit_def Let_def)

text \<open>The help lists six of the eight shortcuts: undo and export are missing.\<close>

lemma helper_omits:
  "set (map fst (shortcut_entries sc)) - set (map fst (helper_rows mac sc)) = {''undo'', ''export_data''}"
  by (auto simp: shortcut_entries_def helper_rows_def helper_actions_def)

end
