(* ===== verification/AppShell.thy ===== *)
theory AppShell
  imports Keyboard Electron
begin

text \<open>
  The shell of \<open>App\<close> (\<open>src/src/App.tsx\<close>) around the handlers of theory \<open>Keyboard\<close>:
  the theme button, the start-up effect and its dependencies, the dark class of the
  document, the system-theme listener and the window controls of the title bar.  The
  start-up effect lists \<open>settings.theme\<close> and \<open>always_on_top\<close> among its dependencies,
  so React runs it again after every render in which either changed (\<open>app_commit\<close>).
\<close>

section \<open>Theme\<close>

text \<open>\<open>themes.indexOf(settings.theme)\<close>: the position of the stored theme, \<open>-1\<close> for
  anything else.\<close>

definition theme_index :: "json option \<Rightarrow> int" where
  "theme_index j =
     (if j = Some (JStr ''light'') then 0 else if j = Some (JStr ''dark'') then 1
      else if j = Some (JStr ''system'') then 2 else -1)"

definition next_theme :: "json option \<Rightarrow> theme" where
  "next_theme j = [Light, Dark, System] ! nat ((theme_index j + 1) mod 3)"

definition handleThemeToggle :: "bool \<Rightarrow> settings_store \<Rightarrow> settings_store \<times> ipc list" where
  "handleThemeToggle api st = setTheme api (next_theme (map_of (settings st) ''theme'')) st"

text \<open>\<open>classList.toggle('dark', getActiveTheme(settings.theme) === 'dark')\<close>: the stored
  theme, or for \<open>system\<close> the system's preference.\<close>

definition dark_class :: "bool \<Rightarrow> json option \<Rightarrow> bool" where
  "dark_class system_dark j = (j = Some (JStr ''dark'') \<or> (j = Some (JStr ''system'') \<and> system_dark))"

text \<open>The listener on \<open>prefers-color-scheme\<close>, registered while the theme is
  \<open>system\<close>: a change sets the class to the new preference.\<close>

definition media_change :: "bool \<Rightarrow> json option \<Rightarrow> bool \<Rightarrow> bool" where
  "media_change matches j cls = (if j = Some (JStr ''system'') then matches else cls)"

section \<open>The start-up effect\<close>

text \<open>The values of the effect's dependencies that change (\<open>loadTasks\<close> and
  \<open>setAlwaysOnTop\<close> are the stores' stable functions).\<close>

definition init_deps :: "settings_store \<Rightarrow> json option \<times> json option option" where
  "init_deps st =
     (map_of (settings st) ''theme'', member (map_of (settings st) ''ui_preferences'') ''always_on_top'')"

text \<open>The effect's work on the application state: \<open>loadTasks()\<close>; the class of the
  document is \<open>dark_class\<close>, the Electron synchronisation is \<open>app_sync_effect\<close>.\<close>

definition app_init_effect :: "env \<Rightarrow> app_state \<Rightarrow> app_state" where
  "app_init_effect e a = a\<lparr>a_sys := loadTasks e (a_sys a)\<rparr>"

text \<open>The commit of a render after an event took the state from \<open>a\<close> to \<open>a'\<close>: the
  effect runs again when its dependencies changed.\<close>

definition app_commit :: "env \<Rightarrow> app_state \<Rightarrow> app_state \<Rightarrow> app_state" where
  "app_commit e a a' = (if init_deps (a_settings a') \<noteq> init_deps (a_settings a) then app_init_effect e a' else a')"

definition app_theme_click :: "env \<Rightarrow> bool \<Rightarrow> app_state \<Rightarrow> app_state" where
  "app_theme_click e api a = app_commit e a (a\<lparr>a_settings := fst (handleThemeToggle api (a_settings a))\<rparr>)"

section \<open>Title bar\<close>

text \<open>The window controls, in the order shown: macOS style (close, minimise, maximise)
  on a Mac, otherwise minimise, maximise, close; each calls the preload bridge.\<close>

definition window_controls :: "bool \<Rightarrow> ipc_request list" where
  "window_controls isMac =
     (if isMac then [Close_window, Minimize_window, Maximize_window]
      else [Minimize_window, Maximize_window, Close_window])"

section \<open>Lemmas\<close>

text \<open>The theme button cycles light, dark, system; any other stored theme goes to light.\<close>

lemma next_theme_cycle:
  "next_theme (Some (JStr ''light'')) = Dark" "next_theme (Some (JStr ''dark'')) = System"
  "next_theme (Some (JStr ''system'')) = Light"
  "j \<notin> {Some (JStr ''light''), Some (JStr ''dark''), Some (JStr ''system'')} \<Longrightarrow> next_theme j = Light"
  by (auto simp: next_theme_def theme_index_def)

lemma theme_of_setTheme:
  "map_of (settings (fst (setTheme api th st))) ''theme'' = Some (theme_json th)"
  by (simp add: setTheme_def updateSettings_def obj_lit_def)

text \<open>Clicking the theme button changes the stored theme, so the start-up effect runs
  again and reloads the tasks from the table.\<close>

lemma theme_click_reloads:
  "map_of (settings (a_settings a)) ''theme'' = Some (theme_json th) \<Longrightarrow>
   app_theme_click e api a
   = app_init_effect e (a\<lparr>a_settings := fst (handleThemeToggle api (a_settings a))\<rparr>)"
  by (cases th) (auto simp: app_theme_click_def app_commit_def init_deps_def handleThemeToggle_def
      theme_of_setTheme next_theme_def theme_index_def)

end
