(* ===== verification/AppView.thy ===== *)
theory AppView
  imports AppShell I18nKeys
begin

text \<open>
  The rest of \<open>App\<close> (\<open>src/src/App.tsx\<close>): the effect that asks for the notification
  permission, the handlers that open and close the edit panel, the theme icon, and the
  markup of the header and of the main area as the facts it shows.  The header's texts
  come from \<open>t\<close> of the \<open>useI18n\<close> hook (theory \<open>I18n\<close>), so they follow the
  language of the settings store, which \<open>importSettings\<close> does not check.
\<close>

section \<open>The notification permission effect\<close>

definition notif_on_title :: string where
  "notif_on_title = utf8 [233, 128, 154, 231, 159, 165, 229, 183, 178, 229, 144, 175, 231, 148, 168]"

definition notif_on_message :: string where
  "notif_on_message = utf8 [230, 130, 168, 229, 176, 134, 230, 148, 182, 229, 136, 176, 228, 187, 187, 229, 138, 161, 231, 155,
     184, 229, 133, 179, 231, 154, 132, 230, 161, 140, 233, 157, 162, 233, 128, 154, 231, 159, 165]"

definition notif_denied_title :: string where
  "notif_denied_title = utf8 [233, 128, 154, 231, 159, 165, 230, 157, 131, 233, 153, 144, 232, 162, 171, 230, 139, 146, 231, 187,
     157, 239, 188, 140, 232, 175, 183, 229, 156, 168, 230, 181, 143, 232, 167, 136, 229, 153, 168, 232, 174, 190, 231, 189, 174,
     228, 184, 173, 230, 137, 139, 229, 138, 168, 229, 188, 128, 229, 144, 175]"

text \<open>Run when \<open>notificationsEnabled\<close> changes (its other dependencies are stable
  callbacks): with notifications enabled and the browser's permission still
  \<open>default\<close>, it asks for it (\<open>ans\<close>: the user's answer) and shows a success toast
  when granted, an error toast when denied.  \<open>browser\<close> is \<open>Notification.permission\<close>.\<close>

definition permission_effect ::
  "string \<Rightarrow> permission option \<Rightarrow> permission \<Rightarrow> bool \<Rightarrow> notification_service \<times> toast list
   \<Rightarrow> notification_service \<times> toast list" where
  "permission_effect fresh ans browser enabled svt =
     (let (sv, ts) = svt in
      if enabled \<and> browser = Perm_default
      then (let (p, sv') = requestPermission ans sv in
            if p = Perm_granted then (sv', snd (addToast fresh Toast_success notif_on_title (Some notif_on_message) None ts))
            else if p = Perm_denied then (sv', snd (addToast fresh Toast_error notif_denied_title None None ts))
            else (sv', ts))
      else (sv, ts))"

section \<open>Handlers and the theme icon\<close>

definition handleTaskEdit :: "string \<Rightarrow> string option \<Rightarrow> string option" where
  "handleTaskEdit tid e = Some tid"

definition handleCloseTaskEdit :: "string option \<Rightarrow> string option" where
  "handleCloseTaskEdit e = None"

datatype theme_icon = Sun_icon | Moon_icon | Monitor_icon

definition getThemeIcon :: "json option \<Rightarrow> theme_icon" where
  "getThemeIcon j =
     (if j = Some (JStr ''light'') then Sun_icon else if j = Some (JStr ''dark'') then Moon_icon else Monitor_icon)"

section \<open>The markup\<close>

record header_view =
  hv_title :: string
  hv_version :: string
  hv_settings_active :: bool
  hv_theme_icon :: theme_icon

text \<open>The header: the name and version from \<open>t\<close>, the settings button highlighted while
  the panel is open, the theme button's icon.\<close>

definition app_header :: "i18n_service \<Rightarrow> settings_store \<Rightarrow> header_view" where
  "app_header sv ss =
     \<lparr>hv_title = i18n_t (currentLanguage sv) ''app.name'', hv_version = i18n_t (currentLanguage sv) ''app.version'',
      hv_settings_active = showSettingsPanel ss, hv_theme_icon = getThemeIcon (map_of (settings ss) ''theme'')\<rparr>"

record app_view =
  av_header :: header_view
  av_error :: "store_error option"
  av_detail :: "string option \<times> bool"
  av_settings_open :: bool
  av_toasts :: "toast list"

text \<open>The whole screen: the header, the store's error above the task list, the edit
  panel (its task and \<open>isOpen = !!editingTaskId\<close>), the settings panel and the
  toasts.\<close>

definition app_render :: "i18n_service \<Rightarrow> settings_store \<Rightarrow> task_store \<Rightarrow> string option \<Rightarrow> toast list \<Rightarrow> app_view" where
  "app_render sv ss st editing ts =
     \<lparr>av_header = app_header sv ss, av_error = error st, av_detail = (editing, editing \<noteq> None),
      av_settings_open = showSettingsPanel ss, av_toasts = ts\<rparr>"

text \<open>The settings of an imported file whose language is not supported.\<close>

definition french :: json where
  "french = JObj [(''language'', JStr ''fr-FR'')]"

section \<open>Lemmas\<close>

text \<open>A toast reports the outcome of the request truly: a success toast only when the
  service now holds the permission, an error toast only when it was denied.\<close>

lemma permission_toasts:
  assumes "permission_effect fresh ans browser enabled (sv, ts) = (sv', ts')"
  shows "ts' = ts \<or> (nperm sv' = Perm_granted \<and> map toast_type (drop (length ts) ts') = [Toast_success])
         \<or> (map toast_type (drop (length ts) ts') = [Toast_error])"
  using assms
  by (auto simp: permission_effect_def requestPermission_def addToast_def Let_def split: if_splits option.splits)

text \<open>The header's texts are the table's for a supported language; after importing
  settings whose language is not supported, which \<open>importSettings\<close> accepts, the header
  shows the raw keys.\<close>

lemma header_supported:
  "l \<in> {''zh-CN'', ''en-US''} \<Longrightarrow>
   lookup_path (translations_of (Some (JStr l))) [''app'', ''name''] = Some (JStr (hv_title (app_header \<lparr>currentLanguage = Some (JStr l)\<rparr> ss)))"
  using t_declared [of l "[''app'', ''name'']"]
  by (simp add: app_header_def interface_paths_def translation_keys_def tk_app_def)

lemma header_after_unsupported_language:
  "currentLanguage (h_service h) = h_lang h \<Longrightarrow>
   hv_title (app_header (h_service (hook_sync (h\<lparr>h_settings := snd (importSettings (Some french) (h_settings h))\<rparr>)))
     (snd (importSettings (Some french) (h_settings h)))) = ''app.name''"
proof -
  have "map_of (settings (snd (importSettings (Some french) ss))) ''language'' = Some (JStr ''fr-FR'')" for ss
    by (simp add: importSettings_def french_def import_merge_def obj_lit_def spread_def settings_obj_def defaultSettings_def)
  moreover have "i18n_t (Some (JStr ''fr-FR'')) ''app.name'' = ''app.name''"
    by (simp add: t_unsupported)
  ultimately show "currentLanguage (h_service h) = h_lang h \<Longrightarrow> ?thesis"
    by (cases "h_lang h = Some (JStr ''fr-FR'')") (simp_all add: app_header_def hook_sync_def Let_def)
qed

text \<open>An ill-typed theme, which an import accepts, shows the system icon, yet the
  document is light whatever the system's preference.\<close>

lemma icon_ill_typed_theme:
  "getThemeIcon (Some (JNum 42)) = Monitor_icon \<and> \<not> dark_class system_dark (Some (JNum 42))"
  by (simp add: getThemeIcon_def dark_class_def)

end
