(* ===== verification/TaskListView.thy ===== *)
theory TaskListView
  imports Render AppShell
begin

text \<open>
  The rest of \<open>TaskList\<close> (\<open>src/src/components/TaskList.tsx\<close>): its mount effect,
  the filter handler and the view-mode table, and the application's start-up, where
  both \<open>TaskList\<close> and \<open>App\<close> call \<open>loadTasks\<close> in their mount effects.  React
  runs a child's effects before its parent's, so \<open>TaskList\<close>'s load comes first.
\<close>

section \<open>Definitions\<close>

text \<open>\<open>useEffect(() => { loadTasks(); }, [loadTasks])\<close>: once, on mount.\<close>

definition tasklist_mount_effect :: "env \<Rightarrow> sys \<Rightarrow> sys" where
  "tasklist_mount_effect e s = loadTasks e s"

definition handleFilterChange :: "task_filter \<Rightarrow> task_store \<Rightarrow> task_store" where
  "handleFilterChange f st = setFilter f st"

datatype view_icon = List_icon | Grid_icon | Columns_icon

text \<open>\<open>getViewModeIcon\<close> (defined, but not used by the render) and \<open>viewModes\<close>, the
  modes of the toolbar's buttons, in order.\<close>

primrec getViewModeIcon :: "view_mode \<Rightarrow> view_icon" where
  "getViewModeIcon List_view = List_icon"
| "getViewModeIcon Grid_view = Grid_icon"
| "getViewModeIcon Kanban_view = Columns_icon"

definition viewModes :: "(view_mode \<times> view_icon) list" where
  "viewModes = [(List_view, List_icon), (Grid_view, Grid_icon), (Kanban_view, Columns_icon)]"

text \<open>The first commit of the application: \<open>TaskList\<close>'s mount effect, then \<open>App\<close>'s
  start-up effect, in the same environment (no write in between).\<close>

definition app_startup :: "env \<Rightarrow> app_state \<Rightarrow> app_state" where
  "app_startup e a = app_init_effect e (a\<lparr>a_sys := tasklist_mount_effect e (a_sys a)\<rparr>)"

section \<open>Lemmas\<close>

text \<open>\<open>loadTasks\<close> is idempotent: a second load from the same table, in the same
  environment, changes nothing.\<close>

lemma loadTasks_idem: "loadTasks e (loadTasks e s) = loadTasks e s"
  by (simp add: loadTasks_def start_op_def fail_op_def Let_def)

text \<open>So the two loads at start-up amount to one.\<close>

lemma startup_loads_once: "app_startup e a = a\<lparr>a_sys := loadTasks e (a_sys a)\<rparr>"
  by (simp add: app_startup_def app_init_effect_def tasklist_mount_effect_def loadTasks_idem)

end
