(* ===== verification/JsonText.thy ===== *)
theory JsonText
  imports Json
begin

text \<open>
  The text level of JSON, which the application crosses wherever it calls
  \<open>JSON.stringify\<close> and \<open>JSON.parse\<close>: \<open>deepClone\<close> of \<open>src/src/utils/index.ts\<close>,
  the settings import of the data manager (\<open>importSettings(JSON.stringify(data.settings))\<close>),
  the change test of the edit panel (\<open>JSON.stringify(tags) !== JSON.stringify(...)\<close>),
  and the files the exports and backups write.  Both functions are the language's
  (ECMA-262, \<open>SerializeJSONProperty\<close>, \<open>QuoteJSONString\<close> and \<open>JSON.parse\<close> on the
  grammar of ECMA-404), transcribed for the values of theory \<open>Json\<close>:
  \<^item> a string is its UTF-8 bytes, as everywhere in the development: \<open>QuoteJSONString\<close>
    escapes the quote, the backslash and the control characters, and copies the other
    bytes; \<open>JSON.parse\<close> decodes a \<open>\u\<close> escape into the UTF-8 bytes of its code
    point, a surrogate pair into the four bytes of its supplementary code point;
  \<^item> a number is an integer of magnitude at most \<open>2^53\<close>, where JavaScript numbers are
    exact and \<open>Number::toString\<close> is the decimal form;
  \<^item> \<open>JSON.parse\<close> builds an object by creating its members in order, a repeated key
    keeping its first position and its last value (\<open>spread\<close>).
  \<open>JSON.parse\<close> is \<open>JSON_parse\<close>: \<open>Inl Syntax_error\<close> when it throws, \<open>Inl
  Unrepresentable\<close> for a text that is well formed but denotes a value the model has no
  form for (a fraction, a number beyond \<open>2^53\<close>, a lone surrogate).  The parser is a
  \<open>partial_function (option)\<close>; that it always returns is a theorem (\<open>JSON_parse_total\<close>).
\<close>

section \<open>\<open>JSON.stringify\<close>\<close>

definition bs :: char where "bs = CHR 0x5C"

definition nl :: char where "nl = CHR 0x0A"

definition json_hex_digit :: "nat \<Rightarrow> char" where
  "json_hex_digit n = (if n < 10 then char_of (48 + n) else char_of (87 + n))"

text \<open>\<open>QuoteJSONString\<close>, one code unit at a time.\<close>

definition json_escape_char :: "char \<Rightarrow> string" where
  "json_escape_char c =
     (if c = dq then [bs, dq] else if c = bs then [bs, bs]
      else if c = CHR 0x08 then [bs, CHR ''b''] else if c = CHR 0x0C then [bs, CHR ''f'']
      else if c = CHR 0x0A then [bs, CHR ''n''] else if c = CHR 0x0D then [bs, CHR ''r'']
      else if c = CHR 0x09 then [bs, CHR ''t'']
      else if of_char c < (32::nat)
      then [bs, CHR ''u'', CHR ''0'', CHR ''0'', json_hex_digit (of_char c div 16), json_hex_digit (of_char c mod 16)]
      else [c])"

definition QuoteJSONString :: "string \<Rightarrow> string" where
  "QuoteJSONString s = dq # concat (map json_escape_char s) @ [dq]"

definition int_str :: "int \<Rightarrow> string" where
  "int_str i = (if i < 0 then CHR ''-'' # nat_str (nat (- i)) else nat_str (nat i))"

text \<open>\<open>SerializeJSONProperty\<close> with the indentation \<open>gap\<close> (\<open>JSON.stringify(v, null, 2)\<close>
  has \<open>gap = ''  ''\<close>, \<open>JSON.stringify(v)\<close> the empty one) at the current indentation
  \<open>ind\<close>: empty containers print as \<open>[]\<close> and \<open>{}\<close>; otherwise with a gap every
  element or member is on its own line, one gap deeper, and a member's colon is
  followed by a space.\<close>

fun json_stringify :: "string \<Rightarrow> string \<Rightarrow> json \<Rightarrow> string" where
  "json_stringify gap ind JNull = ''null''"
| "json_stringify gap ind (JBool b) = (if b then ''true'' else ''false'')"
| "json_stringify gap ind (JNum i) = int_str i"
| "json_stringify gap ind (JStr s) = QuoteJSONString s"
| "json_stringify gap ind (JArr xs) =
     (if xs = [] then ''[]''
      else CHR ''['' # (if gap = [] then [] else nl # ind @ gap)
        @ js_join (CHR '','' # (if gap = [] then [] else nl # ind @ gap)) (map (json_stringify gap (ind @ gap)) xs)
        @ (if gap = [] then [] else nl # ind) @ '']'')"
| "json_stringify gap ind (JObj kvs) =
     (if kvs = [] then ''{}''
      else CHR ''{'' # (if gap = [] then [] else nl # ind @ gap)
        @ js_join (CHR '','' # (if gap = [] then [] else nl # ind @ gap))
            (map (\<lambda>kv. QuoteJSONString (fst kv) @ CHR '':'' # (if gap = [] then [] else '' '')
                        @ json_stringify gap (ind @ gap) (snd kv)) kvs)
        @ (if gap = [] then [] else nl # ind) @ ''}'')"

definition JSON_stringify :: "string \<Rightarrow> json \<Rightarrow> string" where
  "JSON_stringify gap v = json_stringify gap [] v"

text \<open>The values the round trip is about: numbers within \<open>2^53\<close> and objects whose keys
  are distinct at every level (what object spread and object literals build).\<close>

fun wf_json :: "json \<Rightarrow> bool" where
  "wf_json (JNum i) = (\<bar>i\<bar> \<le> 2 ^ 53)"
| "wf_json (JArr xs) = list_all id (map wf_json xs)"
| "wf_json (JObj kvs) = (distinct (map fst kvs) \<and> list_all id (map (\<lambda>kv. wf_json (snd kv)) kvs))"
| "wf_json JNull = True"
| "wf_json (JBool b) = True"
| "wf_json (JStr s) = True"

section \<open>\<open>JSON.parse\<close>\<close>

datatype jerr = Syntax_error | Unrepresentable

definition is_ws :: "char \<Rightarrow> bool" where
  "is_ws c \<longleftrightarrow> c = CHR '' '' \<or> c = CHR 0x09 \<or> c = CHR 0x0A \<or> c = CHR 0x0D"

definition skip_ws :: "string \<Rightarrow> string" where
  "skip_ws s = dropWhile is_ws s"

definition json_hex_val :: "char \<Rightarrow> nat option" where
  "json_hex_val c =
     (let n = of_char c in
      if 48 \<le> n \<and> n \<le> 57 then Some (n - 48)
      else if 97 \<le> n \<and> n \<le> 102 then Some (n - 87)
      else if 65 \<le> n \<and> n \<le> 70 then Some (n - 55) else None)"

definition hex4 :: "char \<Rightarrow> char \<Rightarrow> char \<Rightarrow> char \<Rightarrow> nat option" where
  "hex4 a b c d =
     (case (json_hex_val a, json_hex_val b, json_hex_val c, json_hex_val d) of
        (Some w, Some x, Some y, Some z) \<Rightarrow> Some (((w * 16 + x) * 16 + y) * 16 + z)
      | _ \<Rightarrow> None)"

text \<open>The UTF-8 bytes of a code point.\<close>

definition utf8_encode :: "nat \<Rightarrow> string" where
  "utf8_encode cp =
     (if cp < 0x80 then [char_of cp]
      else if cp < 0x800 then [char_of (0xC0 + cp div 64), char_of (0x80 + cp mod 64)]
      else if cp < 0x10000 then [char_of (0xE0 + cp div 4096), char_of (0x80 + cp div 64 mod 64), char_of (0x80 + cp mod 64)]
      else [char_of (0xF0 + cp div 262144), char_of (0x80 + cp div 4096 mod 64), char_of (0x80 + cp div 64 mod 64),
            char_of (0x80 + cp mod 64)])"

text \<open>The one-character escapes and what they stand for.\<close>

definition unescape :: "char \<Rightarrow> char option" where
  "unescape e =
     (if e = dq then Some dq else if e = bs then Some bs else if e = CHR ''/'' then Some (CHR ''/'')
      else if e = CHR ''b'' then Some (CHR 0x08) else if e = CHR ''f'' then Some (CHR 0x0C)
      else if e = CHR ''n'' then Some (CHR 0x0A) else if e = CHR ''r'' then Some (CHR 0x0D)
      else if e = CHR ''t'' then Some (CHR 0x09) else None)"

text \<open>A \<open>\u\<close> escape after its \<open>\u\<close>: the UTF-8 bytes of its code point, whether
  it is representable, and the rest.  A high surrogate followed by an escaped low
  surrogate is one supplementary code point; a lone surrogate, which UTF-8 cannot
  encode, is unrepresentable and the text goes on after it.\<close>

definition uescape :: "string \<Rightarrow> (string \<times> bool \<times> string) option" where
  "uescape s =
     (case s of
        h1 # h2 # h3 # h4 # r \<Rightarrow>
          (case hex4 h1 h2 h3 h4 of
             None \<Rightarrow> None
           | Some n \<Rightarrow>
               if n < 0xD800 \<or> 0xE000 \<le> n then Some (utf8_encode n, True, r)
               else if n < 0xDC00 then
                 (case r of
                    b # u # l1 # l2 # l3 # l4 # r3 \<Rightarrow>
                      (case hex4 l1 l2 l3 l4 of
                         Some m \<Rightarrow>
                           if b = bs \<and> u = CHR ''u'' \<and> 0xDC00 \<le> m \<and> m < 0xE000
                           then Some (utf8_encode (0x10000 + (n - 0xD800) * 1024 + (m - 0xDC00)), True, r3)
                           else Some ([], False, r)
                       | None \<Rightarrow> Some ([], False, r))
                  | _ \<Rightarrow> Some ([], False, r))
               else Some ([], False, r))
      | _ \<Rightarrow> None)"

text \<open>The body of a string literal after its opening quote: the bytes read so far
  (reversed), whether all of them are representable, and the rest after the closing
  quote.  A raw control character is a syntax error.\<close>

function lex_str :: "bool \<Rightarrow> string \<Rightarrow> string \<Rightarrow> jerr + string \<times> bool \<times> string" where
  "lex_str ok acc [] = Inl Syntax_error"
| "lex_str ok acc (c # r) =
     (if c = dq then Inr (rev acc, ok, r)
      else if c = bs then
        (case r of
           [] \<Rightarrow> Inl Syntax_error
         | e # r' \<Rightarrow>
             (case unescape e of
                Some u \<Rightarrow> lex_str ok (u # acc) r'
              | None \<Rightarrow>
                  if e \<noteq> CHR ''u'' then Inl Syntax_error
                  else (case uescape r' of
                          None \<Rightarrow> Inl Syntax_error
                        | Some (b, ok2, r'') \<Rightarrow> lex_str (ok \<and> ok2) (rev b @ acc) r'')))
      else if of_char c < (32::nat) then Inl Syntax_error
      else lex_str ok (c # acc) r)"
  by pat_completeness auto
termination
  by (relation "measure (\<lambda>(ok, acc, s). length s)")
     (auto simp: uescape_def split: list.splits option.splits if_splits)

text \<open>A number literal: \<open>-\<close>? (\<open>0\<close> | a digit run without leading zero), an optional
  fraction and an optional exponent.  Its value, when an integer of magnitude at most
  \<open>2^53\<close>, else \<open>None\<close>.\<close>

definition frac_part :: "string \<Rightarrow> (string \<times> string) option" where
  "frac_part s =
     (if s \<noteq> [] \<and> hd s = CHR ''.''
      then (let f = takeWhile is_digit (tl s) in if f = [] then None else Some (f, dropWhile is_digit (tl s)))
      else Some ([], s))"

definition exp_part :: "string \<Rightarrow> (int \<times> string) option" where
  "exp_part s =
     (if s \<noteq> [] \<and> (hd s = CHR ''e'' \<or> hd s = CHR ''E'')
      then (let (neg, r) = (if tl s \<noteq> [] \<and> (hd (tl s) = CHR ''+'' \<or> hd (tl s) = CHR ''-'')
                            then (hd (tl s) = CHR ''-'', tl (tl s)) else (False, tl s));
                d = takeWhile is_digit r
            in if d = [] then None
               else Some (if neg then - int (digits_val d) else int (digits_val d), dropWhile is_digit r))
      else Some (0, s))"

definition number_value :: "bool \<Rightarrow> nat \<Rightarrow> int \<Rightarrow> int option" where
  "number_value neg m k =
     (let v = (if 0 \<le> k then Some (int m * 10 ^ nat k)
               else if m mod 10 ^ nat (- k) = 0 then Some (int (m div 10 ^ nat (- k))) else None)
      in case v of
           None \<Rightarrow> None
         | Some a \<Rightarrow> if a \<le> 2 ^ 53 then Some (if neg then - a else a) else None)"

definition lex_number :: "string \<Rightarrow> jerr + int option \<times> string" where
  "lex_number s =
     (let (neg, s1) = (if s \<noteq> [] \<and> hd s = CHR ''-'' then (True, tl s) else (False, s));
          ip = takeWhile is_digit s1
      in if ip = [] \<or> (hd ip = CHR ''0'' \<and> tl ip \<noteq> []) then Inl Syntax_error
         else (case frac_part (dropWhile is_digit s1) of
                 None \<Rightarrow> Inl Syntax_error
               | Some (fp, s3) \<Rightarrow>
                   (case exp_part s3 of
                      None \<Rightarrow> Inl Syntax_error
                    | Some (e, s4) \<Rightarrow> Inr (number_value neg (digits_val (ip @ fp)) (e - int (length fp)), s4))))"

text \<open>The parser's three modes (a value; the elements of an array after its
  \<open>[\<close>; the members of an object after its \<open>{\<close>) and their results.  Each result
  carries whether everything read is representable; an unrepresentable string or
  number stands as \<open>JNull\<close> until the end decides.\<close>

datatype pmode = P_value | P_elems | P_members

datatype pres = PV json | PL "json list" | PM jobj

definition literal :: "string \<Rightarrow> json \<Rightarrow> string \<Rightarrow> (jerr + pres \<times> bool \<times> string) option" where
  "literal w v s = Some (if take (length w) s = w then Inr (PV v, True, drop (length w) s) else Inl Syntax_error)"

partial_function (option) jparse :: "pmode \<Rightarrow> string \<Rightarrow> (jerr + pres \<times> bool \<times> string) option" where
  "jparse m s =
     (case m of
        P_value \<Rightarrow>
          (case skip_ws s of
             [] \<Rightarrow> Some (Inl Syntax_error)
           | c # r \<Rightarrow>
               if c = CHR ''['' then
                 (if skip_ws r \<noteq> [] \<and> hd (skip_ws r) = CHR '']'' then Some (Inr (PV (JArr []), True, tl (skip_ws r)))
                  else Option.bind (jparse P_elems r) (\<lambda>res. Some (case res of
                          Inr (PL xs, ok, r') \<Rightarrow> Inr (PV (JArr xs), ok, r') | Inr _ \<Rightarrow> Inl Syntax_error | Inl e \<Rightarrow> Inl e)))
               else if c = CHR ''{'' then
                 (if skip_ws r \<noteq> [] \<and> hd (skip_ws r) = CHR ''}'' then Some (Inr (PV (JObj []), True, tl (skip_ws r)))
                  else Option.bind (jparse P_members r) (\<lambda>res. Some (case res of
                          Inr (PM kvs, ok, r') \<Rightarrow> Inr (PV (JObj (spread [] kvs)), ok, r') | Inr _ \<Rightarrow> Inl Syntax_error
                        | Inl e \<Rightarrow> Inl e)))
               else if c = dq then
                 Some (case lex_str True [] r of
                         Inl e \<Rightarrow> Inl e | Inr (str, ok, r') \<Rightarrow> Inr (PV (if ok then JStr str else JNull), ok, r'))
               else if c = CHR ''t'' then literal ''true'' (JBool True) (c # r)
               else if c = CHR ''f'' then literal ''false'' (JBool False) (c # r)
               else if c = CHR ''n'' then literal ''null'' JNull (c # r)
               else if c = CHR ''-'' \<or> is_digit c then
                 Some (case lex_number (c # r) of
                         Inl e \<Rightarrow> Inl e
                       | Inr (None, r') \<Rightarrow> Inr (PV JNull, False, r')
                       | Inr (Some i, r') \<Rightarrow> Inr (PV (JNum i), True, r'))
               else Some (Inl Syntax_error))
      | P_elems \<Rightarrow>
          Option.bind (jparse P_value s) (\<lambda>res. case res of
             Inl e \<Rightarrow> Some (Inl e)
           | Inr (PV v, ok, r) \<Rightarrow>
               (case skip_ws r of
                  c # r' \<Rightarrow>
                    if c = CHR '','' then
                      Option.bind (jparse P_elems r') (\<lambda>res'. Some (case res' of
                         Inr (PL vs, ok', r'') \<Rightarrow> Inr (PL (v # vs), ok \<and> ok', r'') | Inr _ \<Rightarrow> Inl Syntax_error
                       | Inl e \<Rightarrow> Inl e))
                    else if c = CHR '']'' then Some (Inr (PL [v], ok, r'))
                    else Some (Inl Syntax_error)
                | [] \<Rightarrow> Some (Inl Syntax_error))
           | Inr _ \<Rightarrow> Some (Inl Syntax_error))
      | P_members \<Rightarrow>
          (case skip_ws s of
             c # r \<Rightarrow>
               if c \<noteq> dq then Some (Inl Syntax_error)
               else (case lex_str True [] r of
                       Inl e \<Rightarrow> Some (Inl e)
                     | Inr (k, okk, r1) \<Rightarrow>
                         (case skip_ws r1 of
                            c1 # r2 \<Rightarrow>
                              if c1 \<noteq> CHR '':'' then Some (Inl Syntax_error)
                              else Option.bind (jparse P_value r2) (\<lambda>res. case res of
                                 Inl e \<Rightarrow> Some (Inl e)
                               | Inr (PV v, ok, r3) \<Rightarrow>
                                   (case skip_ws r3 of
                                      c2 # r4 \<Rightarrow>
                                        if c2 = CHR '','' then
                                          Option.bind (jparse P_members r4) (\<lambda>res'. Some (case res' of
                                             Inr (PM kvs, ok', r5) \<Rightarrow> Inr (PM ((k, v) # kvs), okk \<and> ok \<and> ok', r5)
                                           | Inr _ \<Rightarrow> Inl Syntax_error | Inl e \<Rightarrow> Inl e))
                                        else if c2 = CHR ''}'' then Some (Inr (PM [(k, v)], okk \<and> ok, r4))
                                        else Some (Inl Syntax_error)
                                    | [] \<Rightarrow> Some (Inl Syntax_error))
                               | Inr _ \<Rightarrow> Some (Inl Syntax_error))
                          | [] \<Rightarrow> Some (Inl Syntax_error)))
           | [] \<Rightarrow> Some (Inl Syntax_error)))"

declare jparse.simps [code]

text \<open>\<open>JSON.parse(text)\<close>: a value followed by nothing but white space.\<close>

definition JSON_parse :: "string \<Rightarrow> (jerr + json) option" where
  "JSON_parse s =
     map_option (\<lambda>res. case res of
         Inl e \<Rightarrow> Inl e
       | Inr (PV v, ok, r) \<Rightarrow> if skip_ws r \<noteq> [] then Inl Syntax_error else if ok then Inr v else Inl Unrepresentable
       | Inr _ \<Rightarrow> Inl Syntax_error)
       (jparse P_value s)"

text \<open>\<open>deepClone(obj)\<close> of \<open>src/src/utils/index.ts\<close>:
  \<open>JSON.parse(JSON.stringify(obj))\<close> (\<open>None\<close>: no value of the model comes back).\<close>

definition deepClone :: "json \<Rightarrow> json option" where
  "deepClone v = (case JSON_parse (JSON_stringify [] v) of Some (Inr v') \<Rightarrow> Some v' | _ \<Rightarrow> None)"

text \<open>The value \<open>JSON.parse\<close> gives, in the convention of the other theories
  (\<open>None\<close>: it throws, or the value has no form in the model).\<close>

definition parse_opt :: "string \<Rightarrow> json option" where
  "parse_opt s = (case JSON_parse s of Some (Inr v) \<Rightarrow> Some v | _ \<Rightarrow> None)"

subsection \<open>Proof notions\<close>

text \<open>What may follow a printed value (\<open>delim\<close>), a printed number (\<open>num_delim\<close>),
  and the length discipline of a parser that always returns and consumes
  (\<open>consumed\<close>, as \<open>is_cparser\<close> of the parser combinators of the AFP).\<close>

definition num_delim :: "string \<Rightarrow> bool" where
  "num_delim r \<longleftrightarrow> r = [] \<or> (\<not> is_digit (hd r) \<and> hd r \<noteq> CHR ''.'' \<and> hd r \<noteq> CHR ''e'' \<and> hd r \<noteq> CHR ''E'')"

definition delim :: "string \<Rightarrow> bool" where
  "delim r \<longleftrightarrow> r = [] \<or> hd r = CHR '','' \<or> hd r = CHR '']'' \<or> hd r = CHR ''}'' \<or> is_ws (hd r)"

definition consumed :: "string \<Rightarrow> (jerr + pres \<times> bool \<times> string) option \<Rightarrow> bool" where
  "consumed s res \<longleftrightarrow> (\<exists>x. res = Some x \<and> (\<forall>p ok r. x = Inr (p, ok, r) \<longrightarrow> length r < length s))"

section \<open>Lemmas\<close>


lemma of_char_char_of_digit: "(n::nat) < 10 \<Longrightarrow> of_char (char_of (48 + n) :: char) = (48 + n :: nat)"
  by (simp add: of_char_of)

lemma is_digit_char_of: "(n::nat) < 10 \<Longrightarrow> is_digit (char_of (48 + n))"
  by (simp add: is_digit_def less_eq_char_def of_char_char_of_digit)

lemma nat_str_digits: "list_all is_digit (nat_str n)"
proof (induction n rule: nat_str.induct)
  case (1 n)
  then show ?case by (subst nat_str.simps) (auto simp: is_digit_char_of)
qed

lemma nat_str_ne [simp]: "nat_str n \<noteq> []"
  by (subst nat_str.simps) simp

lemma digits_val_snoc: "digits_val (xs @ [c]) = 10 * digits_val xs + (of_char c - 48)"
  by (simp add: digits_val_def)

lemma digits_val_nat_str [simp]: "digits_val (nat_str n) = n"
proof (induction n rule: nat_str.induct)
  case (1 n)
  show ?case
  proof (cases "n < 10")
    case True
    then show ?thesis by (subst nat_str.simps) (simp add: digits_val_def of_char_char_of_digit)
  next
    case False
    then have "digits_val (nat_str n) = 10 * (n div 10) + n mod 10"
      using 1 by (subst nat_str.simps) (simp add: digits_val_snoc of_char_char_of_digit)
    then show ?thesis by simp
  qed
qed

lemma nat_str_hd_zero: "hd (nat_str n) = CHR ''0'' \<Longrightarrow> n = 0"
proof (induction n rule: nat_str.induct)
  case (1 n)
  show ?case
  proof (cases "n < 10")
    case True
    then have "char_of (48 + n) = (CHR ''0'' :: char)" using 1(2) by (subst (asm) nat_str.simps) simp
    then have "of_char (char_of (48 + n) :: char) = (48 :: nat)" by simp
    then show ?thesis using True by (simp add: of_char_char_of_digit)
  next
    case False
    then have "hd (nat_str (n div 10)) = CHR ''0''" using 1(2) by (subst (asm) nat_str.simps) simp
    then have "n div 10 = 0" using 1(1) False by blast
    then show ?thesis using False by simp
  qed
qed

lemma takeWhile_digits_nat_str:
  "num_delim r \<Longrightarrow> takeWhile is_digit (nat_str n @ r) = nat_str n \<and> dropWhile is_digit (nat_str n @ r) = r"
  using nat_str_digits [of n]
  by (cases r) (auto simp: num_delim_def list_all_iff takeWhile_append2 dropWhile_append2)

lemma nat_str_no_leading_zero: "\<not> (hd (nat_str n) = CHR ''0'' \<and> tl (nat_str n) \<noteq> [])"
proof
  assume a: "hd (nat_str n) = CHR ''0'' \<and> tl (nat_str n) \<noteq> []"
  then have "n = 0" using nat_str_hd_zero by blast
  then show False using a by (subst (asm) (2) nat_str.simps) simp
qed

lemma num_delim_parts: "num_delim r \<Longrightarrow> frac_part r = Some ([], r) \<and> exp_part r = Some (0, r)"
  by (auto simp: num_delim_def frac_part_def exp_part_def)

lemma lex_number_int_str:
  assumes "\<bar>i\<bar> \<le> 2 ^ 53" "num_delim r"
  shows "lex_number (int_str i @ r) = Inr (Some i, r)"
proof (cases "i < 0")
  case True
  have "nat_str (nat (- i)) \<noteq> [] \<and> hd (nat_str (nat (- i))) \<noteq> CHR ''-''"
    using nat_str_digits [of "nat (- i)"] by (cases "nat_str (nat (- i))") (auto simp: is_digit_def)
  then show ?thesis
    using True assms takeWhile_digits_nat_str [OF assms(2), of "nat (- i)"] nat_str_no_leading_zero [of "nat (- i)"]
    by (simp add: lex_number_def int_str_def num_delim_parts number_value_def Let_def)
next
  case False
  have "hd (nat_str (nat i)) \<noteq> CHR ''-''"
    using nat_str_digits [of "nat i"] by (cases "nat_str (nat i)") (auto simp: is_digit_def)
  then show ?thesis
    using False assms takeWhile_digits_nat_str [OF assms(2), of "nat i"] nat_str_no_leading_zero [of "nat i"]
    by (simp add: lex_number_def int_str_def num_delim_parts number_value_def Let_def)
qed

lemma json_hex_val_hex_digit: "n < 16 \<Longrightarrow> json_hex_val (json_hex_digit n) = Some n"
  by (simp add: json_hex_val_def json_hex_digit_def of_char_of Let_def)

lemma json_hex_val_zero: "json_hex_val (CHR ''0'') = Some 0"
  by (simp add: json_hex_val_def)

lemma lex_str_escape: "lex_str ok acc (json_escape_char c @ r) = lex_str ok (c # acc) r"
proof -
  consider "c = dq" | "c = bs" | "c = CHR 0x08" | "c = CHR 0x0C" | "c = CHR 0x0A" | "c = CHR 0x0D" | "c = CHR 0x09"
    | "c \<notin> {dq, bs, CHR 0x08, CHR 0x0C, CHR 0x0A, CHR 0x0D, CHR 0x09}" "of_char c < (32::nat)"
    | "c \<notin> {dq, bs}" "\<not> of_char c < (32::nat)"
    by (cases "of_char c < (32::nat)") auto
  then show ?thesis
  proof cases
    case 8
    let ?n = "of_char c :: nat"
    have h: "hex4 (CHR ''0'') (CHR ''0'') (json_hex_digit (?n div 16)) (json_hex_digit (?n mod 16)) = Some ?n"
      using 8(2) by (simp add: hex4_def json_hex_val_hex_digit json_hex_val_zero)
    have "utf8_encode ?n = [c]" using 8(2) by (simp add: utf8_encode_def)
    then have "uescape (CHR ''0'' # CHR ''0'' # json_hex_digit (?n div 16) # json_hex_digit (?n mod 16) # r) = Some ([c], True, r)"
      using h 8(2) by (simp add: uescape_def)
    then show ?thesis using 8
      by (simp add: json_escape_char_def unescape_def bs_def dq_def)
  next
    case 9
    then show ?thesis by (auto simp: json_escape_char_def)
  qed (simp_all add: json_escape_char_def unescape_def bs_def dq_def)
qed

lemma lex_str_quoted:
  "lex_str ok acc (concat (map json_escape_char s) @ dq # r) = Inr (rev acc @ s, ok, r)"
  by (induction s arbitrary: acc) (simp_all add: lex_str_escape)

lemmas jparse_value = jparse.simps [of P_value, unfolded pmode.case]
lemmas jparse_elems = jparse.simps [of P_elems, unfolded pmode.case]
lemmas jparse_members = jparse.simps [of P_members, unfolded pmode.case]

lemma not_ws_structural [simp]:
  "\<not> is_ws (CHR '']'')" "\<not> is_ws (CHR ''}'')" "\<not> is_ws (CHR '','')" "\<not> is_ws (CHR '':'')"
  "\<not> is_ws (CHR ''['')" "\<not> is_ws (CHR ''{'')" "\<not> is_ws dq" "is_ws nl"
  by (simp_all add: is_ws_def dq_def nl_def)

lemma dq_not_bracket [simp]: "dq \<noteq> CHR ''['' \<and> dq \<noteq> CHR ''{''"
  by (simp add: dq_def)

lemma skip_ws_append: "list_all is_ws w \<Longrightarrow> skip_ws (w @ r) = skip_ws r"
  by (induction w) (auto simp: skip_ws_def)

lemma skip_ws_Cons: "\<not> is_ws c \<Longrightarrow> skip_ws (c # r) = c # r"
  by (simp add: skip_ws_def)

lemma jparse_value_ws: "list_all is_ws w \<Longrightarrow> jparse P_value (w @ s) = jparse P_value s"
  by (simp add: jparse_value skip_ws_append)

lemma delim_num_delim: "delim r \<Longrightarrow> num_delim r"
  by (auto simp: delim_def num_delim_def is_ws_def is_digit_def)

lemma stringify_shape:
  "\<exists>c t. json_stringify gap ind v = c # t \<and> \<not> is_ws c \<and> c \<noteq> CHR '']'' \<and> c \<noteq> CHR ''}'' \<and> c \<noteq> CHR '',''"
proof (cases v)
  case (JNum i)
  obtain d ds where d: "nat_str (nat \<bar>i\<bar>) = d # ds" by (cases "nat_str (nat \<bar>i\<bar>)") auto
  have "is_digit d" using nat_str_digits [of "nat \<bar>i\<bar>"] d by simp
  then show ?thesis using JNum d
    by (cases "i < 0") (auto simp: int_str_def is_ws_def is_digit_def)
qed (auto simp: is_ws_def QuoteJSONString_def dq_def)

lemma delim_close: "list_all is_ws cl \<Longrightarrow> c = CHR '']'' \<or> c = CHR ''}'' \<Longrightarrow> delim (cl @ c # r)"
  by (cases cl) (auto simp: delim_def)

lemma parse_elems:
  assumes "\<forall>x \<in> set xs. \<forall>r. delim r \<longrightarrow> jparse P_value (f x @ r) = Some (Inr (PV x, True, r))"
    and "list_all is_ws w" "list_all is_ws w'" "list_all is_ws cl" "xs \<noteq> []"
  shows "jparse P_elems (w @ js_join (CHR '','' # w') (map f xs) @ cl @ CHR '']'' # r) = Some (Inr (PL xs, True, r))"
  using assms
proof (induction xs arbitrary: w)
  case (Cons x ys)
  have vx: "jparse P_value (w @ f x @ r') = Some (Inr (PV x, True, r'))" if "delim r'" for r'
    using Cons.prems(1,2) that by (simp add: jparse_value_ws)
  show ?case
  proof (cases ys)
    case Nil
    have "delim (cl @ CHR '']'' # r)" using Cons.prems(4) by (simp add: delim_close)
    moreover have "skip_ws (cl @ CHR '']'' # r) = CHR '']'' # r"
      using Cons.prems(4) by (simp add: skip_ws_append skip_ws_Cons)
    ultimately show ?thesis using Nil vx [of "cl @ CHR '']'' # r"]
      by (simp add: jparse_elems)
  next
    case (Cons y zs)
    have rest: "jparse P_elems (w' @ js_join (CHR '','' # w') (map f ys) @ cl @ CHR '']'' # r) = Some (Inr (PL ys, True, r))"
      using Cons.IH [of w'] Cons.prems \<open>ys = y # zs\<close> by simp
    have j: "js_join (CHR '','' # w') (map f (x # ys)) = f x @ CHR '','' # w' @ js_join (CHR '','' # w') (map f ys)"
      using \<open>ys = y # zs\<close> by simp
    have d: "delim (CHR '','' # w' @ js_join (CHR '','' # w') (map f ys) @ cl @ CHR '']'' # r)"
      by (simp add: delim_def)
    show ?thesis
      unfolding j append_assoc append_Cons
      by (subst jparse_elems) (simp add: vx [OF d] rest skip_ws_Cons)
  qed
qed simp

lemma parse_member_head:
  assumes "list_all is_ws w" "list_all is_ws sp"
    and "jparse P_value (h v @ rest) = Some (Inr (PV v, True, rest))"
  shows "jparse P_members (w @ (QuoteJSONString k @ CHR '':'' # sp @ h v) @ rest)
         = Option.bind (Some (Inr (PV v, True, rest))) (\<lambda>res. case res of
              Inl e \<Rightarrow> Some (Inl e)
            | Inr (PV v, ok, r3) \<Rightarrow>
                (case skip_ws r3 of
                   c2 # r4 \<Rightarrow>
                     if c2 = CHR '','' then
                       Option.bind (jparse P_members r4) (\<lambda>res'. Some (case res' of
                          Inr (PM kvs, ok', r5) \<Rightarrow> Inr (PM ((k, v) # kvs), True \<and> ok \<and> ok', r5)
                        | Inr _ \<Rightarrow> Inl Syntax_error | Inl e \<Rightarrow> Inl e))
                     else if c2 = CHR ''}'' then Some (Inr (PM [(k, v)], True \<and> ok, r4))
                     else Some (Inl Syntax_error)
                 | [] \<Rightarrow> Some (Inl Syntax_error))
            | Inr _ \<Rightarrow> Some (Inl Syntax_error))"
proof -
  have "jparse P_value (sp @ h v @ rest) = Some (Inr (PV v, True, rest))"
    using assms(2,3) by (simp add: jparse_value_ws)
  moreover have "skip_ws (w @ (QuoteJSONString k @ CHR '':'' # sp @ h v) @ rest)
      = dq # concat (map json_escape_char k) @ dq # CHR '':'' # sp @ h v @ rest"
    using assms(1) by (simp add: skip_ws_append skip_ws_Cons QuoteJSONString_def)
  ultimately show ?thesis
    by (subst jparse_members) (simp add: lex_str_quoted skip_ws_Cons del: bind.bind_lunit)
qed

lemma parse_members:
  assumes "\<forall>kv \<in> set kvs. \<forall>r. delim r \<longrightarrow> jparse P_value (h (snd kv) @ r) = Some (Inr (PV (snd kv), True, r))"
    and "list_all is_ws w" "list_all is_ws w'" "list_all is_ws cl" "list_all is_ws sp" "kvs \<noteq> []"
  shows "jparse P_members (w @ js_join (CHR '','' # w') (map (\<lambda>kv. QuoteJSONString (fst kv) @ CHR '':'' # sp @ h (snd kv)) kvs)
           @ cl @ CHR ''}'' # r) = Some (Inr (PM kvs, True, r))"
  using assms
proof (induction kvs arbitrary: w)
  case (Cons kv ys)
  obtain k v where kv: "kv = (k, v)" by (cases kv)
  let ?g = "\<lambda>kv. QuoteJSONString (fst kv) @ CHR '':'' # sp @ h (snd kv)"
  have vx: "jparse P_value (h v @ r') = Some (Inr (PV v, True, r'))" if "delim r'" for r'
    using Cons.prems(1) that kv by simp
  show ?case
  proof (cases ys)
    case Nil
    have d: "delim (cl @ CHR ''}'' # r)" using Cons.prems(4) by (simp add: delim_close)
    have "skip_ws (cl @ CHR ''}'' # r) = CHR ''}'' # r"
      using Cons.prems(4) by (simp add: skip_ws_append skip_ws_Cons)
    then show ?thesis
      using Nil kv parse_member_head [where h = h and v = v and k = k, OF Cons.prems(2,5) vx [OF d]] by simp
  next
    case (Cons y zs)
    have rest: "jparse P_members (w' @ js_join (CHR '','' # w') (map ?g ys) @ cl @ CHR ''}'' # r) = Some (Inr (PM ys, True, r))"
      using Cons.IH [of w'] Cons.prems \<open>ys = y # zs\<close> by simp
    have j: "js_join (CHR '','' # w') (map ?g (kv # ys)) = ?g kv @ CHR '','' # w' @ js_join (CHR '','' # w') (map ?g ys)"
      using \<open>ys = y # zs\<close> by simp
    have d: "delim (CHR '','' # w' @ js_join (CHR '','' # w') (map ?g ys) @ cl @ CHR ''}'' # r)"
      by (simp add: delim_def)
    show ?thesis
      unfolding j append_assoc [symmetric, of "?g kv"]
      using parse_member_head [where h = h and v = v and k = k, OF Cons.prems(2,5) vx [OF d]] kv rest
      by (simp add: skip_ws_Cons)
  qed
qed simp

lemma update_notin: "k \<notin> fst ` set a \<Longrightarrow> AList.update k v a = a @ [(k, v)]"
  by (induction a) auto

lemma spread_distinct: "distinct (map fst (a @ b)) \<Longrightarrow> spread a b = a @ b"
proof (induction b arbitrary: a)
  case (Cons kv b)
  obtain k v where kv: "kv = (k, v)" by (cases kv)
  have "spread a (kv # b) = spread (a @ [(k, v)]) b"
    using Cons.prems kv by (simp add: spread_def update_notin)
  then show ?case using Cons.IH [of "a @ [(k, v)]"] Cons.prems kv by simp
qed (simp add: spread_def)

lemma int_str_head: "\<exists>c t. int_str i = c # t \<and> (c = CHR ''-'' \<or> is_digit c)"
proof -
  obtain d ds where d: "nat_str (nat \<bar>i\<bar>) = d # ds" by (cases "nat_str (nat \<bar>i\<bar>)") auto
  have "is_digit d" using nat_str_digits [of "nat \<bar>i\<bar>"] d by simp
  then show ?thesis using d by (cases "i < 0") (auto simp: int_str_def)
qed

lemma digit_not_other:
  "is_digit c \<Longrightarrow> c \<noteq> CHR ''['' \<and> c \<noteq> CHR ''{'' \<and> c \<noteq> dq \<and> c \<noteq> CHR ''t'' \<and> c \<noteq> CHR ''f'' \<and> c \<noteq> CHR ''n'' \<and> \<not> is_ws c"
  by (auto simp: is_digit_def dq_def is_ws_def)

lemma parse_int_str:
  assumes "\<bar>i\<bar> \<le> 2 ^ 53" "delim r"
  shows "jparse P_value (int_str i @ r) = Some (Inr (PV (JNum i), True, r))"
proof -
  obtain c t where ct: "int_str i = c # t" "c = CHR ''-'' \<or> is_digit c" using int_str_head by blast
  have lx: "lex_number (c # t @ r) = Inr (Some i, r)"
    using lex_number_int_str [OF assms(1) delim_num_delim [OF assms(2)]] ct(1) by simp
  show ?thesis
  proof (cases "c = CHR ''-''")
    case True
    then show ?thesis using ct lx by (subst jparse_value) (simp add: skip_ws_Cons is_ws_def dq_def)
  next
    case False
    then have "is_digit c" using ct(2) by simp
    then show ?thesis using ct lx digit_not_other [of c] by (subst jparse_value) (simp add: skip_ws_Cons)
  qed
qed

lemma stringify_parse:
  "wf_json v \<Longrightarrow> list_all is_ws gap \<Longrightarrow> list_all is_ws ind \<Longrightarrow> delim r \<Longrightarrow>
   jparse P_value (json_stringify gap ind v @ r) = Some (Inr (PV v, True, r))"
proof (induction v arbitrary: ind r rule: wf_json.induct)
  case (1 i)
  then show ?case by (simp add: parse_int_str)
next
  case (2 xs)
  let ?w = "if gap = [] then [] else nl # ind @ gap" and ?cl = "if gap = [] then [] else nl # ind"
  show ?case
  proof (cases "xs = []")
    case True
    then show ?thesis by (subst jparse_value) (simp add: skip_ws_Cons)
  next
    case False
    have ws: "list_all is_ws ?w" "list_all is_ws ?cl" using 2(3,4) by auto
    have ih: "\<forall>x \<in> set xs. \<forall>r. delim r \<longrightarrow> jparse P_value (json_stringify gap (ind @ gap) x @ r) = Some (Inr (PV x, True, r))"
    proof (intro ballI allI impI)
      fix x r assume "x \<in> set xs" "delim r"
      then show "jparse P_value (json_stringify gap (ind @ gap) x @ r) = Some (Inr (PV x, True, r))"
        using 2(1) [of x "ind @ gap" r] 2(2,3,4) by (auto simp: list_all_iff)
    qed
    have el: "jparse P_elems (?w @ js_join (CHR '','' # ?w) (map (json_stringify gap (ind @ gap)) xs) @ ?cl @ CHR '']'' # r)
              = Some (Inr (PL xs, True, r))"
      by (rule parse_elems [OF ih ws(1) ws(1) ws(2) False])
    obtain x ys where xs: "xs = x # ys" using False by (cases xs) auto
    obtain c t where ct: "json_stringify gap (ind @ gap) x = c # t" "\<not> is_ws c" "c \<noteq> CHR '']''"
      using stringify_shape by blast
    have "skip_ws (?w @ js_join (CHR '','' # ?w) (map (json_stringify gap (ind @ gap)) xs) @ ?cl @ CHR '']'' # r)
          = c # t @ (if ys = [] then [] else CHR '','' # ?w @ js_join (CHR '','' # ?w) (map (json_stringify gap (ind @ gap)) ys))
            @ ?cl @ CHR '']'' # r"
      using ws(1) ct xs by (cases ys) (simp_all add: skip_ws_append skip_ws_Cons)
    then show ?thesis using False el ct(3)
      by (subst jparse_value) (simp add: skip_ws_Cons)
  qed
next
  case (3 kvs)
  let ?w = "if gap = [] then [] else nl # ind @ gap" and ?cl = "if gap = [] then [] else nl # ind"
    and ?sp = "if gap = [] then [] else '' ''"
  let ?g = "\<lambda>kv. QuoteJSONString (fst kv) @ CHR '':'' # ?sp @ json_stringify gap (ind @ gap) (snd kv)"
  show ?case
  proof (cases "kvs = []")
    case True
    then show ?thesis by (subst jparse_value) (simp add: skip_ws_Cons)
  next
    case False
    have sp: "list_all is_ws ?sp" by (simp add: is_ws_def)
    have ws: "list_all is_ws ?w" "list_all is_ws ?cl" "list_all is_ws ?sp" using 3(3,4) sp by auto
    have ih: "\<forall>kv \<in> set kvs. \<forall>r. delim r \<longrightarrow> jparse P_value (json_stringify gap (ind @ gap) (snd kv) @ r) = Some (Inr (PV (snd kv), True, r))"
    proof (intro ballI allI impI)
      fix kv r assume "kv \<in> set kvs" "delim r"
      then show "jparse P_value (json_stringify gap (ind @ gap) (snd kv) @ r) = Some (Inr (PV (snd kv), True, r))"
        using 3(1) [of kv "ind @ gap" r] 3(2,3,4) by (auto simp: list_all_iff)
    qed
    have mem: "jparse P_members (?w @ js_join (CHR '','' # ?w) (map ?g kvs) @ ?cl @ CHR ''}'' # r) = Some (Inr (PM kvs, True, r))"
      by (rule parse_members [OF ih ws(1) ws(1) ws(2) ws(3) False])
    obtain kv ys where kvs: "kvs = kv # ys" using False by (cases kvs) auto
    have "skip_ws (?w @ js_join (CHR '','' # ?w) (map ?g kvs) @ ?cl @ CHR ''}'' # r)
          = dq # concat (map json_escape_char (fst kv)) @ dq # CHR '':'' # ?sp @ json_stringify gap (ind @ gap) (snd kv)
            @ (if ys = [] then [] else CHR '','' # ?w @ js_join (CHR '','' # ?w) (map ?g ys)) @ ?cl @ CHR ''}'' # r"
      using ws(1) kvs by (cases ys) (simp_all add: skip_ws_append skip_ws_Cons QuoteJSONString_def)
    moreover have "spread [] kvs = kvs" using 3(2) by (simp add: spread_distinct)
    ultimately show ?thesis using False mem
      by (subst jparse_value) (simp add: skip_ws_Cons dq_def)
  qed
next
  case 4
  then show ?case by (subst jparse_value) (simp add: skip_ws_Cons is_ws_def literal_def dq_def)
next
  case (5 b)
  then show ?case by (subst jparse_value) (auto simp: skip_ws_Cons is_ws_def literal_def dq_def)
next
  case (6 s)
  then show ?case by (subst jparse_value) (simp add: skip_ws_Cons QuoteJSONString_def lex_str_quoted)
qed

lemma skip_ws_le: "length (skip_ws s) \<le> length s"
  by (simp add: skip_ws_def length_dropWhile_le)

lemma uescape_rest: "uescape s = Some (b, ok, r) \<Longrightarrow> length r < length s"
  by (auto simp: uescape_def split: list.splits option.splits if_splits)

lemma lex_str_rest: "lex_str ok acc s = Inr (x, ok', r) \<Longrightarrow> length r < length s"
proof (induction ok acc s arbitrary: x ok' rule: lex_str.induct)
  case (2 ok acc c r0)
  then show ?case
    by (auto split: if_splits list.splits option.splits dest: uescape_rest)
       (force intro: less_SucI dest: uescape_rest)+
qed simp

lemma literal_rest: "literal w v s = Some (Inr (p, ok, r)) \<Longrightarrow> w \<noteq> [] \<Longrightarrow> length r < length s"
proof -
  assume a: "literal w v s = Some (Inr (p, ok, r))" and w: "w \<noteq> []"
  then have t: "take (length w) s = w" and r: "r = drop (length w) s"
    by (auto simp: literal_def split: if_splits)
  have le: "length w \<le> length s" using arg_cong [OF t, of length] by simp
  have pos: "0 < length w" using w by simp
  show ?thesis using r le pos by (simp only: length_drop)
qed

lemma length_dropWhile_tl: "length (dropWhile P (tl s)) \<le> length s"
  by (metis le_trans length_dropWhile_le length_tl diff_le_self)

lemma frac_part_rest: "frac_part s = Some (f, r) \<Longrightarrow> length r \<le> length s"
  by (auto simp: frac_part_def Let_def length_dropWhile_tl split: if_splits)

lemma exp_part_rest: "exp_part s = Some (e, r) \<Longrightarrow> length r \<le> length s"
proof -
  assume a: "exp_part s = Some (e, r)"
  have "length (dropWhile is_digit (tl (tl s))) \<le> length s"
    by (metis le_trans length_dropWhile_le length_tl diff_le_self)
  then show ?thesis using a length_dropWhile_tl [of is_digit s]
    by (auto simp: exp_part_def Let_def split: if_splits)
qed

lemma lex_number_rest: "lex_number s = Inr (v, r) \<Longrightarrow> length r < length s"
proof -
  assume a: "lex_number s = Inr (v, r)"
  define s1 where "s1 = (if s \<noteq> [] \<and> hd s = CHR ''-'' then tl s else s)"
  have s1: "length s1 \<le> length s" by (simp add: s1_def)
  have ip: "takeWhile is_digit s1 \<noteq> []"
    using a by (auto simp: lex_number_def s1_def Let_def split: if_splits)
  then have "length (dropWhile is_digit s1) < length s1"
    by (metis length_append length_greater_0_conv less_add_same_cancel2 takeWhile_dropWhile_id)
  moreover obtain fp s3 e where "frac_part (dropWhile is_digit s1) = Some (fp, s3)" "exp_part s3 = Some (e, r)"
    using a ip by (auto simp: lex_number_def s1_def Let_def split: if_splits option.splits)
  ultimately show ?thesis using s1 frac_part_rest exp_part_rest by fastforce
qed

lemma tl_skip_ws_less: "length r < length s \<Longrightarrow> length (tl (skip_ws r)) < length s"
  using skip_ws_le [of r] by simp

lemma jparse_value_consumed:
  assumes ih: "\<And>s' m'. length s' < length s \<Longrightarrow> consumed s' (jparse m' s')"
  shows "consumed s (jparse P_value s)"
proof (cases "skip_ws s")
  case Nil
  then show ?thesis by (simp add: jparse_value consumed_def)
next
  case (Cons c r)
  have lr: "length r < length s" using skip_ws_le [of s] Cons by simp
  have lcr: "length (c # r) \<le> length s" using skip_ws_le [of s] Cons by simp
  consider "c = CHR ''[''" | "c = CHR ''{''" | "c = dq" | "c \<notin> {CHR ''['', CHR ''{'', dq}" by blast
  then show ?thesis
  proof cases
    case 1
    obtain x where x: "jparse P_elems r = Some x" "\<forall>p ok r'. x = Inr (p, ok, r') \<longrightarrow> length r' < length r"
      using ih [OF lr, of P_elems] by (auto simp: consumed_def)
    show ?thesis using 1 Cons x lr tl_skip_ws_less [OF lr]
      by (cases x) (auto simp: jparse_value consumed_def split: pres.splits)
  next
    case 2
    obtain x where x: "jparse P_members r = Some x" "\<forall>p ok r'. x = Inr (p, ok, r') \<longrightarrow> length r' < length r"
      using ih [OF lr, of P_members] by (auto simp: consumed_def)
    show ?thesis using 2 Cons x lr tl_skip_ws_less [OF lr]
      by (cases x) (auto simp: jparse_value consumed_def split: pres.splits)
  next
    case 3
    then show ?thesis using Cons lr
      by (auto simp: jparse_value consumed_def split: sum.splits dest!: lex_str_rest)
  next
    case 4
    note out = 4
    have lit: "consumed s (literal w v (c # r))" if "w \<noteq> []" for w v
    proof -
      have "length r' < length s" if "literal w v (c # r) = Some (Inr (p, ok, r'))" for p ok r'
        using literal_rest [OF that \<open>w \<noteq> []\<close>] lcr by simp
      then show ?thesis by (auto simp: consumed_def literal_def)
    qed
    consider "c = CHR ''t''" | "c = CHR ''f''" | "c = CHR ''n''"
      | "c \<notin> {CHR ''t'', CHR ''f'', CHR ''n''}" "c = CHR ''-'' \<or> is_digit c"
      | "c \<notin> {CHR ''t'', CHR ''f'', CHR ''n''}" "\<not> (c = CHR ''-'' \<or> is_digit c)" by blast
    then show ?thesis
    proof cases
      case 1
      then have "jparse P_value s = literal ''true'' (JBool True) (c # r)" using Cons out by (simp add: jparse_value)
      then show ?thesis using lit by simp
    next
      case 2
      then have "jparse P_value s = literal ''false'' (JBool False) (c # r)" using Cons out by (simp add: jparse_value)
      then show ?thesis using lit by simp
    next
      case 3
      then have "jparse P_value s = literal ''null'' JNull (c # r)" using Cons out by (simp add: jparse_value)
      then show ?thesis using lit by simp
    next
      case 4
      then have eq: "jparse P_value s = Some (case lex_number (c # r) of
                         Inl e \<Rightarrow> Inl e
                       | Inr (None, r') \<Rightarrow> Inr (PV JNull, False, r')
                       | Inr (Some i, r') \<Rightarrow> Inr (PV (JNum i), True, r'))"
        using Cons out by (simp add: jparse_value)
      have "length r' < length s" if "lex_number (c # r) = Inr (v, r')" for v r'
        using lex_number_rest [OF that] lcr by simp
      then show ?thesis unfolding eq consumed_def
        by (auto split: sum.splits option.splits)
    next
      case 5
      have "\<not> (c = CHR ''-'' \<or> is_digit c)" using 5 by blast
      then have "jparse P_value s = Some (Inl Syntax_error)" using Cons out 5(1) by (simp add: jparse_value)
      then show ?thesis by (simp add: consumed_def)
    qed
  qed
qed

lemma jparse_consumed: "consumed s (jparse m s)"
proof (induction "length s" arbitrary: s m rule: less_induct)
  case less
  have ih: "\<And>s' m'. length s' < length s \<Longrightarrow> consumed s' (jparse m' s')" using less by blast
  have v: "consumed s (jparse P_value s)" by (rule jparse_value_consumed [OF ih])
  obtain x where x: "jparse P_value s = Some x" "\<forall>p ok r. x = Inr (p, ok, r) \<longrightarrow> length r < length s"
    using v by (auto simp: consumed_def)
  show ?case
  proof (cases m)
    case P_value then show ?thesis using v by simp
  next
    case P_elems
    have "consumed s (jparse P_elems s)"
    proof (cases x)
      case (Inl e) then show ?thesis using x by (subst jparse_elems) (simp add: consumed_def)
    next
      case (Inr t)
      obtain p ok r where t: "t = (p, ok, r)" by (cases t)
      have lr: "length r < length s" using x Inr t by simp
      show ?thesis
      proof (cases "\<exists>v. p = PV v")
        case False then show ?thesis using x Inr t by (subst jparse_elems) (cases p; simp add: consumed_def)
      next
        case True
        then obtain v where p: "p = PV v" by blast
        show ?thesis
        proof (cases "skip_ws r")
          case Nil then show ?thesis using x Inr t p by (subst jparse_elems) (simp add: consumed_def)
        next
          case (Cons c r')
          have lr': "length r' < length s" using lr skip_ws_le [of r] Cons by simp
          obtain y where y: "jparse P_elems r' = Some y" "\<forall>p ok r''. y = Inr (p, ok, r'') \<longrightarrow> length r'' < length r'"
            using ih [OF lr', of P_elems] by (auto simp: consumed_def)
          show ?thesis using x Inr t p Cons y lr'
            by (subst jparse_elems) (auto simp: consumed_def split: sum.splits pres.splits)
        qed
      qed
    qed
    then show ?thesis using P_elems by simp
  next
    case P_members
    have "consumed s (jparse P_members s)"
    proof (cases "skip_ws s")
      case Nil then show ?thesis by (subst jparse_members) (simp add: consumed_def)
    next
      case (Cons c r)
      have lr: "length r < length s" using skip_ws_le [of s] Cons by simp
      show ?thesis
      proof (cases "c = dq")
        case False then show ?thesis using Cons by (subst jparse_members) (simp add: consumed_def)
      next
        case True
        show ?thesis
        proof (cases "lex_str True [] r")
          case (Inl e) then show ?thesis using Cons True by (subst jparse_members) (simp add: consumed_def)
        next
          case (Inr t)
          obtain k okk r1 where t: "t = (k, okk, r1)" by (cases t)
          have l1: "length r1 < length s" using lex_str_rest [of True "[]" r k okk r1] Inr t lr by simp
          show ?thesis
          proof (cases "skip_ws r1")
            case Nil then show ?thesis using Cons True Inr t by (subst jparse_members) (simp add: consumed_def)
          next
            case (Cons c1 r2)
            have l2: "length r2 < length s" using l1 skip_ws_le [of r1] Cons by simp
            obtain y where y: "jparse P_value r2 = Some y" "\<forall>p ok r3. y = Inr (p, ok, r3) \<longrightarrow> length r3 < length r2"
              using ih [OF l2, of P_value] by (auto simp: consumed_def)
            show ?thesis
            proof (cases y)
              case (Inl e) then show ?thesis using \<open>skip_ws s = c # r\<close> True Inr t Cons y
                by (subst jparse_members) (simp add: consumed_def)
            next
              case (Inr u)
              obtain p ok r3 where u: "u = (p, ok, r3)" by (cases u)
              have l3: "length r3 < length s" using y Inr u l2 by simp
              show ?thesis
              proof (cases "skip_ws r3")
                case Nil then show ?thesis using \<open>skip_ws s = c # r\<close> True \<open>lex_str True [] r = Inr t\<close> t
                    \<open>skip_ws r1 = c1 # r2\<close> y Inr u
                  by (subst jparse_members) (cases p; simp add: consumed_def)
              next
                case (Cons c2 r4)
                have l4: "length r4 < length s" using l3 skip_ws_le [of r3] Cons by simp
                obtain z where z: "jparse P_members r4 = Some z" "\<forall>p ok r5. z = Inr (p, ok, r5) \<longrightarrow> length r5 < length r4"
                  using ih [OF l4, of P_members] by (auto simp: consumed_def)
                show ?thesis using \<open>skip_ws s = c # r\<close> True \<open>lex_str True [] r = Inr t\<close> t
                    \<open>skip_ws r1 = c1 # r2\<close> y Inr u Cons z l4
                  by (subst jparse_members) (auto simp: consumed_def split: sum.splits pres.splits)
              qed
            qed
          qed
        qed
      qed
    qed
    then show ?thesis using P_members by simp
  qed
qed

text \<open>\<open>JSON.parse\<close> returns on every text: the parser, a \<open>partial_function\<close>, never
  diverges, since each of its modes consumes input before it recurses.\<close>

theorem JSON_parse_total: "\<exists>r. JSON_parse s = Some r"
  using jparse_consumed [of s P_value] by (auto simp: consumed_def JSON_parse_def)

text \<open>\<open>JSON.parse\<close> reads back what \<open>JSON.stringify\<close> writes, compact or indented,
  for every well-formed value.\<close>

theorem JSON_roundtrip: "wf_json v \<Longrightarrow> list_all is_ws gap \<Longrightarrow> JSON_parse (JSON_stringify gap v) = Some (Inr v)"
  using stringify_parse [of v gap "[]" "[]"] by (simp add: JSON_parse_def JSON_stringify_def delim_def skip_ws_def)

lemma JSON_stringify_inj:
  "wf_json v \<Longrightarrow> wf_json w \<Longrightarrow> list_all is_ws gap \<Longrightarrow> JSON_stringify gap v = JSON_stringify gap w \<longleftrightarrow> v = w"
  by (metis JSON_roundtrip Inr_inject option.inject)

text \<open>\<open>deepClone\<close> returns its argument for every well-formed value.\<close>

lemma deepClone_id: "wf_json v \<Longrightarrow> deepClone v = Some v"
  by (simp add: deepClone_def JSON_roundtrip)

end
