(* ===== verification/JsonFiles.thy ===== *)
theory JsonFiles
  imports JsonText DataManager
begin

text \<open>
  Where the data manager crosses the text level of JSON (theory \<open>JsonText\<close>): the
  file the full-data export writes (\<open>JSON.stringify(dataToExport, null, 2)\<close>) and the
  settings the import hands to \<open>importSettings\<close> as text.  The lemmas show that the
  value-level model of theory \<open>DataManager\<close> is what these texts carry: the export
  file reads back as the document, and the settings text as the settings value.
\<close>

section \<open>Definitions\<close>

text \<open>The text of the full-data export file.\<close>

definition export_file_text :: "string \<Rightarrow> task list \<times> jobj \<Rightarrow> string" where
  "export_file_text clk data = JSON_stringify ''  '' (export_document clk data)"

text \<open>\<open>importSettings(JSON.stringify(data.settings))\<close> in \<open>handleImportData\<close>.\<close>

definition import_settings_text :: "json \<Rightarrow> settings_store \<Rightarrow> bool \<times> settings_store" where
  "import_settings_text j ss = importSettings (parse_opt (JSON_stringify [] j)) ss"

section \<open>Lemmas\<close>

lemma gap_nil_ws [simp]: "list_all is_ws []" "list_all is_ws ''  ''"
  by (simp_all add: is_ws_def)

text \<open>The settings the import hands over as text are imported as the value they were.\<close>

lemma import_settings_text_value:
  "wf_json j \<Longrightarrow> import_settings_text j ss = importSettings (Some j) ss"
  by (simp add: import_settings_text_def parse_opt_def JSON_roundtrip)

lemma wf_opt_prop: "list_all id (map (\<lambda>kv. wf_json (snd kv)) (opt_prop k v))"
  by (cases v) (simp_all add: opt_prop_def)

lemma wf_task_json: "\<bar>order_index t\<bar> \<le> 2 ^ 53 \<Longrightarrow> wf_json (task_json t)"
  by (cases "description t"; cases "due_date t"; cases "completed_at t")
     (simp_all add: task_json_def opt_prop_def list_all_iff note_json_def)

lemma wf_export_document:
  assumes "\<forall>t \<in> set ts. \<bar>order_index t\<bar> \<le> 2 ^ 53" "length ts \<le> 2 ^ 53" "wf_json (JObj s)"
  shows "wf_json (export_document clk (ts, s))"
proof -
  have "length (filter is_completed ts) \<le> 2 ^ 53"
    using assms(2) length_filter_le [of is_completed ts] by linarith
  then have "int (length (filter is_completed ts)) \<le> 2 ^ 53"
    by (metis of_nat_le_iff of_nat_numeral of_nat_power)
  then show ?thesis using assms wf_task_json by (simp add: export_document_def list_all_iff)
qed

text \<open>The file the full-data export writes (\<open>JSON.stringify(dataToExport, null, 2)\<close>)
  reads back, by \<open>JSON.parse\<close>, as the exported document, for tasks whose order indices
  and count are exact JavaScript numbers and settings with distinct keys.\<close>

lemma export_file_reads_back:
  "\<forall>t \<in> set ts. \<bar>order_index t\<bar> \<le> 2 ^ 53 \<Longrightarrow> length ts \<le> 2 ^ 53 \<Longrightarrow> wf_json (JObj s) \<Longrightarrow>
   parse_opt (export_file_text clk (ts, s)) = Some (export_document clk (ts, s))"
  using wf_export_document [where ts = ts and s = s and clk = clk]
  by (simp add: parse_opt_def export_file_text_def JSON_roundtrip [OF _ gap_nil_ws(2)])

lemma export_file_reads_back_witness:
  "list_all (\<lambda>t. \<bar>order_index t\<bar> \<le> 2 ^ 53) [demo_task ''a'' 1 False, demo_task ''b'' 2 True]
   \<and> length [demo_task ''a'' 1 False, demo_task ''b'' 2 True] \<le> 2 ^ 53
   \<and> wf_json (JObj (settings_obj defaultSettings))
   \<and> parse_opt (export_file_text ''t'' ([demo_task ''a'' 1 False, demo_task ''b'' 2 True], settings_obj defaultSettings))
     = Some (export_document ''t'' ([demo_task ''a'' 1 False, demo_task ''b'' 2 True], settings_obj defaultSettings))"
proof -
  have w: "wf_json (JObj (settings_obj defaultSettings))"
    by (simp add: settings_obj_def defaultSettings_def shortcuts_obj_def defaultShortcuts_def ui_obj_def
        defaultUIPreferences_def size_json_def pos_json_def list_all_iff)
  have o: "\<forall>t \<in> set [demo_task ''a'' 1 False, demo_task ''b'' 2 True]. \<bar>order_index t\<bar> \<le> 2 ^ 53"
    by (simp add: demo_task_def)
  show ?thesis using export_file_reads_back [OF o _ w] o w by simp
qed

end
