(* ===== verification/AppData.thy ===== *)
theory AppData
  imports JsonFiles
begin

text \<open>
  The declared data-file types of \<open>src/src/types/index.ts\<close>: \<open>AppMetadata\<close>,
  \<open>AppData\<close> (commented as the structure of the application's data file) and
  \<open>ErrorReport\<close>.  No code builds or reads a value of these types; the export of
  \<open>DataManager\<close> builds its document inline.  Each interface is a record, with the
  object \<open>JSON.stringify\<close> sees for a value of it (properties in declaration order)
  and its reading back at the declared types (\<open>decode_app_data\<close>, which is
  \<open>None\<close> on an object that is not of the type).  The lemmas show that a file of the
  declared type reads back through the text level and passes the import's check, and
  that the file the export writes is not of the declared type.
\<close>

section \<open>Definitions\<close>

record app_metadata =
  last_backup :: string
  total_tasks_created :: int
  app_install_date :: string

record app_data =
  ad_version :: string
  ad_tasks :: "task list"
  ad_settings :: app_settings
  ad_metadata :: app_metadata

datatype error_kind = Err_crash | Err_exception | Err_performance

record error_report =
  error_id :: string
  er_timestamp :: string
  er_error_type :: error_kind
  error_message :: string
  stack_trace :: "string option"
  user_agent :: string
  app_version :: string

primrec error_kind_str :: "error_kind \<Rightarrow> string" where
  "error_kind_str Err_crash = ''crash''"
| "error_kind_str Err_exception = ''exception''"
| "error_kind_str Err_performance = ''performance''"

text \<open>The objects of these types, properties in declaration order.\<close>

definition metadata_json :: "app_metadata \<Rightarrow> json" where
  "metadata_json m =
     JObj [(''last_backup'', JStr (last_backup m)), (''total_tasks_created'', JNum (total_tasks_created m)),
       (''app_install_date'', JStr (app_install_date m))]"

definition app_data_json :: "app_data \<Rightarrow> json" where
  "app_data_json d =
     JObj [(''version'', JStr (ad_version d)), (''tasks'', JArr (map task_json (ad_tasks d))),
       (''settings'', JObj (settings_obj (ad_settings d))), (''metadata'', metadata_json (ad_metadata d))]"

definition error_report_json :: "error_report \<Rightarrow> json" where
  "error_report_json r =
     JObj ([(''error_id'', JStr (error_id r)), (''timestamp'', JStr (er_timestamp r)),
       (''error_type'', JStr (error_kind_str (er_error_type r))), (''error_message'', JStr (error_message r))]
       @ opt_prop ''stack_trace'' (stack_trace r)
       @ [(''user_agent'', JStr (user_agent r)), (''app_version'', JStr (app_version r))])"

text \<open>Reading a value back at its declared type: an optional property is absent or of
  its type, a required one present and of its type.\<close>

fun as_opt_str :: "json option \<Rightarrow> string option option" where
  "as_opt_str None = Some None"
| "as_opt_str (Some (JStr s)) = Some (Some s)"
| "as_opt_str (Some _) = None"

fun as_arr :: "json option \<Rightarrow> json list option" where
  "as_arr (Some (JArr xs)) = Some xs"
| "as_arr _ = None"

fun as_priority :: "json option \<Rightarrow> priority option" where
  "as_priority (Some (JStr s)) =
     (if s = ''low'' then Some Low else if s = ''medium'' then Some Medium
      else if s = ''high'' then Some High else None)"
| "as_priority _ = None"

definition decode_note :: "json \<Rightarrow> task_note option" where
  "decode_note j = do {
     o' \<leftarrow> as_obj (Some j);
     i \<leftarrow> as_str (map_of o' ''id'');
     c \<leftarrow> as_str (map_of o' ''content'');
     ca \<leftarrow> as_str (map_of o' ''created_at'');
     Some \<lparr>note_id = i, content = c, note_created_at = ca\<rparr> }"

definition decode_task :: "json \<Rightarrow> task option" where
  "decode_task j = do {
     o' \<leftarrow> as_obj (Some j);
     i \<leftarrow> as_str (map_of o' ''id'');
     ti \<leftarrow> as_str (map_of o' ''title'');
     de \<leftarrow> as_opt_str (map_of o' ''description'');
     pr \<leftarrow> as_priority (map_of o' ''priority'');
     du \<leftarrow> as_opt_str (map_of o' ''due_date'');
     cr \<leftarrow> as_str (map_of o' ''created_at'');
     up \<leftarrow> as_str (map_of o' ''updated_at'');
     co \<leftarrow> as_opt_str (map_of o' ''completed_at'');
     oi \<leftarrow> as_num (map_of o' ''order_index'');
     tg \<leftarrow> as_arr (map_of o' ''tags'') \<bind> (\<lambda>xs. those (map (\<lambda>x. as_str (Some x)) xs));
     ns \<leftarrow> as_arr (map_of o' ''notes'') \<bind> (\<lambda>xs. those (map decode_note xs));
     ic \<leftarrow> as_bool (map_of o' ''is_completed'');
     Some \<lparr>task_id = i, title = ti, description = de, priority = pr, due_date = du, created_at = cr,
           updated_at = up, completed_at = co, task_notes = ns, order_index = oi, tags = tg, is_completed = ic,
           undef_keys = {}\<rparr> }"

definition decode_metadata :: "json option \<Rightarrow> app_metadata option" where
  "decode_metadata j = do {
     o' \<leftarrow> as_obj j;
     lb \<leftarrow> as_str (map_of o' ''last_backup'');
     tc \<leftarrow> as_num (map_of o' ''total_tasks_created'');
     ai \<leftarrow> as_str (map_of o' ''app_install_date'');
     Some \<lparr>last_backup = lb, total_tasks_created = tc, app_install_date = ai\<rparr> }"

definition decode_app_data :: "json \<Rightarrow> app_data option" where
  "decode_app_data j = do {
     o' \<leftarrow> as_obj (Some j);
     v \<leftarrow> as_str (map_of o' ''version'');
     ts \<leftarrow> as_arr (map_of o' ''tasks'') \<bind> (\<lambda>xs. those (map decode_task xs));
     s \<leftarrow> as_obj (map_of o' ''settings'') \<bind> decode_settings;
     m \<leftarrow> decode_metadata (map_of o' ''metadata'');
     Some \<lparr>ad_version = v, ad_tasks = ts, ad_settings = s, ad_metadata = m\<rparr> }"

section \<open>Lemmas\<close>

lemma those_map_inverse [simp]:
  "(\<And>x. f (g x) = Some x) \<Longrightarrow> those (map (f \<circ> g) xs) = Some xs"
  by (induction xs) auto

lemma decode_note_json [simp]: "decode_note (note_json n) = Some n"
  by (simp add: decode_note_def note_json_def)

text \<open>A task's object reads back as the task, whichever optional properties it has,
  except for the keys it holds as \<open>undefined\<close>, which \<open>JSON.stringify\<close> leaves out.\<close>

lemma decode_task_json [simp]: "decode_task (task_json t) = Some (t\<lparr>undef_keys := {}\<rparr>)"
  by (cases "description t"; cases "due_date t"; cases "completed_at t"; cases "priority t")
     (simp_all add: decode_task_def task_json_def opt_prop_def)

lemma decode_tasks_json:
  "those (map (decode_task \<circ> task_json) ts) = Some (map (\<lambda>t. t\<lparr>undef_keys := {}\<rparr>) ts)"
  by (induction ts) auto

lemma decode_app_data_json:
  "decode_app_data (app_data_json d) = Some (d\<lparr>ad_tasks := map (\<lambda>t. t\<lparr>undef_keys := {}\<rparr>) (ad_tasks d)\<rparr>)"
  by (simp add: decode_app_data_def app_data_json_def decode_metadata_def metadata_json_def
      decode_encode decode_tasks_json)

text \<open>The document the full export writes is not an \<open>AppData\<close>: its metadata holds
  counts and a source, not \<open>last_backup\<close>, \<open>total_tasks_created\<close> and
  \<open>app_install_date\<close>.\<close>

lemma export_document_not_app_data: "decode_app_data (export_document clk x) = None"
  by (simp add: decode_app_data_def export_document_def decode_metadata_def)

text \<open>An \<open>AppData\<close> document passes the import's check, which counts its tasks.\<close>

lemma app_data_import_check:
  "import_doc_ok (Some (app_data_json d)) \<and> tasks_count (app_data_json d) = length (ad_tasks d)"
  by (simp add: import_doc_ok_def tasks_count_def app_data_json_def)

text \<open>The file \<open>JSON.stringify\<close> writes for an \<open>AppData\<close> whose numbers are exact
  reads back, at the declared types, as the same value less its undefined keys.\<close>

lemma app_data_file_reads_back:
  "wf_json (app_data_json d) \<Longrightarrow> list_all is_ws gap \<Longrightarrow>
   Option.bind (parse_opt (JSON_stringify gap (app_data_json d))) decode_app_data
     = Some (d\<lparr>ad_tasks := map (\<lambda>t. t\<lparr>undef_keys := {}\<rparr>) (ad_tasks d)\<rparr>)"
  by (simp add: parse_opt_def JSON_roundtrip decode_app_data_json)

text \<open>Importing such a file with the data manager: it is accepted after the
  confirmation, its settings are imported and its tasks only counted.\<close>

lemma import_app_data_file:
  assumes "wf_json (app_data_json d)" "list_all is_ws gap"
  shows "handleImportData True (parse_opt (JSON_stringify gap (app_data_json d))) True clk dm ss
    = (dm\<lparr>isImporting := False, importStatus := Some Import_success, lastImportTime := Some clk\<rparr>,
       snd (importSettings (Some (JObj (settings_obj (ad_settings d)))) ss),
       [Confirm_import (length (ad_tasks d)), Notify_import (length (ad_tasks d)), Alert_import_ok])"
proof -
  have p: "parse_opt (JSON_stringify gap (app_data_json d)) = Some (app_data_json d)"
    using assms by (simp add: parse_opt_def JSON_roundtrip)
  show ?thesis
    using app_data_import_check [of d]
    by (simp add: p handleImportData_def Let_def) (simp add: app_data_json_def)
qed

text \<open>An error report, written by \<open>JSON.stringify\<close>, parses back as its object.\<close>

lemma error_report_reads_back:
  "list_all is_ws gap \<Longrightarrow> parse_opt (JSON_stringify gap (error_report_json r)) = Some (error_report_json r)"
  by (cases "stack_trace r")
     (simp_all add: parse_opt_def JSON_roundtrip error_report_json_def opt_prop_def)

end
