(* ===== verification/Spec2Isabelle.thy ===== *)
theory Spec2Isabelle
  imports Invariants Electron DataManager DataPanel Views I18n I18nKeys Forms Keyboard Utils ToastTimers ToastView Render DetailKeys SidebarView PanelView Widgets AppShell AppView TaskListView JsonFiles AppData
begin

text \<open>
  \<^bold>\<open>A verification library for DeskTODOList.\<close>

  DeskTODOList is an Electron/React desktop to-do list. Its core is the zustand store
  \<open>useTaskStore\<close> (\<open>src/src/stores/taskStore.ts\<close>): an in-memory task list mirrored
  into a Dexie (IndexedDB) table (\<open>src/src/services/database/db.ts\<close>), a bounded undo
  log, the drag-and-drop reordering and the filtered view the components render. Around
  it sit the settings store (\<open>src/src/stores/settingsStore.ts\<close>, persisted to
  localStorage), the automatic backup service (\<open>src/src/services/autoBackup.ts\<close>),
  the import/export screen, the views' event handlers, the translation service, the
  notification and toast services and the keyboard shortcuts. The components call the
  stores; the task store writes the table, then its own state, then the undo log; the
  backup service reads the database and writes localStorage; the shortcuts read the
  settings store and call the task store.

  \<^bold>\<open>Theories.\<close>
  \<^item> \<open>Prelude\<close>: lists of records addressed by a key (\<open>map_where\<close>,
    \<open>find_key\<close> for the \<open>map\<close>/\<open>find\<close> idioms), stable sorting by a key, \<open>utf8\<close>
    (source strings as their UTF-8 bytes) and list lemmas the components share.
  \<^item> \<open>Types\<close>: \<open>src/src/types/index.ts\<close>. \<open>Task\<close> is the record \<open>task\<close>, optional
    fields are options, with the set \<open>undef_keys\<close> of optional keys present with the
    value \<open>undefined\<close>; \<open>Partial<Task>\<close> is \<open>task_patch\<close> and \<open>{...t, ...p}\<close> is
    \<open>merge_patch\<close>; \<open>UndoAction\<close> is \<open>undo_action\<close>.
  \<^item> \<open>Table\<close>: the Dexie \<open>tasks\<close> table as an association list, with \<open>add\<close>,
    \<open>update\<close> (which deletes a property the changes hold as \<open>undefined\<close>,
    \<open>dexie_merge\<close>), \<open>delete\<close>, \<open>orderBy('order_index')\<close> and \<open>Promise.all\<close>
    batches (\<open>run_all\<close>). Dexie is a library, so this is modelled from the spec's
    description of the persistent store and Dexie's documented behaviour.
  \<^item> \<open>Reorder\<close>: the two \<open>splice\<close> calls of \<open>reorderTasks\<close>, including the
    \<open>undefined\<close> an out-of-range start index splices in, and the renumbering.
  \<^item> \<open>TaskStore\<close>: the store state \<open>task_store\<close>, the system state \<open>sys\<close> (store
    and table) and the environment \<open>env\<close> (clock, fresh ids, which writes fail). Each
    store method is a function \<open>env \<Rightarrow> \<dots> \<Rightarrow> sys \<Rightarrow> sys\<close> of the same name; the
    \<open>catch\<close> blocks are \<open>fail_op\<close>.
  \<^item> \<open>Undo\<close>: \<open>undo\<close> and its six inverses (\<open>undo_step\<close>).
  \<^item> \<open>Invariants\<close>: the task store as a state machine (\<open>store_op\<close>, \<open>exec_op\<close>,
    \<open>reachable\<close>) and the bounded-log invariant by rule induction.
  \<^item> \<open>Search\<close>: \<open>getFilteredTasks\<close> with JavaScript's \<open>trim\<close>,
    \<open>toLowerCase\<close> and \<open>includes\<close>, refined against a specification by
    \<open>sublist\<close>.
  \<^item> \<open>Json\<close>: JavaScript values as \<open>json\<close>, objects as association lists in
    insertion order, the object spread \<open>{...a, ...b}\<close> (\<open>spread\<close>, with
    \<open>map_of (spread a b) = map_of a ++ map_of (rev b)\<close>), \<open>split\<close> and \<open>join\<close>.
  \<^item> \<open>JsonText\<close> (imports \<open>Json\<close>): the text level of JSON (ECMA-404 and
    ECMA-262's \<open>JSON.stringify\<close>, \<open>JSON.parse\<close>). \<open>json_stringify\<close> writes a value
    with the indentation \<open>gap\<close> (\<open>QuoteJSONString\<close> escapes strings); the lexer
    (\<open>lex_str\<close> with its \<open>\\u\<close> escapes and surrogate pairs, \<open>lex_number\<close>) and the
    recursive-descent parser \<open>jparse\<close>, a \<open>partial_function (option)\<close> over three
    modes (value, array elements, object members), give \<open>JSON_parse\<close>, which is
    \<open>Inl\<close> of an error where \<open>JSON.parse\<close> throws. \<open>deepClone\<close> of
    \<open>src/src/utils/index.ts\<close> is \<open>JSON.parse(JSON.stringify(obj))\<close>.
  \<^item> \<open>JsonFiles\<close> (imports \<open>JsonText\<close>, \<open>DataManager\<close>): where the data
    manager writes JSON text: the export file and the settings the import passes on as
    text.
  \<^item> \<open>AppData\<close> (imports \<open>JsonFiles\<close>): the declared types \<open>AppMetadata\<close>,
    \<open>AppData\<close> and \<open>ErrorReport\<close> of \<open>src/src/types/index.ts\<close>, which no code
    builds, as records with their objects and the reading of a JSON value back at the
    declared types (\<open>decode_task\<close>, \<open>decode_app_data\<close>).
  \<^item> \<open>Settings\<close>: every action of \<open>useSettingsStore\<close> on the settings object,
    \<open>importSettings\<close> on the result of \<open>JSON.parse\<close>, the actions as a step
    relation (\<open>settings_step\<close>, \<open>settings_reachable\<close>), and the typed record
    \<open>app_settings\<close> with its encoding \<open>settings_obj\<close> and decoding
    \<open>decode_settings\<close>.
  \<^item> \<open>Backup\<close>: \<open>AutoBackupService\<close> with localStorage as an association list.
    \<open>performBackup\<close> is split at its \<open>await\<close> into \<open>performBackup_start\<close> and
    \<open>performBackup_finish\<close> (the suspended call is the field \<open>pending\<close>), so that an
    interval firing during a backup is a step between the two; \<open>backup_step\<close> and
    \<open>backup_reachable\<close> are the service's state machine. The clock, the database
    export, the sizes and the localStorage failures are the parameters \<open>benv\<close>.
  \<^item> \<open>Database\<close>: the methods of \<open>AppDatabase\<close> and its settings row.
  \<^item> \<open>DataManager\<close>: \<open>src/src/components/DataManager.tsx\<close>, the JSON, CSV and text
    exports, the settings export and the import handler; browser effects (download,
    alert, confirm, reload) are returned as a list. \<open>csv_split\<close> is an RFC 4180 reader
    against which the CSV writer is checked.
  \<^item> \<open>DataPanel\<close> (imports \<open>DataManager\<close>, \<open>Notify\<close>, \<open>Backup\<close>): the data
    manager's markup (\<open>data_render\<close>), its settings-only import button
    (\<open>importSettingsOnly\<close>) and the import handler composed with the notification
    hook, whose closures decide on the settings of the render (\<open>import_file_event\<close>).
  \<^item> \<open>Views\<close>: the handlers of \<open>Sidebar\<close>, \<open>TaskList\<close>, \<open>DraggableTaskList\<close>,
    \<open>DraggableTaskGridView\<close> and \<open>TaskKanbanView\<close> (drop handlers, the board's
    grouping and its drag-time cache, statistics, popular tags).
  \<^item> \<open>I18n\<close>: both translation tables of \<open>src/src/services/i18n.ts\<close>, transcribed
    from the source, \<open>t\<close> with its fallback to the key, and the \<open>useI18n\<close> hook.
  \<^item> \<open>I18nKeys\<close> (imports \<open>I18n\<close>): the interface \<open>TranslationKeys\<close> both tables
    are declared to return; both have exactly its key paths, and \<open>t\<close> resolves every
    declared key in either language to the table's text (\<open>t_declared\<close>, through the
    round trip of \<open>split('.')\<close> and \<open>join('.')\<close>).
  \<^item> \<open>Forms\<close>: the edit panel \<open>TaskDetail\<close> and the quick-add bar \<open>QuickAdd\<close>.
  \<^item> \<open>SidebarView\<close> (imports \<open>Render\<close>, \<open>Backup\<close>): the sidebar's filter items,
    quick filters and its collapsed and expanded renders over \<open>getTaskStats\<close>.
  \<^item> \<open>PanelView\<close> (imports \<open>AutoBackupHook\<close>, \<open>Keyboard\<close>, \<open>I18n\<close>): what the
    settings panel shows for each tab over the typed settings and the backup hook,
    with React's rule for a controlled select whose value matches no option.
  \<^item> \<open>Widgets\<close> (imports \<open>Forms\<close>, \<open>PanelView\<close>, \<open>Utils\<close>): the quick-add
    bar's priority selector, popup geometry and markup, and the shortcut help dialog.
  \<^item> \<open>AppShell\<close> (imports \<open>Keyboard\<close>, \<open>Electron\<close>): \<open>App\<close>'s theme button, its
    start-up effect re-run when the theme or the always-on-top flag changes
    (\<open>app_commit\<close>), the dark class and the window controls.
  \<^item> \<open>TaskListView\<close> (imports \<open>Render\<close>, \<open>AppShell\<close>): \<open>TaskList\<close>'s mount
    effect, filter handler and view-mode table, and the start-up, where \<open>TaskList\<close>
    and \<open>App\<close> both load the tasks; \<open>loadTasks\<close> is idempotent, so this is one load
    (\<open>startup_loads_once\<close>).
  \<^item> \<open>AppView\<close> (imports \<open>AppShell\<close>, \<open>I18nKeys\<close>): \<open>App\<close>'s notification
    permission effect, the edit panel's open and close handlers, the theme icon and the
    markup of the header and main area (\<open>app_render\<close>), whose texts come from \<open>t\<close>.
  \<^item> \<open>DetailKeys\<close> (imports \<open>Forms\<close>, \<open>Keyboard\<close>): the keyboard of the edit
    panel, a field's handler followed by the dialog's as the event bubbles, both reading
    the form of the render (\<open>detail_keydown\<close>), and the panel's markup as the facts it
    shows (\<open>detail_view\<close>).
  \<^item> \<open>Notify\<close>: the notification service's permission logic, the enabled gate of
    \<open>useNotifications\<close> and the toast queue of \<open>useToast\<close>.
  \<^item> \<open>ToastTimers\<close> (imports \<open>Notify\<close>): the \<open>Toast\<close> component of
    \<open>src/src/components/Toast.tsx\<close> mounted by \<open>ToastContainer\<close> for each queued
    toast, its show, hide and exit timers and their cleanup, and the browser's timer
    queue as an event loop over a state of clock, queue, component flags and timers.
  \<^item> \<open>ToastView\<close> (imports \<open>ToastTimers\<close>): each toast's card (icon, colour,
    slid in or out, texts), \<open>ToastContainer\<close> and the convenience methods of
    \<open>useToast\<close>; a toast's timeline on screen (\<open>one_toast_timeline\<close>).
  \<^item> \<open>Render\<close> (imports \<open>Views\<close>, \<open>Utils\<close>, \<open>Settings\<close>): what the task views put
    on screen. Each of the four task cards (\<open>TaskItem\<close>, the cards of
    \<open>TaskGridView\<close>, \<open>DraggableTaskGridView\<close> and \<open>TaskKanbanView\<close>) is a record
    \<open>card_view\<close> of its class conditions and conditional children; the lists, grids
    and the board render them with their empty states; the board's hook sequence
    (\<open>kanban_hooks\<close>) is checked by React's rule (\<open>react_rerender\<close>); its error
    screen and retry button are a step relation (\<open>board_step\<close>); \<open>TaskList\<close>'s body,
    toolbar, footer and search box (\<open>search_step\<close>, its per-render debounce closure
    as a queue of timeouts) complete it.
  \<^item> \<open>Keyboard\<close>: \<open>isKeyMatch\<close>, the keydown listener of \<open>useKeyboard\<close> over the
    shortcuts of the settings, \<open>formatShortcut\<close>, and the handlers \<open>App.tsx\<close>
    registers, on an application state holding the task store, the settings store and
    the UI flags.
  \<^item> \<open>AutoBackupHook\<close>: the \<open>useAutoBackup\<close> hook (its React mirror of the
    service, the mount and restart effects) and the settings panel's controls, composing
    the settings store with the backup service: a click is a store action followed by
    the effect that restarts the service when \<open>auto_backup\<close> or
    \<open>backup_interval\<close> changed.
  \<^item> \<open>Electron\<close>: the Electron main process (\<open>src/electron/main.js\<close>) as a step
    relation over its module state (window, tray menu, \<open>alwaysOnTop\<close>): every
    \<open>ipcMain.handle\<close> handler, tray item and window event; the preload bridge; and
    the renderer side, the settings store's IPC calls and \<open>App\<close>'s start-up
    synchronisation of the always-on-top flag, composed into \<open>desktop_step\<close>.
  \<^item> \<open>Utils\<close>: the helpers of \<open>src/src/utils/index.ts\<close>; \<open>debounce\<close> and
    \<open>throttle\<close> are state machines over the timeout their closure holds, run over a
    timeline of calls and checked against what they promise (\<open>bursts_last\<close>, calls
    spaced by more than the limit); \<open>isValidEmail\<close> is a decision procedure proved
    equal to the language of its regular expression.
  \<^item> This theory: the properties spanning the task store and the table (the new
    task's place, C10), the data manager, the database, the settings store and the
    views.

  \<^bold>\<open>What is proved.\<close>
  Undo (C1 to C5, C9, C12, C15): undoing add, delete, update, reorder and
  clear-completed right after a successful operation restores the in-memory list and
  the undo log, under the conditions the code needs. Undoing a toggle leaves
  \<open>completed_at\<close> set (C3). Undoing an update leaves a newly added due date in the table
  exactly when the snapshot lacks the key (C5): a key holding \<open>undefined\<close> deletes it.
  Undoing a reorder sets the list to the snapshot sorted by \<open>order_index\<close> (C12), the
  snapshot itself only when it was sorted (C9).
  Reorder and the canonical order (C6, C8, C10): the move and the renumbering, the
  failures; \<open>addTask\<close> puts the new task first although its index is the largest, so
  memory is out of \<open>order_index\<close> order and a reload puts it last (C10). The undo log
  never exceeds 20 entries (C13). The filtered view is the status filter AND the
  case-insensitive substring search (C17).
  Electron (C7, C14, C16): in every reachable state of the main process the window and
  the tray menu agree with its flag; on macOS the window exists and the application has
  not quit, as the window's \<open>close\<close> handler cancels every \<open>app.quit()\<close> (C7); the
  tray's always-on-top item leaves the renderer's settings stale, so the panel's next
  click changes nothing on screen.
  Edit panel (C11): Ctrl+Enter in the new-note box saves the form of the render, which
  lacks the note, and closes the panel.
  Settings (C20 to C22, C25, C26): the store refines the typed \<open>AppSettings\<close> record;
  export then import is the identity; \<open>toggleSidebar\<close> never throws in a reachable
  state; import checks no types (C25); mounting the backup hook starts exactly one
  backup although it calls the service twice (C26, across the settings store, the hook
  and the service).
  Backup (C18, C27, C28, C30, C31): in every reachable state the history holds at most
  50 records and the running flag is set exactly while a backup is suspended; the guard
  skips a second call; the statistics are consistent (C18); cleanup deletes only backup
  keys and keeps ten; the history key is offered as a backup.
  Utilities (C23): the calls a throttled function passes on are spaced by more than the
  limit.
  Rendering (C19, C29): the search box hands every keystroke to the store, since the
  debounce closure is re-created on each render (\<open>search_every_keystroke\<close>); its
  clear button does not cancel a pending timeout, which restores the old query
  (\<open>search_clear_race\<close>). The board breaks React's rule of hooks when its task list
  becomes empty or non-empty (\<open>kanban_first_task_crashes\<close>), but \<open>TaskList\<close> mounts
  it only for a non-empty list, so no render of a mounted board fails (C29). The cards
  mark as overdue exactly the tasks the sidebar counts (\<open>grid_overdue_count\<close>,
  \<open>board_overdue_count\<close>); the board's error screen is unreachable, as no handler
  calls \<open>handleDragError\<close> (\<open>board_never_error_screen\<close>); the empty-list messages
  are true of the store (\<open>list_body_all_done\<close>, \<open>list_body_no_completed\<close>).
  Toasts (C24, C32): the event loop of the toast timers returns from every state (a
  \<open>partial_function (option)\<close> proved total by a weight on the pending timers: a hide
  timer counts 2 as it sets a close timer, the others 1), and from every reachable
  state it removes every toast, since each toast on screen keeps a pending hide or
  close timer (\<open>toast_pending\<close>, preserved by every step).
  Data manager and views (C33 to C40): a CSV row reads back as its cells; a confirmed
  import succeeds exactly when the document has a \<open>tasks\<close> array (C34); export then
  import resets the settings to the database defaults; the board's columns partition
  the tasks; a drop on the other column toggles the task; the list's drop handler moves
  the task in the view, and misplaces it when the view is filtered
  (\<open>list_drag_filtered_scenario\<close>); the import input is enabled again after every
  import (C39); the sidebar statistics are consistent.
  The data manager's settings-only button accepts a full data export and resets the
  settings to the defaults while reporting success
  (\<open>settings_only_resets_on_data_file\<close>); an import whose settings turn the
  notifications off still notifies, as the hook's closure reads the render's settings
  (\<open>import_notifies_after_disabling\<close>).
  JSON text: \<open>JSON_parse\<close> returns on every input (\<open>JSON_parse_total\<close>, the parser
  consumes input on every recursive call) and reads back every text \<open>JSON_stringify\<close>
  writes (\<open>JSON_roundtrip\<close>), so \<open>deepClone\<close> is the identity on well-formed
  values, and the file the full export writes reads back as the exported document
  (\<open>export_file_reads_back\<close>).
  Declared file types (\<open>AppData\<close>): a task's object and an \<open>AppData\<close> object read
  back at the declared types, less the keys holding \<open>undefined\<close>
  (\<open>decode_task_json\<close>, \<open>decode_app_data_json\<close>), also through the text
  (\<open>app_data_file_reads_back\<close>), and the import accepts such a file
  (\<open>import_app_data_file\<close>); the document the export writes is not an \<open>AppData\<close>
  (\<open>export_document_not_app_data\<close>).

  \<^bold>\<open>Modelling choices.\<close> Task-store operations run to completion one at a time (the
  UI serialises them, spec section 5); the backup service is the exception, where the
  interleaving at the \<open>await\<close> is explicit. The clock is one reading per operation.
  \<open>order_index\<close> and the settings' numbers are \<open>int\<close>: JavaScript numbers are exact
  on the integers the code produces; \<open>Math.round(p / q)\<close> is \<open>(2p + q) div 2q\<close>. Strings
  are character lists; literals outside ASCII are their UTF-8 bytes, and case mapping
  and trimming are modelled on ASCII. A \<open>sort\<close> with a comparator is a stable insertion
  sort (\<open>sort_cmp\<close>), and every lemma about it holds whatever order it produces. No fuel
  is needed: every loop is a structural recursion over a list, a \<open>function\<close> with
  a measure (\<open>replace_ci\<close>, \<open>split_str\<close>, \<open>to_hex\<close>), or the browser's event
  loop \<open>run_timers\<close>, a \<open>partial_function (option)\<close> whose totality is C24.
  Browser timers are a queue of (due time, callback) in the order they were set;
  the earliest fires first, ties in the order set.
  A task records the optional keys it holds with the value \<open>undefined\<close>
  (\<open>undef_keys\<close>): object spread keeps such a key, Dexie's \<open>update\<close> deletes the
  field, \<open>JSON.stringify\<close> leaves it out, and reading the field gives \<open>None\<close> either
  way.

  \<^bold>\<open>Not modelled.\<close> The layout and styling (class strings, icons, animations);
  the markup of \<open>Toast\<close> and of \<open>App\<close>'s layout (the other components' markup is
  read off as the facts it shows in \<open>Render\<close>, \<open>SidebarView\<close>, \<open>PanelView\<close>,
  \<open>Widgets\<close>, \<open>DetailKeys\<close> and \<open>DataPanel\<close>); the data size the panel shows (an input, where the
  code measures the text's \<open>Blob\<close>); numbers other than integers of magnitude at most
  \<open>2^53\<close> in JSON text (\<open>JSON_parse\<close> reports \<open>Unrepresentable\<close> for them,
  where JavaScript would round), and JavaScript's order of integer-like keys; the drag library's own gesture handling; the window
  options, icons and dev server of \<open>src/electron/main.js\<close>; the zustand \<open>persist\<close> middleware; \<open>formatDate\<close> and \<open>formatDateTime\<close>
  (\<open>Intl\<close> formatting, locale data outside the program). The service's reading of settings that do
  not decode as an \<open>AppSettings\<close> (JavaScript's coercions after an ill-typed import)
  is outside the composed model.
\<close>

text \<open>
  The start of the spec's reorder scenario (section 8): three tasks created one after
  the other with the quick-add form.
\<close>

definition three_tasks :: sys where
  "three_tasks = addTask (ok_env ''c'' ''t3'') (quickAdd_input ''C'' Medium)
     (addTask (ok_env ''b'' ''t2'') (quickAdd_input ''B'' Medium)
       (addTask (ok_env ''a'' ''t1'') (quickAdd_input ''A'' Medium) empty_sys))"

text \<open>
  C10. \<open>addTask\<close> gives the new task the largest \<open>order_index\<close> but puts it first in
  the in-memory list. So after a successful add to a non-empty list, the in-memory list
  is not in \<open>order_index\<close> order, while reloading from the table (\<open>loadTasks\<close>,
  ordered by \<open>order_index\<close>) puts the new task last: the in-memory order is not the
  canonical order the spec describes (section 8: the quick-add scenario).
\<close>

theorem addTask_breaks_canonical_order:
  assumes ok: "\<not> fails env (new_id env)" and fresh: "map_of (db s) (new_id env) = None"
    and ne: "tasks (store s) \<noteq> []"
    and agree: "set (map snd (db s)) = set (tasks (store s))"
    and rd: "\<not> read_fails env'"
  shows "hd (tasks (store (addTask env inp s))) = new_task env inp (tasks (store s))
    \<and> \<not> sorted (map order_index (tasks (store (addTask env inp s))))
    \<and> last (tasks (store (loadTasks env' (addTask env inp s)))) = new_task env inp (tasks (store s))"
proof -
  let ?ts = "tasks (store s)" and ?t = "new_task env inp (tasks (store s))"
  have id: "task_id ?t = new_id env" by (simp add: new_task_def)
  have mem: "tasks (store (addTask env inp s)) = ?t # ?ts"
    and tbl: "db (addTask env inp s) = db s @ [(new_id env, ?t)]"
    using ok fresh by (simp_all add: addTask_def tbl_add_def id Let_def addUndoAction_fields start_op_def)
  have big: "order_index y < order_index ?t" if "y \<in> set ?ts" for y
    using fold_max_ge [of "order_index y" "map order_index ?ts" 0] that by (simp add: new_task_def)
  have "\<not> sorted (map order_index (?t # ?ts))"
    using big [of "hd ?ts"] ne by (cases ?ts) auto
  moreover have "last (sort_key order_index (sort_key task_id (map snd (db s) @ [?t]))) = ?t"
    using big agree by (intro last_sort_key_max) auto
  ultimately show ?thesis
    using mem tbl rd by (simp add: loadTasks_def tbl_ordered_def Let_def start_op_def)
qed

theorem addTask_breaks_canonical_order_witness:
  "\<not> fails (ok_env ''b'' ''t1'') (new_id (ok_env ''b'' ''t1''))
   \<and> map_of (db (demo_sys [demo_task ''a'' 1 False])) (new_id (ok_env ''b'' ''t1'')) = None
   \<and> tasks (store (demo_sys [demo_task ''a'' 1 False])) \<noteq> []
   \<and> set (map snd (db (demo_sys [demo_task ''a'' 1 False]))) = set (tasks (store (demo_sys [demo_task ''a'' 1 False])))
   \<and> \<not> read_fails (ok_env ''l'' ''t2'')
   \<and> map task_id (tasks (store (addTask (ok_env ''b'' ''t1'') (quickAdd_input ''B'' Medium)
        (demo_sys [demo_task ''a'' 1 False])))) = [''b'', ''a'']
   \<and> \<not> sorted (map order_index (tasks (store (addTask (ok_env ''b'' ''t1'') (quickAdd_input ''B'' Medium)
        (demo_sys [demo_task ''a'' 1 False])))))
   \<and> task_id (last (tasks (store (loadTasks (ok_env ''l'' ''t2'') (addTask (ok_env ''b'' ''t1'')
        (quickAdd_input ''B'' Medium) (demo_sys [demo_task ''a'' 1 False])))))) = ''b''"
proof -
  have h: "\<not> fails (ok_env ''b'' ''t1'') (new_id (ok_env ''b'' ''t1''))"
    "map_of (db (demo_sys [demo_task ''a'' 1 False])) (new_id (ok_env ''b'' ''t1'')) = None"
    "tasks (store (demo_sys [demo_task ''a'' 1 False])) \<noteq> []"
    "set (map snd (db (demo_sys [demo_task ''a'' 1 False]))) = set (tasks (store (demo_sys [demo_task ''a'' 1 False])))"
    "\<not> read_fails (ok_env ''l'' ''t2'')"
    by (simp_all add: demo_defs)
  note c = addTask_breaks_canonical_order [OF h, of "quickAdd_input ''B'' Medium"]
  have "map task_id (tasks (store (addTask (ok_env ''b'' ''t1'') (quickAdd_input ''B'' Medium)
        (demo_sys [demo_task ''a'' 1 False])))) = [''b'', ''a'']"
    by (simp add: addTask_def tbl_add_def demo_defs new_task_def Let_def start_op_def)
  then show ?thesis using h c by (simp add: new_task_def ok_env_def)
qed

text \<open>C35: exporting all data and importing the exported file resets the user's
  settings to the defaults, whatever they were: the export carries the database's
  settings row, which only \<open>initializeDefaultSettings\<close> ever writes.\<close>

theorem export_import_resets_settings:
  "db_settings_row d = Some (settings_obj db_defaultSettings) \<Longrightarrow>
   fst (snd (handleImportData True (Some (export_document clk (db_exportData d))) ok clk' dm ss))
     = ss\<lparr>settings := settings_obj db_defaultSettings\<rparr>"
  by (simp add: handleImportData_def import_doc_ok_def Let_def db_exportData_def db_getSettings_def
      export_document_def importSettings_def import_export_obj)

theorem export_import_resets_settings_witness:
  "db_settings_row (db_on_ready \<lparr>db_tasks = [], db_settings_row = None\<rparr>) = Some (settings_obj db_defaultSettings)
   \<and> fst (snd (handleImportData True
        (Some (export_document ''2025-01-01T08:00:00.000Z'' (db_exportData (db_on_ready \<lparr>db_tasks = [], db_settings_row = None\<rparr>))))
        True ''2025-01-02T08:00:00.000Z'' init_dm (fst (setTheme True Dark init_settings_store))))
     = (fst (setTheme True Dark init_settings_store))\<lparr>settings := settings_obj db_defaultSettings\<rparr>"
proof -
  have h: "db_settings_row (db_on_ready \<lparr>db_tasks = [], db_settings_row = None\<rparr>) = Some (settings_obj db_defaultSettings)"
    by (simp add: db_on_ready_def)
  show ?thesis using h export_import_resets_settings [OF h] by blast
qed

text \<open>The sidebar's overdue count and the cards' overdue mark use the same test:
  a task counts as overdue in the sidebar exactly when it is pending and
  \<open>isTaskOverdue\<close> holds of its due date.\<close>

lemma sidebar_overdue_is_utils:
  "is_overdue parse clk t \<longleftrightarrow> \<not> is_completed t \<and> isTaskOverdue parse clk (due_date t)"
  by (simp add: is_overdue_def isTaskOverdue_def split: option.splits)

text \<open>Across the shell and the store: the start-up effect of \<open>App\<close> depends on the
  theme, so clicking the theme button reloads the tasks, and the list of C10 is shown
  in another order, A, B, C instead of C, B, A.\<close>

lemma theme_toggle_reorders:
  "map task_id (getFilteredTasks (store three_tasks)) = [''c'', ''b'', ''a'']
   \<and> map task_id (getFilteredTasks (store (a_sys (app_theme_click (ok_env ''l'' ''t4'') True
        \<lparr>a_sys = three_tasks, a_settings = init_settings_store, a_quickAddFocused = False, a_toasts = []\<rparr>))))
     = [''a'', ''b'', ''c'']"
proof -
  let ?a = "\<lparr>a_sys = three_tasks, a_settings = init_settings_store, a_quickAddFocused = False, a_toasts = []\<rparr>"
  have th: "map_of (settings (a_settings ?a)) ''theme'' = Some (theme_json System)"
    by (simp add: init_settings_store_def settings_obj_def defaultSettings_def)
  show ?thesis
    unfolding theme_click_reloads [OF th]
    by (simp add: app_init_effect_def) code_simp
qed

end
